(* ===== verification/Durian_Prelude.thy ===== *)
theory Durian_Prelude
  imports "HOL-Library.Word"
begin

text \<open>
  Shared ground of the development: the machine types of the Rust code, the outcome of a
  Rust call (a value, an error value, or a panic), state-passing operations with the early
  return of the question-mark operator, unsigned arithmetic as a release or a debug build
  performs it, fixed-width byte encodings, and decimal printing.
\<close>

section \<open>Types\<close>

type_synonym u8 = "8 word"
type_synonym u32 = "32 word"
type_synonym u64 = "64 word"
type_synonym usize = "64 word"
type_synonym u256 = "256 word"
type_synonym bytes = "8 word list"

text \<open>
  \<open>H256\<close> and \<open>H160\<close> are arrays of 32 and 20 bytes. A word of the same width stands
  for the array of its big-endian bytes.
\<close>

type_synonym h256 = "256 word"
type_synonym h160 = "160 word"

named_theorems outcome_simps \<open>rewriting an operation to its outcome and next state\<close>
named_theorems frame_intros \<open>introduction rules for step relations kept by an operation\<close>

section \<open>Outcomes and operations\<close>

text \<open>
  \<open>Ok\<close> and \<open>Err\<close> are the two constructors of Rust's \<open>Result\<close>; \<open>Crash\<close> is a
  panic (a failed \<open>unwrap\<close>, \<open>expect\<close>, \<open>assert!\<close>, index or arithmetic check).
\<close>

datatype ('e, 'a) outcome = Ok 'a | Err 'e | Crash

fun obind :: "('e, 'a) outcome \<Rightarrow> ('a \<Rightarrow> ('e, 'b) outcome) \<Rightarrow> ('e, 'b) outcome" where
  "obind (Ok x) f = f x"
| "obind (Err e) f = Err e"
| "obind Crash f = Crash"

fun map_err :: "('x \<Rightarrow> 'e) \<Rightarrow> ('x, 'a) outcome \<Rightarrow> ('e, 'a) outcome" where
  "map_err g (Ok x) = Ok x"
| "map_err g (Err e) = Err (g e)"
| "map_err g Crash = Crash"

fun of_sum :: "('x \<Rightarrow> 'e) \<Rightarrow> 'x + 'a \<Rightarrow> ('e, 'a) outcome" where
  "of_sum g (Inl e) = Err (g e)"
| "of_sum g (Inr x) = Ok x"

fun of_option :: "'e \<Rightarrow> 'a option \<Rightarrow> ('e, 'a) outcome" where
  "of_option e None = Err e"
| "of_option e (Some x) = Ok x"

text \<open>Rust's \<open>unwrap\<close> and \<open>expect\<close>: anything but a value is a panic.\<close>

fun unwrap :: "('x, 'a) outcome \<Rightarrow> ('e, 'a) outcome" where
  "unwrap (Ok x) = Ok x"
| "unwrap (Err e) = Crash"
| "unwrap Crash = Crash"

text \<open>A method on a mutable receiver returns the outcome and the receiver it leaves behind.\<close>

type_synonym ('s, 'e, 'a) oper = "'s \<Rightarrow> ('e, 'a) outcome \<times> 's"

definition pure :: "'a \<Rightarrow> ('s, 'e, 'a) oper" where
  "pure x s = (Ok x, s)"

definition fail :: "'e \<Rightarrow> ('s, 'e, 'a) oper" where
  "fail e s = (Err e, s)"

definition lift :: "('e, 'a) outcome \<Rightarrow> ('s, 'e, 'a) oper" where
  "lift r s = (r, s)"

definition asks :: "('s \<Rightarrow> 'a) \<Rightarrow> ('s, 'e, 'a) oper" where
  "asks f s = (Ok (f s), s)"

definition modify :: "('s \<Rightarrow> 's) \<Rightarrow> ('s, 'e, unit) oper" where
  "modify f s = (Ok (), f s)"

text \<open>The question-mark operator: stop with the state reached so far at the first failure.\<close>

definition rbind :: "('s, 'e, 'a) oper \<Rightarrow> ('a \<Rightarrow> ('s, 'e, 'b) oper) \<Rightarrow> ('s, 'e, 'b) oper" where
  "rbind m f s = (case m s of
     (Ok x, s') \<Rightarrow> f x s'
   | (Err e, s') \<Rightarrow> (Err e, s')
   | (Crash, s') \<Rightarrow> (Crash, s'))"

text \<open>\<open>unwrap\<close> on the result of a method call.\<close>

definition unwrap_op :: "('s, 'x, 'a) oper \<Rightarrow> ('s, 'e, 'a) oper" where
  "unwrap_op m s = (unwrap (fst (m s)), snd (m s))"

lemma pure_run [outcome_simps]: "pure x s = (Ok x, s)"
  by (simp add: pure_def)

lemma fail_run [outcome_simps]: "fail e s = (Err e, s)"
  by (simp add: fail_def)

lemma lift_run [outcome_simps]: "lift r s = (r, s)"
  by (simp add: lift_def)

lemma asks_run [outcome_simps]: "asks f s = (Ok (f s), s)"
  by (simp add: asks_def)

lemma modify_run [outcome_simps]: "modify f s = (Ok (), f s)"
  by (simp add: modify_def)

lemma rbind_pure [outcome_simps]: "rbind (pure x) f s = f x s"
  by (simp add: rbind_def pure_def)

lemma rbind_fail [outcome_simps]: "rbind (fail e) f s = (Err e, s)"
  by (simp add: rbind_def fail_def)

lemma rbind_asks [outcome_simps]: "rbind (asks g) f s = f (g s) s"
  by (simp add: rbind_def asks_def)

lemma rbind_modify [outcome_simps]: "rbind (modify g) f s = f () (g s)"
  by (simp add: rbind_def modify_def)

lemma rbind_Ok: "m s = (Ok x, s') \<Longrightarrow> rbind m f s = f x s'"
  by (simp add: rbind_def)

lemma rbind_Err: "m s = (Err e, s') \<Longrightarrow> rbind m f s = (Err e, s')"
  by (simp add: rbind_def)

lemma rbind_Crash: "m s = (Crash, s') \<Longrightarrow> rbind m f s = (Crash, s')"
  by (simp add: rbind_def)

lemma rbind_lift [outcome_simps]:
  "rbind (lift r) f s = (case r of Ok x \<Rightarrow> f x s | Err e \<Rightarrow> (Err e, s) | Crash \<Rightarrow> (Crash, s))"
  by (simp add: rbind_def lift_def)

lemma rbind_assoc: "rbind (rbind m f) g s = rbind m (\<lambda>x. rbind (f x) g) s"
  by (simp add: rbind_def split: prod.splits outcome.splits)

lemma rbind_OkE:
  assumes "rbind m f s = (Ok y, s')"
  obtains x t where "m s = (Ok x, t)" and "f x t = (Ok y, s')"
  using assms by (auto simp: rbind_def split: prod.splits outcome.splits)

lemma obind_OkE:
  assumes "obind r f = Ok y"
  obtains x where "r = Ok x" and "f x = Ok y"
  using assms by (cases r) auto

lemma obind_CrashE:
  assumes "obind r f = Crash"
  obtains "r = Crash" | x where "r = Ok x" and "f x = Crash"
  using assms by (cases r) auto

lemma of_sum_Ok [simp]: "of_sum g r = Ok x \<longleftrightarrow> r = Inr x"
  by (cases r) auto

lemma of_sum_Err [simp]: "of_sum g r = Err e \<longleftrightarrow> (\<exists>x. r = Inl x \<and> g x = e)"
  by (cases r) auto

lemma of_sum_no_crash [simp]: "of_sum g r \<noteq> Crash"
  by (cases r) auto

lemma of_option_Ok [simp]: "of_option e r = Ok x \<longleftrightarrow> r = Some x"
  by (cases r) auto

lemma of_option_no_crash [simp]: "of_option e r \<noteq> Crash"
  by (cases r) auto

subsection \<open>Relations kept by an operation\<close>

text \<open>
  \<open>stays R m\<close>: whatever operation \<open>m\<close> returns, the state it leaves is related by \<open>R\<close>
  to the one it started from. With a reflexive and transitive relation this passes through
  the question-mark operator, so a frame or an invariant of a long method body follows from
  the one-line facts about the calls it makes.
\<close>

definition stays :: "('s \<Rightarrow> 's \<Rightarrow> bool) \<Rightarrow> ('s, 'e, 'a) oper \<Rightarrow> bool" where
  "stays R m \<longleftrightarrow> (\<forall>s. R s (snd (m s)))"

lemma staysI: "(\<And>s. R s (snd (m s))) \<Longrightarrow> stays R m"
  by (simp add: stays_def)

lemma staysD: "stays R m \<Longrightarrow> R s (snd (m s))"
  by (simp add: stays_def)

lemma staysD_run: "stays R m \<Longrightarrow> m s = (r, s') \<Longrightarrow> R s s'"
  by (metis stays_def snd_conv)

locale step_frame =
  fixes R :: "'s \<Rightarrow> 's \<Rightarrow> bool"
  assumes frame_refl: "R s s"
    and frame_trans: "R s t \<Longrightarrow> R t u \<Longrightarrow> R s u"
begin

lemma stays_const: "(\<And>s. snd (m s) = s) \<Longrightarrow> stays R m"
  by (simp add: stays_def frame_refl)

lemma stays_pure: "stays R (pure x)"
  by (rule stays_const) (simp add: pure_def)

lemma stays_fail: "stays R (fail e)"
  by (rule stays_const) (simp add: fail_def)

lemma stays_lift: "stays R (lift r)"
  by (rule stays_const) (simp add: lift_def)

lemma stays_asks: "stays R (asks f)"
  by (rule stays_const) (simp add: asks_def)

lemma stays_modify: "(\<And>s. R s (g s)) \<Longrightarrow> stays R (modify g)"
  by (simp add: stays_def modify_def)

lemma stays_rbind: "stays R m \<Longrightarrow> (\<And>x. stays R (f x)) \<Longrightarrow> stays R (rbind m f)"
  unfolding stays_def rbind_def
  by (auto split: prod.splits outcome.splits) (metis frame_trans snd_conv)+

lemma stays_unwrap: "stays R m \<Longrightarrow> stays R (unwrap_op m)"
  by (simp add: stays_def unwrap_op_def)

lemma stays_if: "(b \<Longrightarrow> stays R m) \<Longrightarrow> (\<not> b \<Longrightarrow> stays R n) \<Longrightarrow> stays R (if b then m else n)"
  by simp

lemma stays_option:
  "stays R m \<Longrightarrow> (\<And>x. stays R (f x)) \<Longrightarrow> stays R (case v of None \<Rightarrow> m | Some x \<Rightarrow> f x)"
  by (cases v) auto

lemmas stays_rules = stays_pure stays_fail stays_lift stays_asks stays_rbind stays_unwrap
  stays_if stays_option

end

text \<open>The finest frame: the operation leaves its state as it was.\<close>

interpretation unchanged: step_frame "(=)"
  by unfold_locales auto

section \<open>Hash maps\<close>

text \<open>
  A \<open>HashMap\<close> is a finite map. Its iteration order is unspecified: an enumeration function
  is a parameter wherever the code iterates, and \<open>entries\<close> lists the pairs in its order.
\<close>

definition entries :: "'k list \<Rightarrow> ('k \<rightharpoonup> 'v) \<Rightarrow> ('k \<times> 'v) list" where
  "entries ks m = List.map_filter (\<lambda>k. map_option (Pair k) (m k)) ks"

definition enumerates :: "'k list \<Rightarrow> ('k \<rightharpoonup> 'v) \<Rightarrow> bool" where
  "enumerates ks m \<longleftrightarrow> distinct ks \<and> set ks = dom m"

lemma entries_Nil [simp]: "entries [] m = []"
  by (simp add: entries_def List.map_filter_def)

lemma entries_Cons [simp]:
  "entries (k # ks) m = (case m k of None \<Rightarrow> entries ks m | Some v \<Rightarrow> (k, v) # entries ks m)"
  by (simp add: entries_def List.map_filter_def split: option.splits)

lemma enumerates_single: "enumerates ks [a \<mapsto> e] \<Longrightarrow> ks = [a]"
  by (cases ks) (auto simp: enumerates_def insert_eq_iff subset_singleton_iff)

lemma set_entries: "set (entries ks m) = {(k, v). k \<in> set ks \<and> m k = Some v}"
  by (induction ks) (auto split: option.splits)

lemma distinct_entries: "distinct ks \<Longrightarrow> distinct (map fst (entries ks m))"
proof (induction ks)
  case (Cons k ks)
  then show ?case by (auto simp: set_entries split: option.splits)
qed simp

lemma map_of_entries: "enumerates ks m \<Longrightarrow> map_of (entries ks m) = m"
proof (rule ext)
  fix k
  assume e: "enumerates ks m"
  show "map_of (entries ks m) k = m k"
  proof (cases "m k")
    case None
    then have "k \<notin> fst ` set (entries ks m)" by (auto simp: set_entries)
    with None show ?thesis by (simp add: map_of_eq_None_iff)
  next
    case (Some v)
    with e have "(k, v) \<in> set (entries ks m)" by (auto simp: set_entries enumerates_def)
    moreover have "distinct (map fst (entries ks m))"
      using e distinct_entries by (auto simp: enumerates_def)
    ultimately show ?thesis using Some by simp
  qed
qed

section \<open>Unsigned machine arithmetic\<close>

text \<open>
  Rust's \<open>checked_add\<close> and \<open>checked_mul\<close>, and the plain operators: with overflow checks
  (a debug build) an overflow panics, without them (a release build) it wraps around.
  Division by zero panics in both.
\<close>

definition checked_add :: "'w::len word \<Rightarrow> 'w word \<Rightarrow> 'w word option" where
  "checked_add a b = (if unat a + unat b < 2 ^ LENGTH('w) then Some (a + b) else None)"

definition checked_mul :: "'w::len word \<Rightarrow> 'w word \<Rightarrow> 'w word option" where
  "checked_mul a b = (if unat a * unat b < 2 ^ LENGTH('w) then Some (a * b) else None)"

definition plus_op :: "bool \<Rightarrow> 'w::len word \<Rightarrow> 'w word \<Rightarrow> ('e, 'w word) outcome" where
  "plus_op chk a b = (case checked_add a b of
     Some c \<Rightarrow> Ok c
   | None \<Rightarrow> if chk then Crash else Ok (a + b))"

definition times_op :: "bool \<Rightarrow> 'w::len word \<Rightarrow> 'w word \<Rightarrow> ('e, 'w word) outcome" where
  "times_op chk a b = (case checked_mul a b of
     Some c \<Rightarrow> Ok c
   | None \<Rightarrow> if chk then Crash else Ok (a * b))"

definition div_op :: "'w::len word \<Rightarrow> 'w word \<Rightarrow> ('e, 'w word) outcome" where
  "div_op a b = (if b = 0 then Crash else Ok (a div b))"

lemma unat_plus_small: "unat a + unat b < 2 ^ LENGTH('w) \<Longrightarrow> unat (a + b) = unat a + unat b"
  for a b :: "'w::len word"
  by (simp add: unat_word_ariths)

lemma unat_times_small: "unat a * unat b < 2 ^ LENGTH('w) \<Longrightarrow> unat (a * b) = unat a * unat b"
  for a b :: "'w::len word"
  by (simp add: unat_word_ariths)

lemma checked_add_Some: "checked_add a b = Some c \<longleftrightarrow> unat c = unat a + unat b"
  for a b c :: "'w::len word"
proof
  assume "checked_add a b = Some c"
  then show "unat c = unat a + unat b"
    by (auto simp: checked_add_def unat_plus_small split: if_splits)
next
  assume c: "unat c = unat a + unat b"
  then have "unat a + unat b < 2 ^ LENGTH('w)" using unsigned_less [of c] by metis
  with c show "checked_add a b = Some c"
    by (simp add: checked_add_def word_unat_eq_iff unat_plus_small)
qed

lemma checked_mul_Some: "checked_mul a b = Some c \<longleftrightarrow> unat c = unat a * unat b"
  for a b c :: "'w::len word"
proof
  assume "checked_mul a b = Some c"
  then show "unat c = unat a * unat b"
    by (auto simp: checked_mul_def unat_times_small split: if_splits)
next
  assume c: "unat c = unat a * unat b"
  then have "unat a * unat b < 2 ^ LENGTH('w)" using unsigned_less [of c] by metis
  with c show "checked_mul a b = Some c"
    by (simp add: checked_mul_def word_unat_eq_iff unat_times_small)
qed

lemma checked_mul_None: "checked_mul a b = None \<longleftrightarrow> 2 ^ LENGTH('w) \<le> unat a * unat b"
  for a b :: "'w::len word"
  by (auto simp: checked_mul_def)

lemma checked_add_None: "checked_add a b = None \<longleftrightarrow> 2 ^ LENGTH('w) \<le> unat a + unat b"
  for a b :: "'w::len word"
  by (auto simp: checked_add_def)

lemma times_op_small: "unat a * unat b < 2 ^ LENGTH('w) \<Longrightarrow> times_op chk a b = Ok (a * b)"
  for a b :: "'w::len word"
  by (simp add: times_op_def checked_mul_def)

lemma plus_op_small: "unat a + unat b < 2 ^ LENGTH('w) \<Longrightarrow> plus_op chk a b = Ok (a + b)"
  for a b :: "'w::len word"
  by (simp add: plus_op_def checked_add_def)

lemma unat_ucast_up: "LENGTH('a) \<le> LENGTH('b) \<Longrightarrow> unat (ucast w :: 'b::len word) = unat w"
  for w :: "'a::len word"
proof -
  assume "LENGTH('a) \<le> LENGTH('b)"
  then have "(2::nat) ^ LENGTH('a) \<le> 2 ^ LENGTH('b)" by simp
  moreover have "unat w < 2 ^ LENGTH('a)" by (rule unsigned_less)
  ultimately have "unat w < 2 ^ LENGTH('b)" by linarith
  then show ?thesis by (simp add: unsigned_ucast_eq take_bit_nat_eq_self)
qed

end
