(* ===== verification/Partial_Runs.thy ===== *)
theory Partial_Runs
  imports Durian_Prelude
begin

text \<open>
  Sequences of operations of which some may not return, as the programs around the machine
  are: \<open>None\<close> stands for a step that runs forever.
\<close>

type_synonym ('s, 'e, 'a) run = "'s \<Rightarrow> (('e, 'a) outcome \<times> 's) option"

definition returning :: "('s, 'e, 'a) oper \<Rightarrow> ('s, 'e, 'a) run" where
  "returning m s = Some (m s)"

definition reading :: "('s \<Rightarrow> ('e, 'a) outcome) \<Rightarrow> ('s, 'e, 'a) run" where
  "reading f s = Some (f s, s)"

definition rthen :: "('s, 'e, 'a) run \<Rightarrow> ('a \<Rightarrow> ('s, 'e, 'b) run) \<Rightarrow> ('s, 'e, 'b) run" where
  "rthen m f s = (case m s of
     None \<Rightarrow> None
   | Some (Ok x, t) \<Rightarrow> f x t
   | Some (Err e, t) \<Rightarrow> Some (Err e, t)
   | Some (Crash, t) \<Rightarrow> Some (Crash, t))"

text \<open>\<open>unwrap\<close> on the result of a step.\<close>

definition unwrapping :: "('s, 'x, 'a) run \<Rightarrow> ('s, 'e, 'a) run" where
  "unwrapping m s = map_option (\<lambda>(r, t). (unwrap r, t)) (m s)"

lemma returning_Some [simp]: "returning m s = Some x \<longleftrightarrow> m s = x"
  by (simp add: returning_def)

lemma reading_Some [simp]: "reading f s = Some (r, t) \<longleftrightarrow> f s = r \<and> t = s"
  by (auto simp: reading_def)

lemma unwrap_Ok [simp]: "unwrap r = Ok x \<longleftrightarrow> r = Ok x"
  by (cases r) simp_all

lemma unwrapping_Ok [simp]: "unwrapping m s = Some (Ok x, t) \<longleftrightarrow> m s = Some (Ok x, t)"
  by (auto simp: unwrapping_def)

lemma rthen_Ok [simp]:
  "rthen m f s = Some (Ok y, u) \<longleftrightarrow> (\<exists>x t. m s = Some (Ok x, t) \<and> f x t = Some (Ok y, u))"
  by (auto simp: rthen_def split: option.splits outcome.splits prod.splits)

text \<open>Steps that return from every state.\<close>

definition always :: "('s, 'e, 'a) run \<Rightarrow> bool" where
  "always m \<longleftrightarrow> (\<forall>s. m s \<noteq> None)"

lemma alwaysD: "always m \<Longrightarrow> \<exists>r t. m s = Some (r, t)"
  by (auto simp: always_def)

lemma always_returning: "always (returning m)"
  by (simp add: always_def returning_def)

lemma always_reading: "always (reading f)"
  by (simp add: always_def reading_def)

lemma always_unwrapping: "always m \<Longrightarrow> always (unwrapping m)"
  by (simp add: always_def unwrapping_def)

lemma always_rthen: "always m \<Longrightarrow> (\<And>x. always (f x)) \<Longrightarrow> always (rthen m f)"
  by (auto simp: always_def rthen_def split: option.split outcome.split)

lemmas always_rules = always_returning always_reading always_unwrapping always_rthen

text \<open>A relation that every step keeps, however it ends, is kept by the sequence.\<close>

definition keeps :: "('s \<Rightarrow> 's \<Rightarrow> bool) \<Rightarrow> ('s, 'e, 'a) run \<Rightarrow> bool" where
  "keeps R m \<longleftrightarrow> (\<forall>s r t. m s = Some (r, t) \<longrightarrow> R s t)"

lemma keepsI: "(\<And>s r t. m s = Some (r, t) \<Longrightarrow> R s t) \<Longrightarrow> keeps R m"
  by (simp add: keeps_def)

lemma keepsD: "keeps R m \<Longrightarrow> m s = Some (r, t) \<Longrightarrow> R s t"
  by (simp add: keeps_def)

context step_frame
begin

lemma keeps_returning: "stays R m \<Longrightarrow> keeps R (returning m)"
  by (rule keepsI) (auto intro: staysD_run)

lemma keeps_reading: "keeps R (reading f)"
  by (simp add: keeps_def frame_refl)

lemma keeps_unwrapping: "keeps R m \<Longrightarrow> keeps R (unwrapping m)"
  by (auto simp: keeps_def unwrapping_def)

lemma keeps_rthen:
  assumes "keeps R m" and "\<And>x. keeps R (f x)"
  shows "keeps R (rthen m f)"
proof (rule keepsI)
  fix s r t
  assume "rthen m f s = Some (r, t)"
  then obtain q u where m: "m s = Some (q, u)" and rest: "(\<exists>x. q = Ok x \<and> f x u = Some (r, t)) \<or> u = t"
    by (auto simp: rthen_def split: option.splits outcome.splits)
  from keepsD [OF assms(1) m] rest keepsD [OF assms(2)] show "R s t"
    by (blast intro: frame_trans)
qed

lemmas keeps_rules = keeps_returning keeps_reading keeps_unwrapping keeps_rthen

end

end
