(* ===== verification/Codec.thy ===== *)
theory Codec
  imports Partial_Runs
begin

text \<open>
  The encodings the program applies to its data: fixed-width little-endian and big-endian
  integers (the \<open>primitive-types\<close> conversions and \<open>byteorder\<close>), decimal printing of the
  \<open>format!\<close> macro, and the UTF-8 decoding of \<open>String::from_utf8\<close> and
  \<open>String::from_utf8_lossy\<close>. A Rust \<open>String\<close> is the list of its UTF-8 bytes; HOL's
  \<open>char\<close> is a byte, so literals and formatted messages are HOL strings.
\<close>

section \<open>Fixed-width integers\<close>

fun le_nat :: "nat \<Rightarrow> nat \<Rightarrow> bytes" where
  "le_nat 0 k = []"
| "le_nat (Suc n) k = word_of_nat (k mod 256) # le_nat n (k div 256)"

fun of_le_nat :: "bytes \<Rightarrow> nat" where
  "of_le_nat [] = 0"
| "of_le_nat (b # bs) = unat b + 256 * of_le_nat bs"

definition le_bytes :: "nat \<Rightarrow> 'w::len word \<Rightarrow> bytes" where
  "le_bytes n w = le_nat n (unat w)"

definition of_le :: "bytes \<Rightarrow> 'w::len word" where
  "of_le bs = word_of_nat (of_le_nat bs)"

definition be_bytes :: "nat \<Rightarrow> 'w::len word \<Rightarrow> bytes" where
  "be_bytes n w = rev (le_bytes n w)"

definition of_be :: "bytes \<Rightarrow> 'w::len word" where
  "of_be bs = of_le (rev bs)"

lemma length_le_nat [simp]: "length (le_nat n k) = n"
  by (induction n arbitrary: k) auto

lemma length_le_bytes [simp]: "length (le_bytes n w) = n"
  by (simp add: le_bytes_def)

lemma length_be_bytes [simp]: "length (be_bytes n w) = n"
  by (simp add: be_bytes_def)

lemma unat_byte_of_nat: "unat (word_of_nat (k mod 256) :: u8) = k mod 256"
  by (simp add: unat_of_nat)

lemma of_le_nat_bound: "of_le_nat bs < 256 ^ length bs"
proof (induction bs)
  case (Cons b bs)
  have "unat b < 2 ^ LENGTH(8)" by (rule unsigned_less)
  with Cons show ?case by simp
qed simp

lemma of_le_nat_le_nat: "of_le_nat (le_nat n k) = k mod 256 ^ n"
proof (induction n arbitrary: k)
  case (Suc n)
  then show ?case
    by (simp add: unat_byte_of_nat mod_mult2_eq)
qed simp

lemma le_nat_of_le_nat: "le_nat (length bs) (of_le_nat bs) = bs"
proof (induction bs)
  case (Cons b bs)
  have b: "unat b < 256" using unsigned_less [of b] by simp
  then have "(unat b + 256 * of_le_nat bs) mod 256 = unat b"
    and "(unat b + 256 * of_le_nat bs) div 256 = of_le_nat bs"
    by simp_all
  with Cons show ?case by simp
qed simp

lemma of_le_le_bytes: "LENGTH('w) \<le> 8 * n \<Longrightarrow> of_le (le_bytes n w) = w" for w :: "'w::len word"
proof -
  assume n: "LENGTH('w) \<le> 8 * n"
  have "unat w < 2 ^ LENGTH('w)" by (rule unsigned_less)
  also have "(2::nat) ^ LENGTH('w) \<le> 2 ^ (8 * n)" using n by (intro power_increasing) auto
  finally have "unat w < 256 ^ n" by (simp add: power_mult)
  then show ?thesis by (simp add: of_le_def le_bytes_def of_le_nat_le_nat)
qed

lemma le_bytes_of_le:
  assumes "length bs = n" and "8 * n \<le> LENGTH('w)"
  shows "le_bytes n (of_le bs :: 'w::len word) = bs"
proof -
  have "of_le_nat bs < 256 ^ n" using of_le_nat_bound assms(1) by metis
  also have "(256::nat) ^ n = 2 ^ (8 * n)" by (simp add: power_mult)
  also have "\<dots> \<le> 2 ^ LENGTH('w)" using assms(2) by (intro power_increasing) auto
  finally have "unat (of_le bs :: 'w word) = of_le_nat bs"
    by (simp add: of_le_def unat_of_nat)
  then show ?thesis using assms(1) le_nat_of_le_nat [of bs] by (simp add: le_bytes_def)
qed

lemma of_be_be_bytes: "LENGTH('w) \<le> 8 * n \<Longrightarrow> of_be (be_bytes n w) = w" for w :: "'w::len word"
  by (simp add: of_be_def be_bytes_def of_le_le_bytes)

lemma be_bytes_of_be:
  "length bs = n \<Longrightarrow> 8 * n \<le> LENGTH('w) \<Longrightarrow> be_bytes n (of_be bs :: 'w::len word) = bs"
  by (simp add: of_be_def be_bytes_def le_bytes_of_le)

lemma le_bytes_inject:
  "LENGTH('w) \<le> 8 * n \<Longrightarrow> le_bytes n v = le_bytes n w \<longleftrightarrow> v = w" for v w :: "'w::len word"
  by (metis of_le_le_bytes)

lemma be_bytes_inject:
  "LENGTH('w) \<le> 8 * n \<Longrightarrow> be_bytes n v = be_bytes n w \<longleftrightarrow> v = w" for v w :: "'w::len word"
  by (metis of_be_be_bytes)

text \<open>
  \<open>from_slice\<close> of a fixed hash asserts the length; \<open>U256::from_little_endian\<close> and
  \<open>from_big_endian\<close> assert that the slice is at most 32 bytes long.
\<close>

definition h256_from_slice :: "bytes \<Rightarrow> ('e, h256) outcome" where
  "h256_from_slice bs = (if length bs = 32 then Ok (of_be bs) else Crash)"

definition h160_from_slice :: "bytes \<Rightarrow> ('e, h160) outcome" where
  "h160_from_slice bs = (if length bs = 20 then Ok (of_be bs) else Crash)"

definition u256_from_be :: "bytes \<Rightarrow> ('e, u256) outcome" where
  "u256_from_be bs = (if length bs \<le> 32 then Ok (of_be bs) else Crash)"

definition u256_from_le :: "bytes \<Rightarrow> ('e, u256) outcome" where
  "u256_from_le bs = (if length bs \<le> 32 then Ok (of_le bs) else Crash)"

lemma h256_from_slice_be [simp]: "h256_from_slice (be_bytes 32 w) = Ok w"
  by (simp add: h256_from_slice_def of_be_be_bytes)

lemma h160_from_slice_be [simp]: "h160_from_slice (be_bytes 20 w) = Ok w"
  by (simp add: h160_from_slice_def of_be_be_bytes)

lemma u256_from_be_be [simp]: "u256_from_be (be_bytes 32 w) = Ok w"
  by (simp add: u256_from_be_def of_be_be_bytes)

lemma u256_from_le_le [simp]: "u256_from_le (le_bytes 32 w) = Ok w"
  by (simp add: u256_from_le_def of_le_le_bytes)

section \<open>Decimal printing\<close>

fun digit_char :: "nat \<Rightarrow> char" where
  "digit_char d = char_of (48 + d)"

fun show_nat :: "nat \<Rightarrow> string" where
  "show_nat n = (if n < 10 then [digit_char n] else show_nat (n div 10) @ [digit_char (n mod 10)])"

declare show_nat.simps [simp del]

fun read_nat :: "string \<Rightarrow> nat" where
  "read_nat [] = 0"
| "read_nat (c # cs) = (of_char c - 48) * 10 ^ length cs + read_nat cs"

lemma read_nat_append: "read_nat (cs @ [c]) = 10 * read_nat cs + (of_char c - 48)"
  by (induction cs) (auto simp: algebra_simps)

lemma of_digit_char: "d < 10 \<Longrightarrow> of_char (digit_char d) = 48 + d"
  by (simp add: of_char_of)

text \<open>Reading a printed number back gives the number, so printing is injective.\<close>

lemma read_show_nat: "read_nat (show_nat n) = n"
proof (induction n rule: show_nat.induct)
  case (1 n)
  show ?case
  proof (cases "n < 10")
    case True
    then show ?thesis by (subst show_nat.simps) (simp add: of_digit_char del: digit_char.simps)
  next
    case False
    with "1.IH" have "read_nat (show_nat (n div 10)) = n div 10" by simp
    with False show ?thesis
      by (subst show_nat.simps) (simp add: read_nat_append of_digit_char del: digit_char.simps)
  qed
qed

lemma show_nat_inject [simp]: "show_nat m = show_nat n \<longleftrightarrow> m = n"
  by (metis read_show_nat)

lemma show_nat_nonempty: "show_nat n \<noteq> []"
  by (subst show_nat.simps) simp

end
