(* ===== verification/Errors.thy ===== *)
theory Errors
  imports Codec
begin

text \<open>
  \<open>durian/src/error.rs\<close>: the error type, its display strings, and the two conversions from
  the interpreter's errors. The interpreter's own error types are \<open>wasmi::TrapKind\<close> and
  \<open>wasmi::Error\<close>, listed with the variants the conversions match on; how wasmi prints a
  trap is a parameter.
\<close>

type_synonym address = h160

datatype error =
    NotSupported
  | MemoryAccessViolation
  | Wasm string
  | StorageReadError
  | StorageUpdateError
  | Suicide
  | Return
  | SuicideAbort
  | InvalidGasState
  | BalanceQueryError
  | AllocationFailed
  | GasLimit
  | Unknown
  | BadUtf8
  | Log
  | Other string
  | Unreachable
  | InvalidVirtualCall
  | DivisionByZero
  | InvalidConversionToInt
  | StackOverflow
  | Panic string
  | InvalidAddress address
  | InvalidStorageKey h256

text \<open>
  A boxed \<open>HostError\<close>: either this crate's \<open>Error\<close> (found by \<open>downcast_ref\<close>) or a
  host error of some other type.
\<close>

datatype host_error = RuntimeError error | ForeignHostError

datatype trap_kind =
    TrapUnreachable
  | TrapMemoryAccessOutOfBounds
  | TrapTableAccessOutOfBounds
  | TrapElemUninitialized
  | TrapDivisionByZero
  | TrapInvalidConversionToInt
  | TrapStackOverflow
  | TrapUnexpectedSignature
  | TrapHost host_error

datatype wasmi_error =
    ErrValidation string
  | ErrInstantiation string
  | ErrFunction string
  | ErrTable string
  | ErrMemory string
  | ErrGlobal string
  | ErrValue string
  | ErrTrap trap_kind
  | ErrHost host_error

fun error_display :: "(address \<Rightarrow> string) \<Rightarrow> (h256 \<Rightarrow> string) \<Rightarrow> error \<Rightarrow> string" where
  "error_display sa sh NotSupported = ''Not supported''"
| "error_display sa sh MemoryAccessViolation = ''Memory access violation''"
| "error_display sa sh (Wasm msg) = ''WASM Internal error: '' @ msg"
| "error_display sa sh StorageReadError = ''Storage read error''"
| "error_display sa sh StorageUpdateError = ''Storage update error''"
| "error_display sa sh Suicide = ''Attempt to suicide resulted in an error''"
| "error_display sa sh Return = ''Return result''"
| "error_display sa sh SuicideAbort = ''Suicide result''"
| "error_display sa sh InvalidGasState = ''Invalid gas state''"
| "error_display sa sh BalanceQueryError = ''Balance query resulted in an error''"
| "error_display sa sh AllocationFailed = ''Memory allocation failed (OOM)''"
| "error_display sa sh GasLimit = ''Invocation resulted in gas limit violated''"
| "error_display sa sh Unknown = ''Unknown runtime function invoked''"
| "error_display sa sh BadUtf8 = ''String encoding is bad utf-8 sequence''"
| "error_display sa sh Log = ''Error occurred while logging an event''"
| "error_display sa sh (Other msg) = ''Error: '' @ msg"
| "error_display sa sh Unreachable = ''Unreachable instruction encountered''"
| "error_display sa sh InvalidVirtualCall = ''Invalid virtual call''"
| "error_display sa sh DivisionByZero = ''Division by zero''"
| "error_display sa sh InvalidConversionToInt = ''Invalid conversion to integer''"
| "error_display sa sh StackOverflow = ''Stack overflow''"
| "error_display sa sh (Panic msg) = ''Panic: '' @ msg"
| "error_display sa sh (InvalidAddress a) = ''Invalid address: '' @ sa a"
| "error_display sa sh (InvalidStorageKey k) = ''Invalid storage key: '' @ sh k"

fun error_from_trap :: "trap_kind \<Rightarrow> error" where
  "error_from_trap TrapUnreachable = Unreachable"
| "error_from_trap TrapMemoryAccessOutOfBounds = MemoryAccessViolation"
| "error_from_trap TrapTableAccessOutOfBounds = InvalidVirtualCall"
| "error_from_trap TrapElemUninitialized = InvalidVirtualCall"
| "error_from_trap TrapDivisionByZero = DivisionByZero"
| "error_from_trap TrapInvalidConversionToInt = InvalidConversionToInt"
| "error_from_trap TrapUnexpectedSignature = InvalidVirtualCall"
| "error_from_trap TrapStackOverflow = StackOverflow"
| "error_from_trap (TrapHost h) = Other ''Host error''"

fun error_from_wasmi :: "(trap_kind \<Rightarrow> string) \<Rightarrow> wasmi_error \<Rightarrow> error" where
  "error_from_wasmi st (ErrValidation msg) = Wasm (''Wasm validation error: '' @ msg)"
| "error_from_wasmi st (ErrInstantiation msg) = Wasm (''Wasm Instantiation error: '' @ msg)"
| "error_from_wasmi st (ErrFunction msg) = Wasm (''Wasm Function error: '' @ msg)"
| "error_from_wasmi st (ErrTable msg) = Wasm (''Wasm Table error: '' @ msg)"
| "error_from_wasmi st (ErrMemory msg) = Wasm (''Wasm Memory error: '' @ msg)"
| "error_from_wasmi st (ErrGlobal msg) = Wasm (''Wasm Global error: '' @ msg)"
| "error_from_wasmi st (ErrValue msg) = Wasm (''Wasm Value error: '' @ msg)"
| "error_from_wasmi st (ErrTrap k) = Wasm (''Wasm Trap error: '' @ st k)"
| "error_from_wasmi st (ErrHost h) = Wasm ''Wasm Host error.''"

text \<open>The control-flow errors that stop a contract without failing it never come from a conversion.\<close>

lemma error_from_trap_no_control: "error_from_trap k \<noteq> Return \<and> error_from_trap k \<noteq> Suicide"
  by (cases k) auto

lemma error_from_wasmi_no_control: "error_from_wasmi st w \<noteq> Return \<and> error_from_wasmi st w \<noteq> Suicide"
  by (cases w) auto

lemma error_from_trap_no_gas: "error_from_trap k \<noteq> GasLimit"
  by (cases k) auto

lemma error_from_wasmi_no_gas: "error_from_wasmi st w \<noteq> GasLimit"
  by (cases w) auto

end
