(* ===== verification/Transactions.thy ===== *)
theory Transactions
  imports Errors
begin

text \<open>
  \<open>durian/src/transaction.rs\<close>, \<open>types.rs\<close>, \<open>log_entry.rs\<close> and \<open>utils.rs\<close>: what a
  caller hands to the machine, what the machine keeps about the running action, and the
  address a created contract gets. Keccak-256 (\<open>keccak_hash::write_keccak\<close>) and
  \<open>parity_wasm::peek_size\<close> are parameters.
\<close>

section \<open>Transactions\<close>

datatype action = Create bytes h256 | Call address

record transaction =
  tx_sender :: address
  tx_value :: u256
  tx_gas :: u256
  tx_gas_price :: u256
  tx_action :: action
  tx_args :: bytes

text \<open>
  \<open>make_create_embedded_code\<close> cuts the module off the front of the payload; both slices
  panic when the reported size is beyond the payload's end.
\<close>

definition make_create_embedded_code ::
  "(bytes \<Rightarrow> nat) \<Rightarrow> address \<Rightarrow> u256 \<Rightarrow> u256 \<Rightarrow> u256 \<Rightarrow> bytes \<Rightarrow> h256 \<Rightarrow>
   ('e, transaction) outcome" where
  "make_create_embedded_code peek_size sender value gas gas_price code_params salt =
     (let module_size = peek_size code_params in
      if length code_params < module_size then Crash
      else Ok \<lparr>tx_sender = sender, tx_value = value, tx_gas = gas, tx_gas_price = gas_price,
               tx_action = Create (take module_size code_params) salt,
               tx_args = drop module_size code_params\<rparr>)"

definition make_create ::
  "address \<Rightarrow> u256 \<Rightarrow> u256 \<Rightarrow> u256 \<Rightarrow> bytes \<Rightarrow> bytes \<Rightarrow> h256 \<Rightarrow> transaction" where
  "make_create sender value gas gas_price code args salt =
     \<lparr>tx_sender = sender, tx_value = value, tx_gas = gas, tx_gas_price = gas_price,
      tx_action = Create code salt, tx_args = args\<rparr>"

definition make_call ::
  "address \<Rightarrow> address \<Rightarrow> u256 \<Rightarrow> u256 \<Rightarrow> u256 \<Rightarrow> bytes \<Rightarrow> transaction" where
  "make_call sender contract value gas gas_price args =
     \<lparr>tx_sender = sender, tx_value = value, tx_gas = gas, tx_gas_price = gas_price,
      tx_action = Call contract, tx_args = args\<rparr>"

section \<open>The running action and its log entries\<close>

datatype action_type = ActionCreate | ActionCall

record action_params =
  ap_code_address :: address
  ap_code_hash :: "h256 option"
  ap_address :: address
  ap_sender :: address
  ap_origin :: address
  ap_gas :: u256
  ap_gas_price :: u256
  ap_value :: u256
  ap_code :: bytes
  ap_code_version :: u256
  ap_args :: bytes
  ap_action_type :: action_type

record log_entry =
  le_address :: address
  le_topics :: "h256 list"
  le_data :: bytes

section \<open>Contract addresses\<close>

text \<open>\<open>H160::from(H256)\<close> keeps the last 20 of the 32 bytes.\<close>

definition address_of_hash :: "h256 \<Rightarrow> address" where
  "address_of_hash h = of_be (drop 12 (be_bytes 32 h))"

definition address_preimage :: "h256 \<Rightarrow> address \<Rightarrow> h256 \<Rightarrow> bytes" where
  "address_preimage code_hash sender salt =
     [0xff] @ be_bytes 20 sender @ be_bytes 32 salt @ be_bytes 32 code_hash"

definition contract_address :: "(bytes \<Rightarrow> h256) \<Rightarrow> address \<Rightarrow> bytes \<Rightarrow> h256 \<Rightarrow> address" where
  "contract_address keccak sender code salt =
     (let code_hash = keccak code;
          buffer = address_preimage code_hash sender salt
      in address_of_hash (keccak buffer))"

lemma length_address_preimage: "length (address_preimage h s t) = 1 + 20 + 32 + 32"
  by (simp add: address_preimage_def)

text \<open>The 85 bytes that are hashed determine sender, salt and code hash.\<close>

lemma address_preimage_inject:
  "address_preimage h s t = address_preimage h' s' t' \<longleftrightarrow> h = h' \<and> s = s' \<and> t = t'"
  by (auto simp: address_preimage_def be_bytes_inject)

end
