(* ===== verification/Costs.thy ===== *)
theory Costs
  imports Durian_Prelude
begin

text \<open>
  The two cost tables: \<open>durian/src/wasm_cost.rs\<close> and \<open>durian/src/schedule.rs\<close>. The
  fields keep their names behind a short prefix; a \<open>usize\<close> is 64 bits wide.
\<close>

section \<open>WasmCosts\<close>

record wasm_costs =
  wc_regular :: u32
  wc_div :: u32
  wc_mul :: u32
  wc_mem :: u32
  wc_static_u256 :: u32
  wc_static_address :: u32
  wc_initial_mem :: u32
  wc_grow_mem :: u32
  wc_memcpy :: u32
  wc_max_stack_height :: u32
  wc_opcodes_mul :: u32
  wc_opcodes_div :: u32
  wc_have_create2 :: bool
  wc_have_gasleft :: bool

definition wasm_costs_default :: wasm_costs where
  "wasm_costs_default = \<lparr>
     wc_regular = 1,
     wc_div = 16,
     wc_mul = 4,
     wc_mem = 2,
     wc_static_u256 = 64,
     wc_static_address = 40,
     wc_initial_mem = 4096,
     wc_grow_mem = 8192,
     wc_memcpy = 1,
     wc_max_stack_height = 64 * 1024,
     wc_opcodes_mul = 3,
     wc_opcodes_div = 8,
     wc_have_create2 = False,
     wc_have_gasleft = False\<rparr>"

section \<open>Schedule\<close>

datatype clean_dust_mode = DustOff | DustBasicOnly | DustWithCodeAndStorage

record schedule =
  sc_exceptional_failed_code_deposit :: bool
  sc_have_delegate_call :: bool
  sc_have_create2 :: bool
  sc_have_revert :: bool
  sc_have_extcodehash :: bool
  sc_stack_limit :: usize
  sc_max_depth :: usize
  sc_tier_step_gas :: "usize list"
  sc_exp_gas :: usize
  sc_exp_byte_gas :: usize
  sc_sha3_gas :: usize
  sc_sha3_word_gas :: usize
  sc_sload_gas :: usize
  sc_sstore_dirty_gas :: "usize option"
  sc_sstore_set_gas :: usize
  sc_sstore_reset_gas :: usize
  sc_sstore_refund_gas :: usize
  sc_jumpdest_gas :: usize
  sc_log_gas :: usize
  sc_log_data_gas :: usize
  sc_log_topic_gas :: usize
  sc_create_gas :: usize
  sc_call_gas :: usize
  sc_call_stipend :: usize
  sc_call_value_transfer_gas :: usize
  sc_call_new_account_gas :: usize
  sc_suicide_refund_gas :: usize
  sc_memory_gas :: usize
  sc_quad_coeff_div :: usize
  sc_create_data_gas :: usize
  sc_create_data_limit :: usize
  sc_tx_gas :: usize
  sc_tx_create_gas :: usize
  sc_tx_data_zero_gas :: usize
  sc_tx_data_non_zero_gas :: usize
  sc_copy_gas :: usize
  sc_extcodesize_gas :: usize
  sc_extcodecopy_base_gas :: usize
  sc_balance_gas :: usize
  sc_extcodehash_gas :: usize
  sc_suicide_gas :: usize
  sc_suicide_to_new_account_cost :: usize
  sc_sub_gas_cap_divisor :: "usize option"
  sc_no_empty :: bool
  sc_kill_empty :: bool
  sc_blockhash_gas :: usize
  sc_have_static_call :: bool
  sc_have_return_data :: bool
  sc_have_bitwise_shifting :: bool
  sc_have_chain_id :: bool
  sc_have_selfbalance :: bool
  sc_kill_dust :: clean_dust_mode
  sc_eip1283 :: bool
  sc_eip1706 :: bool
  sc_latest_version :: u256
  sc_wasm :: "wasm_costs option"

definition schedule_new :: "bool \<Rightarrow> bool \<Rightarrow> usize \<Rightarrow> schedule" where
  "schedule_new efcd hdc tcg = \<lparr>
     sc_exceptional_failed_code_deposit = efcd,
     sc_have_delegate_call = hdc,
     sc_have_create2 = False,
     sc_have_revert = False,
     sc_have_extcodehash = False,
     sc_stack_limit = 1024,
     sc_max_depth = 1024,
     sc_tier_step_gas = [0, 2, 3, 5, 8, 10, 20, 0],
     sc_exp_gas = 10,
     sc_exp_byte_gas = 10,
     sc_sha3_gas = 30,
     sc_sha3_word_gas = 6,
     sc_sload_gas = 50,
     sc_sstore_dirty_gas = None,
     sc_sstore_set_gas = 20000,
     sc_sstore_reset_gas = 5000,
     sc_sstore_refund_gas = 15000,
     sc_jumpdest_gas = 1,
     sc_log_gas = 375,
     sc_log_data_gas = 8,
     sc_log_topic_gas = 375,
     sc_create_gas = 32000,
     sc_call_gas = 40,
     sc_call_stipend = 2300,
     sc_call_value_transfer_gas = 9000,
     sc_call_new_account_gas = 25000,
     sc_suicide_refund_gas = 24000,
     sc_memory_gas = 3,
     sc_quad_coeff_div = 512,
     sc_create_data_gas = 200,
     sc_create_data_limit = - 1,
     sc_tx_gas = 21000,
     sc_tx_create_gas = tcg,
     sc_tx_data_zero_gas = 4,
     sc_tx_data_non_zero_gas = 68,
     sc_copy_gas = 3,
     sc_extcodesize_gas = 20,
     sc_extcodecopy_base_gas = 20,
     sc_balance_gas = 20,
     sc_extcodehash_gas = 400,
     sc_suicide_gas = 0,
     sc_suicide_to_new_account_cost = 0,
     sc_sub_gas_cap_divisor = None,
     sc_no_empty = False,
     sc_kill_empty = False,
     sc_blockhash_gas = 20,
     sc_have_static_call = False,
     sc_have_return_data = False,
     sc_have_bitwise_shifting = False,
     sc_have_chain_id = False,
     sc_have_selfbalance = False,
     sc_kill_dust = DustOff,
     sc_eip1283 = False,
     sc_eip1706 = False,
     sc_latest_version = 0,
     sc_wasm = None\<rparr>"

definition schedule_new_frontier :: schedule where
  "schedule_new_frontier = schedule_new False False 21000"

definition schedule_default :: schedule where
  "schedule_default = schedule_new_frontier"

text \<open>\<open>Schedule::wasm\<close> panics when no wasm table is set.\<close>

definition schedule_wasm :: "schedule \<Rightarrow> ('e, wasm_costs) outcome" where
  "schedule_wasm s = (case sc_wasm s of Some w \<Rightarrow> Ok w | None \<Rightarrow> Crash)"

text \<open>The table \<open>execute\<close> runs with: the default schedule with the default wasm costs.\<close>

definition execute_schedule :: schedule where
  "execute_schedule = schedule_default\<lparr>sc_wasm := Some wasm_costs_default\<rparr>"

lemmas execute_schedule_unfold =
  execute_schedule_def schedule_default_def schedule_new_frontier_def schedule_new_def

lemma execute_schedule_wasm [simp]: "schedule_wasm execute_schedule = Ok wasm_costs_default"
  by (simp add: schedule_wasm_def execute_schedule_def)

lemma sc_wasm_execute [simp]: "sc_wasm execute_schedule = Some wasm_costs_default"
  by (simp add: execute_schedule_def)

end
