(* ===== verification/Parser.thy ===== *)
theory Parser
  imports Transactions Costs
begin

text \<open>
  \<open>durian/src/parser.rs\<close>: from the code of the action to the instrumented module. The
  module type and the four transformations belong to \<open>parity_wasm\<close> and \<open>pwasm_utils\<close>
  and are parameters; the checks, their order and their error messages are the source's.
\<close>

section \<open>Gas rules\<close>

text \<open>The part of \<open>pwasm_utils::rules::Set\<close> that the source builds.\<close>

datatype instruction_type = InstrLoad | InstrStore | InstrDiv | InstrMul

datatype metering = Fixed u32

record rule_set =
  rs_regular :: u32
  rs_entries :: "instruction_type \<rightharpoonup> metering"
  rs_grow :: u32
  rs_forbidden_floats :: bool

definition gas_rules :: "wasm_costs \<Rightarrow> rule_set" where
  "gas_rules wasm_costs =
     \<lparr>rs_regular = wc_regular wasm_costs,
      rs_entries = [InstrLoad \<mapsto> Fixed (wc_mem wasm_costs), InstrStore \<mapsto> Fixed (wc_mem wasm_costs),
        InstrDiv \<mapsto> Fixed (wc_div wasm_costs), InstrMul \<mapsto> Fixed (wc_mul wasm_costs)],
      rs_grow = wc_grow_mem wasm_costs,
      rs_forbidden_floats = True\<rparr>"

section \<open>The payload\<close>

text \<open>
  \<open>pw_deserialize\<close> answers with a module or the printed error; \<open>pw_memory_section\<close> with the
  number of memories the module declares, when it has such a section; the two injections
  with the instrumented module, when they succeed.
\<close>

record 'pmod pwasm =
  pw_deserialize :: "bytes \<Rightarrow> string + 'pmod"
  pw_memory_section :: "'pmod \<Rightarrow> nat option"
  pw_inject_gas_counter :: "'pmod \<Rightarrow> rule_set \<Rightarrow> 'pmod option"
  pw_inject_limiter :: "'pmod \<Rightarrow> u32 \<Rightarrow> 'pmod option"

definition payload :: "'pmod pwasm \<Rightarrow> action_params \<Rightarrow> wasm_costs \<Rightarrow> (error, 'pmod) outcome" where
  "payload X params wasm_costs =
     obind (of_sum (\<lambda>err. Wasm (''Error deserializing contract code ('' @ err @ '')''))
             (pw_deserialize X (ap_code params))) (\<lambda>deserialized_module.
     if (case pw_memory_section X deserialized_module of None \<Rightarrow> False | Some n \<Rightarrow> 0 < n)
     then Err (Wasm ''Malformed wasm module: internal memory'')
     else
       obind (of_option (Wasm ''Wasm contract error: bytecode invalid'')
               (pw_inject_gas_counter X deserialized_module (gas_rules wasm_costs))) (\<lambda>contract_module.
       obind (of_option (Wasm ''Wasm contract error: stack limiter failure'')
               (pw_inject_limiter X contract_module (wc_max_stack_height wasm_costs))) (\<lambda>limited.
         Ok limited)))"

lemma payload_no_crash: "payload X params w \<noteq> Crash"
  unfolding payload_def
  by (cases "pw_deserialize X (ap_code params)") (auto split: option.splits elim!: obind_CrashE)

text \<open>A module comes out only through all four gates.\<close>

lemma payload_Ok:
  "payload X params w = Ok m \<longleftrightarrow>
    (\<exists>d g. pw_deserialize X (ap_code params) = Inr d \<and>
       (pw_memory_section X d = None \<or> pw_memory_section X d = Some 0) \<and>
       pw_inject_gas_counter X d (gas_rules w) = Some g \<and>
       pw_inject_limiter X g (wc_max_stack_height w) = Some m)"
  unfolding payload_def
  by (cases "pw_deserialize X (ap_code params)")
    (auto simp: Let_def split: option.split if_splits elim!: obind_OkE)

end
