(* ===== verification/Host.thy ===== *)
theory Host
  imports Errors Costs
begin

text \<open>
  The interface of the \<open>wasmi\<close> interpreter that the runtime uses, and of the build it runs in.
  None of this is code of the repository, so it is a record of parameters: \<open>RuntimeArgs\<close>
  access, the linear memory, and how a trap prints. Two fields describe the build and the
  process: whether arithmetic overflow is checked (a debug build) and whether the \<open>trace\<close> log
  level is enabled, in which case the arguments of \<open>trace!\<close> are evaluated. The last one is
  the cursor position after a failed \<open>read_exact\<close>, which the standard library leaves open.
\<close>

record ('args, 'mem) wasmi_host =
  wh_overflow_checks :: bool
  wh_trace :: bool
  wh_show_trap :: "trap_kind \<Rightarrow> string"
  wh_u32 :: "'args \<Rightarrow> nat \<Rightarrow> trap_kind + u32"
  wh_u64 :: "'args \<Rightarrow> nat \<Rightarrow> trap_kind + u64"
  wh_get :: "'mem \<Rightarrow> u32 \<Rightarrow> nat \<Rightarrow> wasmi_error + bytes"
  wh_get_into :: "'mem \<Rightarrow> u32 \<Rightarrow> nat \<Rightarrow> wasmi_error + bytes"
  wh_set :: "'mem \<Rightarrow> u32 \<Rightarrow> bytes \<Rightarrow> wasmi_error + 'mem"
  wh_alloc :: "nat \<Rightarrow> nat option \<Rightarrow> wasmi_error + 'mem"
  wh_size :: "'mem \<Rightarrow> nat"
  wh_short :: "bytes \<Rightarrow> bytes"

text \<open>
  What wasmi documents of the linear memory, where a theorem relies on it: a read returns as
  many bytes as were asked for, \<open>get_into\<close> fills its buffer with what \<open>get\<close> returns, and a
  write is read back.
\<close>

definition memory_laws :: "('args, 'mem) wasmi_host \<Rightarrow> bool" where
  "memory_laws W \<longleftrightarrow>
     (\<forall>m p n bs. wh_get W m p n = Inr bs \<longrightarrow> length bs = n) \<and>
     (\<forall>m p n. wh_get_into W m p n = wh_get W m p n) \<and>
     (\<forall>m p bs m'. wh_set W m p bs = Inr m' \<longrightarrow> wh_get W m' p (length bs) = Inr bs)"

lemma memory_laws_get: "memory_laws W \<Longrightarrow> wh_get W m p n = Inr bs \<Longrightarrow> length bs = n"
  by (simp add: memory_laws_def)

lemma memory_laws_get_into: "memory_laws W \<Longrightarrow> wh_get_into W m p n = wh_get W m p n"
  by (simp add: memory_laws_def)

lemma memory_laws_set:
  "memory_laws W \<Longrightarrow> wh_set W m p bs = Inr m' \<Longrightarrow> wh_get W m' p (length bs) = Inr bs"
  by (simp add: memory_laws_def)

text \<open>
  The values the dispatcher hands back to the interpreter: of \<open>wasmi::RuntimeValue\<close>, the
  source builds the two integer variants.
\<close>

datatype runtime_value = I32 u32 | I64 u64

end
