(* ===== verification/Env.thy ===== *)
theory Env
  imports Host
begin

text \<open>
  \<open>durian/src/env.rs\<close>: the functions and the memory that a contract can import. \<open>ids\<close> and
  \<open>signatures\<close> are the tables shared with the dispatcher; the import resolver maps an import
  name to a host function and creates the contract's memory within the page limit.
\<close>

section \<open>Function ids\<close>

definition STORAGE_WRITE_FUNC :: nat where "STORAGE_WRITE_FUNC = 0"
definition STORAGE_READ_FUNC :: nat where "STORAGE_READ_FUNC = 10"
definition RET_FUNC :: nat where "RET_FUNC = 20"
definition GAS_FUNC :: nat where "GAS_FUNC = 30"
definition FETCH_INPUT_FUNC :: nat where "FETCH_INPUT_FUNC = 40"
definition INPUT_LENGTH_FUNC :: nat where "INPUT_LENGTH_FUNC = 50"
definition CCALL_FUNC :: nat where "CCALL_FUNC = 60"
definition SCALL_FUNC :: nat where "SCALL_FUNC = 70"
definition DCALL_FUNC :: nat where "DCALL_FUNC = 80"
definition VALUE_FUNC :: nat where "VALUE_FUNC = 90"
definition CREATE_FUNC :: nat where "CREATE_FUNC = 100"
definition SUICIDE_FUNC :: nat where "SUICIDE_FUNC = 110"
definition BLOCK_HASH_FUNC :: nat where "BLOCK_HASH_FUNC = 120"
definition BLOCK_NUMBER_FUNC :: nat where "BLOCK_NUMBER_FUNC = 130"
definition BLOCK_AUTHOR_FUNC :: nat where "BLOCK_AUTHOR_FUNC = 140"
definition DIFFICULTY_FUNC :: nat where "DIFFICULTY_FUNC = 150"
definition GASLIMIT_FUNC :: nat where "GASLIMIT_FUNC = 160"
definition TIMESTAMP_FUNC :: nat where "TIMESTAMP_FUNC = 170"
definition ADDRESS_FUNC :: nat where "ADDRESS_FUNC = 180"
definition SENDER_FUNC :: nat where "SENDER_FUNC = 190"
definition ORIGIN_FUNC :: nat where "ORIGIN_FUNC = 200"
definition ELOG_FUNC :: nat where "ELOG_FUNC = 210"
definition CREATE2_FUNC :: nat where "CREATE2_FUNC = 220"
definition GASLEFT_FUNC :: nat where "GASLEFT_FUNC = 230"
definition PANIC_FUNC :: nat where "PANIC_FUNC = 1000"
definition DEBUG_FUNC :: nat where "DEBUG_FUNC = 1010"

lemmas id_defs =
  STORAGE_WRITE_FUNC_def STORAGE_READ_FUNC_def RET_FUNC_def
  GAS_FUNC_def FETCH_INPUT_FUNC_def INPUT_LENGTH_FUNC_def
  CCALL_FUNC_def SCALL_FUNC_def DCALL_FUNC_def
  VALUE_FUNC_def CREATE_FUNC_def SUICIDE_FUNC_def
  BLOCK_HASH_FUNC_def BLOCK_NUMBER_FUNC_def BLOCK_AUTHOR_FUNC_def
  DIFFICULTY_FUNC_def GASLIMIT_FUNC_def TIMESTAMP_FUNC_def
  ADDRESS_FUNC_def SENDER_FUNC_def ORIGIN_FUNC_def
  ELOG_FUNC_def CREATE2_FUNC_def GASLEFT_FUNC_def
  PANIC_FUNC_def DEBUG_FUNC_def

section \<open>Signatures\<close>

datatype value_type = VI32 | VI64

type_synonym signature = "value_type list \<times> value_type option"

definition SIG_STORAGE_READ :: signature where "SIG_STORAGE_READ = ([VI32, VI32], None)"
definition SIG_STORAGE_WRITE :: signature where "SIG_STORAGE_WRITE = ([VI32, VI32], None)"
definition SIG_RET :: signature where "SIG_RET = ([VI32, VI32], None)"
definition SIG_GAS :: signature where "SIG_GAS = ([VI32], None)"
definition SIG_FETCH_INPUT :: signature where "SIG_FETCH_INPUT = ([VI32], None)"
definition SIG_INPUT_LENGTH :: signature where "SIG_INPUT_LENGTH = ([], Some VI32)"
definition SIG_CCALL :: signature where "SIG_CCALL = ([VI64, VI32, VI32, VI32, VI32, VI32, VI32], Some VI32)"
definition SIG_DCALL :: signature where "SIG_DCALL = ([VI64, VI32, VI32, VI32, VI32, VI32], Some VI32)"
definition SIG_SCALL :: signature where "SIG_SCALL = ([VI64, VI32, VI32, VI32, VI32, VI32], Some VI32)"
definition SIG_PANIC :: signature where "SIG_PANIC = ([VI32, VI32], None)"
definition SIG_DEBUG :: signature where "SIG_DEBUG = ([VI32, VI32], None)"
definition SIG_VALUE :: signature where "SIG_VALUE = ([VI32], None)"
definition SIG_CREATE :: signature where "SIG_CREATE = ([VI32, VI32, VI32, VI32], Some VI32)"
definition SIG_CREATE2 :: signature where "SIG_CREATE2 = ([VI32, VI32, VI32, VI32, VI32], Some VI32)"
definition SIG_SUICIDE :: signature where "SIG_SUICIDE = ([VI32], None)"
definition SIG_BLOCK_HASH :: signature where "SIG_BLOCK_HASH = ([VI64, VI32], None)"
definition SIG_BLOCK_NUMBER :: signature where "SIG_BLOCK_NUMBER = ([], Some VI64)"
definition SIG_BLOCK_AUTHOR :: signature where "SIG_BLOCK_AUTHOR = ([VI32], None)"
definition SIG_DIFFICULTY :: signature where "SIG_DIFFICULTY = ([VI32], None)"
definition SIG_GASLEFT :: signature where "SIG_GASLEFT = ([], Some VI64)"
definition SIG_GASLIMIT :: signature where "SIG_GASLIMIT = ([VI32], None)"
definition SIG_TIMESTAMP :: signature where "SIG_TIMESTAMP = ([], Some VI64)"
definition SIG_ADDRESS :: signature where "SIG_ADDRESS = ([VI32], None)"
definition SIG_SENDER :: signature where "SIG_SENDER = ([VI32], None)"
definition SIG_ORIGIN :: signature where "SIG_ORIGIN = ([VI32], None)"
definition SIG_ELOG :: signature where "SIG_ELOG = ([VI32, VI32, VI32, VI32], None)"

text \<open>A host function as wasmi keeps it: its signature and the index it dispatches to.\<close>

type_synonym func_ref = "signature \<times> nat"

definition host :: "signature \<Rightarrow> nat \<Rightarrow> func_ref" where
  "host sg idx = (sg, idx)"

section \<open>The import resolver\<close>

record 'mem import_resolver =
  ir_max_memory :: u32
  ir_memory :: "'mem option"
  ir_have_create2 :: bool
  ir_have_gasleft :: bool

definition with_limit :: "u32 \<Rightarrow> wasm_costs \<Rightarrow> 'mem import_resolver" where
  "with_limit max_memory sch =
     \<lparr>ir_max_memory = max_memory, ir_memory = None,
      ir_have_create2 = wc_have_create2 sch, ir_have_gasleft = wc_have_gasleft sch\<rparr>"

definition memory_ref ::
  "('args, 'mem) wasmi_host \<Rightarrow> ('mem import_resolver, wasmi_error, 'mem) oper" where
  "memory_ref W R =
     (case ir_memory R of
        Some m \<Rightarrow> (Ok m, R)
      | None \<Rightarrow> (case wh_alloc W 0 (Some 0) of
          Inl _ \<Rightarrow> (Crash, R)
        | Inr m \<Rightarrow> (Ok m, R\<lparr>ir_memory := Some m\<rparr>)))"

definition memory_size ::
  "('args, 'mem) wasmi_host \<Rightarrow> ('mem import_resolver, wasmi_error, u32) oper" where
  "memory_size W = rbind (memory_ref W) (\<lambda>m. pure (word_of_nat (wh_size W m)))"

definition resolve_func :: "'mem import_resolver \<Rightarrow> string \<Rightarrow> wasmi_error + func_ref" where
  "resolve_func R field_name =
    (if field_name = ''storage_read'' then Inr (host SIG_STORAGE_READ STORAGE_READ_FUNC)
     else if field_name = ''storage_write'' then Inr (host SIG_STORAGE_WRITE STORAGE_WRITE_FUNC)
     else if field_name = ''ret'' then Inr (host SIG_RET RET_FUNC)
     else if field_name = ''gas'' then Inr (host SIG_GAS GAS_FUNC)
     else if field_name = ''input_length'' then Inr (host SIG_INPUT_LENGTH INPUT_LENGTH_FUNC)
     else if field_name = ''fetch_input'' then Inr (host SIG_FETCH_INPUT FETCH_INPUT_FUNC)
     else if field_name = ''panic'' then Inr (host SIG_PANIC PANIC_FUNC)
     else if field_name = ''debug'' then Inr (host SIG_DEBUG DEBUG_FUNC)
     else if field_name = ''ccall'' then Inr (host SIG_CCALL CCALL_FUNC)
     else if field_name = ''dcall'' then Inr (host SIG_DCALL DCALL_FUNC)
     else if field_name = ''scall'' then Inr (host SIG_SCALL SCALL_FUNC)
     else if field_name = ''value'' then Inr (host SIG_VALUE VALUE_FUNC)
     else if field_name = ''create'' then Inr (host SIG_CREATE CREATE_FUNC)
     else if field_name = ''suicide'' then Inr (host SIG_SUICIDE SUICIDE_FUNC)
     else if field_name = ''block_hash'' then Inr (host SIG_BLOCK_HASH BLOCK_HASH_FUNC)
     else if field_name = ''blocknumber'' then Inr (host SIG_BLOCK_NUMBER BLOCK_NUMBER_FUNC)
     else if field_name = ''coinbase'' then Inr (host SIG_BLOCK_AUTHOR BLOCK_AUTHOR_FUNC)
     else if field_name = ''difficulty'' then Inr (host SIG_DIFFICULTY DIFFICULTY_FUNC)
     else if field_name = ''gaslimit'' then Inr (host SIG_GASLIMIT GASLIMIT_FUNC)
     else if field_name = ''timestamp'' then Inr (host SIG_TIMESTAMP TIMESTAMP_FUNC)
     else if field_name = ''address'' then Inr (host SIG_ADDRESS ADDRESS_FUNC)
     else if field_name = ''sender'' then Inr (host SIG_SENDER SENDER_FUNC)
     else if field_name = ''origin'' then Inr (host SIG_ORIGIN ORIGIN_FUNC)
     else if field_name = ''elog'' then Inr (host SIG_ELOG ELOG_FUNC)
     else if field_name = ''create2'' \<and> ir_have_create2 R then Inr (host SIG_CREATE2 CREATE2_FUNC)
     else if field_name = ''gasleft'' \<and> ir_have_gasleft R then Inr (host SIG_GASLEFT GASLEFT_FUNC)
     else Inl (ErrInstantiation (''Export '' @ field_name @ '' not found'')))"

text \<open>A memory import: initial pages and, when given, maximal pages.\<close>

record memory_descriptor =
  md_initial :: u32
  md_maximum :: "u32 option"

definition resolve_memory ::
  "('args, 'mem) wasmi_host \<Rightarrow> string \<Rightarrow> memory_descriptor \<Rightarrow>
   ('mem import_resolver, wasmi_error, 'mem) oper" where
  "resolve_memory W field_name descriptor R =
     (if field_name = ''memory'' then
        (case plus_op (wh_overflow_checks W) (ir_max_memory R) 1 of
           Ok dflt \<Rightarrow>
             (let effective_max = (case md_maximum descriptor of Some m \<Rightarrow> m | None \<Rightarrow> dflt) in
              if ir_max_memory R < md_initial descriptor \<or> ir_max_memory R < effective_max then
                (Err (ErrInstantiation ''Module requested too much memory''), R)
              else
                (case wh_alloc W (unat (md_initial descriptor))
                        (map_option unat (md_maximum descriptor)) of
                   Inl e \<Rightarrow> (Err e, R)
                 | Inr mem \<Rightarrow> (Ok mem, R\<lparr>ir_memory := Some mem\<rparr>)))
         | Err e \<Rightarrow> (Err e, R)
         | Crash \<Rightarrow> (Crash, R))
      else (Err (ErrInstantiation ''Memory imported under unknown name''), R))"

end
