(* ===== verification/Providers.thy ===== *)
theory Providers
  imports Errors
begin

text \<open>
  \<open>durian/src/provider.rs\<close>: the interface through which the stateless machine sees a
  blockchain. A trait object is a method table (the record \<open>provider\<close>) together with the
  state of the object it belongs to, of any type \<open>'p\<close>. Methods that take a shared reference
  read the state; methods that take a mutable one are operations on it. Any method may panic.
\<close>

record state_account =
  sa_nonce :: u256
  sa_balance :: u256
  sa_code :: bytes

record 'p provider =
  pv_exist :: "'p \<Rightarrow> address \<Rightarrow> bool"
  pv_account :: "'p \<Rightarrow> address \<Rightarrow> (error, state_account) outcome"
  pv_update_account :: "address \<Rightarrow> u256 \<Rightarrow> u256 \<Rightarrow> ('p, error, unit) oper"
  pv_create_contract :: "address \<Rightarrow> bytes \<Rightarrow> ('p, error, unit) oper"
  pv_storage_at :: "'p \<Rightarrow> address \<Rightarrow> h256 \<Rightarrow> (error, h256) outcome"
  pv_set_storage :: "address \<Rightarrow> h256 \<Rightarrow> h256 \<Rightarrow> ('p, error, unit) oper"
  pv_timestamp :: "'p \<Rightarrow> (error, u64) outcome"
  pv_block_number :: "'p \<Rightarrow> (error, u64) outcome"
  pv_block_hash :: "'p \<Rightarrow> u64 \<Rightarrow> (error, h256) outcome"
  pv_block_author :: "'p \<Rightarrow> (error, address) outcome"
  pv_difficulty :: "'p \<Rightarrow> (error, u256) outcome"
  pv_gas_limit :: "'p \<Rightarrow> (error, u256) outcome"

section \<open>What can be observed of a provider\<close>

definition acct :: "'p provider \<Rightarrow> 'p \<Rightarrow> address \<rightharpoonup> state_account" where
  "acct P p a = (case pv_account P p a of Ok x \<Rightarrow> Some x | _ \<Rightarrow> None)"

definition stored :: "'p provider \<Rightarrow> 'p \<Rightarrow> address \<Rightarrow> h256 \<rightharpoonup> h256" where
  "stored P p a k = (case pv_storage_at P p a k of Ok x \<Rightarrow> Some x | _ \<Rightarrow> None)"

lemma acct_Some: "acct P p a = Some x \<longleftrightarrow> pv_account P p a = Ok x"
  by (auto simp: acct_def split: outcome.splits)

lemma stored_Some: "stored P p a k = Some x \<longleftrightarrow> pv_storage_at P p a k = Ok x"
  by (auto simp: stored_def split: outcome.splits)

text \<open>Lookups that never panic, at one provider state.\<close>

definition quiet :: "'p provider \<Rightarrow> 'p \<Rightarrow> bool" where
  "quiet P p \<longleftrightarrow> (\<forall>a. pv_account P p a \<noteq> Crash) \<and> (\<forall>a k. pv_storage_at P p a k \<noteq> Crash)"

section \<open>The contract of a provider\<close>

text \<open>
  What the machine relies on when it writes its changes back: the mutating methods succeed
  where the account exists (or, for creation, does not), keep the provider's own invariant,
  and change exactly the account or the storage slot they name. A provider may be able to
  create a bounded number of contracts only; \<open>room\<close> says how many are left. A provider that
  can create contracts and store values is a \<open>provider_store\<close>; whether it can also overwrite
  the balance and the nonce of an account is the flag \<open>updates\<close>, and one that can satisfies
  the whole contract.
\<close>

locale provider_store =
  fixes P :: "'p provider"
    and inv :: "'p \<Rightarrow> bool"
    and room :: "'p \<Rightarrow> nat"
    and fresh :: "bytes \<Rightarrow> state_account"
    and updates :: bool
  assumes inv_quiet: "inv p \<Longrightarrow> quiet P p"
    and exist_iff: "inv p \<Longrightarrow> pv_exist P p a \<longleftrightarrow> acct P p a \<noteq> None"
    and fresh_code: "sa_code (fresh c) = c"
    and create_ok: "inv p \<Longrightarrow> acct P p a = None \<Longrightarrow> 0 < room p \<Longrightarrow>
      \<exists>p'. pv_create_contract P a c p = (Ok (), p') \<and> inv p' \<and> room p \<le> Suc (room p') \<and>
        acct P p' = (acct P p)(a \<mapsto> fresh c) \<and> stored P p' = stored P p"
    and set_ok: "inv p \<Longrightarrow> acct P p a \<noteq> None \<Longrightarrow>
      \<exists>p'. pv_set_storage P a k v p = (Ok (), p') \<and> inv p' \<and> room p' = room p \<and>
        acct P p' = acct P p \<and>
        stored P p' = (stored P p)(a := (stored P p a)(k \<mapsto> v))"
    and update_ok: "updates \<Longrightarrow> inv p \<Longrightarrow> acct P p a = Some acc \<Longrightarrow>
      \<exists>p'. pv_update_account P a b n p = (Ok (), p') \<and> inv p' \<and> room p' = room p \<and>
        acct P p' = (acct P p)(a \<mapsto> acc\<lparr>sa_balance := b, sa_nonce := n\<rparr>) \<and>
        stored P p' = stored P p"

locale provider_contract = provider_store P inv room fresh True
  for P :: "'p provider" and inv :: "'p \<Rightarrow> bool" and room :: "'p \<Rightarrow> nat"
    and fresh :: "bytes \<Rightarrow> state_account"

end
