(* ===== verification/Account_State.thy ===== *)
theory Account_State
  imports Providers
begin

text \<open>
  \<open>durian/src/state.rs\<close>: the write-back cache that a running contract works on. Accounts and
  storage slots are fetched from the provider on first use, changed in the cache only, and
  written back by \<open>update_state\<close> at the end of a successful execution. A method that hands
  out a mutable reference is modelled by the update its callers apply through it.
\<close>

section \<open>Data\<close>

record account_info =
  ai_nonce :: u256
  ai_balance :: u256
  ai_code :: bytes
  ai_storage :: "h256 \<rightharpoonup> h256 \<times> bool"

definition account_info_new :: "u256 \<Rightarrow> u256 \<Rightarrow> bytes \<Rightarrow> account_info" where
  "account_info_new nonce balance code =
     \<lparr>ai_nonce = nonce, ai_balance = balance, ai_code = code, ai_storage = Map.empty\<rparr>"

record 'p state =
  st_provider :: 'p
  st_accounts :: "address \<rightharpoonup> account_info \<times> bool"

definition state_new :: "'p \<Rightarrow> 'p state" where
  "state_new p = \<lparr>st_provider = p, st_accounts = Map.empty\<rparr>"

text \<open>The iteration orders of the two hash maps, as functions of their contents.\<close>

record hash_orders =
  ho_accounts :: "(address \<rightharpoonup> account_info \<times> bool) \<Rightarrow> address list"
  ho_storage :: "(h256 \<rightharpoonup> h256 \<times> bool) \<Rightarrow> h256 list"

text \<open>An order lists every entry of a map once; which order it is stays open.\<close>

definition fair_orders :: "hash_orders \<Rightarrow> bool" where
  "fair_orders H \<longleftrightarrow> (\<forall>m. finite (dom m) \<longrightarrow> enumerates (ho_accounts H m) m) \<and>
     (\<forall>m. finite (dom m) \<longrightarrow> enumerates (ho_storage H m) m)"

section \<open>Fetching\<close>

text \<open>
  The source passes \<open>acc.balance\<close> and \<open>acc.nonce\<close> in this order to \<open>AccountInfo::new\<close>,
  whose first parameter is the nonce; the model does the same.
\<close>

definition fetch_account :: "'p provider \<Rightarrow> address \<Rightarrow> ('p state, error, unit) oper" where
  "fetch_account P address s =
     (case st_accounts s address of
        Some _ \<Rightarrow> (Ok (), s)
      | None \<Rightarrow>
        (case pv_account P (st_provider s) address of
           Ok acc \<Rightarrow>
             (Ok (), s\<lparr>st_accounts := (st_accounts s)
               (address \<mapsto> (account_info_new (sa_balance acc) (sa_nonce acc) (sa_code acc), False))\<rparr>)
         | Err _ \<Rightarrow>
             (Ok (), s\<lparr>st_accounts := (st_accounts s)
               (address \<mapsto> (account_info_new 0 1 [], False))\<rparr>)
         | Crash \<Rightarrow> (Crash, s)))"

definition account_mut ::
  "'p provider \<Rightarrow> address \<Rightarrow> (account_info \<times> bool \<Rightarrow> account_info \<times> bool) \<Rightarrow>
   ('p state, error, unit) oper" where
  "account_mut P address g =
     rbind (fetch_account P address) (\<lambda>_ s.
       case st_accounts s address of
         Some acc \<Rightarrow> (Ok (), s\<lparr>st_accounts := (st_accounts s)(address \<mapsto> g acc)\<rparr>)
       | None \<Rightarrow> (Crash, s))"

definition account :: "'p provider \<Rightarrow> address \<Rightarrow> ('p state, error, account_info) oper" where
  "account P address =
     rbind (fetch_account P address) (\<lambda>_ s.
       case st_accounts s address of
         Some acc \<Rightarrow> (Ok (fst acc), s)
       | None \<Rightarrow> (Crash, s))"

definition insert_slot :: "h256 \<Rightarrow> h256 \<Rightarrow> bool \<Rightarrow> account_info \<times> bool \<Rightarrow> account_info \<times> bool" where
  "insert_slot key val dirty acc =
     ((fst acc)\<lparr>ai_storage := (ai_storage (fst acc))(key \<mapsto> (val, dirty))\<rparr>, snd acc)"

definition fetch_storage :: "'p provider \<Rightarrow> address \<Rightarrow> h256 \<Rightarrow> ('p state, error, unit) oper" where
  "fetch_storage P address key =
     rbind (account P address) (\<lambda>acc.
       if ai_storage acc key \<noteq> None then pure ()
       else (\<lambda>s. case pv_storage_at P (st_provider s) address key of
           Ok val \<Rightarrow> account_mut P address (insert_slot key val False) s
         | Err _ \<Rightarrow> (Ok (), s)
         | Crash \<Rightarrow> (Crash, s)))"

section \<open>The methods the runtime calls\<close>

definition nonce :: "'p provider \<Rightarrow> address \<Rightarrow> ('p state, error, u256) oper" where
  "nonce P address = rbind (account P address) (\<lambda>acc. pure (ai_nonce acc))"

definition balance :: "'p provider \<Rightarrow> address \<Rightarrow> ('p state, error, u256) oper" where
  "balance P address = rbind (account P address) (\<lambda>acc. pure (ai_balance acc))"

definition exist :: "'p provider \<Rightarrow> address \<Rightarrow> 'p state \<Rightarrow> bool" where
  "exist P address s = pv_exist P (st_provider s) address"

text \<open>The source answers \<open>timestamp\<close> with the provider's block number.\<close>

definition timestamp :: "'p provider \<Rightarrow> 'p state \<Rightarrow> (error, u64) outcome" where
  "timestamp P s = pv_block_number P (st_provider s)"

definition block_number :: "'p provider \<Rightarrow> 'p state \<Rightarrow> (error, u64) outcome" where
  "block_number P s = pv_block_number P (st_provider s)"

definition block_hash :: "'p provider \<Rightarrow> u64 \<Rightarrow> 'p state \<Rightarrow> (error, h256) outcome" where
  "block_hash P block_no s = pv_block_hash P (st_provider s) block_no"

definition block_author :: "'p provider \<Rightarrow> 'p state \<Rightarrow> (error, address) outcome" where
  "block_author P s = pv_block_author P (st_provider s)"

definition difficulty :: "'p provider \<Rightarrow> 'p state \<Rightarrow> (error, u256) outcome" where
  "difficulty P s = pv_difficulty P (st_provider s)"

definition gas_limit :: "'p provider \<Rightarrow> 'p state \<Rightarrow> (error, u256) outcome" where
  "gas_limit P s = pv_gas_limit P (st_provider s)"

definition storage_at :: "'p provider \<Rightarrow> address \<Rightarrow> h256 \<Rightarrow> ('p state, error, h256) oper" where
  "storage_at P address key =
     rbind (fetch_storage P address key) (\<lambda>_.
     rbind (account P address) (\<lambda>acc.
       pure (case ai_storage acc key of Some v \<Rightarrow> fst v | None \<Rightarrow> 0)))"

definition set_storage :: "'p provider \<Rightarrow> address \<Rightarrow> h256 \<Rightarrow> h256 \<Rightarrow> ('p state, error, unit) oper" where
  "set_storage P address key val = unwrap_op (account_mut P address (insert_slot key val True))"

definition init_code :: "'p provider \<Rightarrow> address \<Rightarrow> bytes \<Rightarrow> ('p state, error, unit) oper" where
  "init_code P address code =
     unwrap_op (account_mut P address (\<lambda>acc. ((fst acc)\<lparr>ai_code := code\<rparr>, True)))"

section \<open>Writing back\<close>

fun flush_storage ::
  "'p provider \<Rightarrow> address \<Rightarrow> (h256 \<times> h256 \<times> bool) list \<Rightarrow> ('p, error, unit) oper" where
  "flush_storage P addr [] = pure ()"
| "flush_storage P addr ((key, v, dirty) # slots) =
     rbind (if dirty then pv_set_storage P addr key v else pure ())
       (\<lambda>_. flush_storage P addr slots)"

definition flush_account ::
  "'p provider \<Rightarrow> address \<Rightarrow> account_info \<Rightarrow> bool \<Rightarrow> ('p, error, unit) oper" where
  "flush_account P addr acc dirty =
     (if dirty then (\<lambda>p.
        if \<not> pv_exist P p addr then pv_create_contract P addr (ai_code acc) p
        else pv_update_account P addr (ai_balance acc) (ai_nonce acc) p)
      else pure ())"

fun flush_accounts ::
  "hash_orders \<Rightarrow> 'p provider \<Rightarrow> (address \<times> account_info \<times> bool) list \<Rightarrow>
   ('p, error, unit) oper" where
  "flush_accounts H P [] = pure ()"
| "flush_accounts H P ((addr, acc, dirty) # accs) =
     rbind (flush_account P addr acc dirty) (\<lambda>_.
     rbind (flush_storage P addr (entries (ho_storage H (ai_storage acc)) (ai_storage acc))) (\<lambda>_.
       flush_accounts H P accs))"

definition update_state :: "hash_orders \<Rightarrow> 'p provider \<Rightarrow> ('p state, error, unit) oper" where
  "update_state H P s =
     (let (r, p') = flush_accounts H P
            (entries (ho_accounts H (st_accounts s)) (st_accounts s)) (st_provider s)
      in (r, s\<lparr>st_provider := p'\<rparr>))"

section \<open>What the cache stands for\<close>

text \<open>
  The entry an account has, or would get when fetched, and the storage value a contract sees:
  the cached one, else the provider's, else zero.
\<close>

definition fetched :: "'p provider \<Rightarrow> 'p \<Rightarrow> address \<Rightarrow> account_info" where
  "fetched P p a = (case acct P p a of
     Some acc \<Rightarrow> account_info_new (sa_balance acc) (sa_nonce acc) (sa_code acc)
   | None \<Rightarrow> account_info_new 0 1 [])"

definition cached :: "'p provider \<Rightarrow> 'p state \<Rightarrow> address \<Rightarrow> account_info \<times> bool" where
  "cached P s a = (case st_accounts s a of
     Some e \<Rightarrow> e | None \<Rightarrow> (fetched P (st_provider s) a, False))"

definition storage_view :: "'p provider \<Rightarrow> 'p state \<Rightarrow> address \<Rightarrow> h256 \<Rightarrow> h256" where
  "storage_view P s a k = (case ai_storage (fst (cached P s a)) k of
     Some v \<Rightarrow> fst v
   | None \<Rightarrow> (case stored P (st_provider s) a k of Some v \<Rightarrow> v | None \<Rightarrow> 0))"

definition put_account :: "address \<Rightarrow> account_info \<times> bool \<Rightarrow> 'p state \<Rightarrow> 'p state" where
  "put_account a e s = s\<lparr>st_accounts := (st_accounts s)(a \<mapsto> e)\<rparr>"

text \<open>The entry left behind by a read of slot \<open>k\<close>.\<close>

definition loaded :: "'p provider \<Rightarrow> 'p state \<Rightarrow> address \<Rightarrow> h256 \<Rightarrow> account_info \<times> bool" where
  "loaded P s a k = (case ai_storage (fst (cached P s a)) k of
     Some _ \<Rightarrow> cached P s a
   | None \<Rightarrow> (case stored P (st_provider s) a k of
       Some v \<Rightarrow> insert_slot k v False (cached P s a)
     | None \<Rightarrow> cached P s a))"

lemma st_provider_put [simp]: "st_provider (put_account a e s) = st_provider s"
  by (simp add: put_account_def)

lemma st_accounts_put [simp]: "st_accounts (put_account a e s) = (st_accounts s)(a \<mapsto> e)"
  by (simp add: put_account_def)

lemma put_account_twice [simp]: "put_account a e (put_account a e' s) = put_account a e s"
  by (simp add: put_account_def)

lemma cached_put [simp]: "cached P (put_account a e s) b = (if b = a then e else cached P s b)"
  by (simp add: cached_def split: option.split)

lemma put_cached: "st_accounts s a = Some e \<Longrightarrow> put_account a e s = s"
  by (simp add: put_account_def map_upd_triv)

lemma insert_slot_simps [simp]:
  "ai_storage (fst (insert_slot k v d e)) = (ai_storage (fst e))(k \<mapsto> (v, d))"
  "ai_nonce (fst (insert_slot k v d e)) = ai_nonce (fst e)"
  "ai_balance (fst (insert_slot k v d e)) = ai_balance (fst e)"
  "ai_code (fst (insert_slot k v d e)) = ai_code (fst e)"
  "snd (insert_slot k v d e) = snd e"
  by (simp_all add: insert_slot_def)

lemma fetched_storage [simp]: "ai_storage (fetched P p a) = Map.empty"
  by (simp add: fetched_def account_info_new_def split: option.splits)

section \<open>Closed forms of the methods\<close>

text \<open>Where the provider's lookups do not panic, every method of the cache succeeds.\<close>

lemma quietD:
  "quiet P p \<Longrightarrow> pv_account P p a \<noteq> Crash" "quiet P p \<Longrightarrow> pv_storage_at P p a k \<noteq> Crash"
  by (simp_all add: quiet_def)

lemma fetch_account_run:
  assumes "quiet P (st_provider s)"
  shows "fetch_account P a s = (Ok (), put_account a (cached P s a) s)"
proof (cases "st_accounts s a")
  case None
  with quietD(1) [OF assms, of a] show ?thesis
    by (auto simp: fetch_account_def cached_def fetched_def acct_def put_account_def
        split: outcome.splits)
next
  case (Some e)
  then show ?thesis by (simp add: fetch_account_def cached_def put_cached)
qed

lemma account_run:
  "quiet P (st_provider s) \<Longrightarrow>
    account P a s = (Ok (fst (cached P s a)), put_account a (cached P s a) s)"
  by (simp add: account_def rbind_def fetch_account_run)

lemma account_mut_run:
  "quiet P (st_provider s) \<Longrightarrow> account_mut P a g s = (Ok (), put_account a (g (cached P s a)) s)"
  by (simp add: account_mut_def rbind_def fetch_account_run put_account_def)

lemma fetch_storage_run:
  assumes q: "quiet P (st_provider s)"
  shows "fetch_storage P a k s = (Ok (), put_account a (loaded P s a k) s)"
proof (cases "ai_storage (fst (cached P s a)) k")
  case (Some v)
  with q show ?thesis
    by (simp add: fetch_storage_def rbind_def account_run loaded_def pure_run)
next
  case None
  with quietD(2) [OF q, of a k] q show ?thesis
    by (cases "pv_storage_at P (st_provider s) a k")
      (simp_all add: fetch_storage_def rbind_def account_run account_mut_run loaded_def stored_def)
qed

lemma storage_at_run:
  assumes q: "quiet P (st_provider s)"
  shows "storage_at P a k s = (Ok (storage_view P s a k), put_account a (loaded P s a k) s)"
proof -
  have "(case ai_storage (fst (loaded P s a k)) k of Some v \<Rightarrow> fst v | None \<Rightarrow> 0)
      = storage_view P s a k"
    by (auto simp: loaded_def storage_view_def split: option.splits)
  with q show ?thesis
    by (simp add: storage_at_def rbind_def fetch_storage_run account_run pure_run)
qed

lemma set_storage_run:
  "quiet P (st_provider s) \<Longrightarrow>
    set_storage P a k v s = (Ok (), put_account a (insert_slot k v True (cached P s a)) s)"
  by (simp add: set_storage_def unwrap_op_def account_mut_run)

lemma init_code_run:
  "quiet P (st_provider s) \<Longrightarrow> init_code P a code s =
    (Ok (), put_account a ((fst (cached P s a))\<lparr>ai_code := code\<rparr>, True) s)"
  by (simp add: init_code_def unwrap_op_def account_mut_run)

lemma balance_run:
  "quiet P (st_provider s) \<Longrightarrow>
    balance P a s = (Ok (ai_balance (fst (cached P s a))), put_account a (cached P s a) s)"
  by (simp add: balance_def rbind_def account_run pure_run)

lemma nonce_run:
  "quiet P (st_provider s) \<Longrightarrow>
    nonce P a s = (Ok (ai_nonce (fst (cached P s a))), put_account a (cached P s a) s)"
  by (simp add: nonce_def rbind_def account_run pure_run)

lemmas state_runs = fetch_account_run account_run account_mut_run fetch_storage_run
  storage_at_run set_storage_run init_code_run balance_run nonce_run

section \<open>Views\<close>

text \<open>Reads leave the view alone; a write changes it at one slot.\<close>

lemma view_put_cached: "storage_view P (put_account a (cached P s a) s) = storage_view P s"
  by (intro ext) (simp add: storage_view_def split: option.split)

lemma view_put_loaded: "storage_view P (put_account a (loaded P s a k) s) = storage_view P s"
  by (intro ext) (auto simp: storage_view_def loaded_def split: option.splits)

lemma view_put_slot:
  "storage_view P (put_account a (insert_slot k v d (cached P s a)) s) =
    (storage_view P s)(a := (storage_view P s a)(k := v))"
  by (intro ext) (simp add: storage_view_def split: option.split)

lemma view_put_code:
  "storage_view P (put_account a ((fst (cached P s a))\<lparr>ai_code := c\<rparr>, True) s) = storage_view P s"
  by (intro ext) (simp add: storage_view_def split: option.split)

section \<open>The frame of the cache\<close>

text \<open>
  The cache as a contract running at address \<open>a\<close> may leave it: no account but its own is
  cached, and that one is not marked for writing, agrees with the provider in nonce, balance
  and code, and holds the provider's value in every slot not marked for writing.
\<close>

definition agrees :: "'p provider \<Rightarrow> 'p \<Rightarrow> address \<Rightarrow> account_info \<times> bool \<Rightarrow> bool" where
  "agrees P p a e \<longleftrightarrow> \<not> snd e \<and> finite (dom (ai_storage (fst e))) \<and>
     ai_nonce (fst e) = ai_nonce (fetched P p a) \<and>
     ai_balance (fst e) = ai_balance (fetched P p a) \<and>
     ai_code (fst e) = ai_code (fetched P p a) \<and>
     (\<forall>k v. ai_storage (fst e) k = Some (v, False) \<longrightarrow> stored P p a k = Some v)"

definition own :: "'p provider \<Rightarrow> address \<Rightarrow> 'p state \<Rightarrow> bool" where
  "own P a s \<longleftrightarrow> (\<forall>b e. st_accounts s b = Some e \<longrightarrow> b = a \<and> agrees P (st_provider s) a e)"

text \<open>
  No method that a running contract reaches touches the provider, forgets an account, or
  leaves that shape when called with the contract's own address.
\<close>

definition st_own :: "'p provider \<Rightarrow> address \<Rightarrow> 'p state \<Rightarrow> 'p state \<Rightarrow> bool" where
  "st_own P a s t \<longleftrightarrow> st_provider t = st_provider s \<and> dom (st_accounts s) \<subseteq> dom (st_accounts t) \<and>
     (own P a s \<longrightarrow> own P a t)"

interpretation st: step_frame "st_own P a" for P a
  by unfold_locales (auto simp: st_own_def)

lemma own_new: "own P a (state_new p)"
  by (simp add: own_def state_new_def)

lemma agrees_fetched: "agrees P p a (fetched P p a, False)"
  by (simp add: agrees_def)

lemma agrees_cached: "own P a s \<Longrightarrow> agrees P (st_provider s) a (cached P s a)"
proof (cases "st_accounts s a")
  case (Some e)
  assume "own P a s"
  with Some have "agrees P (st_provider s) a e" unfolding own_def by blast
  with Some show ?thesis by (simp add: cached_def)
qed (simp add: cached_def agrees_fetched)

lemma agrees_insert_dirty: "agrees P p a e \<Longrightarrow> agrees P p a (insert_slot k v True e)"
  by (simp add: agrees_def)

lemma agrees_insert_clean:
  "agrees P p a e \<Longrightarrow> stored P p a k = Some v \<Longrightarrow> agrees P p a (insert_slot k v False e)"
  by (simp add: agrees_def)

lemma st_own_put:
  "(agrees P (st_provider s) a (cached P s a) \<Longrightarrow> agrees P (st_provider s) a e) \<Longrightarrow>
    st_own P a s (put_account a e s)"
proof -
  assume e: "agrees P (st_provider s) a (cached P s a) \<Longrightarrow> agrees P (st_provider s) a e"
  have "own P a (put_account a e s)" if o: "own P a s"
    unfolding own_def
  proof (intro allI impI)
    fix b e'
    assume b: "st_accounts (put_account a e s) b = Some e'"
    show "b = a \<and> agrees P (st_provider (put_account a e s)) a e'"
    proof (cases "b = a")
      case True
      with b have "e' = e" by simp
      with True e [OF agrees_cached [OF o]] show ?thesis by simp
    next
      case False
      with b have "st_accounts s b = Some e'" by simp
      with o show ?thesis unfolding own_def st_provider_put by blast
    qed
  qed
  then show ?thesis by (auto simp: st_own_def)
qed

lemma fetch_account_cases:
  "fetch_account P a s = (Ok (), put_account a (cached P s a) s) \<or> fetch_account P a s = (Crash, s)"
proof (cases "st_accounts s a")
  case None
  then show ?thesis
    by (cases "pv_account P (st_provider s) a")
      (simp_all add: fetch_account_def cached_def fetched_def acct_def put_account_def)
next
  case (Some e)
  then show ?thesis by (simp add: fetch_account_def cached_def put_cached)
qed

lemma st_own_fetch_account [frame_intros]: "stays (st_own P a) (fetch_account P a)"
proof (rule staysI)
  show "st_own P a s (snd (fetch_account P a s))" for s
    using fetch_account_cases [of P a s] st_own_put [of P s a "cached P s a"]
    by (auto simp: st.frame_refl)
qed

lemma st_own_account [frame_intros]: "stays (st_own P a) (account P a)"
  unfolding account_def
  by (intro st.stays_rbind st_own_fetch_account st.stays_const) (simp split: option.split)

text \<open>An update through the mutable reference, when it keeps an entry in agreement.\<close>

lemma st_own_account_mut:
  "(\<And>e. agrees P (st_provider s) a e \<Longrightarrow> agrees P (st_provider s) a (g e)) \<Longrightarrow>
    st_own P a s (snd (account_mut P a g s))"
proof -
  assume g: "\<And>e. agrees P (st_provider s) a e \<Longrightarrow> agrees P (st_provider s) a (g e)"
  have put: "st_own P a s (put_account a (g (cached P s a)) s)"
    using g by (rule st_own_put)
  consider "fetch_account P a s = (Ok (), put_account a (cached P s a) s)"
    | "fetch_account P a s = (Crash, s)" using fetch_account_cases by blast
  then show ?thesis
  proof cases
    case 1
    with put show ?thesis by (simp add: account_mut_def rbind_def put_account_def)
  qed (simp add: account_mut_def rbind_def st.frame_refl)
qed

lemma st_own_fetch_storage [frame_intros]: "stays (st_own P a) (fetch_storage P a k)"
  unfolding fetch_storage_def
proof (intro st.stays_rbind st.stays_if st.stays_pure st_own_account staysI)
  fix s
  show "st_own P a s (snd (case pv_storage_at P (st_provider s) a k of
        Ok val \<Rightarrow> account_mut P a (insert_slot k val False) s
      | Err _ \<Rightarrow> (Ok (), s) | Crash \<Rightarrow> (Crash, s)))"
    by (cases "pv_storage_at P (st_provider s) a k")
      (auto intro!: st_own_account_mut agrees_insert_clean simp: st.frame_refl stored_Some)
qed

lemma st_own_storage_at [frame_intros]: "stays (st_own P a) (storage_at P a k)"
  unfolding storage_at_def by (intro st.stays_rules st_own_fetch_storage st_own_account)

lemma st_own_set_storage [frame_intros]: "stays (st_own P a) (set_storage P a k v)"
  unfolding set_storage_def
  by (intro st.stays_rules staysI st_own_account_mut agrees_insert_dirty)

lemma st_own_balance [frame_intros]: "stays (st_own P a) (balance P a)"
  unfolding balance_def by (intro st.stays_rules st_own_account)

end
