(* ===== verification/Utf8.thy ===== *)
theory Utf8
  imports Codec
begin

text \<open>
  The UTF-8 decoding of Rust's standard library as the program uses it:
  \<open>String::from_utf8\<close> (the debug host call) and \<open>String::from_utf8_lossy\<close> (the panic
  payload). Text is kept as its UTF-8 bytes, so a valid string decodes to itself and each
  maximal broken sequence becomes the replacement character U+FFFD, bytes EF BF BD.
\<close>

section \<open>One encoded character\<close>

definition cont :: "u8 \<Rightarrow> bool" where
  "cont b \<longleftrightarrow> 0x80 \<le> b \<and> b \<le> 0xBF"

definition second3 :: "u8 \<Rightarrow> u8 \<Rightarrow> bool" where
  "second3 a b \<longleftrightarrow>
     a = 0xE0 \<and> 0xA0 \<le> b \<and> b \<le> 0xBF
   \<or> 0xE1 \<le> a \<and> a \<le> 0xEC \<and> cont b
   \<or> a = 0xED \<and> 0x80 \<le> b \<and> b \<le> 0x9F
   \<or> 0xEE \<le> a \<and> a \<le> 0xEF \<and> cont b"

definition second4 :: "u8 \<Rightarrow> u8 \<Rightarrow> bool" where
  "second4 a b \<longleftrightarrow>
     a = 0xF0 \<and> 0x90 \<le> b \<and> b \<le> 0xBF
   \<or> 0xF1 \<le> a \<and> a \<le> 0xF3 \<and> cont b
   \<or> a = 0xF4 \<and> 0x80 \<le> b \<and> b \<le> 0x8F"

definition byte_at :: "bytes \<Rightarrow> nat \<Rightarrow> u8" where
  "byte_at bs i = (if i < length bs then bs ! i else 0)"

text \<open>
  Whether the bytes start with a well-formed character, and how many bytes are taken: the
  character, or the longest prefix that could have started one.
\<close>

definition utf8_unit :: "bytes \<Rightarrow> bool \<times> nat" where
  "utf8_unit bs = (let b = byte_at bs 0 in
     if b < 0x80 then (True, 1)
     else if 0xC2 \<le> b \<and> b \<le> 0xDF then
       (if cont (byte_at bs 1) then (True, 2) else (False, 1))
     else if 0xE0 \<le> b \<and> b \<le> 0xEF then
       (if \<not> second3 b (byte_at bs 1) then (False, 1)
        else if cont (byte_at bs 2) then (True, 3) else (False, 2))
     else if 0xF0 \<le> b \<and> b \<le> 0xF4 then
       (if \<not> second4 b (byte_at bs 1) then (False, 1)
        else if \<not> cont (byte_at bs 2) then (False, 2)
        else if cont (byte_at bs 3) then (True, 4) else (False, 3))
     else (False, 1))"

fun utf8_valid :: "bytes \<Rightarrow> bool" where
  "utf8_valid [] = True"
| "utf8_valid (b # bs) = (case utf8_unit (b # bs) of
     (True, n) \<Rightarrow> utf8_valid (drop (n - 1) bs)
   | (False, n) \<Rightarrow> False)"

fun from_utf8_lossy :: "bytes \<Rightarrow> bytes" where
  "from_utf8_lossy [] = []"
| "from_utf8_lossy (b # bs) = (case utf8_unit (b # bs) of
     (True, n) \<Rightarrow> b # take (n - 1) bs @ from_utf8_lossy (drop (n - 1) bs)
   | (False, n) \<Rightarrow> [0xEF, 0xBF, 0xBD] @ from_utf8_lossy (drop (n - 1) bs))"

definition from_utf8 :: "'e \<Rightarrow> bytes \<Rightarrow> ('e, bytes) outcome" where
  "from_utf8 e bs = (if utf8_valid bs then Ok bs else Err e)"

section \<open>Decoding keeps valid text and always yields valid text\<close>

lemma byte_at_beyond: "length bs \<le> i \<Longrightarrow> byte_at bs i = 0"
  by (simp add: byte_at_def)

lemma zero_not_cont [simp]: "\<not> cont 0" "\<not> second3 a 0" "\<not> second4 a 0"
  by (auto simp: cont_def second3_def second4_def)

lemma cont_within: "cont (byte_at bs i) \<Longrightarrow> i < length bs"
  by (metis byte_at_beyond not_le zero_not_cont(1))

lemma utf8_unit_length: "utf8_unit bs = (True, n) \<Longrightarrow> bs \<noteq> [] \<Longrightarrow> 1 \<le> n \<and> n \<le> length bs"
  using cont_within [of bs 1] cont_within [of bs 2] cont_within [of bs 3]
  by (auto simp: utf8_unit_def Let_def neq_Nil_conv split: if_splits)

lemma utf8_unit_prefix:
  assumes "utf8_unit bs = (True, n)" and "bs \<noteq> []"
  shows "utf8_unit (take n bs @ r) = (True, n)"
proof -
  have n: "1 \<le> n" "n \<le> length bs" using utf8_unit_length [OF assms] by auto
  have same: "i < n \<Longrightarrow> byte_at (take n bs @ r) i = byte_at bs i" for i
    using n by (simp add: byte_at_def nth_append)
  have "n \<in> {1, 2, 3, 4}"
    using assms(1) by (auto simp: utf8_unit_def Let_def split: if_splits)
  with assms(1) same [of 0] same [of 1] same [of 2] same [of 3] show ?thesis
    by (auto simp: utf8_unit_def Let_def split: if_splits)
qed

lemma utf8_valid_append_unit:
  assumes u: "utf8_unit (b # bs) = (True, n)" and r: "utf8_valid r"
  shows "utf8_valid (b # take (n - 1) bs @ r)"
proof -
  have n: "1 \<le> n" "n \<le> Suc (length bs)" using utf8_unit_length [OF u] by auto
  then obtain m where m: "n = Suc m" "m \<le> length bs" by (cases n) auto
  have "utf8_unit (take n (b # bs) @ r) = (True, n)"
    using u by (rule utf8_unit_prefix) simp
  with m r show ?thesis by simp
qed

lemma lossy_valid_id: "utf8_valid bs \<Longrightarrow> from_utf8_lossy bs = bs"
proof (induction bs rule: from_utf8_lossy.induct)
  case (2 b bs)
  then show ?case
    by (auto split: prod.splits bool.splits)
qed simp

lemma lossy_valid: "utf8_valid (from_utf8_lossy bs)"
proof (induction bs rule: from_utf8_lossy.induct)
  case (2 b bs)
  obtain ok n where u: "utf8_unit (b # bs) = (ok, n)" by fastforce
  show ?case
  proof (cases ok)
    case True
    with "2.IH"(1) u have "utf8_valid (from_utf8_lossy (drop (n - 1) bs))" by simp
    with u True have "utf8_valid (b # take (n - 1) bs @ from_utf8_lossy (drop (n - 1) bs))"
      by (intro utf8_valid_append_unit) auto
    with u True show ?thesis by simp
  next
    case False
    have "utf8_unit ([0xEF, 0xBF, 0xBD] @ r) = (True, 3)" for r
      by (simp add: utf8_unit_def byte_at_def second3_def cont_def)
    with "2.IH"(2) u False show ?thesis by simp
  qed
qed simp

lemma from_utf8_Ok [simp]: "from_utf8 e bs = Ok t \<longleftrightarrow> utf8_valid bs \<and> t = bs"
  by (auto simp: from_utf8_def)

end
