(* ===== verification/Panic_Payload.thy ===== *)
theory Panic_Payload
  imports Utf8
begin

text \<open>
  \<open>durian/src/panic_payload.rs\<close>: decoding what a contract hands to the \<open>panic\<close> host call.
  The reader is a cursor over the bytes, so its state is the list of bytes not yet read.
  \<open>Read::read_exact\<close> leaves unspecified how far a failed read has moved the cursor; that
  is the parameter \<open>short\<close>, from the bytes before the failed read to the bytes after it.
\<close>

record panic_payload =
  pp_msg :: "bytes option"
  pp_file :: "bytes option"
  pp_line :: "u32 option"
  pp_col :: "u32 option"

type_synonym 'a reader = "(bytes, unit, 'a) oper"

definition read_exact :: "(bytes \<Rightarrow> bytes) \<Rightarrow> nat \<Rightarrow> bytes reader" where
  "read_exact short n rdr =
     (if n \<le> length rdr then (Ok (take n rdr), drop n rdr) else (Err (), short rdr))"

text \<open>\<open>ReadBytesExt::read_u32\<close> with \<open>LittleEndian\<close>.\<close>

definition read_u32 :: "(bytes \<Rightarrow> bytes) \<Rightarrow> u32 reader" where
  "read_u32 short = rbind (read_exact short 4) (\<lambda>bs. pure (of_le bs))"

definition read_string :: "(bytes \<Rightarrow> bytes) \<Rightarrow> bytes option reader" where
  "read_string short =
     rbind (read_u32 short) (\<lambda>string_len.
     if string_len = 0 then pure None
     else rbind (read_exact short (unat string_len)) (\<lambda>content.
       pure (Some (from_utf8_lossy content))))"

text \<open>\<open>.ok()\<close> of a result, and the \<open>and_then\<close> that flattens the optional string.\<close>

fun ok :: "('e, 'a) outcome \<Rightarrow> 'a option" where
  "ok (Ok x) = Some x"
| "ok (Err e) = None"
| "ok Crash = None"

definition decode :: "(bytes \<Rightarrow> bytes) \<Rightarrow> bytes \<Rightarrow> panic_payload" where
  "decode short raw =
     (let (m, r1) = read_string short raw;
          (f, r2) = read_string short r1;
          (l, r3) = read_u32 short r2;
          (c, r4) = read_u32 short r3
      in \<lparr>pp_msg = Option.bind (ok m) (\<lambda>x. x), pp_file = Option.bind (ok f) (\<lambda>x. x),
          pp_line = ok l, pp_col = ok c\<rparr>)"

section \<open>The layout a contract writes\<close>

text \<open>
  The specification of the layout: a length-prefixed message, a length-prefixed file name
  (length 0 for a missing one), then line and column, all little-endian.
\<close>

fun put_string :: "bytes option \<Rightarrow> bytes" where
  "put_string None = le_bytes 4 (0 :: u32)"
| "put_string (Some t) = le_bytes 4 (word_of_nat (length t) :: u32) @ t"

definition put_payload :: "bytes option \<Rightarrow> bytes option \<Rightarrow> u32 \<Rightarrow> u32 \<Rightarrow> bytes" where
  "put_payload m f l c = put_string m @ put_string f @ le_bytes 4 l @ le_bytes 4 c"

text \<open>Text that the layout can carry: present means non-empty, short enough and valid UTF-8.\<close>

fun printable :: "bytes option \<Rightarrow> bool" where
  "printable None = True"
| "printable (Some t) = (t \<noteq> [] \<and> length t < 2 ^ 32 \<and> utf8_valid t)"

lemma read_exact_append: "length bs = n \<Longrightarrow> read_exact short n (bs @ r) = (Ok bs, r)"
  by (simp add: read_exact_def)

lemma read_u32_append: "read_u32 short (le_bytes 4 w @ r) = (Ok w, r)"
  by (simp add: read_u32_def rbind_def read_exact_append pure_run of_le_le_bytes)

lemma read_string_append:
  assumes "printable t"
  shows "read_string short (put_string t @ r) = (Ok t, r)"
proof (cases t)
  case None
  then show ?thesis
    by (simp add: read_string_def rbind_def read_u32_append pure_run)
next
  case (Some u)
  let ?n = "word_of_nat (length u) :: u32"
  have n: "unat ?n = length u" and u: "u \<noteq> []" "utf8_valid u"
    using assms Some by (auto simp: unat_of_nat)
  then have "?n \<noteq> 0" by (metis length_0_conv unat_0)
  moreover have "read_u32 short (le_bytes 4 ?n @ u @ r) = (Ok ?n, u @ r)"
    by (rule read_u32_append)
  ultimately show ?thesis
    using Some n u
    by (simp add: read_string_def rbind_def read_exact_append pure_run lossy_valid_id)
qed

text \<open>Whatever follows it, a payload in this layout decodes to what was put in.\<close>

lemma decode_put:
  assumes "printable m" and "printable f"
  shows "decode short (put_payload m f l c @ r) =
    \<lparr>pp_msg = m, pp_file = f, pp_line = Some l, pp_col = Some c\<rparr>"
  by (simp add: decode_def put_payload_def read_string_append [OF assms(1)]
      read_string_append [OF assms(2)] read_u32_append split: option.split)

lemma read_string_text: "read_string short rdr = (Ok (Some t), r) \<Longrightarrow> utf8_valid t"
  unfolding read_string_def
  by (auto elim!: rbind_OkE simp: pure_def lossy_valid split: if_splits)

end
