(* ===== verification/Runtime.thy ===== *)
theory Runtime
  imports Env Account_State Transactions Panic_Payload
begin

text \<open>
  \<open>durian/src/runtime.rs\<close>: the host side of a running contract. The record keeps the gas
  meter, the contract's memory, the result, the write-back cache and the log; one definition
  per method, with its reads, charges and writes in the source's order.
\<close>

record ('mem, 'p) runtime =
  rt_schedule :: schedule
  rt_gas_counter :: u64
  rt_gas_limit :: u64
  rt_params :: action_params
  rt_memory :: 'mem
  rt_result :: bytes
  rt_state :: "'p state"
  rt_logs :: "log_entry list"

definition runtime_new ::
  "action_params \<Rightarrow> schedule \<Rightarrow> 'p state \<Rightarrow> 'mem \<Rightarrow> u64 \<Rightarrow> ('mem, 'p) runtime" where
  "runtime_new params sch st memory limit =
     \<lparr>rt_schedule = sch, rt_gas_counter = 0, rt_gas_limit = limit, rt_params = params,
      rt_memory = memory, rt_result = [], rt_state = st, rt_logs = []\<rparr>"

type_synonym ('mem, 'p, 'a) host_op = "(('mem, 'p) runtime, error, 'a) oper"

section \<open>Arguments, memory and the cache\<close>

definition arg_u32 :: "('args, 'mem) wasmi_host \<Rightarrow> 'args \<Rightarrow> nat \<Rightarrow> ('mem, 'p, u32) host_op" where
  "arg_u32 W args i = lift (of_sum error_from_trap (wh_u32 W args i))"

definition arg_u64 :: "('args, 'mem) wasmi_host \<Rightarrow> 'args \<Rightarrow> nat \<Rightarrow> ('mem, 'p, u64) host_op" where
  "arg_u64 W args i = lift (of_sum error_from_trap (wh_u64 W args i))"

definition mem_get :: "('args, 'mem) wasmi_host \<Rightarrow> u32 \<Rightarrow> nat \<Rightarrow> ('mem, 'p, bytes) host_op" where
  "mem_get W ptr len s =
     (of_sum (error_from_wasmi (wh_show_trap W)) (wh_get W (rt_memory s) ptr len), s)"

definition mem_get_into :: "('args, 'mem) wasmi_host \<Rightarrow> u32 \<Rightarrow> nat \<Rightarrow> ('mem, 'p, bytes) host_op" where
  "mem_get_into W ptr len s =
     (of_sum (error_from_wasmi (wh_show_trap W)) (wh_get_into W (rt_memory s) ptr len), s)"

definition mem_set :: "('args, 'mem) wasmi_host \<Rightarrow> u32 \<Rightarrow> bytes \<Rightarrow> ('mem, 'p, unit) host_op" where
  "mem_set W ptr val s = (case wh_set W (rt_memory s) ptr val of
     Inl e \<Rightarrow> (Err (error_from_wasmi (wh_show_trap W) e), s)
   | Inr m \<Rightarrow> (Ok (), s\<lparr>rt_memory := m\<rparr>))"

text \<open>A call of a method of \<open>State\<close> through the runtime's mutable reference.\<close>

definition on_state :: "('p state, error, 'a) oper \<Rightarrow> ('mem, 'p, 'a) host_op" where
  "on_state m s = (fst (m (rt_state s)), s\<lparr>rt_state := snd (m (rt_state s))\<rparr>)"

definition of_state :: "('p state \<Rightarrow> (error, 'a) outcome) \<Rightarrow> ('mem, 'p, 'a) host_op" where
  "of_state f s = (f (rt_state s), s)"

definition h256_at :: "('args, 'mem) wasmi_host \<Rightarrow> u32 \<Rightarrow> ('mem, 'p, h256) host_op" where
  "h256_at W ptr = rbind (mem_get_into W ptr 32) (\<lambda>buf. lift (h256_from_slice buf))"

definition address_at :: "('args, 'mem) wasmi_host \<Rightarrow> u32 \<Rightarrow> ('mem, 'p, address) host_op" where
  "address_at W ptr = rbind (mem_get_into W ptr 20) (\<lambda>buf. lift (h160_from_slice buf))"

definition u256_at :: "('args, 'mem) wasmi_host \<Rightarrow> u32 \<Rightarrow> ('mem, 'p, u256) host_op" where
  "u256_at W ptr = rbind (mem_get_into W ptr 32) (\<lambda>buf. lift (u256_from_be buf))"

text \<open>\<open>self.params.address\<close>, the address the contract runs at.\<close>

definition with_address :: "(address \<Rightarrow> ('mem, 'p, 'a) host_op) \<Rightarrow> ('mem, 'p, 'a) host_op" where
  "with_address f s = f (ap_address (rt_params s)) s"

section \<open>Gas\<close>

definition charge_gas :: "u64 \<Rightarrow> ('mem, 'p) runtime \<Rightarrow> bool \<times> ('mem, 'p) runtime" where
  "charge_gas amount s =
     (let prev = rt_gas_counter s in
      case checked_add prev amount of
        None \<Rightarrow> (False, s)
      | Some val \<Rightarrow>
          if rt_gas_limit s < val then (False, s)
          else (True, s\<lparr>rt_gas_counter := prev + amount\<rparr>))"

definition charge_amount :: "u64 \<Rightarrow> ('mem, 'p, unit) host_op" where
  "charge_amount amount s =
     (case charge_gas amount s of
        (True, s') \<Rightarrow> (Ok (), s')
      | (False, s') \<Rightarrow> (Err GasLimit, s'))"

definition charge :: "(schedule \<Rightarrow> (error, u64) outcome) \<Rightarrow> ('mem, 'p, unit) host_op" where
  "charge f s = rbind (lift (f (rt_schedule s))) (\<lambda>amount. charge_amount amount) s"

definition adjusted_charge ::
  "('args, 'mem) wasmi_host \<Rightarrow> (schedule \<Rightarrow> (error, u64) outcome) \<Rightarrow> ('mem, 'p, unit) host_op" where
  "adjusted_charge W f =
     charge (\<lambda>sch.
       obind (f sch) (\<lambda>x.
       obind (schedule_wasm sch) (\<lambda>w.
       obind (times_op (wh_overflow_checks W) x (ucast (wc_opcodes_div w))) (\<lambda>y.
         div_op y (ucast (wc_opcodes_mul w))))))"

definition overflow_charge ::
  "(schedule \<Rightarrow> (error, u64 option) outcome) \<Rightarrow> ('mem, 'p, unit) host_op" where
  "overflow_charge f s =
     rbind (lift (f (rt_schedule s))) (\<lambda>r.
       case r of
         Some amount \<Rightarrow> charge_amount amount
       | None \<Rightarrow> fail GasLimit) s"

text \<open>\<open>checked_mul\<close> by \<open>opcodes_div\<close>, then division by \<open>opcodes_mul\<close>, as two methods write it.\<close>

definition checked_adjust :: "schedule \<Rightarrow> u64 \<Rightarrow> (error, u64 option) outcome" where
  "checked_adjust sch x =
     obind (schedule_wasm sch) (\<lambda>w.
       case checked_mul x (ucast (wc_opcodes_div w)) of
         None \<Rightarrow> Ok None
       | Some y \<Rightarrow> obind (div_op y (ucast (wc_opcodes_mul w))) (\<lambda>z. Ok (Some z)))"

definition adjusted_overflow_charge ::
  "(schedule \<Rightarrow> (error, u64 option) outcome) \<Rightarrow> ('mem, 'p, unit) host_op" where
  "adjusted_overflow_charge f =
     overflow_charge (\<lambda>sch.
       obind (f sch) (\<lambda>r. case r of None \<Rightarrow> Ok None | Some x \<Rightarrow> checked_adjust sch x))"

definition gas_left :: "('mem, 'p) runtime \<Rightarrow> (error, u64) outcome" where
  "gas_left s =
     (if rt_gas_limit s < rt_gas_counter s then Err InvalidGasState
      else Ok (rt_gas_limit s - rt_gas_counter s))"

definition gas :: "('args, 'mem) wasmi_host \<Rightarrow> 'args \<Rightarrow> ('mem, 'p, unit) host_op" where
  "gas W args = rbind (arg_u32 W args 0) (\<lambda>amount. charge_amount (ucast amount))"

definition gasleft :: "('args, 'mem) wasmi_host \<Rightarrow> ('mem, 'p, runtime_value) host_op" where
  "gasleft W s =
     rbind (lift (gas_left s)) (\<lambda>left.
     rbind (lift (schedule_wasm (rt_schedule s))) (\<lambda>w.
     rbind (lift (times_op (wh_overflow_checks W) left (ucast (wc_opcodes_mul w)))) (\<lambda>x.
     rbind (lift (div_op x (ucast (wc_opcodes_div w)))) (\<lambda>y.
       pure (I64 y))))) s"

section \<open>Storage\<close>

definition storage_read ::
  "('args, 'mem) wasmi_host \<Rightarrow> 'p provider \<Rightarrow> 'args \<Rightarrow> ('mem, 'p, unit) host_op" where
  "storage_read W P args =
     rbind (arg_u32 W args 0) (\<lambda>key_ptr.
     rbind (h256_at W key_ptr) (\<lambda>key.
     rbind (arg_u32 W args 1) (\<lambda>val_ptr.
     with_address (\<lambda>address.
     rbind (on_state (storage_at P address key)) (\<lambda>val.
     rbind (adjusted_charge W (\<lambda>sch. Ok (sc_sload_gas sch))) (\<lambda>_.
       mem_set W val_ptr (be_bytes 32 val)))))))"

text \<open>The refund of a cleared slot is not accounted: the source's method body is empty.\<close>

definition add_sstore_refund :: "usize \<Rightarrow> ('mem, 'p, unit) host_op" where
  "add_sstore_refund val = pure ()"

definition storage_write ::
  "('args, 'mem) wasmi_host \<Rightarrow> 'p provider \<Rightarrow> 'args \<Rightarrow> ('mem, 'p, unit) host_op" where
  "storage_write W P args =
     rbind (arg_u32 W args 0) (\<lambda>key_ptr.
     rbind (h256_at W key_ptr) (\<lambda>key.
     rbind (arg_u32 W args 1) (\<lambda>val_ptr.
     rbind (h256_at W val_ptr) (\<lambda>val.
     with_address (\<lambda>address.
     rbind (on_state (storage_at P address key)) (\<lambda>former_val.
     rbind (if former_val = 0 \<and> val \<noteq> 0
            then adjusted_charge W (\<lambda>sch. Ok (sc_sstore_set_gas sch))
            else adjusted_charge W (\<lambda>sch. Ok (sc_sstore_reset_gas sch))) (\<lambda>_.
     rbind (on_state (set_storage P address key val)) (\<lambda>_.
       if former_val \<noteq> 0 \<and> val = 0
       then (\<lambda>s. add_sstore_refund (sc_sstore_refund_gas (rt_schedule s)) s)
       else pure ()))))))))"

section \<open>Input, result, panic, debug\<close>

definition ret :: "('args, 'mem) wasmi_host \<Rightarrow> 'args \<Rightarrow> ('mem, 'p, unit) host_op" where
  "ret W args =
     rbind (arg_u32 W args 0) (\<lambda>ptr.
     rbind (arg_u32 W args 1) (\<lambda>len.
     rbind (mem_get W ptr (unat len)) (\<lambda>val.
     rbind (modify (rt_result_update (\<lambda>_. val))) (\<lambda>_.
       fail Return))))"

definition into_result :: "('mem, 'p) runtime \<Rightarrow> bytes" where
  "into_result s = rt_result s"

definition input_length :: "('mem, 'p) runtime \<Rightarrow> runtime_value" where
  "input_length s = I32 (word_of_nat (length (ap_args (rt_params s))))"

definition fetch_input :: "('args, 'mem) wasmi_host \<Rightarrow> 'args \<Rightarrow> ('mem, 'p, unit) host_op" where
  "fetch_input W args =
     rbind (arg_u32 W args 0) (\<lambda>ptr.
     rbind (asks (\<lambda>s. ap_args (rt_params s))) (\<lambda>input.
     rbind (charge (\<lambda>sch.
       obind (schedule_wasm sch) (\<lambda>w.
         times_op (wh_overflow_checks W) (word_of_nat (length input)) (ucast (wc_memcpy w))))) (\<lambda>_.
       mem_set W ptr input)))"

definition bytes_str :: "bytes \<Rightarrow> string" where
  "bytes_str bs = map (\<lambda>b. char_of (unat b)) bs"

definition panic_message :: "panic_payload \<Rightarrow> string" where
  "panic_message payload =
     (case pp_msg payload of Some t \<Rightarrow> bytes_str t | None \<Rightarrow> ''<msg was stripped>'') @ '', '' @
     (case pp_file payload of Some t \<Rightarrow> bytes_str t | None \<Rightarrow> ''<unknown>'') @ '':'' @
     show_nat (unat (case pp_line payload of Some l \<Rightarrow> l | None \<Rightarrow> 0)) @ '':'' @
     show_nat (unat (case pp_col payload of Some c \<Rightarrow> c | None \<Rightarrow> 0))"

definition panic :: "('args, 'mem) wasmi_host \<Rightarrow> 'args \<Rightarrow> ('mem, 'p, unit) host_op" where
  "panic W args =
     rbind (arg_u32 W args 0) (\<lambda>payload_ptr.
     rbind (arg_u32 W args 1) (\<lambda>payload_len.
     rbind (mem_get W payload_ptr (unat payload_len)) (\<lambda>raw_payload.
       fail (Panic (panic_message (decode (wh_short W) raw_payload))))))"

text \<open>The body is the argument of a \<open>trace!\<close>, so it runs only when that level is enabled.\<close>

definition debug :: "('args, 'mem) wasmi_host \<Rightarrow> 'args \<Rightarrow> ('mem, 'p, unit) host_op" where
  "debug W args =
     (if wh_trace W then
        rbind (arg_u32 W args 0) (\<lambda>msg_ptr.
        rbind (arg_u32 W args 1) (\<lambda>msg_len.
        rbind (mem_get W msg_ptr (unat msg_len)) (\<lambda>raw.
        rbind (lift (from_utf8 BadUtf8 raw)) (\<lambda>_.
          pure ()))))
      else pure ())"

section \<open>Calls, creation, suicide\<close>

text \<open>
  The buffer for the result of the call, of \<open>result_alloc_len\<close> bytes, is allocated but never
  used; allocation is taken to succeed.
\<close>

definition do_call ::
  "('args, 'mem) wasmi_host \<Rightarrow> 'p provider \<Rightarrow> bool \<Rightarrow> action_type \<Rightarrow> 'args \<Rightarrow>
   ('mem, 'p, runtime_value) host_op" where
  "do_call W P use_val call_type args =
     rbind (arg_u64 W args 0) (\<lambda>gas.
     rbind (arg_u32 W args 1) (\<lambda>address_ptr.
     rbind (address_at W address_ptr) (\<lambda>address.
     let vofs = (if use_val then 1 else 0) in
     rbind (if use_val then
              rbind (arg_u32 W args 2) (\<lambda>val_ptr.
              rbind (u256_at W val_ptr) (\<lambda>v. pure (Some v)))
            else pure None) (\<lambda>val.
     rbind (arg_u32 W args (2 + vofs)) (\<lambda>input_ptr.
     rbind (arg_u32 W args (3 + vofs)) (\<lambda>input_len.
     rbind (arg_u32 W args (4 + vofs)) (\<lambda>result_ptr.
     rbind (arg_u32 W args (5 + vofs)) (\<lambda>result_alloc_len.
     rbind (case val of
              Some v \<Rightarrow>
                with_address (\<lambda>self_address.
                rbind (on_state (balance P self_address)) (\<lambda>address_balance.
                  pure (address_balance < v)))
            | None \<Rightarrow> pure False) (\<lambda>too_poor.
     if too_poor then pure (I32 (- 1))
     else
       rbind (adjusted_charge W (\<lambda>sch. Ok (sc_call_gas sch))) (\<lambda>_.
       rbind (mem_get W input_ptr (unat input_len)) (\<lambda>payload.
       rbind (\<lambda>s. lift (checked_adjust (rt_schedule s) gas) s) (\<lambda>adjusted.
         case adjusted of
           Some adjusted_gas \<Rightarrow>
             rbind (charge (\<lambda>_. Ok adjusted_gas)) (\<lambda>_.
               fail (Panic ''not completed''))
         | None \<Rightarrow> pure (I32 (- 1))))))))))))))"

definition ccall ::
  "('args, 'mem) wasmi_host \<Rightarrow> 'p provider \<Rightarrow> 'args \<Rightarrow> ('mem, 'p, runtime_value) host_op" where
  "ccall W P args = do_call W P True ActionCall args"

definition do_create ::
  "u256 \<Rightarrow> u32 \<Rightarrow> u32 \<Rightarrow> u32 \<Rightarrow> ('mem, 'p, runtime_value) host_op" where
  "do_create endowment code_ptr code_len result_ptr = fail (Panic ''Not completed'')"

definition create :: "'args \<Rightarrow> ('mem, 'p, runtime_value) host_op" where
  "create args = fail (Panic ''Not completed'')"

definition suicide :: "('args, 'mem) wasmi_host \<Rightarrow> 'args \<Rightarrow> ('mem, 'p, unit) host_op" where
  "suicide W args =
     rbind (arg_u32 W args 0) (\<lambda>ptr.
     rbind (address_at W ptr) (\<lambda>refund_address.
       fail (Panic ''Not completed'')))"

section \<open>Environment queries\<close>

definition return_address_ptr ::
  "('args, 'mem) wasmi_host \<Rightarrow> u32 \<Rightarrow> address \<Rightarrow> ('mem, 'p, unit) host_op" where
  "return_address_ptr W ptr val =
     rbind (charge (\<lambda>sch. obind (schedule_wasm sch) (\<lambda>w. Ok (ucast (wc_static_address w))))) (\<lambda>_.
       mem_set W ptr (be_bytes 20 val))"

definition return_u256_ptr ::
  "('args, 'mem) wasmi_host \<Rightarrow> u32 \<Rightarrow> u256 \<Rightarrow> ('mem, 'p, unit) host_op" where
  "return_u256_ptr W ptr val =
     rbind (charge (\<lambda>sch. obind (schedule_wasm sch) (\<lambda>w. Ok (ucast (wc_static_u256 w))))) (\<lambda>_.
       mem_set W ptr (be_bytes 32 val))"

definition value_passed :: "('args, 'mem) wasmi_host \<Rightarrow> 'args \<Rightarrow> ('mem, 'p, unit) host_op" where
  "value_passed W args =
     rbind (asks (\<lambda>s. ap_value (rt_params s))) (\<lambda>val.
     rbind (arg_u32 W args 0) (\<lambda>ptr. return_u256_ptr W ptr val))"

definition rt_block_hash ::
  "('args, 'mem) wasmi_host \<Rightarrow> 'p provider \<Rightarrow> 'args \<Rightarrow> ('mem, 'p, unit) host_op" where
  "rt_block_hash W P args =
     rbind (adjusted_charge W (\<lambda>sch. Ok (sc_blockhash_gas sch))) (\<lambda>_.
     rbind (arg_u64 W args 0) (\<lambda>number.
     rbind (of_state (block_hash P number)) (\<lambda>hash.
     rbind (arg_u32 W args 1) (\<lambda>dest.
       mem_set W dest (be_bytes 32 hash)))))"

definition rt_block_number :: "'p provider \<Rightarrow> ('mem, 'p, runtime_value) host_op" where
  "rt_block_number P = rbind (of_state (block_number P)) (\<lambda>n. pure (I64 n))"

definition rt_block_author ::
  "('args, 'mem) wasmi_host \<Rightarrow> 'p provider \<Rightarrow> 'args \<Rightarrow> ('mem, 'p, unit) host_op" where
  "rt_block_author W P args =
     rbind (of_state (block_author P)) (\<lambda>author.
     rbind (arg_u32 W args 0) (\<lambda>ptr. return_address_ptr W ptr author))"

definition rt_difficulty ::
  "('args, 'mem) wasmi_host \<Rightarrow> 'p provider \<Rightarrow> 'args \<Rightarrow> ('mem, 'p, unit) host_op" where
  "rt_difficulty W P args =
     rbind (of_state (difficulty P)) (\<lambda>d.
     rbind (arg_u32 W args 0) (\<lambda>ptr. return_u256_ptr W ptr d))"

definition gaslimit ::
  "('args, 'mem) wasmi_host \<Rightarrow> 'p provider \<Rightarrow> 'args \<Rightarrow> ('mem, 'p, unit) host_op" where
  "gaslimit W P args =
     rbind (of_state (gas_limit P)) (\<lambda>l.
     rbind (arg_u32 W args 0) (\<lambda>ptr. return_u256_ptr W ptr l))"

definition rt_timestamp :: "'p provider \<Rightarrow> ('mem, 'p, runtime_value) host_op" where
  "rt_timestamp P = rbind (of_state (timestamp P)) (\<lambda>t. pure (I64 t))"

definition own_address :: "('args, 'mem) wasmi_host \<Rightarrow> 'args \<Rightarrow> ('mem, 'p, unit) host_op" where
  "own_address W args =
     with_address (\<lambda>address.
     rbind (arg_u32 W args 0) (\<lambda>ptr. return_address_ptr W ptr address))"

definition sender :: "('args, 'mem) wasmi_host \<Rightarrow> 'args \<Rightarrow> ('mem, 'p, unit) host_op" where
  "sender W args =
     rbind (asks (\<lambda>s. ap_sender (rt_params s))) (\<lambda>sender.
     rbind (arg_u32 W args 0) (\<lambda>ptr. return_address_ptr W ptr sender))"

definition origin :: "('args, 'mem) wasmi_host \<Rightarrow> 'args \<Rightarrow> ('mem, 'p, unit) host_op" where
  "origin W args =
     rbind (asks (\<lambda>s. ap_origin (rt_params s))) (\<lambda>origin.
     rbind (arg_u32 W args 0) (\<lambda>ptr. return_address_ptr W ptr origin))"

section \<open>The event log\<close>

text \<open>The loop over the topics, from index \<open>i\<close> on.\<close>

fun read_topics ::
  "('args, 'mem) wasmi_host \<Rightarrow> u32 \<Rightarrow> u32 \<Rightarrow> nat \<Rightarrow> ('mem, 'p, h256 list) host_op" where
  "read_topics W topic_ptr i 0 = pure []"
| "read_topics W topic_ptr i (Suc n) =
     rbind (lift (of_option MemoryAccessViolation (checked_mul i 32))) (\<lambda>rel.
     rbind (lift (of_option MemoryAccessViolation (checked_add rel topic_ptr))) (\<lambda>offset.
     rbind (mem_get W offset 32) (\<lambda>buf.
     rbind (lift (h256_from_slice buf)) (\<lambda>topic.
     rbind (read_topics W topic_ptr (i + 1) n) (\<lambda>topics.
       pure (topic # topics))))))"

text \<open>
  The price of a log entry. The source multiplies \<open>log_data_gas\<close> by itself where the length
  of the data belongs, so the data length is not an argument here either.
\<close>

definition elog_gas :: "bool \<Rightarrow> u32 \<Rightarrow> schedule \<Rightarrow> (error, u64 option) outcome" where
  "elog_gas chk topic_count sch =
     obind (times_op chk (sc_log_topic_gas sch) (ucast topic_count)) (\<lambda>t.
     obind (plus_op chk (sc_log_gas sch) t) (\<lambda>topics_gas.
       Ok (Option.bind (checked_mul (sc_log_data_gas sch) (sc_log_data_gas sch))
             (\<lambda>data_gas. checked_add data_gas topics_gas))))"

definition elog :: "('args, 'mem) wasmi_host \<Rightarrow> 'args \<Rightarrow> ('mem, 'p, unit) host_op" where
  "elog W args =
     rbind (arg_u32 W args 0) (\<lambda>topic_ptr.
     rbind (arg_u32 W args 1) (\<lambda>topic_count.
     rbind (arg_u32 W args 2) (\<lambda>data_ptr.
     rbind (arg_u32 W args 3) (\<lambda>data_len.
     if 4 < topic_count then fail Log
     else
       rbind (adjusted_overflow_charge (elog_gas (wh_overflow_checks W) topic_count)) (\<lambda>_.
       rbind (read_topics W topic_ptr 0 (unat topic_count)) (\<lambda>topics.
       rbind (mem_get W data_ptr (unat data_len)) (\<lambda>data.
       with_address (\<lambda>address.
         modify (rt_logs_update (\<lambda>logs. logs @
           [\<lparr>le_address = address, le_topics = topics, le_data = data\<rparr>]))))))))))"

section \<open>The end of an execution\<close>

definition rt_init_code :: "'p provider \<Rightarrow> address \<Rightarrow> bytes \<Rightarrow> ('mem, 'p, unit) host_op" where
  "rt_init_code P address code = on_state (init_code P address code)"

definition rt_update_state :: "hash_orders \<Rightarrow> 'p provider \<Rightarrow> ('mem, 'p, unit) host_op" where
  "rt_update_state H P = on_state (update_state H P)"

section \<open>Dispatch\<close>

text \<open>
  \<open>Externals::invoke_index\<close>. The three macros wrap a method's result; the question mark
  inside them boxes an \<open>Error\<close> as a host trap. An unknown index panics.
\<close>

type_synonym ('mem, 'p) dispatch_op =
  "(('mem, 'p) runtime, trap_kind, runtime_value option) oper"

definition trap_of :: "('mem, 'p, 'a) host_op \<Rightarrow> (('mem, 'p) runtime, trap_kind, 'a) oper" where
  "trap_of m s = (map_err (\<lambda>e. TrapHost (RuntimeError e)) (fst (m s)), snd (m s))"

definition void :: "('mem, 'p, unit) host_op \<Rightarrow> ('mem, 'p) dispatch_op" where
  "void m = rbind (trap_of m) (\<lambda>_. pure None)"

definition some :: "('mem, 'p, runtime_value) host_op \<Rightarrow> ('mem, 'p) dispatch_op" where
  "some m = rbind (trap_of m) (\<lambda>v. pure (Some v))"

definition cast :: "(('mem, 'p) runtime \<Rightarrow> runtime_value) \<Rightarrow> ('mem, 'p) dispatch_op" where
  "cast f s = (Ok (Some (f s)), s)"

definition invoke_index ::
  "('args, 'mem) wasmi_host \<Rightarrow> 'p provider \<Rightarrow> nat \<Rightarrow> 'args \<Rightarrow> ('mem, 'p) dispatch_op" where
  "invoke_index W P index args =
     (if index = STORAGE_WRITE_FUNC then void (storage_write W P args)
      else if index = STORAGE_READ_FUNC then void (storage_read W P args)
      else if index = RET_FUNC then void (ret W args)
      else if index = GAS_FUNC then void (gas W args)
      else if index = INPUT_LENGTH_FUNC then cast input_length
      else if index = FETCH_INPUT_FUNC then void (fetch_input W args)
      else if index = PANIC_FUNC then void (panic W args)
      else if index = DEBUG_FUNC then void (debug W args)
      else if index = CCALL_FUNC then some (ccall W P args)
      else if index = VALUE_FUNC then void (value_passed W args)
      else if index = CREATE_FUNC then some (create args)
      else if index = SUICIDE_FUNC then void (suicide W args)
      else if index = BLOCK_HASH_FUNC then void (rt_block_hash W P args)
      else if index = BLOCK_NUMBER_FUNC then some (rt_block_number P)
      else if index = BLOCK_AUTHOR_FUNC then void (rt_block_author W P args)
      else if index = DIFFICULTY_FUNC then void (rt_difficulty W P args)
      else if index = GASLIMIT_FUNC then void (gaslimit W P args)
      else if index = TIMESTAMP_FUNC then some (rt_timestamp P)
      else if index = ADDRESS_FUNC then void (own_address W args)
      else if index = SENDER_FUNC then void (sender W args)
      else if index = ORIGIN_FUNC then void (origin W args)
      else if index = ELOG_FUNC then void (elog W args)
      else if index = GASLEFT_FUNC then some (gasleft W)
      else (\<lambda>s. (Crash, s)))"

end
