(* ===== verification/Execute.thy ===== *)
theory Execute
  imports Parser Runtime
begin

text \<open>
  \<open>durian/src/execute.rs\<close>: one transaction from its code to the provider's new state. The
  interpreter is a parameter with the interface of \<open>wasmi\<close>: loading, instantiating against
  the import resolver, the start function, the exported function, and single steps of a
  running contract. A step ends the run, goes on, or calls a host function and says how the
  contract goes on with the reply; between host calls it may change the contract's memory.
\<close>

section \<open>The interpreter\<close>

datatype ('cfg, 'args, 'mem) event =
    Finished "trap_kind option" 'mem
  | Internal 'cfg 'mem
  | HostCall nat 'args 'mem "trap_kind + runtime_value option \<Rightarrow> 'cfg"

record ('args, 'mem, 'pmod, 'wmod, 'inst, 'cfg) engine =
  en_host :: "('args, 'mem) wasmi_host"
  en_pwasm :: "'pmod pwasm"
  en_keccak :: "bytes \<Rightarrow> h256"
  en_load :: "'pmod \<Rightarrow> wasmi_error + 'wmod"
  en_instantiate :: "'wmod \<Rightarrow> (string \<Rightarrow> wasmi_error + func_ref) \<Rightarrow>
    (string \<Rightarrow> memory_descriptor \<Rightarrow> ('mem import_resolver, wasmi_error, 'mem) oper) \<Rightarrow>
    ('mem import_resolver, wasmi_error, 'inst) oper"
  en_start :: "'inst \<Rightarrow> 'cfg option"
  en_export :: "'inst \<Rightarrow> string \<Rightarrow> wasmi_error + 'cfg"
  en_step :: "'cfg \<Rightarrow> 'mem \<Rightarrow> ('cfg, 'args, 'mem) event"

text \<open>
  The documented treatment of a host error: it is a trap, and the run ends with that trap.
\<close>

definition host_traps_abort :: "('cfg \<Rightarrow> 'mem \<Rightarrow> ('cfg, 'args, 'mem) event) \<Rightarrow> bool" where
  "host_traps_abort step \<longleftrightarrow>
     (\<forall>c m i args m' k t m''. step c m = HostCall i args m' k \<longrightarrow>
        step (k (Inl t)) m'' = Finished (Some t) m'')"

text \<open>
  A run of the contract against the dispatcher. Nothing bounds the interpreter's steps here,
  so a run may not return, and then the value is \<open>None\<close>.
\<close>

partial_function (option) run_guest ::
  "('args, 'mem) wasmi_host \<Rightarrow> 'p provider \<Rightarrow> ('cfg \<Rightarrow> 'mem \<Rightarrow> ('cfg, 'args, 'mem) event) \<Rightarrow>
   'cfg \<Rightarrow> ('mem, 'p) runtime \<Rightarrow> ((trap_kind, unit) outcome \<times> ('mem, 'p) runtime) option" where
  "run_guest W P step cfg s =
     (case step cfg (rt_memory s) of
        Finished t m \<Rightarrow>
          Some (case t of None \<Rightarrow> Ok () | Some k \<Rightarrow> Err k, s\<lparr>rt_memory := m\<rparr>)
      | Internal cfg' m \<Rightarrow> run_guest W P step cfg' (s\<lparr>rt_memory := m\<rparr>)
      | HostCall index args m resume \<Rightarrow>
          (case invoke_index W P index args (s\<lparr>rt_memory := m\<rparr>) of
             (Ok v, s') \<Rightarrow> run_guest W P step (resume (Inr v)) s'
           | (Err t, s') \<Rightarrow> run_guest W P step (resume (Inl t)) s'
           | (Crash, s') \<Rightarrow> Some (Crash, s')))"

section \<open>Before the run\<close>

definition make_params ::
  "(bytes \<Rightarrow> h256) \<Rightarrow> 'p provider \<Rightarrow> 'p \<Rightarrow> transaction \<Rightarrow> (error, action_params) outcome" where
  "make_params keccak P p tx =
     (case tx_action tx of
        Create code salt \<Rightarrow>
          (let new_address = contract_address keccak (tx_sender tx) code salt in
           Ok \<lparr>ap_code_address = new_address, ap_code_hash = None, ap_address = new_address,
               ap_sender = tx_sender tx, ap_origin = tx_sender tx, ap_gas = tx_gas tx,
               ap_gas_price = tx_gas_price tx, ap_value = tx_value tx, ap_code = code,
               ap_code_version = 0, ap_args = tx_args tx, ap_action_type = ActionCreate\<rparr>)
      | Call address \<Rightarrow>
          obind (pv_account P p address) (\<lambda>acc.
           Ok \<lparr>ap_code_address = address, ap_code_hash = None, ap_address = address,
               ap_sender = tx_sender tx, ap_origin = tx_sender tx, ap_gas = tx_gas tx,
               ap_gas_price = tx_gas_price tx, ap_value = tx_value tx, ap_code = sa_code acc,
               ap_code_version = 0, ap_args = tx_args tx, ap_action_type = ActionCall\<rparr>))"

definition gas_msg :: string where
  "gas_msg = ''Wasm interpreter cannot run contracts with gas (wasm adjusted) >= 2^64''"

text \<open>\<open>U256\<close> arithmetic panics on overflow in every build.\<close>

definition adjusted_gas :: "wasm_costs \<Rightarrow> u256 \<Rightarrow> (error, u64) outcome" where
  "adjusted_gas w amount =
     obind (times_op True amount (ucast (wc_opcodes_div w))) (\<lambda>x.
     obind (div_op x (ucast (wc_opcodes_mul w))) (\<lambda>adjusted.
     if (ucast (- 1 :: u64) :: u256) < adjusted then Err (Wasm gas_msg)
     else Ok (ucast adjusted)))"

text \<open>
  Everything up to the creation of the runtime: parameters, module, instance, initial gas,
  initial memory size and the memory itself. Only the import resolver changes here.
\<close>

definition prepare ::
  "('args, 'mem, 'pmod, 'wmod, 'inst, 'cfg) engine \<Rightarrow> 'p provider \<Rightarrow> 'p \<Rightarrow> transaction \<Rightarrow>
   (error, action_params \<times> 'inst \<times> u64 \<times> u32 \<times> 'mem) outcome" where
  "prepare E P p tx =
     (let W = en_host E; conv = error_from_wasmi (wh_show_trap W) in
      obind (make_params (en_keccak E) P p tx) (\<lambda>params.
      obind (schedule_wasm execute_schedule) (\<lambda>w.
      obind (payload (en_pwasm E) params w) (\<lambda>module.
      obind (of_sum conv (en_load E module)) (\<lambda>loaded_module.
      let R0 = with_limit 16 w;
          (module_instance, R1) =
            en_instantiate E loaded_module (resolve_func R0) (resolve_memory W) R0
      in
      obind (map_err conv module_instance) (\<lambda>inst.
      obind (adjusted_gas w (ap_gas params)) (\<lambda>limit.
      let (size, R2) = memory_size W R1 in
      obind (map_err conv size) (\<lambda>initial_memory.
      let (mem_ref, R3) = memory_ref W R2 in
      obind (map_err conv mem_ref) (\<lambda>mem.
        Ok (params, inst, limit, initial_memory, mem))))))))))"

section \<open>After the run\<close>

record result_data =
  rd_gas_left :: u256
  rd_data :: bytes
  rd_contract :: address
  rd_logs :: "log_entry list"

text \<open>
  The match on the result of \<open>invoke_export\<close>: \<open>None\<close> to go on to the result, otherwise the
  error (or panic) that ends \<open>execute\<close>. Only host traps are looked at.
\<close>

definition stopping :: "(trap_kind \<Rightarrow> string) \<Rightarrow> (wasmi_error, unit) outcome \<Rightarrow> (error, unit) outcome" where
  "stopping st invoke_result =
     (case invoke_result of
        Ok _ \<Rightarrow> Ok ()
      | Crash \<Rightarrow> Crash
      | Err e \<Rightarrow>
          (case e of
             ErrTrap (TrapHost ForeignHostError) \<Rightarrow> Crash
           | ErrTrap (TrapHost (RuntimeError Suicide)) \<Rightarrow> Ok ()
           | ErrTrap (TrapHost (RuntimeError Return)) \<Rightarrow> Ok ()
           | ErrTrap (TrapHost (RuntimeError _)) \<Rightarrow> Err (error_from_wasmi st e)
           | _ \<Rightarrow> Ok ()))"

definition is_create :: "action \<Rightarrow> bool" where
  "is_create a = (case a of Create _ _ \<Rightarrow> True | Call _ \<Rightarrow> False)"

definition finish ::
  "hash_orders \<Rightarrow> 'p provider \<Rightarrow> transaction \<Rightarrow> ('mem, 'p, result_data) host_op" where
  "finish H P tx s =
     rbind (lift (unwrap (gas_left s))) (\<lambda>left.
     rbind (lift (schedule_wasm (rt_schedule s))) (\<lambda>w.
     rbind (lift (times_op True (ucast left) (ucast (wc_opcodes_mul w)))) (\<lambda>x.
     rbind (lift (div_op x (ucast (wc_opcodes_div w)))) (\<lambda>gas_left_adj.
     let result = into_result s; params = rt_params s in
     if result = [] then
       pure \<lparr>rd_gas_left = gas_left_adj, rd_data = [], rd_contract = ap_address params, rd_logs = []\<rparr>
     else
       rbind (if is_create (tx_action tx) then rt_init_code P (ap_address params) result
              else pure ()) (\<lambda>_.
       rbind (rt_update_state H P) (\<lambda>_.
         pure \<lparr>rd_gas_left = gas_left_adj, rd_data = result, rd_contract = ap_address params,
               rd_logs = []\<rparr>)))))) s"

section \<open>The run\<close>

text \<open>\<open>run_start\<close> and \<open>invoke_export\<close>; each may not return.\<close>

definition run_start ::
  "('args, 'mem, 'pmod, 'wmod, 'inst, 'cfg) engine \<Rightarrow> 'p provider \<Rightarrow> 'inst \<Rightarrow>
   ('mem, 'p) runtime \<Rightarrow> ((trap_kind, unit) outcome \<times> ('mem, 'p) runtime) option" where
  "run_start E P inst s =
     (case en_start E inst of
        None \<Rightarrow> Some (Ok (), s)
      | Some cfg \<Rightarrow> run_guest (en_host E) P (en_step E) cfg s)"

definition invoke_export ::
  "('args, 'mem, 'pmod, 'wmod, 'inst, 'cfg) engine \<Rightarrow> 'p provider \<Rightarrow> 'inst \<Rightarrow> string \<Rightarrow>
   ('mem, 'p) runtime \<Rightarrow> ((wasmi_error, unit) outcome \<times> ('mem, 'p) runtime) option" where
  "invoke_export E P inst name s =
     (case en_export E inst name of
        Inl e \<Rightarrow> Some (Err e, s)
      | Inr cfg \<Rightarrow>
          map_option (\<lambda>(r, t). (map_err ErrTrap r, t)) (run_guest (en_host E) P (en_step E) cfg s))"

definition initial_charge :: "bool \<Rightarrow> u32 \<Rightarrow> ('mem, 'p, unit) host_op" where
  "initial_charge chk initial_memory =
     charge (\<lambda>sch. obind (schedule_wasm sch) (\<lambda>w.
       times_op chk (ucast initial_memory) (ucast (wc_initial_mem w))))"

definition run_contract ::
  "('args, 'mem, 'pmod, 'wmod, 'inst, 'cfg) engine \<Rightarrow> hash_orders \<Rightarrow> 'p provider \<Rightarrow> transaction \<Rightarrow>
   'inst \<Rightarrow> u32 \<Rightarrow> ('mem, 'p) runtime \<Rightarrow>
   ((error, result_data) outcome \<times> ('mem, 'p) runtime) option" where
  "run_contract E H P tx inst initial_memory s0 =
     (case (rbind (lift (schedule_wasm (rt_schedule s0))) (\<lambda>w.
              if wc_initial_mem w < 65536
              then initial_charge (wh_overflow_checks (en_host E)) initial_memory
              else lift Crash)) s0 of
        (Err e, s) \<Rightarrow> Some (Err e, s)
      | (Crash, s) \<Rightarrow> Some (Crash, s)
      | (Ok _, s1) \<Rightarrow>
          (case run_start E P inst s1 of
             None \<Rightarrow> None
           | Some (Err t, s) \<Rightarrow> Some (Err (error_from_trap t), s)
           | Some (Crash, s) \<Rightarrow> Some (Crash, s)
           | Some (Ok _, s2) \<Rightarrow>
               map_option (\<lambda>(invoke_result, s3).
                 rbind (lift (stopping (wh_show_trap (en_host E)) invoke_result)) (\<lambda>_. finish H P tx) s3)
                 (invoke_export E P inst ''call'' s2)))"

definition execute ::
  "('args, 'mem, 'pmod, 'wmod, 'inst, 'cfg) engine \<Rightarrow> hash_orders \<Rightarrow> 'p provider \<Rightarrow> transaction \<Rightarrow>
   'p \<Rightarrow> ((error, result_data) outcome \<times> 'p) option" where
  "execute E H P tx p =
     (case prepare E P p tx of
        Err e \<Rightarrow> Some (Err e, p)
      | Crash \<Rightarrow> Some (Crash, p)
      | Ok (params, inst, limit, initial_memory, mem) \<Rightarrow>
          map_option (\<lambda>(r, s). (r, st_provider (rt_state s)))
            (run_contract E H P tx inst initial_memory
              (runtime_new params execute_schedule (state_new p) mem limit)))"

end
