(* ===== verification/Runtime_Laws.thy ===== *)
theory Runtime_Laws
  imports Runtime
begin

text \<open>
  The frame of the host calls of \<open>durian/src/runtime.rs\<close>: what no call changes (schedule,
  parameters, gas limit, provider), what only grows (the gas counter, the log), and that the
  counter stays within the limit. One line per method, by the composition rules of the
  prelude; \<open>ret\<close> is the only method that also sets the result.
\<close>

section \<open>The two step relations\<close>

definition log_ok :: "('mem, 'p) runtime \<Rightarrow> log_entry \<Rightarrow> bool" where
  "log_ok s e \<longleftrightarrow> le_address e = ap_address (rt_params s) \<and> length (le_topics e) \<le> 4"

text \<open>
  Both relations are about a runtime whose contract runs at address \<open>a\<close>; \<open>P\<close> is the
  provider's method table.
\<close>

definition rt_reach ::
  "'p provider \<Rightarrow> address \<Rightarrow> ('mem, 'p) runtime \<Rightarrow> ('mem, 'p) runtime \<Rightarrow> bool" where
  "rt_reach P a s t \<longleftrightarrow> (ap_address (rt_params s) = a \<longrightarrow>
     rt_schedule t = rt_schedule s \<and> rt_params t = rt_params s \<and>
     rt_gas_limit t = rt_gas_limit s \<and> st_own P a (rt_state s) (rt_state t) \<and>
     rt_gas_counter s \<le> rt_gas_counter t \<and>
     (rt_gas_counter s \<le> rt_gas_limit s \<longrightarrow> rt_gas_counter t \<le> rt_gas_limit t) \<and>
     (\<exists>es. rt_logs t = rt_logs s @ es \<and> (\<forall>e \<in> set es. log_ok s e)))"

definition rt_step ::
  "'p provider \<Rightarrow> address \<Rightarrow> ('mem, 'p) runtime \<Rightarrow> ('mem, 'p) runtime \<Rightarrow> bool" where
  "rt_step P a s t \<longleftrightarrow> rt_reach P a s t \<and>
     (ap_address (rt_params s) = a \<longrightarrow> rt_result t = rt_result s)"

lemma rt_reach_refl: "rt_reach P a s s"
  by (simp add: rt_reach_def st.frame_refl)

lemma log_ok_params: "rt_params t = rt_params s \<Longrightarrow> log_ok t e = log_ok s e"
  by (simp add: log_ok_def)

lemma rt_reachD:
  assumes "rt_reach P a s t" and "ap_address (rt_params s) = a"
  shows "rt_schedule t = rt_schedule s" and "rt_params t = rt_params s"
    and "rt_gas_limit t = rt_gas_limit s" and "st_own P a (rt_state s) (rt_state t)"
    and "rt_gas_counter s \<le> rt_gas_counter t"
    and "rt_gas_counter s \<le> rt_gas_limit s \<Longrightarrow> rt_gas_counter t \<le> rt_gas_limit s"
    and "\<exists>es. rt_logs t = rt_logs s @ es \<and> (\<forall>e \<in> set es. log_ok s e)"
  using assms unfolding rt_reach_def by (blast | metis)+

lemma rt_reach_trans:
  assumes st: "rt_reach P a s t" and tu: "rt_reach P a t u"
  shows "rt_reach P a s u"
proof (cases "ap_address (rt_params s) = a")
  case True
  note s = rt_reachD [OF st True]
  note t = rt_reachD [OF tu, unfolded s(2), OF True]
  obtain es where es: "rt_logs t = rt_logs s @ es" "\<forall>e \<in> set es. log_ok s e"
    using s(7) by blast
  obtain fs where fs: "rt_logs u = rt_logs t @ fs" "\<forall>e \<in> set fs. log_ok s e"
    using t(7) by (auto simp: log_ok_params [OF s(2)])
  have logs: "\<exists>es. rt_logs u = rt_logs s @ es \<and> (\<forall>e \<in> set es. log_ok s e)"
    using es fs by (intro exI [of _ "es @ fs"]) auto
  have gas: "rt_gas_counter s \<le> rt_gas_counter u" using s(5) t(5) by (rule order_trans)
  have limit: "rt_gas_counter s \<le> rt_gas_limit s \<Longrightarrow> rt_gas_counter u \<le> rt_gas_limit s"
    using s(6) t(6) unfolding s(3) by blast
  show ?thesis
    unfolding rt_reach_def t(1-3) s(1-3)
    using logs gas limit st.frame_trans [OF s(4) t(4)] by blast
qed (simp add: rt_reach_def)

lemma rt_reach_params: "rt_reach P a s t \<Longrightarrow> ap_address (rt_params s) = a \<Longrightarrow> rt_params t = rt_params s"
  by (simp add: rt_reach_def)

interpretation reach: step_frame "rt_reach P a" for P a
  by unfold_locales (rule rt_reach_refl, rule rt_reach_trans)

interpretation rt: step_frame "rt_step P a" for P a
  by unfold_locales (auto simp: rt_step_def rt_reach_params intro: rt_reach_refl rt_reach_trans)

lemma stays_rt_reach: "stays (rt_step P a) m \<Longrightarrow> stays (rt_reach P a) m"
  by (simp add: stays_def rt_step_def)

lemma rt_step_simple:
  "rt_schedule t = rt_schedule s \<Longrightarrow> rt_params t = rt_params s \<Longrightarrow>
   rt_gas_limit t = rt_gas_limit s \<Longrightarrow> st_own P a (rt_state s) (rt_state t) \<Longrightarrow>
   rt_gas_counter t = rt_gas_counter s \<Longrightarrow> rt_logs t = rt_logs s \<Longrightarrow>
   rt_result t = rt_result s \<Longrightarrow> rt_step P a s t"
  by (simp add: rt_step_def rt_reach_def)

section \<open>Basic operations\<close>

lemma step_arg_u32 [frame_intros]: "stays (rt_step P a) (arg_u32 W args i)"
  unfolding arg_u32_def by (rule rt.stays_lift)

lemma step_arg_u64 [frame_intros]: "stays (rt_step P a) (arg_u64 W args i)"
  unfolding arg_u64_def by (rule rt.stays_lift)

lemma step_mem_get [frame_intros]: "stays (rt_step P a) (mem_get W p n)"
  by (rule rt.stays_const) (simp add: mem_get_def)

lemma step_mem_get_into [frame_intros]: "stays (rt_step P a) (mem_get_into W p n)"
  by (rule rt.stays_const) (simp add: mem_get_into_def)

lemma step_mem_set [frame_intros]: "stays (rt_step P a) (mem_set W p v)"
  by (rule staysI) (auto simp: mem_set_def rt.frame_refl st.frame_refl intro: rt_step_simple
      split: sum.split)

lemma step_on_state [frame_intros]: "stays (st_own P a) m \<Longrightarrow> stays (rt_step P a) (on_state m)"
  by (rule staysI) (simp add: on_state_def rt_step_simple staysD)

lemma step_with_address [frame_intros]:
  "stays (rt_step P a) (f a) \<Longrightarrow> stays (rt_step P a) (with_address f)"
  by (auto simp: stays_def with_address_def rt_step_def rt_reach_def)

lemma step_of_state [frame_intros]: "stays (rt_step P a) (of_state f)"
  by (rule rt.stays_const) (simp add: of_state_def)

text \<open>
  The meter against exact arithmetic: the charge is taken if and only if the sum stays within
  the limit, and a charge that is taken is exact.
\<close>

definition affordable :: "u64 \<Rightarrow> ('mem, 'p) runtime \<Rightarrow> bool" where
  "affordable amount s \<longleftrightarrow> unat (rt_gas_counter s) + unat amount \<le> unat (rt_gas_limit s)"

lemma charge_gas_run:
  "charge_gas amount s =
    (if affordable amount s then (True, s\<lparr>rt_gas_counter := rt_gas_counter s + amount\<rparr>) else (False, s))"
proof (cases "unat (rt_gas_counter s) + unat amount < 2 ^ 64")
  case True
  then show ?thesis
    by (simp add: charge_gas_def checked_add_def affordable_def word_less_nat_alt unat_plus_small)
next
  case False
  moreover have "unat (rt_gas_limit s) < 2 ^ 64" using unsigned_less [of "rt_gas_limit s"] by simp
  ultimately show ?thesis by (simp add: charge_gas_def checked_add_def affordable_def)
qed

lemma affordable_unat:
  "affordable amount s \<Longrightarrow>
    unat (rt_gas_counter s + amount) = unat (rt_gas_counter s) + unat amount"
proof -
  assume "affordable amount s"
  moreover have "unat (rt_gas_limit s) < 2 ^ 64" using unsigned_less [of "rt_gas_limit s"] by simp
  ultimately show ?thesis by (intro unat_plus_small) (simp add: affordable_def)
qed

lemma charge_amount_run:
  "charge_amount amount s =
    (if affordable amount s then (Ok (), s\<lparr>rt_gas_counter := rt_gas_counter s + amount\<rparr>)
     else (Err GasLimit, s))"
  by (simp add: charge_amount_def charge_gas_run)

lemma step_charge_amount [frame_intros]: "stays (rt_step P a) (charge_amount amount)"
  by (rule staysI)
    (auto simp: charge_amount_run rt.frame_refl rt_step_def rt_reach_def st.frame_refl
      word_le_nat_alt affordable_unat affordable_def)

lemma stays_env:
  "(\<And>s0. stays R (\<lambda>s. m (f s0) s)) \<Longrightarrow> stays R (\<lambda>s. m (f s) s)"
  by (simp add: stays_def)

lemma step_charge [frame_intros]: "stays (rt_step P a) (charge f)"
  unfolding charge_def
  by (rule stays_env [where f = rt_schedule]) (intro rt.stays_rules step_charge_amount)

lemma step_adjusted_charge [frame_intros]: "stays (rt_step P a) (adjusted_charge W f)"
  unfolding adjusted_charge_def by (rule step_charge)

lemma step_overflow_charge [frame_intros]: "stays (rt_step P a) (overflow_charge f)"
  unfolding overflow_charge_def
  by (rule stays_env [where f = rt_schedule]) (intro rt.stays_rules step_charge_amount)

lemma step_adjusted_overflow_charge [frame_intros]: "stays (rt_step P a) (adjusted_overflow_charge f)"
  unfolding adjusted_overflow_charge_def by (rule step_overflow_charge)

lemma step_h256_at [frame_intros]: "stays (rt_step P a) (h256_at W p)"
  unfolding h256_at_def by (intro rt.stays_rules frame_intros)

lemma step_address_at [frame_intros]: "stays (rt_step P a) (address_at W p)"
  unfolding address_at_def by (intro rt.stays_rules frame_intros)

lemma step_u256_at [frame_intros]: "stays (rt_step P a) (u256_at W p)"
  unfolding u256_at_def by (intro rt.stays_rules frame_intros)

lemma step_return_address [frame_intros]: "stays (rt_step P a) (return_address_ptr W p v)"
  unfolding return_address_ptr_def by (intro rt.stays_rules frame_intros)

lemma step_return_u256 [frame_intros]: "stays (rt_step P a) (return_u256_ptr W p v)"
  unfolding return_u256_ptr_def by (intro rt.stays_rules frame_intros)

lemma step_log:
  "length ts \<le> 4 \<Longrightarrow> rt_step P a s (rt_logs_update (\<lambda>logs. logs @
     [\<lparr>le_address = ap_address (rt_params s), le_topics = ts, le_data = d\<rparr>]) s)"
  by (simp add: rt_step_def rt_reach_def log_ok_def st.frame_refl)

end
