(* ===== verification/Dispatch_Laws.thy ===== *)
theory Dispatch_Laws
  imports Runtime_Laws
begin

text \<open>
  The host calls one by one, and the dispatcher \<open>invoke_index\<close> of
  \<open>durian/src/runtime.rs\<close> over all of them: every call stays within the frame of
  \<open>Runtime_Laws\<close>, only \<open>ret\<close> sets the result, and a call answers with the type its
  import signature declares.
\<close>

section \<open>The frame of each host call\<close>

lemma step_storage_read [frame_intros]: "stays (rt_step P a) (storage_read W P args)"
  unfolding storage_read_def by (intro rt.stays_rules frame_intros)

lemma step_storage_write [frame_intros]: "stays (rt_step P a) (storage_write W P args)"
  unfolding storage_write_def add_sstore_refund_def
  by (intro rt.stays_rules frame_intros stays_env [where f = "\<lambda>s. sc_sstore_refund_gas (rt_schedule s)"])

lemma step_gas [frame_intros]: "stays (rt_step P a) (gas W args)"
  unfolding gas_def by (intro rt.stays_rules frame_intros)

lemma step_gasleft [frame_intros]: "stays (rt_step P a) (gasleft W)"
  by (rule rt.stays_const)
    (auto simp: gasleft_def rbind_def lift_def pure_def split: outcome.split)

lemma step_fetch_input [frame_intros]: "stays (rt_step P a) (fetch_input W args)"
  unfolding fetch_input_def by (intro rt.stays_rules frame_intros)

lemma step_panic [frame_intros]: "stays (rt_step P a) (panic W args)"
  unfolding panic_def by (intro rt.stays_rules frame_intros)

lemma step_debug [frame_intros]: "stays (rt_step P a) (debug W args)"
  unfolding debug_def by (intro rt.stays_rules frame_intros)

lemma step_do_call [frame_intros]: "stays (rt_step P a) (do_call W P use_val t args)"
  unfolding do_call_def Let_def
  by (intro rt.stays_rules frame_intros stays_env [where f = rt_schedule])

lemma step_ccall [frame_intros]: "stays (rt_step P a) (ccall W P args)"
  unfolding ccall_def by (rule step_do_call)

lemma step_create [frame_intros]: "stays (rt_step P a) (create args)"
  unfolding create_def by (intro rt.stays_rules)

lemma step_suicide [frame_intros]: "stays (rt_step P a) (suicide W args)"
  unfolding suicide_def by (intro rt.stays_rules frame_intros)

lemma step_value_passed [frame_intros]: "stays (rt_step P a) (value_passed W args)"
  unfolding value_passed_def by (intro rt.stays_rules frame_intros)

lemma step_block_hash [frame_intros]: "stays (rt_step P a) (rt_block_hash W P args)"
  unfolding rt_block_hash_def by (intro rt.stays_rules frame_intros)

lemma step_block_number [frame_intros]: "stays (rt_step P a) (rt_block_number P)"
  unfolding rt_block_number_def by (intro rt.stays_rules frame_intros)

lemma step_block_author [frame_intros]: "stays (rt_step P a) (rt_block_author W P args)"
  unfolding rt_block_author_def by (intro rt.stays_rules frame_intros)

lemma step_difficulty [frame_intros]: "stays (rt_step P a) (rt_difficulty W P args)"
  unfolding rt_difficulty_def by (intro rt.stays_rules frame_intros)

lemma step_gaslimit [frame_intros]: "stays (rt_step P a) (gaslimit W P args)"
  unfolding gaslimit_def by (intro rt.stays_rules frame_intros)

lemma step_timestamp [frame_intros]: "stays (rt_step P a) (rt_timestamp P)"
  unfolding rt_timestamp_def by (intro rt.stays_rules frame_intros)

lemma step_own_address [frame_intros]: "stays (rt_step P a) (own_address W args)"
  unfolding own_address_def by (intro rt.stays_rules frame_intros)

lemma step_sender [frame_intros]: "stays (rt_step P a) (sender W args)"
  unfolding sender_def by (intro rt.stays_rules frame_intros)

lemma step_origin [frame_intros]: "stays (rt_step P a) (origin W args)"
  unfolding origin_def by (intro rt.stays_rules frame_intros)

lemma step_read_topics [frame_intros]: "stays (rt_step P a) (read_topics W p i n)"
  by (induction n arbitrary: i) (auto intro!: rt.stays_rules frame_intros)

lemma length_read_topics: "read_topics W p i n s = (Ok ts, t) \<Longrightarrow> length ts = n"
  by (induction n arbitrary: i s ts t) (auto elim!: rbind_OkE simp: pure_def)

section \<open>The event log\<close>

text \<open>The tail of \<open>elog\<close> once the entry is paid for.\<close>

lemma step_elog_tail:
  fixes P :: "'p provider" and W :: "('args, 'mem) wasmi_host"
  assumes c: "\<not> 4 < (c :: u32)"
  shows "stays (rt_step P a) (rbind (read_topics W p 0 (unat c)) (\<lambda>topics.
       rbind (mem_get W dp dl) (\<lambda>data.
       with_address (\<lambda>address.
         modify (rt_logs_update (\<lambda>logs. logs @
           [\<lparr>le_address = address, le_topics = topics, le_data = data\<rparr>]))))))"
    (is "stays (rt_step P a) ?m")
proof (rule staysI)
  fix s :: "('mem, 'p) runtime"
  obtain r t where run: "read_topics W p 0 (unat c) s = (r, t)" by fastforce
  have st: "rt_step P a s t" using staysD_run [OF step_read_topics run] .
  show "rt_step P a s (snd (?m s))"
  proof (cases r)
    case (Ok ts)
    have "length ts \<le> 4"
      using length_read_topics run Ok c by (fastforce simp: word_less_nat_alt)
    then have log: "rt_step P a t (rt_logs_update (\<lambda>logs. logs @
        [\<lparr>le_address = ap_address (rt_params t), le_topics = ts, le_data = d\<rparr>]) t)" for d
      by (rule step_log)
    obtain q where get: "mem_get W dp dl t = (q, t)" by (simp add: mem_get_def)
    from st rt.frame_trans [OF st log] run Ok get show ?thesis
      by (cases q) (simp_all add: rbind_def with_address_def modify_def)
  qed (use st run in \<open>simp_all add: rbind_def\<close>)
qed

lemma step_elog [frame_intros]: "stays (rt_step P a) (elog W args)"
  unfolding elog_def by (intro rt.stays_rules frame_intros step_elog_tail)

section \<open>The dispatcher\<close>

lemma snd_trap_of: "snd (trap_of m s) = snd (m s)"
  by (simp add: trap_of_def)

lemma stays_trap_of: "stays R m \<Longrightarrow> stays R (trap_of m)"
  by (simp add: stays_def snd_trap_of)

lemma stays_void [frame_intros]: "stays (rt_step P a) m \<Longrightarrow> stays (rt_step P a) (void m)"
  unfolding void_def by (intro rt.stays_rules stays_trap_of)

lemma stays_some [frame_intros]: "stays (rt_step P a) m \<Longrightarrow> stays (rt_step P a) (some m)"
  unfolding some_def by (intro rt.stays_rules stays_trap_of)

lemma stays_cast [frame_intros]: "stays (rt_step P a) (cast f)"
  by (rule rt.stays_const) (simp add: cast_def)

lemma reach_ret: "stays (rt_reach P a) (ret W args)"
  unfolding ret_def
  by (intro reach.stays_rules reach.stays_modify stays_rt_reach frame_intros)
    (simp add: rt_reach_def st.frame_refl)

lemma reach_void_ret: "stays (rt_reach P a) (void (ret W args))"
  unfolding void_def by (intro reach.stays_rules stays_trap_of reach_ret)

text \<open>Every index but that of \<open>ret\<close>: the full frame. Every index: the frame but the result.\<close>

lemma invoke_step: "index \<noteq> RET_FUNC \<Longrightarrow> stays (rt_step P a) (invoke_index W P index args)"
  unfolding invoke_index_def
  by (simp only: if_False, intro rt.stays_if frame_intros rt.stays_const) auto

lemma invoke_reach: "stays (rt_reach P a) (invoke_index W P index args)"
proof (cases "index = RET_FUNC")
  case True
  then have "invoke_index W P index args = void (ret W args)"
    by (simp add: invoke_index_def id_defs)
  then show ?thesis by (simp add: reach_void_ret)
qed (simp add: stays_rt_reach invoke_step)

text \<open>\<open>ret\<close> always ends in a trap; it sets the result exactly when that trap is \<open>Return\<close>.\<close>

lemma ret_cases:
  "ret W args s = (r, t) \<Longrightarrow> r \<noteq> Crash \<and> (\<forall>x. r \<noteq> Ok x) \<and>
    (if r = Err Return then \<exists>v. t = s\<lparr>rt_result := v\<rparr> else t = s)"
  by (auto simp: ret_def rbind_def arg_u32_def lift_def mem_get_def modify_def fail_def
      error_from_trap_no_control error_from_wasmi_no_control
      split: outcome.splits sum.splits if_splits prod.splits)

definition return_trap :: trap_kind where
  "return_trap = TrapHost (RuntimeError Return)"

lemma invoke_result:
  fixes P :: "'p provider" and s :: "('mem, 'p) runtime"
  assumes "invoke_index W P index args s = (r, t)"
  shows "rt_result t = rt_result s \<or> r = Err return_trap"
proof (cases "index = RET_FUNC")
  case True
  then have i: "invoke_index W P index args = void (ret W args)"
    by (simp add: invoke_index_def id_defs)
  obtain q u where ret: "ret W args s = (q, u)" by fastforce
  from ret_cases [OF ret] assms i ret show ?thesis
    by (cases q) (auto simp: void_def trap_of_def rbind_def return_trap_def split: if_splits)
next
  case False
  from staysD_run [OF invoke_step [OF False, of P "ap_address (rt_params s)"] assms]
  show ?thesis by (simp add: rt_step_def)
qed

end
