(* ===== verification/Write_Back.thy ===== *)
theory Write_Back
  imports Account_State
begin

text \<open>
  What \<open>update_state\<close> of \<open>durian/src/state.rs\<close> does to a provider that keeps its contract:
  a closed description of accounts and storage afterwards, which does not mention the
  iteration orders of the hash maps. The proofs are made once, against the provider's laws.
\<close>

section \<open>The description\<close>

text \<open>The value written to a slot, if any, and whether an account has a slot to write.\<close>

definition dirty_slot :: "(h256 \<rightharpoonup> h256 \<times> bool) \<Rightarrow> h256 \<rightharpoonup> h256" where
  "dirty_slot m k = (case m k of Some (v, True) \<Rightarrow> Some v | _ \<Rightarrow> None)"

definition written_stored ::
  "(address \<rightharpoonup> account_info \<times> bool) \<Rightarrow> (address \<Rightarrow> h256 \<rightharpoonup> h256) \<Rightarrow> address \<Rightarrow> h256 \<rightharpoonup> h256" where
  "written_stored accs base a = (case accs a of
     Some (acc, _) \<Rightarrow> base a ++ dirty_slot (ai_storage acc) | None \<Rightarrow> base a)"

definition written_acct ::
  "(bytes \<Rightarrow> state_account) \<Rightarrow> (address \<rightharpoonup> account_info \<times> bool) \<Rightarrow> (address \<rightharpoonup> state_account) \<Rightarrow>
   address \<rightharpoonup> state_account" where
  "written_acct fresh accs base a = (case accs a of
     Some (acc, True) \<Rightarrow> Some (case base a of
         None \<Rightarrow> fresh (ai_code acc)
       | Some x \<Rightarrow> x\<lparr>sa_balance := ai_balance acc, sa_nonce := ai_nonce acc\<rparr>)
   | _ \<Rightarrow> base a)"

definition dirty_accounts :: "(address \<rightharpoonup> account_info \<times> bool) \<Rightarrow> address set" where
  "dirty_accounts accs = {a. \<exists>acc. accs a = Some (acc, True)}"

text \<open>Every account with a slot to write exists, or will be created.\<close>

definition flushable :: "(address \<rightharpoonup> state_account) \<Rightarrow> (address \<rightharpoonup> account_info \<times> bool) \<Rightarrow> bool" where
  "flushable base accs \<longleftrightarrow>
     (\<forall>a acc. accs a = Some (acc, False) \<longrightarrow> base a \<noteq> None \<or> dirty_slot (ai_storage acc) = Map.empty)"

lemma dirty_slot_empty [simp]: "dirty_slot Map.empty = Map.empty"
  by (simp add: dirty_slot_def fun_eq_iff)

lemma dirty_slot_upd:
  "dirty_slot (m(k \<mapsto> (v, d))) = (if d then (dirty_slot m)(k \<mapsto> v) else (dirty_slot m)(k := None))"
  by (auto simp: dirty_slot_def fun_eq_iff)

lemma dirty_slot_Cons:
  assumes "k \<notin> fst ` set slots"
  shows "dirty_slot (map_of ((k, v, d) # slots)) =
    (if d then (dirty_slot (map_of slots))(k \<mapsto> v) else dirty_slot (map_of slots))"
    and "dirty_slot (map_of slots) k = None"
proof -
  from assms have none: "map_of slots k = None" by (simp add: map_of_eq_None_iff)
  then show "dirty_slot (map_of slots) k = None" by (simp add: dirty_slot_def)
  with dirty_slot_upd [of "map_of slots" k v d]
  show "dirty_slot (map_of ((k, v, d) # slots)) =
    (if d then (dirty_slot (map_of slots))(k \<mapsto> v) else dirty_slot (map_of slots))"
    by (simp add: fun_upd_idem)
qed

section \<open>The loops against the provider's laws\<close>

context provider_store
begin

lemma flush_storage_ok:
  assumes "inv p" and "distinct (map fst slots)"
    and "acct P p a \<noteq> None \<or> dirty_slot (map_of slots) = Map.empty"
  shows "\<exists>p'. flush_storage P a slots p = (Ok (), p') \<and> inv p' \<and> room p' = room p \<and>
    acct P p' = acct P p \<and> stored P p' = (stored P p)(a := stored P p a ++ dirty_slot (map_of slots))"
  using assms
proof (induction slots arbitrary: p)
  case Nil
  then show ?case by (simp add: pure_def)
next
  case (Cons slot slots)
  obtain k v d where slot: "slot = (k, v, d)" by (cases slot)
  have new: "k \<notin> fst ` set slots" and dist: "distinct (map fst slots)"
    using Cons.prems(2) slot by auto
  note none = dirty_slot_Cons(2) [OF new]
  have ds: "dirty_slot (map_of (slot # slots)) =
      (if d then (dirty_slot (map_of slots))(k \<mapsto> v) else dirty_slot (map_of slots))"
    using dirty_slot_Cons(1) [OF new] slot by simp
  show ?case
  proof (cases d)
    case False
    with ds have eq: "dirty_slot (map_of (slot # slots)) = dirty_slot (map_of slots)" by simp
    have run: "flush_storage P a (slot # slots) p = flush_storage P a slots p"
      using False by (simp add: slot rbind_def pure_run)
    show ?thesis
      using Cons.IH [OF Cons.prems(1) dist Cons.prems(3) [unfolded eq]] unfolding eq run .
  next
    case True
    with ds have eq: "dirty_slot (map_of (slot # slots)) = (dirty_slot (map_of slots))(k \<mapsto> v)" by simp
    have a: "acct P p a \<noteq> None" using Cons.prems(3) map_upd_nonempty unfolding eq by metis
    from set_ok [OF Cons.prems(1) a, of k v] obtain q where
      q: "pv_set_storage P a k v p = (Ok (), q)" "inv q" "room q = room p" "acct P q = acct P p"
        "stored P q = (stored P p)(a := (stored P p a)(k \<mapsto> v))" by blast
    from a q(4) have "acct P q a \<noteq> None \<or> dirty_slot (map_of slots) = Map.empty" by simp
    from Cons.IH [OF q(2) dist this] obtain r where
      r: "flush_storage P a slots q = (Ok (), r)" "inv r" "room r = room q" "acct P r = acct P q"
        "stored P r = (stored P q)(a := stored P q a ++ dirty_slot (map_of slots))" by blast
    have "(stored P p a)(k \<mapsto> v) ++ dirty_slot (map_of slots) =
        stored P p a ++ (dirty_slot (map_of slots))(k \<mapsto> v)"
      using none by (auto simp: fun_eq_iff map_add_def split: option.split)
    then have "stored P r = (stored P p)(a := stored P p a ++ dirty_slot (map_of (slot # slots)))"
      unfolding eq using q(5) r(5) by simp
    moreover have "flush_storage P a (slot # slots) p = (Ok (), r)"
      using True q(1) r(1) by (simp add: slot rbind_def)
    moreover have "acct P r = acct P p" "room r = room p" using q(3,4) r(3,4) by simp_all
    ultimately show ?thesis using r(2) by (intro exI [of _ r] conjI)
  qed
qed

lemma flush_account_ok:
  assumes "inv p" and room: "d \<Longrightarrow> 0 < room p" and can: "d \<Longrightarrow> updates \<or> acct P p a = None"
  shows "\<exists>p'. flush_account P a acc d p = (Ok (), p') \<and> inv p' \<and>
    room p \<le> room p' + (if d then 1 else 0) \<and> stored P p' = stored P p \<and>
    acct P p' = written_acct fresh [a \<mapsto> (acc, d)] (acct P p)"
proof (cases d)
  case False
  with assms(1) show ?thesis by (simp add: flush_account_def pure_run written_acct_def fun_eq_iff)
next
  case True
  show ?thesis
  proof (cases "acct P p a")
    case None
    with create_ok [OF assms(1) None room [OF True], of "ai_code acc"] exist_iff [OF assms(1), of a] True show ?thesis
      by (auto simp: flush_account_def written_acct_def fun_eq_iff)
  next
    case (Some x)
    with can True have updates by simp
    with Some update_ok [OF this assms(1) Some, of "ai_balance acc" "ai_nonce acc"]
      exist_iff [OF assms(1), of a] True show ?thesis
      by (auto simp: flush_account_def written_acct_def fun_eq_iff)
  qed
qed

end

lemma map_of_new: "a \<notin> fst ` set accs \<Longrightarrow> map_of accs a = None"
  by (simp add: map_of_eq_None_iff)

lemma written_acct_Cons:
  assumes "a \<notin> fst ` set accs"
  shows "written_acct fr (map_of ((a, acc, d) # accs)) base =
    written_acct fr (map_of accs) (written_acct fr [a \<mapsto> (acc, d)] base)"
  using map_of_new [OF assms] by (auto simp: written_acct_def fun_eq_iff split: option.split bool.split)

lemma written_stored_Cons:
  assumes "a \<notin> fst ` set accs"
  shows "written_stored (map_of ((a, acc, d) # accs)) base =
    written_stored (map_of accs) (base(a := base a ++ dirty_slot (ai_storage acc)))"
  using map_of_new [OF assms] by (auto simp: written_stored_def fun_eq_iff split: option.split)

lemma flushable_Cons:
  assumes "a \<notin> fst ` set accs" and "flushable base (map_of ((a, acc, d) # accs))"
  shows "d \<or> base a \<noteq> None \<or> dirty_slot (ai_storage acc) = Map.empty"
    and "flushable (written_acct fr [a \<mapsto> (acc, d)] base) (map_of accs)"
proof -
  show "d \<or> base a \<noteq> None \<or> dirty_slot (ai_storage acc) = Map.empty"
    using assms(2) by (cases d) (auto simp: flushable_def)
  have "map_of accs b = Some e \<Longrightarrow> b \<noteq> a" for b e
    using assms(1) by (force dest: map_of_SomeD)
  with assms(2) show "flushable (written_acct fr [a \<mapsto> (acc, d)] base) (map_of accs)"
    by (auto simp: flushable_def written_acct_def split: bool.splits)
qed

context provider_store
begin

lemma flush_accounts_ok:
  assumes "inv p" and "distinct (map fst accs)"
    and "\<And>a acc d. (a, acc, d) \<in> set accs \<Longrightarrow> enumerates (ho_storage H (ai_storage acc)) (ai_storage acc)"
    and "flushable (acct P p) (map_of accs)"
    and "length (filter (\<lambda>(a, acc, d). d) accs) \<le> room p"
    and "\<And>a acc. (a, acc, True) \<in> set accs \<Longrightarrow> updates \<or> acct P p a = None"
  shows "\<exists>p'. flush_accounts H P accs p = (Ok (), p') \<and> inv p' \<and>
    acct P p' = written_acct fresh (map_of accs) (acct P p) \<and>
    stored P p' = written_stored (map_of accs) (stored P p)"
  using assms
proof (induction accs arbitrary: p)
  case Nil
  then show ?case by (simp add: pure_run written_acct_def written_stored_def fun_eq_iff)
next
  case (Cons e accs)
  obtain a acc d where e: "e = (a, acc, d)" by (cases e)
  let ?slots = "entries (ho_storage H (ai_storage acc)) (ai_storage acc)"
  have new: "a \<notin> fst ` set accs" and dist: "distinct (map fst accs)"
    using Cons.prems(2) e by auto
  have enum: "enumerates (ho_storage H (ai_storage acc)) (ai_storage acc)"
    using Cons.prems(3) e by auto
  note fl = flushable_Cons [OF new Cons.prems(4) [unfolded e]]
  have "d \<Longrightarrow> 0 < room p" and "d \<Longrightarrow> updates \<or> acct P p a = None"
    using Cons.prems(5) Cons.prems(6) [of a acc] e by auto
  from flush_account_ok [OF Cons.prems(1) this, where acc = acc] obtain q where
    q: "flush_account P a acc d p = (Ok (), q)" "inv q" "stored P q = stored P p"
      "acct P q = written_acct fresh [a \<mapsto> (acc, d)] (acct P p)"
      "room p \<le> room q + (if d then 1 else 0)" by blast
  have "acct P q a \<noteq> None \<or> dirty_slot (map_of ?slots) = Map.empty"
    using fl(1) q(4) by (auto simp: written_acct_def map_of_entries [OF enum] split: bool.splits)
  then obtain r where
    r: "flush_storage P a ?slots q = (Ok (), r)" "inv r" "acct P r = acct P q"
      "stored P r = (stored P q)(a := stored P q a ++ dirty_slot (ai_storage acc))" "room r = room q"
    using flush_storage_ok [OF q(2), of ?slots a] enum
    by (auto simp: distinct_entries enumerates_def map_of_entries [OF enum])
  have "flushable (acct P r) (map_of accs)" using fl(2) [of fresh] q(4) r(3) by simp
  moreover have "length (filter (\<lambda>(a, acc, d). d) accs) \<le> room r"
    using Cons.prems(5) q(5) r(5) e by (auto split: if_splits)
  moreover have "\<And>a acc d. (a, acc, d) \<in> set accs \<Longrightarrow>
      enumerates (ho_storage H (ai_storage acc)) (ai_storage acc)"
    using Cons.prems(3) by auto
  moreover have "updates \<or> acct P r b = None" if b: "(b, acc', True) \<in> set accs" for b acc'
  proof -
    have "b \<noteq> a" using b new by force
    then have "acct P r b = acct P p b" by (simp add: q(4) r(3) written_acct_def)
    with Cons.prems(6) [of b acc'] b show ?thesis by simp
  qed
  ultimately obtain p' where
    p': "flush_accounts H P accs r = (Ok (), p')" "inv p'"
      "acct P p' = written_acct fresh (map_of accs) (acct P r)"
      "stored P p' = written_stored (map_of accs) (stored P r)"
    using Cons.IH [OF r(2) dist] by blast
  have "acct P p' = written_acct fresh (map_of (e # accs)) (acct P p)"
    using p'(3) r(3) q(4) written_acct_Cons [OF new, of fresh acc d] by (simp add: e del: map_of.simps)
  moreover have "stored P p' = written_stored (map_of (e # accs)) (stored P p)"
    using p'(4) r(4) q(3) written_stored_Cons [OF new, of acc d] by (simp add: e del: map_of.simps)
  moreover have "flush_accounts H P (e # accs) p = (Ok (), p')"
    using p'(1) q(1) r(1) by (simp add: e rbind_def)
  ultimately show ?case using p'(2) by (intro exI [of _ p'] conjI)
qed

text \<open>The whole of \<open>update_state\<close>, for every iteration order.\<close>

lemma length_dirty:
  assumes "enumerates ks m"
  shows "length (filter (\<lambda>(a, acc, d). d) (entries ks m)) = card (dirty_accounts m)"
proof -
  let ?f = "filter (\<lambda>(a, acc, d). d) (entries ks m)"
  have d: "distinct (map fst ?f)"
    using distinct_entries assms by (auto simp: enumerates_def intro: distinct_map_filter)
  have "fst ` set ?f = dirty_accounts m"
    using assms by (force simp: set_entries dirty_accounts_def enumerates_def)
  with distinct_card [OF d] show ?thesis by simp
qed

lemma store_update_state:
  assumes "inv (st_provider s)"
    and "enumerates (ho_accounts H (st_accounts s)) (st_accounts s)"
    and "\<And>a acc d. st_accounts s a = Some (acc, d) \<Longrightarrow>
      enumerates (ho_storage H (ai_storage acc)) (ai_storage acc)"
    and "flushable (acct P (st_provider s)) (st_accounts s)"
    and "card (dirty_accounts (st_accounts s)) \<le> room (st_provider s)"
    and "\<And>a. a \<in> dirty_accounts (st_accounts s) \<Longrightarrow> updates \<or> acct P (st_provider s) a = None"
  shows "\<exists>p'. update_state H P s = (Ok (), s\<lparr>st_provider := p'\<rparr>) \<and> inv p' \<and>
    acct P p' = written_acct fresh (st_accounts s) (acct P (st_provider s)) \<and>
    stored P p' = written_stored (st_accounts s) (stored P (st_provider s))"
proof -
  let ?accs = "entries (ho_accounts H (st_accounts s)) (st_accounts s)"
  have m: "map_of ?accs = st_accounts s" and d: "distinct (map fst ?accs)"
    using assms(2) map_of_entries distinct_entries by (auto simp: enumerates_def)
  have "(a, acc, d) \<in> set ?accs \<Longrightarrow> enumerates (ho_storage H (ai_storage acc)) (ai_storage acc)"
    for a acc d using assms(3) by (auto simp: set_entries)
  moreover have "(a, acc, True) \<in> set ?accs \<Longrightarrow> updates \<or> acct P (st_provider s) a = None" for a acc
    using assms(6) by (auto simp: set_entries dirty_accounts_def)
  ultimately show ?thesis
    using flush_accounts_ok [OF assms(1) d, of H] assms(4,5)
    by (fastforce simp: m update_state_def length_dirty [OF assms(2)])
qed

end

context provider_contract
begin

lemma update_state_ok:
  assumes "inv (st_provider s)"
    and "enumerates (ho_accounts H (st_accounts s)) (st_accounts s)"
    and "\<And>a acc d. st_accounts s a = Some (acc, d) \<Longrightarrow>
      enumerates (ho_storage H (ai_storage acc)) (ai_storage acc)"
    and "flushable (acct P (st_provider s)) (st_accounts s)"
    and "card (dirty_accounts (st_accounts s)) \<le> room (st_provider s)"
  shows "\<exists>p'. update_state H P s = (Ok (), s\<lparr>st_provider := p'\<rparr>) \<and> inv p' \<and>
    acct P p' = written_acct fresh (st_accounts s) (acct P (st_provider s)) \<and>
    stored P p' = written_stored (st_accounts s) (stored P (st_provider s))"
  by (rule store_update_state [OF assms]) simp_all

end

end
