(* ===== verification/Execute_Laws.thy ===== *)
theory Execute_Laws
  imports Execute Dispatch_Laws Write_Back
begin

text \<open>
  Whole runs of a contract: induction over a run that returns, the frame of a run, where a
  result can come from, and termination under gas metering.
\<close>

section \<open>Induction over a run that returns\<close>

lemma run_guest_induct [consumes 1, case_names finished internal reply trap crash]:
  fixes s :: "('mem, 'p) runtime"
  assumes run: "run_guest W P step cfg s = Some (r, t)"
    and finished: "\<And>cfg s k m. step cfg (rt_memory s) = Finished k m \<Longrightarrow>
      Q cfg s (case k of None \<Rightarrow> Ok () | Some k \<Rightarrow> Err k) (s\<lparr>rt_memory := m\<rparr>)"
    and internal: "\<And>cfg s cfg' m r t. step cfg (rt_memory s) = Internal cfg' m \<Longrightarrow>
      Q cfg' (s\<lparr>rt_memory := m\<rparr>) r t \<Longrightarrow> Q cfg s r t"
    and reply: "\<And>cfg s i a m k v s' r t. step cfg (rt_memory s) = HostCall i a m k \<Longrightarrow>
      invoke_index W P i a (s\<lparr>rt_memory := m\<rparr>) = (Ok v, s') \<Longrightarrow>
      Q (k (Inr v)) s' r t \<Longrightarrow> Q cfg s r t"
    and trap: "\<And>cfg s i a m k e s' r t. step cfg (rt_memory s) = HostCall i a m k \<Longrightarrow>
      invoke_index W P i a (s\<lparr>rt_memory := m\<rparr>) = (Err e, s') \<Longrightarrow>
      Q (k (Inl e)) s' r t \<Longrightarrow> Q cfg s r t"
    and crash: "\<And>cfg s i a m k s'. step cfg (rt_memory s) = HostCall i a m k \<Longrightarrow>
      invoke_index W P i a (s\<lparr>rt_memory := m\<rparr>) = (Crash, s') \<Longrightarrow> Q cfg s Crash s'"
  shows "Q cfg s r t"
proof -
  let ?Q = "\<lambda>((((W', P'), step'), cfg), s) y.
    W' = W \<longrightarrow> P' = P \<longrightarrow> step' = step \<longrightarrow> Q cfg s (fst y) (snd y)"
  have "?Q ((((W, P), step), cfg), s) (r, t)"
  proof (rule run_guest.raw_induct [of ?Q, OF _ run], goal_cases)
    case (1 run W' P' step' cfg s y)
    have IH: "run W P step cfg s = Some y \<Longrightarrow> Q cfg s (fst y) (snd y)" for cfg s y
      using 1(1) by fastforce
    show ?case
    proof (clarsimp)
      assume eqs: "W' = W" "P' = P" "step' = step"
      note eq = 1(2) [unfolded eqs]
      show "Q cfg s (fst y) (snd y)"
      proof (cases "step cfg (rt_memory s)")
        case (Finished k m)
        with eq finished [OF Finished] show ?thesis by auto
      next
        case (Internal cfg' m)
        with eq IH internal show ?thesis by auto
      next
        case (HostCall i a m k)
        obtain q u where inv: "invoke_index W P i a (s\<lparr>rt_memory := m\<rparr>) = (q, u)" by fastforce
        with eq HostCall IH reply trap crash show ?thesis by (cases q) auto
      qed
    qed
  qed
  then show ?thesis by simp
qed

section \<open>Every run stays within the frame\<close>

lemma rt_reach_memory: "rt_reach P a s (s\<lparr>rt_memory := m\<rparr>)"
  by (simp add: rt_reach_def st.frame_refl)

lemma rt_reach_call:
  "invoke_index W P i args (s\<lparr>rt_memory := m\<rparr>) = (q, u) \<Longrightarrow> rt_reach P a s u"
  using rt_reach_trans [OF rt_reach_memory staysD_run [OF invoke_reach]] .

lemma run_guest_reach: "run_guest W P step cfg s = Some (r, t) \<Longrightarrow> rt_reach P a s t"
proof (induction rule: run_guest_induct)
  case finished
  show ?case by (rule rt_reach_memory)
next
  case internal
  then show ?case by (blast intro: rt_reach_trans [OF rt_reach_memory])
qed (blast intro: rt_reach_trans rt_reach_call)+

section \<open>Where a result comes from\<close>

lemma not_finishing:
  "step cfg m0 = e \<Longrightarrow> e \<noteq> Finished (Some k) m0 \<Longrightarrow> \<not> (\<forall>m. step cfg m = Finished (Some k) m)"
  by metis

lemma run_guest_result:
  assumes abort: "host_traps_abort step" and run: "run_guest W P step cfg s = Some (r, t)"
  shows "rt_result t = rt_result s \<or> r = Err return_trap"
proof -
  have "(rt_result t = rt_result s \<or> r = Err return_trap) \<and>
    (\<forall>k. (\<forall>m. step cfg m = Finished (Some k) m) \<longrightarrow> r = Err k \<and> rt_result t = rt_result s)"
    using run
  proof (induction rule: run_guest_induct)
    case (finished cfg s k m)
    then show ?case by auto
  next
    case (internal cfg s cfg' m r t)
    have "\<not> (\<forall>m. step cfg m = Finished (Some k) m)" for k
      using not_finishing [of step cfg "rt_memory s", OF internal(1)] by simp
    with internal(2) show ?case by auto
  next
    case (reply cfg s i a m k v s' r t)
    have "\<not> (\<forall>m. step cfg m = Finished (Some k) m)" for k
      using not_finishing [of step cfg "rt_memory s", OF reply(1)] by simp
    with invoke_result [OF reply(2)] reply(3) show ?case by auto
  next
    case (trap cfg s i a m k e s' r t)
    have "\<forall>m. step (k (Inl e)) m = Finished (Some e) m"
      using abort trap(1) unfolding host_traps_abort_def by blast
    with trap(3) have "r = Err e" and "rt_result t = rt_result s'" by auto
    moreover have "\<not> (\<forall>m. step cfg m = Finished (Some k) m)" for k
      using not_finishing [of step cfg "rt_memory s", OF trap(1)] by simp
    ultimately show ?case using invoke_result [OF trap(2)] by auto
  next
    case (crash cfg s i a m k s')
    have "\<not> (\<forall>m. step cfg m = Finished (Some k) m)" for k
      using not_finishing [of step cfg "rt_memory s", OF crash(1)] by simp
    with invoke_result [OF crash(2)] show ?case by auto
  qed
  then show ?thesis by blast
qed

lemma run_guest_aborted:
  assumes "host_traps_abort step" and "step c m0 = HostCall i args m1 resume"
  shows "run_guest W P step (resume (Inl t)) s = Some (Err t, s)"
proof -
  have "step (resume (Inl t)) (rt_memory s) = Finished (Some t) (rt_memory s)"
    using assms unfolding host_traps_abort_def by blast
  then show ?thesis by (simp add: run_guest.simps)
qed

section \<open>Metered runs return\<close>

text \<open>
  What the gas instrumentation (\<open>pwasm_utils::inject_gas_counter\<close>) gives, as a hypothesis on
  the interpreter's steps: each step brings the run nearer to the end of the current metered
  block (the rank), unless it is the call of \<open>gas\<close> with a positive amount that opens a new one.
\<close>

definition charges :: "('args, 'mem) wasmi_host \<Rightarrow> nat \<Rightarrow> 'args \<Rightarrow> bool" where
  "charges W i args \<longleftrightarrow> i = GAS_FUNC \<and> (\<exists>n. wh_u32 W args 0 = Inr n \<and> n \<noteq> 0)"

definition metered ::
  "('args, 'mem) wasmi_host \<Rightarrow> ('cfg \<Rightarrow> 'mem \<Rightarrow> ('cfg, 'args, 'mem) event) \<Rightarrow> ('cfg \<Rightarrow> nat) \<Rightarrow> bool" where
  "metered W step rank \<longleftrightarrow> (\<forall>cfg m. case step cfg m of
      Finished k m' \<Rightarrow> True
    | Internal cfg' m' \<Rightarrow> rank cfg' < rank cfg
    | HostCall i a m' resume \<Rightarrow> charges W i a \<or> (\<forall>v. rank (resume (Inr v)) < rank cfg))"

definition gas_room :: "('mem, 'p) runtime \<Rightarrow> nat" where
  "gas_room s = unat (rt_gas_limit s) - unat (rt_gas_counter s)"

lemma invoke_gas:
  assumes "wh_u32 W args 0 = Inr n"
  shows "invoke_index W P GAS_FUNC args s =
    (if affordable (ucast n) s then (Ok None, s\<lparr>rt_gas_counter := rt_gas_counter s + ucast n\<rparr>)
     else (Err (TrapHost (RuntimeError GasLimit)), s))"
  using assms
  by (simp add: invoke_index_def id_defs void_def trap_of_def rbind_def gas_def arg_u32_def
      lift_def charge_amount_run pure_def)

lemma charges_lowers_room:
  assumes "charges W i args" and "invoke_index W P i args s = (Ok v, t)"
  shows "gas_room t < gas_room s"
proof -
  obtain n where n: "wh_u32 W args 0 = Inr n" "n \<noteq> 0" and i: "i = GAS_FUNC"
    using assms(1) by (auto simp: charges_def)
  with assms(2) have aff: "affordable (ucast n) s"
    and t: "t = s\<lparr>rt_gas_counter := rt_gas_counter s + ucast n\<rparr>"
    by (auto simp: invoke_gas split: if_splits)
  have "unat (ucast n :: u64) = unat n" by (rule unat_ucast_up) simp
  moreover have "0 < unat n" using n(2) unat_gt_0 by auto
  ultimately show ?thesis
    using aff affordable_unat [OF aff] by (simp add: gas_room_def t affordable_def)
qed

lemma reach_room:
  "rt_reach P (ap_address (rt_params s)) s t \<Longrightarrow> gas_room t \<le> gas_room s"
  by (simp add: rt_reach_def gas_room_def word_le_nat_alt diff_le_mono2)

lemma run_guest_returns:
  fixes s :: "('mem, 'p) runtime"
  assumes abort: "host_traps_abort step" and met: "metered W step rank"
  shows "\<exists>r t. run_guest W P step cfg s = Some (r, t)"
proof -
  let ?R = "measures [\<lambda>(cfg, s :: ('mem, 'p) runtime). gas_room s, \<lambda>(cfg, s). rank cfg]"
  have "case x of (cfg, s) \<Rightarrow> \<exists>r t. run_guest W P step cfg s = Some (r, t)" for x
  proof (induction x rule: wf_induct_rule [OF wf_measures, of "[\<lambda>(cfg, s :: ('mem, 'p) runtime). gas_room s, \<lambda>(cfg, s). rank cfg]"])
    case (1 x)
    obtain cfg and s :: "('mem, 'p) runtime" where x: "x = (cfg, s)" by (cases x)
    have IH: "gas_room s' < gas_room s \<or> gas_room s' \<le> gas_room s \<and> rank cfg' < rank cfg \<Longrightarrow>
      \<exists>r t. run_guest W P step cfg' s' = Some (r, t)" for cfg' and s' :: "('mem, 'p) runtime"
      using 1 [of "(cfg', s')"] by (auto simp: x le_less)
    from met have step: "case step cfg (rt_memory s) of
      Finished k m' \<Rightarrow> True
    | Internal cfg' m' \<Rightarrow> rank cfg' < rank cfg
    | HostCall i a m' resume \<Rightarrow> charges W i a \<or> (\<forall>v. rank (resume (Inr v)) < rank cfg)"
      by (simp add: metered_def)
    show ?case
    proof (cases "step cfg (rt_memory s)")
      case (Finished k m)
      then show ?thesis by (simp add: x run_guest.simps)
    next
      case (Internal cfg' m)
      with step have "\<exists>r t. run_guest W P step cfg' (s\<lparr>rt_memory := m\<rparr>) = Some (r, t)"
        by (intro IH) (simp add: gas_room_def)
      with Internal show ?thesis by (simp add: x run_guest.simps [of W P step cfg])
    next
      case (HostCall i a m resume)
      obtain q u where inv: "invoke_index W P i a (s\<lparr>rt_memory := m\<rparr>) = (q, u)" by fastforce
      have room: "gas_room u \<le> gas_room s" by (rule reach_room [OF rt_reach_call [OF inv]])
      show ?thesis
      proof (cases q)
        case (Ok v)
        have "\<exists>r t. run_guest W P step (resume (Inr v)) u = Some (r, t)"
        proof (rule IH)
          from step HostCall consider "charges W i a" | "rank (resume (Inr v)) < rank cfg" by auto
          then show "gas_room u < gas_room s \<or> gas_room u \<le> gas_room s \<and> rank (resume (Inr v)) < rank cfg"
          proof cases
            case 1
            with charges_lowers_room inv Ok have "gas_room u < gas_room (s\<lparr>rt_memory := m\<rparr>)" by metis
            then show ?thesis by (simp add: gas_room_def)
          qed (simp add: room)
        qed
        with HostCall inv Ok show ?thesis by (simp add: x run_guest.simps [of W P step cfg])
      next
        case (Err e)
        with run_guest_aborted [OF abort HostCall, of W P e u] HostCall inv show ?thesis
          by (simp add: x run_guest.simps [of W P step cfg])
      next
        case Crash
        with HostCall inv show ?thesis by (simp add: x run_guest.simps [of W P step cfg])
      qed
    qed
  qed
  from this [of "(cfg, s)"] show ?thesis by simp
qed

section \<open>The phases of a transaction\<close>

lemma step_initial_charge: "stays (rt_step P a) (initial_charge chk n)"
  unfolding initial_charge_def by (rule step_charge)

lemma run_start_reach: "run_start E P inst s = Some (r, t) \<Longrightarrow> rt_reach P a s t"
  by (auto simp: run_start_def rt_reach_refl run_guest_reach split: option.splits)

lemma invoke_export_reach: "invoke_export E P inst name s = Some (r, t) \<Longrightarrow> rt_reach P a s t"
  by (auto simp: invoke_export_def rt_reach_refl run_guest_reach split: sum.splits)

text \<open>A run of a contract up to its end, and what follows it.\<close>

definition run_until ::
  "('args, 'mem, 'pmod, 'wmod, 'inst, 'cfg) engine \<Rightarrow> 'p provider \<Rightarrow> 'inst \<Rightarrow> u32 \<Rightarrow>
   ('mem, 'p) runtime \<Rightarrow> ((error, unit) outcome \<times> ('mem, 'p) runtime) option" where
  "run_until E P inst pages s0 =
     (case (rbind (lift (schedule_wasm (rt_schedule s0))) (\<lambda>w.
              if wc_initial_mem w < 65536
              then initial_charge (wh_overflow_checks (en_host E)) pages
              else lift Crash)) s0 of
        (Err e, s) \<Rightarrow> Some (Err e, s)
      | (Crash, s) \<Rightarrow> Some (Crash, s)
      | (Ok _, s1) \<Rightarrow>
          (case run_start E P inst s1 of
             None \<Rightarrow> None
           | Some (Err t, s) \<Rightarrow> Some (Err (error_from_trap t), s)
           | Some (Crash, s) \<Rightarrow> Some (Crash, s)
           | Some (Ok _, s2) \<Rightarrow>
               map_option (\<lambda>(invoke_result, s3). (stopping (wh_show_trap (en_host E)) invoke_result, s3))
                 (invoke_export E P inst ''call'' s2)))"

lemma run_contract_until:
  "run_contract E H P tx inst pages s0 =
    map_option (\<lambda>(r, u). rbind (lift r) (\<lambda>_. finish H P tx) u) (run_until E P inst pages s0)"
  by (auto simp: run_contract_def run_until_def rbind_lift option.map_comp
      split: prod.split outcome.split option.split intro!: map_option_cong)

lemma run_until_reach:
  assumes "run_until E P inst n s0 = Some (r, u)"
  shows "rt_reach P a s0 u"
proof -
  let ?pre = "rbind (lift (schedule_wasm (rt_schedule s0))) (\<lambda>w.
    if wc_initial_mem w < 65536 then initial_charge (wh_overflow_checks (en_host E)) n else lift Crash)"
  obtain q s1 where pre: "?pre s0 = (q, s1)" by fastforce
  have "stays (rt_step P a) ?pre" by (intro rt.stays_rules step_initial_charge)
  from staysD_run [OF this pre] have s1: "rt_reach P a s0 s1" by (simp add: rt_step_def)
  show ?thesis
  proof (cases q)
    case (Ok v)
    with assms pre obtain q2 s2 where start: "run_start E P inst s1 = Some (q2, s2)"
      by (auto simp: run_until_def split: option.splits)
    have s2: "rt_reach P a s0 s2" using rt_reach_trans [OF s1 run_start_reach [OF start]] .
    with rt_reach_trans [OF s2 invoke_export_reach] assms pre Ok start show ?thesis
      by (cases q2) (auto simp: run_until_def)
  qed (use assms pre s1 in \<open>auto simp: run_until_def\<close>)
qed

text \<open>
  A run of a contract ends in a failure before \<open>finish\<close> or in \<open>finish\<close>; the runtime up to
  that point is within the frame.
\<close>

lemma run_contract_cases:
  assumes "run_contract E H P tx inst n s0 = Some (r, t)"
  obtains (stopped) "rt_reach P a s0 t" and "\<And>rd. r \<noteq> Ok rd"
  | (finished) u where "rt_reach P a s0 u" and "finish H P tx u = (r, t)"
proof -
  obtain q u where run: "run_until E P inst n s0 = Some (q, u)"
    and "rbind (lift q) (\<lambda>_. finish H P tx) u = (r, t)"
    using assms by (auto simp: run_contract_until)
  with run_until_reach [OF run, of a] stopped finished show thesis
    by (cases q) (auto simp: rbind_lift)
qed

section \<open>Gas\<close>

text \<open>The gas limit a transaction runs with, and what is reported back of it.\<close>

lemma times_8: "unat (x :: u256) < 2 ^ 253 \<Longrightarrow> unat (x * 8) = unat x * 8"
  by (subst unat_times_small) simp_all

lemma adjusted_gas_run:
  "adjusted_gas wasm_costs_default g =
    (if 2 ^ 253 \<le> unat g then Crash
     else if 2 ^ 64 \<le> unat g * 8 div 3 then Err (Wasm gas_msg)
     else Ok (word_of_nat (unat g * 8 div 3)))"
proof (cases "2 ^ 253 \<le> unat g")
  case True
  then show ?thesis
    by (simp add: adjusted_gas_def times_op_def checked_mul_def wasm_costs_default_def)
next
  case False
  then have m: "unat g * unat (8 :: u256) < 2 ^ LENGTH(256)" by simp
  have div: "unat (g * 8 div 3) = unat g * 8 div 3"
    using times_8 [of g] False by (simp add: unat_div)
  have "unat (ucast (- 1 :: u64) :: u256) = 2 ^ 64 - 1"
    by (subst unat_ucast_up) (simp_all add: unsigned_minus_1_eq_mask mask_eq_exp_minus_1)
  then have "(ucast (- 1 :: u64) :: u256) < g * 8 div 3 \<longleftrightarrow> 2 ^ 64 \<le> unat g * 8 div 3"
    by (simp add: word_less_nat_alt div) linarith
  moreover have "(ucast (g * 8 div 3) :: u64) = word_of_nat (unat g * 8 div 3)"
    unfolding div [symmetric] by simp
  ultimately show ?thesis
    using False
    by (simp add: times_op_small [OF m, simplified] adjusted_gas_def wasm_costs_default_def div_op_def)
qed

lemma adjusted_gas_limit:
  assumes "adjusted_gas wasm_costs_default g = Ok limit"
  shows "unat limit = unat g * 8 div 3"
proof -
  from assms have "unat g * 8 div 3 < 2 ^ 64" "limit = word_of_nat (unat g * 8 div 3)"
    by (auto simp: adjusted_gas_run split: if_splits)
  then show ?thesis by (simp add: unat_of_nat)
qed

definition refund :: "u64 \<Rightarrow> u256" where
  "refund left = word_of_nat (unat left * 3 div 8)"

lemma unat_refund: "unat (refund left) = unat left * 3 div 8"
proof -
  have "unat left < 2 ^ 64" using unsigned_less [of left] by simp
  then have "unat left * 3 div 8 < 2 ^ 256" by simp
  then show ?thesis by (simp add: refund_def unat_of_nat)
qed

text \<open>The end of a run whose counter is within the limit.\<close>

lemma finish_run:
  assumes gas: "rt_gas_counter u \<le> rt_gas_limit u" and sch: "rt_schedule u = execute_schedule"
  shows "finish H P tx u =
    (let rd = \<lparr>rd_gas_left = refund (rt_gas_limit u - rt_gas_counter u), rd_data = rt_result u,
               rd_contract = ap_address (rt_params u), rd_logs = []\<rparr> in
     if rt_result u = [] then (Ok rd, u)
     else rbind (if is_create (tx_action tx)
                 then rt_init_code P (ap_address (rt_params u)) (rt_result u) else pure ()) (\<lambda>_.
          rbind (rt_update_state H P) (\<lambda>_. pure rd)) u)"
proof -
  let ?l = "rt_gas_limit u - rt_gas_counter u"
  let ?w = "ucast ?l :: u256"
  have l: "unat ?w = unat ?l" by (rule unat_ucast_up) simp
  have lt: "unat ?l < 2 ^ 64" using unsigned_less [of ?l] by simp
  have m: "unat ?w * unat (3 :: u256) < 2 ^ LENGTH(256)" using l lt by simp
  have "unat (?w * 3) = unat ?l * 3" using unat_times_small [OF m] l by simp
  then have "unat (?w * 3 div 8) = unat ?l * 3 div 8" by (simp add: unat_div)
  then have r: "?w * 3 div 8 = refund ?l" using unat_refund [of ?l] by (metis word_unat_eq_iff)
  have "gas_left u = Ok ?l" using gas by (simp add: gas_left_def linorder_not_less)
  then show ?thesis
    by (simp add: finish_def times_op_small [OF m, simplified] sch rbind_lift rbind_pure Let_def div_op_def r into_result_def
        wasm_costs_default_def pure_run)
qed

section \<open>Executions return\<close>

lemma execute_returns:
  assumes "host_traps_abort (en_step E)" and "metered (en_host E) (en_step E) rank"
  shows "\<exists>r p'. execute E H P tx p = Some (r, p')"
proof -
  have guest: "\<exists>r t. run_guest (en_host E) P (en_step E) cfg s = Some (r, t)" for cfg s
    using assms by (rule run_guest_returns)
  have start: "\<exists>r t. run_start E P inst s = Some (r, t)" for inst s
    using guest by (auto simp: run_start_def split: option.split)
  have export: "\<exists>r t. invoke_export E P inst name s = Some (r, t)" for inst name s
    using guest by (fastforce simp: invoke_export_def split: sum.split)
  have "\<exists>r t. run_contract E H P tx inst n s = Some (r, t)" for inst n s
  proof -
    obtain q s1 where "(rbind (lift (schedule_wasm (rt_schedule s))) (\<lambda>w.
        if wc_initial_mem w < 65536 then initial_charge (wh_overflow_checks (en_host E)) n
        else lift Crash)) s = (q, s1)" by fastforce
    moreover obtain q2 s2 where "run_start E P inst s1 = Some (q2, s2)" using start by blast
    moreover obtain q3 s3 where "invoke_export E P inst ''call'' s2 = Some (q3, s3)" using export by blast
    ultimately show ?thesis
      by (cases q; cases q2) (auto simp: run_contract_def split: prod.split)
  qed
  then show ?thesis by (fastforce simp: execute_def split: outcome.split prod.split)
qed

end
