(* ===== verification/Commit_Laws.thy ===== *)
theory Commit_Laws
  imports Execute_Laws
begin

text \<open>
  What a whole execution (\<open>durian/src/execute.rs\<close>) does to a provider that keeps its contract:
  nothing, unless the contract returned data; then the code of a deployed contract and the
  slots the contract wrote at its own address, and nothing else.
\<close>

section \<open>What a contract leaves to be written\<close>

text \<open>The slots written by a contract at its own address.\<close>

definition writes :: "(address \<rightharpoonup> account_info \<times> bool) \<Rightarrow> address \<Rightarrow> h256 \<rightharpoonup> h256" where
  "writes accs a = (case accs a of Some e \<Rightarrow> dirty_slot (ai_storage (fst e)) | None \<Rightarrow> Map.empty)"

text \<open>
  A deployed account: a new one with the returned code, or the one that was there already,
  which keeps its code and has balance and nonce exchanged.
\<close>

definition deployed ::
  "(bytes \<Rightarrow> state_account) \<Rightarrow> bytes \<Rightarrow> state_account option \<Rightarrow> state_account" where
  "deployed fresh code v = (case v of
     None \<Rightarrow> fresh code
   | Some x \<Rightarrow> x\<lparr>sa_balance := sa_nonce x, sa_nonce := sa_balance x\<rparr>)"

definition committed ::
  "(bytes \<Rightarrow> state_account) \<Rightarrow> transaction \<Rightarrow> address \<Rightarrow> bytes \<Rightarrow> (address \<rightharpoonup> state_account) \<Rightarrow>
   address \<rightharpoonup> state_account" where
  "committed fresh tx a code base =
     (if is_create (tx_action tx) then base(a \<mapsto> deployed fresh code (base a)) else base)"

lemma written_stored_writes: "written_stored accs base = (\<lambda>b. base b ++ writes accs b)"
  by (auto simp: written_stored_def writes_def fun_eq_iff split: option.split)

lemma own_cases:
  assumes "own P a s"
  obtains (empty) "st_accounts s = Map.empty"
  | (one) e where "st_accounts s = [a \<mapsto> e]" and "agrees P (st_provider s) a e"
proof (cases "st_accounts s a")
  case None
  have "st_accounts s b = None" for b
    using assms None unfolding own_def by (cases "st_accounts s b") auto
  then have "st_accounts s = Map.empty" by (simp add: fun_eq_iff)
  then show ?thesis by (rule empty)
next
  case (Some e)
  have "st_accounts s b = None" if "b \<noteq> a" for b
    using assms that unfolding own_def by (cases "st_accounts s b") auto
  with Some have "st_accounts s = [a \<mapsto> e]" by (simp add: fun_eq_iff)
  moreover have "agrees P (st_provider s) a e" using assms Some unfolding own_def by blast
  ultimately show ?thesis by (rule one)
qed

lemma writes_single [simp]:
  "writes [a \<mapsto> e] = (\<lambda>b. if b = a then dirty_slot (ai_storage (fst e)) else Map.empty)"
  by (simp add: writes_def fun_eq_iff)

lemma writes_empty [simp]: "writes Map.empty = (\<lambda>b. Map.empty)"
  by (simp add: writes_def fun_eq_iff)

lemma written_own:
  "own P a s \<Longrightarrow> written_stored (st_accounts s) base = base(a := base a ++ writes (st_accounts s) a)"
  by (erule own_cases) (auto simp: written_stored_writes intro!: ext)

text \<open>The value a slot of the provider stands for.\<close>

definition slot_value :: "'p provider \<Rightarrow> 'p \<Rightarrow> address \<Rightarrow> h256 \<Rightarrow> h256" where
  "slot_value P p a k = (case stored P p a k of Some v \<Rightarrow> v | None \<Rightarrow> 0)"

text \<open>Once the writes are in, the provider holds what the contract saw.\<close>

lemma view_written:
  assumes "agrees P (st_provider s) a (cached P s a)"
  shows "(case (stored P (st_provider s) a ++ dirty_slot (ai_storage (fst (cached P s a)))) k of
      Some v \<Rightarrow> v | None \<Rightarrow> 0) = storage_view P s a k"
proof (cases "ai_storage (fst (cached P s a)) k")
  case None
  then show ?thesis by (simp add: storage_view_def dirty_slot_def map_add_def)
next
  case (Some vd)
  obtain v d where vd: "vd = (v, d)" by (cases vd)
  show ?thesis
  proof (cases d)
    case False
    with Some vd assms have "stored P (st_provider s) a k = Some v" by (simp add: agrees_def)
    with Some vd False show ?thesis by (simp add: storage_view_def dirty_slot_def map_add_def)
  qed (simp add: Some vd storage_view_def dirty_slot_def map_add_def)
qed

lemma writes_cached: "writes (st_accounts s) a = dirty_slot (ai_storage (fst (cached P s a)))"
  by (simp add: writes_def cached_def split: option.split)

section \<open>Committing\<close>

lemma fair_ordersD:
  "fair_orders H \<Longrightarrow> finite (dom m) \<Longrightarrow> enumerates (ho_accounts H m) m"
  "fair_orders H \<Longrightarrow> finite (dom n) \<Longrightarrow> enumerates (ho_storage H n) n"
  by (simp_all add: fair_orders_def)

context provider_store
begin

text \<open>\<open>update_state\<close> on a cache with one entry at most.\<close>

lemma update_one:
  assumes p: "inv (st_provider s)" and fair: "fair_orders H"
    and accs: "st_accounts s = [a \<mapsto> (acc, d)]" and fin: "finite (dom (ai_storage acc))"
    and room: "d \<Longrightarrow> 0 < room (st_provider s)"
    and exist: "d \<or> acct P (st_provider s) a \<noteq> None"
    and can: "d \<Longrightarrow> updates \<or> acct P (st_provider s) a = None"
  shows "\<exists>p'. update_state H P s = (Ok (), s\<lparr>st_provider := p'\<rparr>) \<and> inv p' \<and>
    acct P p' = written_acct fresh (st_accounts s) (acct P (st_provider s)) \<and>
    stored P p' = written_stored (st_accounts s) (stored P (st_provider s))"
proof (rule store_update_state [OF p])
  show "enumerates (ho_accounts H (st_accounts s)) (st_accounts s)"
    using fair by (rule fair_ordersD) (simp add: accs)
  show "enumerates (ho_storage H (ai_storage acc')) (ai_storage acc')"
    if "st_accounts s b = Some (acc', d')" for b acc' d'
    using fair_ordersD(2) [OF fair fin] that accs by (simp split: if_splits)
  show "flushable (acct P (st_provider s)) (st_accounts s)"
    using exist by (auto simp: flushable_def accs split: if_splits)
  have "dirty_accounts (st_accounts s) = (if d then {a} else {})"
    by (auto simp: dirty_accounts_def accs split: if_splits)
  then show "card (dirty_accounts (st_accounts s)) \<le> room (st_provider s)"
    and "\<And>b. b \<in> dirty_accounts (st_accounts s) \<Longrightarrow> updates \<or> acct P (st_provider s) b = None"
    using room can by (auto simp: Suc_le_eq split: if_splits)
qed

lemma update_none:
  assumes "inv (st_provider s)" and fair: "fair_orders H" and accs: "st_accounts s = Map.empty"
  shows "\<exists>p'. update_state H P s = (Ok (), s\<lparr>st_provider := p'\<rparr>) \<and> inv p' \<and>
    acct P p' = written_acct fresh (st_accounts s) (acct P (st_provider s)) \<and>
    stored P p' = written_stored (st_accounts s) (stored P (st_provider s))"
  by (rule store_update_state)
    (use assms fair_ordersD(1) [OF fair, of Map.empty] in
      \<open>auto simp: flushable_def dirty_accounts_def\<close>)

lemma update_call:
  assumes p: "inv (st_provider s)" and fair: "fair_orders H" and own: "own P a s"
    and exist: "acct P (st_provider s) a \<noteq> None"
  shows "\<exists>p'. update_state H P s = (Ok (), s\<lparr>st_provider := p'\<rparr>) \<and> inv p' \<and>
    acct P p' = acct P (st_provider s) \<and>
    stored P p' = (stored P (st_provider s))
      (a := stored P (st_provider s) a ++ writes (st_accounts s) a)"
proof -
  have "written_acct fresh (st_accounts s) base = base" for base
    using own by (rule own_cases) (auto simp: written_acct_def agrees_def fun_eq_iff split: bool.split)
  moreover from own have "\<exists>p'. update_state H P s = (Ok (), s\<lparr>st_provider := p'\<rparr>) \<and> inv p' \<and>
    acct P p' = written_acct fresh (st_accounts s) (acct P (st_provider s)) \<and>
    stored P p' = written_stored (st_accounts s) (stored P (st_provider s))"
  proof (cases rule: own_cases)
    case empty
    then show ?thesis by (rule update_none [OF p fair])
  next
    case (one e)
    obtain acc d where e: "e = (acc, d)" by (cases e)
    with one exist update_one [OF p fair, of a acc d] show ?thesis by (simp add: agrees_def)
  qed
  ultimately show ?thesis using written_own [OF own] by simp
qed

lemma update_create:
  assumes p: "inv (st_provider s)" and fair: "fair_orders H" and own: "own P a s"
    and room: "0 < room (st_provider s)" and can: "updates \<or> acct P (st_provider s) a = None"
    and s': "s' = put_account a ((fst (cached P s a))\<lparr>ai_code := code\<rparr>, True) s"
  shows "\<exists>p'. update_state H P s' = (Ok (), s'\<lparr>st_provider := p'\<rparr>) \<and> inv p' \<and>
    acct P p' = (acct P (st_provider s))(a \<mapsto> deployed fresh code (acct P (st_provider s) a)) \<and>
    stored P p' = (stored P (st_provider s))
      (a := stored P (st_provider s) a ++ writes (st_accounts s) a)"
proof -
  let ?e = "(fst (cached P s a))\<lparr>ai_code := code\<rparr>"
  note agr = agrees_cached [OF own]
  have accs: "st_accounts s' = [a \<mapsto> (?e, True)]"
    using own by (rule own_cases) (simp_all add: s')
  have fin: "finite (dom (ai_storage ?e))" using agr by (simp add: agrees_def)
  from update_one [OF _ fair accs fin] p room can obtain p' where
    p': "update_state H P s' = (Ok (), s'\<lparr>st_provider := p'\<rparr>)" "inv p'"
      "acct P p' = written_acct fresh (st_accounts s') (acct P (st_provider s))"
      "stored P p' = written_stored (st_accounts s') (stored P (st_provider s))"
    by (auto simp: s')
  have "acct P p' = (acct P (st_provider s))(a \<mapsto> deployed fresh code (acct P (st_provider s) a))"
    using agr
    by (auto simp: p'(3) accs written_acct_def deployed_def agrees_def fetched_def
        account_info_new_def fun_eq_iff split: option.split)
  moreover have "stored P p' = (stored P (st_provider s))
      (a := stored P (st_provider s) a ++ writes (st_accounts s) a)"
    by (simp add: p'(4) accs written_stored_writes fun_eq_iff writes_cached [of s a P])
  ultimately show ?thesis using p'(1,2) by blast
qed

end


section \<open>A whole transaction\<close>

definition target :: "(bytes \<Rightarrow> h256) \<Rightarrow> transaction \<Rightarrow> address" where
  "target keccak tx = (case tx_action tx of
     Create code salt \<Rightarrow> contract_address keccak (tx_sender tx) code salt
   | Call a \<Rightarrow> a)"

lemma make_params_Ok:
  assumes "make_params keccak P p tx = Ok params"
  shows "ap_address params = target keccak tx" and "ap_gas params = tx_gas tx"
    and "\<not> is_create (tx_action tx) \<Longrightarrow> acct P p (target keccak tx) \<noteq> None"
  using assms
  by (auto simp: make_params_def target_def is_create_def Let_def acct_Some
      split: action.splits elim!: obind_OkE)

lemma prepare_Ok:
  assumes "prepare E P p tx = Ok (params, inst, limit, pages, mem)"
  shows "make_params (en_keccak E) P p tx = Ok params"
    and "adjusted_gas wasm_costs_default (ap_gas params) = Ok limit"
  using assms
  by (auto simp: prepare_def Let_def split: prod.splits elim!: obind_OkE)

lemma refund_bound:
  assumes "unat limit = unat g * 8 div 3" and "left \<le> limit"
  shows "unat (refund left) \<le> unat g"
proof -
  have "unat left \<le> unat g * 8 div 3" using assms by (simp add: word_le_nat_alt)
  then have "unat left * 3 div 8 \<le> (unat g * 8 div 3) * 3 div 8"
    by (intro div_le_mono mult_le_mono) auto
  also have "\<dots> \<le> unat g" by simp
  finally show ?thesis by (simp add: unat_refund)
qed

text \<open>How an execution reaches its end.\<close>

lemma execute_cases:
  fixes E :: "('args, 'mem, 'pmod, 'wmod, 'inst, 'cfg) engine" and p :: 'p
  assumes "execute E H P tx p = Some (r, p')"
  obtains (stopped) "p' = p" and "\<And>rd. r \<noteq> Ok rd"
  | (finished) u t :: "('mem, 'p) runtime" where "finish H P tx u = (r, t)" and "p' = st_provider (rt_state t)"
    and "st_provider (rt_state u) = p" and "own P (target (en_keccak E) tx) (rt_state u)"
    and "ap_address (rt_params u) = target (en_keccak E) tx"
    and "rt_schedule u = execute_schedule" and "rt_gas_counter u \<le> rt_gas_limit u"
    and "unat (rt_gas_limit u) = unat (tx_gas tx) * 8 div 3"
    and "\<not> is_create (tx_action tx) \<Longrightarrow> acct P p (target (en_keccak E) tx) \<noteq> None"
proof (cases "prepare E P p tx")
  case (Ok x)
  obtain params inst limit pages mem where x: "x = (params, inst, limit, pages, mem)"
    by (cases x) auto
  note prep = prepare_Ok [OF Ok [unfolded x]]
  note par = make_params_Ok [OF prep(1)]
  let ?s0 = "runtime_new params execute_schedule (state_new p) mem limit"
  let ?a = "target (en_keccak E) tx"
  from assms Ok x obtain t where run: "run_contract E H P tx inst pages ?s0 = Some (r, t)"
    and p': "p' = st_provider (rt_state t)"
    by (auto simp: execute_def)
  have s0: "ap_address (rt_params ?s0) = ?a" by (simp add: runtime_new_def par)
  from run show thesis
  proof (cases rule: run_contract_cases [where a = ?a])
    case stopped
    with rt_reachD(4) [OF stopped(1) s0] have "p' = p"
      by (simp add: p' st_own_def runtime_new_def state_new_def)
    with stopped(2) show thesis using that(1) by blast
  next
    case (finished u)
    note d = rt_reachD [OF finished(1) s0]
    show thesis
    proof (rule that(2) [OF finished(2) p'])
      show "st_provider (rt_state u) = p" and "own P ?a (rt_state u)"
        using d(4) own_new [of P ?a p] by (simp_all add: st_own_def runtime_new_def)
          (simp add: state_new_def)
      show "ap_address (rt_params u) = ?a" using d(2) s0 by simp
      show "rt_schedule u = execute_schedule" using d(1) by (simp add: runtime_new_def)
      show "rt_gas_counter u \<le> rt_gas_limit u" using d(3,6) by (simp add: runtime_new_def)
      show "unat (rt_gas_limit u) = unat (tx_gas tx) * 8 div 3"
        using d(3) adjusted_gas_limit [OF prep(2)] par(2) by (simp add: runtime_new_def)
    qed (rule par(3))
  qed
qed (use assms that(1) in \<open>auto simp: execute_def\<close>)

text \<open>Only \<open>finish\<close> may change the provider, and only when there is a result to keep.\<close>

lemma execute_unchanged:
  assumes "execute E H P tx p = Some (Ok rd, p')" and "rd_data rd = []"
  shows "p' = p"
  using assms(1)
proof (cases rule: execute_cases)
  case (finished u t)
  show ?thesis
  proof (cases "rt_result u = []")
    case True
    with finished show ?thesis by (auto simp: finish_run Let_def)
  next
    case False
    with finished assms(2) show ?thesis
      by (auto simp: finish_run Let_def pure_def elim!: rbind_OkE)
  qed
qed simp

lemma rbind_on_state:
  "m (rt_state u) = (Ok x, st) \<Longrightarrow> rbind (on_state m) f u = f x (u\<lparr>rt_state := st\<rparr>)"
  by (simp add: rbind_def on_state_def)

context provider_store
begin

text \<open>The end of a run that returned data.\<close>

lemma finish_commit:
  assumes p: "inv p" and fair: "fair_orders H"
    and room: "is_create (tx_action tx) \<Longrightarrow> 0 < room p"
    and can: "is_create (tx_action tx) \<Longrightarrow> updates \<or> acct P p a = None"
    and prov: "st_provider (rt_state u) = p" and own: "own P a (rt_state u)"
    and a: "ap_address (rt_params u) = a"
    and sch: "rt_schedule u = execute_schedule" and gas: "rt_gas_counter u \<le> rt_gas_limit u"
    and exist: "\<not> is_create (tx_action tx) \<Longrightarrow> acct P p a \<noteq> None" and res: "rt_result u \<noteq> []"
  shows "\<exists>q. finish H P tx u = (Ok \<lparr>rd_gas_left = refund (rt_gas_limit u - rt_gas_counter u),
      rd_data = rt_result u, rd_contract = a, rd_logs = []\<rparr>, u\<lparr>rt_state := q\<rparr>) \<and>
    inv (st_provider q) \<and>
    acct P (st_provider q) = committed fresh tx a (rt_result u) (acct P p) \<and>
    stored P (st_provider q) =
      (stored P p)(a := stored P p a ++ writes (st_accounts (rt_state u)) a)"
proof (cases "is_create (tx_action tx)")
  case True
  let ?s = "rt_state u"
  let ?s' = "put_account a ((fst (cached P ?s a))\<lparr>ai_code := rt_result u\<rparr>, True) ?s"
  have init: "init_code P a (rt_result u) ?s = (Ok (), ?s')"
    using inv_quiet [OF p] prov by (simp add: init_code_run)
  from update_create [OF _ fair own _ _ refl, of "rt_result u"] p room [OF True] can [OF True] prov
  obtain p2 where p2: "update_state H P ?s' = (Ok (), ?s'\<lparr>st_provider := p2\<rparr>)" "inv p2"
    "acct P p2 = (acct P p)(a \<mapsto> deployed fresh (rt_result u) (acct P p a))"
    "stored P p2 = (stored P p)(a := stored P p a ++ writes (st_accounts ?s) a)"
    by auto
  with res True a init show ?thesis
    by (intro exI [of _ "?s'\<lparr>st_provider := p2\<rparr>"])
      (simp add: finish_run [OF gas sch] Let_def rt_init_code_def rt_update_state_def
        rbind_on_state pure_run committed_def)
next
  case call: False
  let ?s = "rt_state u"
  from update_call [OF _ fair own] p prov exist [OF call]
  obtain p2 where p2: "update_state H P ?s = (Ok (), ?s\<lparr>st_provider := p2\<rparr>)" "inv p2"
    "acct P p2 = acct P p"
    "stored P p2 = (stored P p)(a := stored P p a ++ writes (st_accounts ?s) a)"
    by auto
  with res call a show ?thesis
    by (intro exI [of _ "?s\<lparr>st_provider := p2\<rparr>"])
      (simp add: finish_run [OF gas sch] Let_def rt_update_state_def rbind_pure rbind_on_state
        pure_run committed_def)
qed

lemma store_outcome:
  assumes p: "inv p" and fair: "fair_orders H"
    and room: "is_create (tx_action tx) \<Longrightarrow> 0 < room p"
    and can: "is_create (tx_action tx) \<Longrightarrow> updates \<or> acct P p (target (en_keccak E) tx) = None"
    and run: "execute E H P tx p = Some (r, p')"
  obtains (unchanged) "p' = p" and "\<And>rd. r = Ok rd \<Longrightarrow> rd_data rd = []"
  | (committed) rd w where "r = Ok rd" and "rd_data rd \<noteq> []"
    and "rd_contract rd = target (en_keccak E) tx" and "inv p'"
    and "acct P p' = committed fresh tx (rd_contract rd) (rd_data rd) (acct P p)"
    and "stored P p' = (stored P p)(rd_contract rd := stored P p (rd_contract rd) ++ w)"
  using run
proof (cases rule: execute_cases)
  case stopped
  then show ?thesis using unchanged by blast
next
  case (finished u t)
  show ?thesis
  proof (cases "rt_result u = []")
    case True
    with finished show ?thesis by (intro unchanged) (auto simp: finish_run Let_def)
  next
    case False
    from finish_commit [OF p fair room can finished(3-7) finished(9) False, of tx] obtain q where
      "finish H P tx u = (Ok \<lparr>rd_gas_left = refund (rt_gas_limit u - rt_gas_counter u),
        rd_data = rt_result u, rd_contract = target (en_keccak E) tx, rd_logs = []\<rparr>, u\<lparr>rt_state := q\<rparr>)"
      (is "_ = (Ok ?rd, _)") and q: "inv (st_provider q)"
      "acct P (st_provider q) = committed fresh tx (target (en_keccak E) tx) (rt_result u) (acct P p)"
      "stored P (st_provider q) = (stored P p)(target (en_keccak E) tx :=
        stored P p (target (en_keccak E) tx) ++ writes (st_accounts (rt_state u)) (target (en_keccak E) tx))"
      by auto
    with finished(1,2) have r: "r = Ok ?rd" and p': "p' = st_provider q" by auto
    from q False show ?thesis by (intro committed [OF r]) (auto simp: p')
  qed
qed

end

lemma update_state_single:
  assumes "fair_orders H" and "st_accounts s = [a \<mapsto> e]"
  shows "update_state H P s =
    (let (r, q) = flush_accounts H P [(a, e)] (st_provider s) in (r, s\<lparr>st_provider := q\<rparr>))"
proof -
  have "ho_accounts H [a \<mapsto> e] = [a]"
    by (rule enumerates_single, rule fair_ordersD(1) [OF assms(1)]) simp
  with assms(2) show ?thesis by (simp add: update_state_def)
qed

context provider_store
begin

text \<open>
  A deployment at an existing address is an update, so with a provider that refuses updates it
  ends in the provider's error, and all that has happened to the provider is the refused call.
\<close>

lemma refused_finish:
  assumes p: "inv p" and fair: "fair_orders H"
    and create: "is_create (tx_action tx)" and exist: "acct P p a \<noteq> None"
    and refuse: "\<And>b n. \<exists>e q. pv_update_account P a b n p = (Err e, q) \<and> R e q"
    and u: "st_provider (rt_state u) = p" "own P a (rt_state u)" "ap_address (rt_params u) = a"
      "rt_schedule u = execute_schedule" "rt_gas_counter u \<le> rt_gas_limit u" "rt_result u \<noteq> []"
  shows "\<exists>e t. finish H P tx u = (Err e, t) \<and> R e (st_provider (rt_state t))"
proof -
  let ?s = "rt_state u"
  let ?e = "((fst (cached P ?s a))\<lparr>ai_code := rt_result u\<rparr>, True)"
  let ?s' = "put_account a ?e ?s"
  have init: "init_code P a (rt_result u) ?s = (Ok (), ?s')"
    using inv_quiet [OF p] u(1) by (simp add: init_code_run)
  have accs: "st_accounts ?s' = [a \<mapsto> ?e]"
    using u(2) by (rule own_cases) simp_all
  obtain e q where q: "pv_update_account P a (ai_balance (fst ?e)) (ai_nonce (fst ?e)) p = (Err e, q)"
    and R: "R e q" using refuse by blast
  have "flush_accounts H P [(a, ?e)] p = (Err e, q)"
    using q exist exist_iff [OF p, of a] by (simp add: flush_account_def rbind_def)
  then have "update_state H P ?s' = (Err e, ?s'\<lparr>st_provider := q\<rparr>)"
    unfolding update_state_single [OF fair accs] using u(1) by simp
  with init create u(3,6)
  have "finish H P tx u = (Err e, u\<lparr>rt_state := ?s'\<lparr>st_provider := q\<rparr>\<rparr>)"
    by (simp add: finish_run [OF u(5,4)] Let_def rt_init_code_def rt_update_state_def
        rbind_on_state) (simp add: rbind_def on_state_def)
  with R show ?thesis by simp
qed

end

context provider_contract
begin

lemma execute_outcome:
  assumes "inv p" and "fair_orders H" and "is_create (tx_action tx) \<Longrightarrow> 0 < room p"
    and "execute E H P tx p = Some (r, p')"
  obtains (unchanged) "p' = p" and "\<And>rd. r = Ok rd \<Longrightarrow> rd_data rd = []"
  | (committed) rd w where "r = Ok rd" and "rd_data rd \<noteq> []"
    and "rd_contract rd = target (en_keccak E) tx" and "inv p'"
    and "acct P p' = committed fresh tx (rd_contract rd) (rd_data rd) (acct P p)"
    and "stored P p' = (stored P p)(rd_contract rd := stored P p (rd_contract rd) ++ w)"
  by (rule store_outcome [OF assms(1,2,3) _ assms(4)]) (use that in simp_all)

end

text \<open>The gas that is reported back, and the address that is reported.\<close>

lemma execute_report:
  assumes "execute E H P tx p = Some (Ok rd, p')"
  shows "unat (rd_gas_left rd) \<le> unat (tx_gas tx)" and "rd_contract rd = target (en_keccak E) tx"
    and "rd_logs rd = []"
proof -
  from assms have "unat (rd_gas_left rd) \<le> unat (tx_gas tx) \<and>
    rd_contract rd = target (en_keccak E) tx \<and> rd_logs rd = []"
  proof (cases rule: execute_cases)
    case (finished u t)
    have "rt_gas_limit u - rt_gas_counter u \<le> rt_gas_limit u"
      using finished(7) by (simp add: word_sub_le)
    from refund_bound [OF finished(8) this] finished show ?thesis
      by (auto simp: finish_run Let_def pure_def split: if_splits elim!: rbind_OkE)
  next
    case stopped
    from stopped(2) [of rd] show ?thesis by simp
  qed
  then show "unat (rd_gas_left rd) \<le> unat (tx_gas tx)"
    and "rd_contract rd = target (en_keccak E) tx" and "rd_logs rd = []" by simp_all
qed

section \<open>Frames of the provider\<close>

context step_frame
begin

text \<open>A relation that the three mutating methods keep is kept by writing back.\<close>

lemma stays_flush_storage:
  assumes "\<And>a k v. stays R (pv_set_storage P a k v)"
  shows "stays R (flush_storage P a slots)"
  by (induction slots) (auto intro!: stays_rules assms)

lemma stays_flush_accounts:
  assumes set: "\<And>a k v. stays R (pv_set_storage P a k v)"
    and upd: "\<And>a b n. stays R (pv_update_account P a b n)"
    and new: "\<And>a c. stays R (pv_create_contract P a c)"
  shows "stays R (flush_accounts H P accs)"
proof (induction accs)
  case (Cons e accs)
  obtain a acc d where e: "e = (a, acc, d)" by (cases e)
  have "stays R (flush_account P a acc d)"
  proof (cases d)
    case True
    then show ?thesis
      using staysD [OF new] staysD [OF upd] by (simp add: flush_account_def stays_def)
  qed (simp add: flush_account_def stays_pure)
  with Cons show ?case by (simp add: e stays_rbind stays_flush_storage set)
qed (simp add: stays_pure)

lemma update_state_frame:
  assumes "\<And>a k v. stays R (pv_set_storage P a k v)"
    and "\<And>a b n. stays R (pv_update_account P a b n)"
    and "\<And>a c. stays R (pv_create_contract P a c)"
  shows "R (st_provider s) (st_provider (snd (update_state H P s)))"
proof -
  let ?accs = "entries (ho_accounts H (st_accounts s)) (st_accounts s)"
  have "R (st_provider s) (snd (flush_accounts H P ?accs (st_provider s)))"
    using stays_flush_accounts [OF assms] by (rule staysD)
  then show ?thesis
    by (cases "flush_accounts H P ?accs (st_provider s)") (simp add: update_state_def)
qed

end

text \<open>The same relation, read off the provider inside a runtime.\<close>

definition prov_rel :: "('p \<Rightarrow> 'p \<Rightarrow> bool) \<Rightarrow> ('mem, 'p) runtime \<Rightarrow> ('mem, 'p) runtime \<Rightarrow> bool" where
  "prov_rel R u t \<longleftrightarrow> R (st_provider (rt_state u)) (st_provider (rt_state t))"

lemma step_frame_prov: "step_frame R \<Longrightarrow> step_frame (prov_rel R)"
  by (auto simp: step_frame_def prov_rel_def)

lemma init_code_provider: "st_provider (snd (init_code P a c s)) = st_provider s"
proof -
  consider "fetch_account P a s = (Ok (), put_account a (cached P s a) s)"
    | "fetch_account P a s = (Crash, s)" using fetch_account_cases by blast
  then show ?thesis
    by cases (simp_all add: init_code_def unwrap_op_def account_mut_def rbind_def)
qed

context step_frame
begin

lemmas prov_rules = step_frame.stays_rules [OF step_frame_prov [OF step_frame_axioms]]

lemma finish_frame:
  assumes mut: "\<And>a k v. stays R (pv_set_storage P a k v)"
      "\<And>a b n. stays R (pv_update_account P a b n)"
      "\<And>a c. stays R (pv_create_contract P a c)"
    and gas: "rt_gas_counter u \<le> rt_gas_limit u" and sch: "rt_schedule u = execute_schedule"
    and run: "finish H P tx u = (r, t)"
  shows "R (st_provider (rt_state u)) (st_provider (rt_state t))"
proof -
  have init: "stays (prov_rel R) (rt_init_code P a c)" for a c
    by (rule staysI) (simp add: rt_init_code_def on_state_def prov_rel_def init_code_provider frame_refl)
  have upd: "stays (prov_rel R) (rt_update_state H P)"
    by (rule staysI) (simp add: rt_update_state_def on_state_def prov_rel_def update_state_frame mut)
  have all: "stays (prov_rel R) (rbind (if b then rt_init_code P a c else pure ()) (\<lambda>_.
      rbind (rt_update_state H P) (\<lambda>_. pure rd)))" for b a c and rd :: result_data
    by (intro prov_rules init upd)
  show ?thesis
  proof (cases "rt_result u = []")
    case True
    with run show ?thesis by (auto simp: finish_run [OF gas sch] Let_def frame_refl)
  next
    case False
    note run [unfolded finish_run [OF gas sch] Let_def if_not_P [OF False]]
    from staysD_run [OF all this] show ?thesis by (simp add: prov_rel_def)
  qed
qed

lemma execute_frame:
  assumes mut: "\<And>a k v. stays R (pv_set_storage P a k v)"
      "\<And>a b n. stays R (pv_update_account P a b n)"
      "\<And>a c. stays R (pv_create_contract P a c)"
    and run: "execute E H P tx p = Some (r, p')"
  shows "R p p'"
  using run
proof (cases rule: execute_cases)
  case (finished u t)
  with finish_frame [OF mut finished(7,6,1)] show ?thesis by simp
qed (simp add: frame_refl)

end

end
