(* ===== verification/Blockchain.thy ===== *)
theory Blockchain
  imports Commit_Laws
begin

text \<open>
  \<open>examples/blockchain/src\<close>: the in-memory chain that the machine is run against. Blocks are
  linked by hash, accounts are stored under an alias and looked up by address, deployed
  contracts get the alias \<open>contract_\<close> and a counter. The hash function, the serializer of
  blocks, the iteration order of the account map and the level of logging are parameters;
  the clock and the random addresses are arguments. At the end the chain is shown to keep
  the contract of a provider.
\<close>

section \<open>Accounts and blocks\<close>

record chain_account =
  ca_address :: address
  ca_nonce :: u256
  ca_balance :: u256
  ca_code :: bytes
  ca_storage :: "h256 \<rightharpoonup> h256"

definition chain_account_new :: "address \<Rightarrow> u256 \<Rightarrow> u256 \<Rightarrow> bytes \<Rightarrow> chain_account" where
  "chain_account_new addr bal n code =
     \<lparr>ca_address = addr, ca_nonce = n, ca_balance = bal, ca_code = code,
      ca_storage = Map.empty\<rparr>"

text \<open>A \<open>SystemTime\<close> is the number of nanoseconds since the Unix epoch, negative before it.\<close>

record block =
  bk_num :: u64
  bk_prev :: h256
  bk_time :: int

record chain_env =
  ce_keccak :: "bytes \<Rightarrow> h256"
  ce_serialize :: "block \<Rightarrow> bytes option"
  ce_order :: "(string \<rightharpoonup> chain_account) \<Rightarrow> string list"
  ce_info :: bool
  ce_overflow_checks :: bool

definition block_new :: "int \<Rightarrow> u64 \<Rightarrow> h256 \<Rightarrow> block" where
  "block_new now num prev = \<lparr>bk_num = num, bk_prev = prev, bk_time = now\<rparr>"

definition hash :: "chain_env \<Rightarrow> block \<Rightarrow> ('e, h256) outcome" where
  "hash E b = (case ce_serialize E b of
     None \<Rightarrow> Crash
   | Some bs \<Rightarrow> Ok (ce_keccak E bs))"

section \<open>The chain\<close>

record blockchain =
  bc_blocks :: "block list"
  bc_accounts :: "string \<rightharpoonup> chain_account"
  bc_counter :: u32
  bc_transactions :: "h256 \<rightharpoonup> transaction \<times> result_data"

definition genesis_address :: address where
  "genesis_address = 0x004ec07d2329997267ec62b4166639513386f32e"

text \<open>The four arguments of type \<open>address\<close> are the values of \<open>Address::random()\<close>.\<close>

definition blockchain_new :: "int \<Rightarrow> address \<Rightarrow> address \<Rightarrow> address \<Rightarrow> address \<Rightarrow> blockchain" where
  "blockchain_new now r1 r2 r3 r4 =
     \<lparr>bc_blocks = [block_new now 0 0],
      bc_accounts = [''alice'' \<mapsto> chain_account_new r1 1000000 0 [],
                     ''bob'' \<mapsto> chain_account_new r2 1000000 0 [],
                     ''carol'' \<mapsto> chain_account_new r3 1000000 0 [],
                     ''dave'' \<mapsto> chain_account_new r4 1000000 0 [],
                     ''naga'' \<mapsto> chain_account_new genesis_address 1000000 0 []],
      bc_counter = 0,
      bc_transactions = Map.empty\<rparr>"

definition last_block :: "blockchain \<Rightarrow> ('e, block) outcome" where
  "last_block bc = (if bc_blocks bc = [] then Crash else Ok (last (bc_blocks bc)))"

text \<open>The hash of the new block is computed for a log message only.\<close>

definition commit :: "chain_env \<Rightarrow> int \<Rightarrow> (blockchain, 'e, unit) oper" where
  "commit E now =
     rbind (\<lambda>bc. lift (obind (last_block bc) (hash E)) bc) (\<lambda>prev.
     rbind (asks (\<lambda>bc. block_new now (word_of_nat (length (bc_blocks bc))) prev)) (\<lambda>b.
     rbind (if ce_info E then lift (hash E b) else pure 0) (\<lambda>_.
       modify (bc_blocks_update (\<lambda>bs. bs @ [b])))))"

definition address_from_alias :: "string \<Rightarrow> blockchain \<Rightarrow> ('e, address) outcome" where
  "address_from_alias alias bc =
     (case bc_accounts bc alias of Some acc \<Rightarrow> Ok (ca_address acc) | None \<Rightarrow> Crash)"

definition chain_code :: "string \<Rightarrow> blockchain \<Rightarrow> ('e, bytes) outcome" where
  "chain_code alias bc =
     (case bc_accounts bc alias of Some acc \<Rightarrow> Ok (ca_code acc) | None \<Rightarrow> Crash)"

text \<open>\<open>U256\<close> addition panics on overflow in every build.\<close>

definition inc_nonce :: "string \<Rightarrow> (blockchain, 'e, unit) oper" where
  "inc_nonce alias bc = (case bc_accounts bc alias of
     None \<Rightarrow> (Crash, bc)
   | Some acc \<Rightarrow>
       rbind (lift (plus_op True (ca_nonce acc) 1)) (\<lambda>n.
         modify (bc_accounts_update (\<lambda>accs. accs(alias \<mapsto> acc\<lparr>ca_nonce := n\<rparr>)))) bc)"

text \<open>
  The first account with the address, in the map's iteration order. The order is a function of
  what the map holds; where addresses are distinct, as in every chain with the invariant, no
  order makes a difference.
\<close>

definition find_account :: "chain_env \<Rightarrow> address \<Rightarrow> blockchain \<Rightarrow> (string \<times> chain_account) option" where
  "find_account E address bc =
     List.find (\<lambda>(alias, acc). ca_address acc = address)
       (entries (ce_order E (bc_accounts bc)) (bc_accounts bc))"

definition account_ref :: "chain_env \<Rightarrow> address \<Rightarrow> blockchain \<Rightarrow> (error, chain_account) outcome" where
  "account_ref E address bc = (case find_account E address bc of
     Some (alias, acc) \<Rightarrow> Ok acc
   | None \<Rightarrow> Err (InvalidAddress address))"

definition account_update ::
  "chain_env \<Rightarrow> address \<Rightarrow> (chain_account \<Rightarrow> chain_account) \<Rightarrow> (blockchain, error, unit) oper" where
  "account_update E address g bc = (case find_account E address bc of
     Some (alias, acc) \<Rightarrow> (Ok (), bc\<lparr>bc_accounts := (bc_accounts bc)(alias \<mapsto> g acc)\<rparr>)
   | None \<Rightarrow> (Err (InvalidAddress address), bc))"

definition chain_balance :: "chain_env \<Rightarrow> address \<Rightarrow> blockchain \<Rightarrow> ('e, u256) outcome" where
  "chain_balance E address bc =
     obind (unwrap (account_ref E address bc)) (\<lambda>acc. Ok (ca_balance acc))"

definition code_at :: "chain_env \<Rightarrow> address \<Rightarrow> blockchain \<Rightarrow> ('e, bytes) outcome" where
  "code_at E address bc =
     obind (unwrap (account_ref E address bc)) (\<lambda>acc. Ok (ca_code acc))"

definition latest_block_hash :: "chain_env \<Rightarrow> blockchain \<Rightarrow> ('e, h256) outcome" where
  "latest_block_hash E bc = obind (last_block bc) (hash E)"

section \<open>Transactions\<close>

definition action_bytes :: "action \<Rightarrow> bytes" where
  "action_bytes a = (case a of
     Create code salt \<Rightarrow> code @ be_bytes 32 salt
   | Call address \<Rightarrow> be_bytes 20 address)"

definition transaction_bytes :: "transaction \<Rightarrow> bytes" where
  "transaction_bytes tx =
     be_bytes 20 (tx_sender tx) @ le_bytes 32 (tx_value tx) @ le_bytes 32 (tx_gas tx) @
     le_bytes 32 (tx_gas_price tx) @ action_bytes (tx_action tx) @ tx_args tx"

definition transaction_hash :: "chain_env \<Rightarrow> transaction \<Rightarrow> h256" where
  "transaction_hash E tx = ce_keccak E (transaction_bytes tx)"

definition add_transactions ::
  "chain_env \<Rightarrow> transaction \<Rightarrow> result_data \<Rightarrow> (blockchain, 'e, h256) oper" where
  "add_transactions E tx result =
     rbind (modify (bc_transactions_update (\<lambda>m. m(transaction_hash E tx \<mapsto> (tx, result))))) (\<lambda>_.
       pure (transaction_hash E tx))"

definition get_transaction_details ::
  "h256 \<Rightarrow> blockchain \<Rightarrow> ('e, transaction \<times> result_data) outcome" where
  "get_transaction_details h bc =
     (case bc_transactions bc h of Some x \<Rightarrow> Ok x | None \<Rightarrow> Crash)"

section \<open>The provider\<close>

definition state_account_of :: "chain_account \<Rightarrow> state_account" where
  "state_account_of acc =
     \<lparr>sa_nonce = ca_nonce acc, sa_balance = ca_balance acc, sa_code = ca_code acc\<rparr>"

text \<open>\<open>self.counter + 1\<close> on \<open>i32\<close>, and the alias it is printed into.\<close>

definition next_counter :: "bool \<Rightarrow> u32 \<Rightarrow> ('e, u32) outcome" where
  "next_counter chk c = (if chk \<and> sint c = 2 ^ 31 - 1 then Crash else Ok (c + 1))"

definition show_int :: "int \<Rightarrow> string" where
  "show_int k = (if k < 0 then ''-'' @ show_nat (nat (- k)) else show_nat (nat k))"

definition contract_name :: "int \<Rightarrow> string" where
  "contract_name k = ''contract_'' @ show_int k"

definition chain_create_contract ::
  "chain_env \<Rightarrow> address \<Rightarrow> bytes \<Rightarrow> (blockchain, error, unit) oper" where
  "chain_create_contract E address code =
     rbind (\<lambda>bc. lift (next_counter (ce_overflow_checks E) (bc_counter bc)) bc) (\<lambda>k.
     rbind (modify (bc_accounts_update (\<lambda>accs.
       accs(contract_name (sint k) \<mapsto> chain_account_new address 0 0 code)))) (\<lambda>_.
       modify (bc_counter_update (\<lambda>_. k))))"

definition chain_storage_at :: "chain_env \<Rightarrow> blockchain \<Rightarrow> address \<Rightarrow> h256 \<Rightarrow> (error, h256) outcome" where
  "chain_storage_at E bc address key =
     obind (account_ref E address bc) (\<lambda>acc.
       of_option (InvalidStorageKey key) (ca_storage acc key))"

definition chain_set_storage ::
  "chain_env \<Rightarrow> address \<Rightarrow> h256 \<Rightarrow> h256 \<Rightarrow> (blockchain, error, unit) oper" where
  "chain_set_storage E address key val =
     unwrap_op (account_update E address (ca_storage_update (\<lambda>m. m(key \<mapsto> val))))"

definition chain_update_account ::
  "chain_env \<Rightarrow> address \<Rightarrow> u256 \<Rightarrow> u256 \<Rightarrow> (blockchain, error, unit) oper" where
  "chain_update_account E address bal n =
     unwrap_op (account_update E address (\<lambda>acc. acc\<lparr>ca_balance := bal, ca_nonce := n\<rparr>))"

definition chain_block_hash :: "chain_env \<Rightarrow> blockchain \<Rightarrow> u64 \<Rightarrow> (error, h256) outcome" where
  "chain_block_hash E bc num =
     (if unat num < length (bc_blocks bc) then hash E (bc_blocks bc ! unat num) else Crash)"

definition chain_timestamp :: "blockchain \<Rightarrow> (error, u64) outcome" where
  "chain_timestamp bc = obind (last_block bc) (\<lambda>b.
     if bk_time b < 0 then Crash else Ok (word_of_int (bk_time b div 10 ^ 9)))"

definition chain_block_number :: "blockchain \<Rightarrow> (error, u64) outcome" where
  "chain_block_number bc = obind (last_block bc) (\<lambda>b. Ok (bk_num b))"

definition chain_provider :: "chain_env \<Rightarrow> blockchain provider" where
  "chain_provider E =
     \<lparr>pv_exist = (\<lambda>bc a. case account_ref E a bc of Ok _ \<Rightarrow> True | _ \<Rightarrow> False),
      pv_account = (\<lambda>bc a. obind (account_ref E a bc) (\<lambda>acc. Ok (state_account_of acc))),
      pv_update_account = chain_update_account E,
      pv_create_contract = chain_create_contract E,
      pv_storage_at = chain_storage_at E,
      pv_set_storage = chain_set_storage E,
      pv_timestamp = chain_timestamp,
      pv_block_number = chain_block_number,
      pv_block_hash = chain_block_hash E,
      pv_block_author = address_from_alias ''alice'',
      pv_difficulty = (\<lambda>bc. Err NotSupported),
      pv_gas_limit = (\<lambda>bc. Ok 1000000)\<rparr>"

end
