(* ===== verification/Blockchain_Laws.thy ===== *)
theory Blockchain_Laws
  imports Blockchain
begin

text \<open>
  The in-memory chain of \<open>examples/blockchain/src/blockchain.rs\<close> as a provider: the invariant
  of its account map (one alias per address, unused aliases above the contract counter), the
  lookups it determines whatever the map's iteration order, and the interpretation of the
  provider's contract.
\<close>

section \<open>The invariant of the account map\<close>

definition distinct_addresses :: "(string \<rightharpoonup> chain_account) \<Rightarrow> bool" where
  "distinct_addresses m \<longleftrightarrow>
     (\<forall>n x n' x'. m n = Some x \<longrightarrow> m n' = Some x' \<longrightarrow> ca_address x = ca_address x' \<longrightarrow> n = n')"

definition fair :: "chain_env \<Rightarrow> bool" where
  "fair E \<longleftrightarrow> (\<forall>m. finite (dom m) \<longrightarrow> enumerates (ce_order E m) m)"

definition chain_inv :: "chain_env \<Rightarrow> blockchain \<Rightarrow> bool" where
  "chain_inv E bc \<longleftrightarrow> fair E \<and> finite (dom (bc_accounts bc)) \<and>
     distinct_addresses (bc_accounts bc) \<and> 0 \<le> sint (bc_counter bc) \<and>
     (\<forall>k. sint (bc_counter bc) < k \<longrightarrow> bc_accounts bc (contract_name k) = None)"

text \<open>How many more contracts can be created before the counter overflows.\<close>

definition chain_room :: "blockchain \<Rightarrow> nat" where
  "chain_room bc = nat (2 ^ 31 - 1 - sint (bc_counter bc))"

definition chain_fresh :: "bytes \<Rightarrow> state_account" where
  "chain_fresh code = \<lparr>sa_nonce = 0, sa_balance = 0, sa_code = code\<rparr>"

lemma contract_name_inject:
  "0 \<le> j \<Longrightarrow> 0 \<le> k \<Longrightarrow> contract_name j = contract_name k \<longleftrightarrow> j = k"
  by (auto simp: contract_name_def show_int_def)

section \<open>Lookups\<close>

lemma find_account_iff:
  assumes "chain_inv E bc"
  shows "find_account E a bc = Some (n, x) \<longleftrightarrow> bc_accounts bc n = Some x \<and> ca_address x = a"
proof -
  let ?es = "entries (ce_order E (bc_accounts bc)) (bc_accounts bc)"
  have "enumerates (ce_order E (bc_accounts bc)) (bc_accounts bc)"
    using assms by (simp add: chain_inv_def fair_def)
  then have es: "(n, x) \<in> set ?es \<longleftrightarrow> bc_accounts bc n = Some x" for n x
    by (auto simp: set_entries enumerates_def)
  have d: "bc_accounts bc n = Some x \<Longrightarrow> bc_accounts bc n' = Some x' \<Longrightarrow>
      ca_address x = ca_address x' \<Longrightarrow> n = n'" for n x n' x'
    using assms by (simp add: chain_inv_def distinct_addresses_def)
  show ?thesis
  proof
    assume "find_account E a bc = Some (n, x)"
    then have "(n, x) \<in> set ?es" and "ca_address x = a"
      by (auto simp: find_account_def find_Some_iff in_set_conv_nth)
    with es show "bc_accounts bc n = Some x \<and> ca_address x = a" by simp
  next
    assume a: "bc_accounts bc n = Some x \<and> ca_address x = a"
    show "find_account E a bc = Some (n, x)"
    proof (cases "find_account E a bc")
      case None
      with a es [of n x] show ?thesis by (force simp: find_account_def find_None_iff)
    next
      case (Some p)
      obtain n' x' where p: "p = (n', x')" by (cases p)
      with Some have "(n', x') \<in> set ?es" and x': "ca_address x' = a"
        by (auto simp: find_account_def find_Some_iff in_set_conv_nth)
      then have "bc_accounts bc n' = Some x'" using es by simp
      with a x' d have "n' = n" and "x' = x" by (metis, metis option.inject)
      with Some p show ?thesis by simp
    qed
  qed
qed

lemma acct_chain: "acct (chain_provider E) bc a = map_option (state_account_of \<circ> snd) (find_account E a bc)"
  by (auto simp: acct_def chain_provider_def account_ref_def split: option.split)

lemma stored_chain:
  "stored (chain_provider E) bc a =
    (case find_account E a bc of None \<Rightarrow> Map.empty | Some (n, x) \<Rightarrow> ca_storage x)"
proof
  show "stored (chain_provider E) bc a k =
    (case find_account E a bc of None \<Rightarrow> Map.empty | Some (n, x) \<Rightarrow> ca_storage x) k" for k
    by (cases "find_account E a bc"; cases "ca_storage (snd (the (find_account E a bc))) k")
      (auto simp: stored_def chain_provider_def chain_storage_at_def account_ref_def)
qed

lemma find_option_eqI:
  "(\<And>n x. f = Some (n, x) \<longleftrightarrow> g = Some (n, x)) \<Longrightarrow> f = g"
  by (cases f; cases g) auto

section \<open>Updates\<close>

text \<open>Overwriting an account in place, keeping its address.\<close>

lemma find_eq:
  assumes "chain_inv E bc" and "chain_inv E' bc"
  shows "find_account E a bc = find_account E' a bc"
  by (rule find_option_eqI) (simp add: find_account_iff [OF assms(1)] find_account_iff [OF assms(2)])

lemma lookup_eq:
  assumes "chain_inv E bc" and "chain_inv E' bc"
  shows "account_ref E a bc = account_ref E' a bc"
  using find_eq [OF assms] by (simp add: account_ref_def)

lemma chain_inv_overwrite:
  assumes inv: "chain_inv E bc" and n: "bc_accounts bc n = Some x"
    and y: "ca_address y = ca_address x"
  shows "chain_inv E (bc\<lparr>bc_accounts := (bc_accounts bc)(n \<mapsto> y)\<rparr>)"
proof -
  let ?m = "(bc_accounts bc)(n \<mapsto> y)"
  have old: "\<exists>u'. bc_accounts bc k = Some u' \<and> ca_address u' = ca_address u" if "?m k = Some u" for k u
    using that n y by (cases "k = n") auto
  have "distinct_addresses ?m"
    using inv old unfolding chain_inv_def distinct_addresses_def by metis
  moreover have "n \<noteq> contract_name k" if k: "sint (bc_counter bc) < k" for k
  proof
    assume "n = contract_name k"
    with inv k have "bc_accounts bc n = None" by (simp add: chain_inv_def)
    with n show False by simp
  qed
  ultimately show ?thesis using inv by (auto simp: chain_inv_def)
qed

lemma find_overwrite:
  assumes inv: "chain_inv E bc" and n: "bc_accounts bc n = Some x"
    and y: "ca_address y = ca_address x"
  shows "find_account E b (bc\<lparr>bc_accounts := (bc_accounts bc)(n \<mapsto> y)\<rparr>) =
    (if b = ca_address x then Some (n, y) else find_account E b bc)"
proof (rule find_option_eqI)
  fix k z
  note iff = find_account_iff [OF chain_inv_overwrite [OF assms]] find_account_iff [OF inv]
  have u: "bc_accounts bc k = Some z \<Longrightarrow> ca_address z = ca_address x \<Longrightarrow> k = n"
    using inv n unfolding chain_inv_def distinct_addresses_def by metis
  show "find_account E b (bc\<lparr>bc_accounts := (bc_accounts bc)(n \<mapsto> y)\<rparr>) = Some (k, z) \<longleftrightarrow>
      (if b = ca_address x then Some (n, y) else find_account E b bc) = Some (k, z)"
  proof (cases "b = ca_address x")
    case True
    with u y show ?thesis by (cases "k = n") (auto simp: iff)
  next
    case False
    with n y show ?thesis by (cases "k = n") (auto simp: iff)
  qed
qed

lemma account_update_run:
  assumes inv: "chain_inv E bc" and a: "acct (chain_provider E) bc a \<noteq> None"
    and g: "\<And>x. ca_address (g x) = ca_address x"
  obtains n x bc' where "find_account E a bc = Some (n, x)"
    and "account_update E a g bc = (Ok (), bc')" and "chain_inv E bc'"
    and "chain_room bc' = chain_room bc"
    and "\<And>b. find_account E b bc' = (if b = a then Some (n, g x) else find_account E b bc)"
proof -
  from a obtain n x where f: "find_account E a bc = Some (n, x)"
    by (auto simp: acct_chain)
  then have n: "bc_accounts bc n = Some x" "ca_address x = a"
    using find_account_iff [OF inv] by auto
  let ?bc = "bc\<lparr>bc_accounts := (bc_accounts bc)(n \<mapsto> g x)\<rparr>"
  show ?thesis
  proof (rule that [OF f, of ?bc])
    show "account_update E a g bc = (Ok (), ?bc)" by (simp add: account_update_def f)
    show "chain_inv E ?bc" by (rule chain_inv_overwrite [OF inv n(1) g])
    show "chain_room ?bc = chain_room bc" by (simp add: chain_room_def)
    show "find_account E b ?bc = (if b = a then Some (n, g x) else find_account E b bc)" for b
      using find_overwrite [OF inv n(1) g] n(2) by simp
  qed
qed

section \<open>New contracts\<close>

lemma sint_next:
  assumes "0 \<le> sint c" and "sint c < 2 ^ 31 - 1"
  shows "sint (c + 1 :: u32) = sint c + 1"
proof -
  have "sint (c + 1) = signed_take_bit 31 (sint c + 1)"
    by (simp add: sint_word_ariths)
  also have "\<dots> = sint c + 1"
    using assms by (intro signed_take_bit_int_eq_self) auto
  finally show ?thesis .
qed

lemma chain_create_run:
  assumes inv: "chain_inv E bc" and a: "acct (chain_provider E) bc a = None"
    and room: "0 < chain_room bc"
  obtains bc' n where "chain_create_contract E a code bc = (Ok (), bc')" and "chain_inv E bc'"
    and "chain_room bc = Suc (chain_room bc')"
    and "\<And>b. find_account E b bc' =
      (if b = a then Some (n, chain_account_new a 0 0 code) else find_account E b bc)"
proof -
  let ?k = "bc_counter bc + 1" and ?y = "chain_account_new a 0 0 code"
  let ?n = "contract_name (sint ?k)"
  let ?bc = "bc\<lparr>bc_accounts := (bc_accounts bc)(?n \<mapsto> ?y), bc_counter := ?k\<rparr>"
  have c: "0 \<le> sint (bc_counter bc)" "sint (bc_counter bc) < 2 ^ 31 - 1"
    using inv room by (auto simp: chain_inv_def chain_room_def)
  note k = sint_next [OF c]
  have none: "bc_accounts bc ?n = None" using inv by (simp add: chain_inv_def k)
  have na: "bc_accounts bc m = Some x \<Longrightarrow> ca_address x \<noteq> a" for m x
    using a find_account_iff [OF inv, of a m x] by (auto simp: acct_chain)
  have inv': "chain_inv E ?bc"
  proof -
    have "distinct_addresses ((bc_accounts bc)(?n \<mapsto> ?y))"
      unfolding distinct_addresses_def
    proof (intro allI impI)
      fix u x v z
      assume "((bc_accounts bc)(?n \<mapsto> ?y)) u = Some x" "((bc_accounts bc)(?n \<mapsto> ?y)) v = Some z"
        and "ca_address x = ca_address z"
      then show "u = v"
        using inv na [of u x] na [of v z] unfolding chain_inv_def distinct_addresses_def
        by (cases "u = ?n"; cases "v = ?n") (auto simp: chain_account_new_def)
    qed
    moreover have "contract_name j \<noteq> ?n" if "sint ?k < j" for j
      using that c by (subst contract_name_inject) (auto simp: k)
    ultimately show ?thesis using inv c by (simp add: chain_inv_def k)
  qed
  have y: "ca_address ?y = a" by (simp add: chain_account_new_def)
  have find: "find_account E b ?bc = (if b = a then Some (?n, ?y) else find_account E b bc)" for b
  proof (rule find_option_eqI)
    fix m x
    show "find_account E b ?bc = Some (m, x) \<longleftrightarrow>
        (if b = a then Some (?n, ?y) else find_account E b bc) = Some (m, x)"
      using find_account_iff [OF inv', of b m x] find_account_iff [OF inv, of b m x] na [of m x] none y
      by (cases "m = ?n"; cases "b = a") auto
  qed
  have "chain_create_contract E a code bc = (Ok (), ?bc)"
    using c by (simp add: chain_create_contract_def next_counter_def rbind_def lift_def modify_def)
  moreover have "chain_room bc = Suc (chain_room ?bc)" using c by (simp add: chain_room_def k)
  ultimately show ?thesis using that inv' find by blast
qed

section \<open>The chain keeps the provider's contract\<close>

interpretation chain: provider_contract "chain_provider E" "chain_inv E" chain_room chain_fresh for E
proof
  show "quiet (chain_provider E) bc" if "chain_inv E bc" for bc
    by (auto simp: quiet_def chain_provider_def chain_storage_at_def account_ref_def
        split: option.split)
next
  show "pv_exist (chain_provider E) bc a \<longleftrightarrow> acct (chain_provider E) bc a \<noteq> None" for bc a
    unfolding acct_chain by (auto simp: chain_provider_def account_ref_def split: option.split)
next
  show "sa_code (chain_fresh c) = c" for c
    by (simp add: chain_fresh_def)
next
  fix bc a c
  assume "chain_inv E bc" "acct (chain_provider E) bc a = None" "0 < chain_room bc"
  then obtain bc' n where new: "chain_create_contract E a c bc = (Ok (), bc')" "chain_inv E bc'"
      "chain_room bc = Suc (chain_room bc')"
      "\<And>b. find_account E b bc' =
        (if b = a then Some (n, chain_account_new a 0 0 c) else find_account E b bc)"
    by (rule chain_create_run) blast
  moreover have "acct (chain_provider E) bc' = (acct (chain_provider E) bc)(a \<mapsto> chain_fresh c)"
    by (simp add: fun_eq_iff acct_chain new(4) state_account_of_def chain_account_new_def chain_fresh_def)
  moreover have "find_account E a bc = None"
    using \<open>acct (chain_provider E) bc a = None\<close> by (simp add: acct_chain)
  then have "stored (chain_provider E) bc' = stored (chain_provider E) bc"
    by (simp add: fun_eq_iff stored_chain new(4) chain_account_new_def)
  ultimately show "\<exists>p'. pv_create_contract (chain_provider E) a c bc = (Ok (), p') \<and>
      chain_inv E p' \<and> chain_room bc \<le> Suc (chain_room p') \<and>
      acct (chain_provider E) p' = (acct (chain_provider E) bc)(a \<mapsto> chain_fresh c) \<and>
      stored (chain_provider E) p' = stored (chain_provider E) bc"
    by (intro exI [of _ bc']) (simp add: chain_provider_def)
next
  fix bc a k v
  assume "chain_inv E bc" "acct (chain_provider E) bc a \<noteq> None"
  then obtain n x bc' where u: "find_account E a bc = Some (n, x)"
    "account_update E a (ca_storage_update (\<lambda>m. m(k \<mapsto> v))) bc = (Ok (), bc')"
    "chain_inv E bc'" "chain_room bc' = chain_room bc"
    "\<And>b. find_account E b bc' =
      (if b = a then Some (n, ca_storage_update (\<lambda>m. m(k \<mapsto> v)) x) else find_account E b bc)"
    by (rule account_update_run [where g = "ca_storage_update (\<lambda>m. m(k \<mapsto> v))"]) simp_all
  have "acct (chain_provider E) bc' = acct (chain_provider E) bc"
    by (simp add: fun_eq_iff acct_chain u(1,5) state_account_of_def)
  moreover have "stored (chain_provider E) bc' =
      (stored (chain_provider E) bc)(a := (stored (chain_provider E) bc a)(k \<mapsto> v))"
    by (simp add: fun_eq_iff stored_chain u(1,5))
  ultimately show "\<exists>p'. pv_set_storage (chain_provider E) a k v bc = (Ok (), p') \<and>
      chain_inv E p' \<and> chain_room p' = chain_room bc \<and>
      acct (chain_provider E) p' = acct (chain_provider E) bc \<and>
      stored (chain_provider E) p' =
        (stored (chain_provider E) bc)(a := (stored (chain_provider E) bc a)(k \<mapsto> v))"
    using u(2-4)
    by (intro exI [of _ bc']) (simp add: chain_provider_def chain_set_storage_def unwrap_op_def)
next
  fix bc a b n acc
  let ?g = "\<lambda>acc. acc\<lparr>ca_balance := b, ca_nonce := n\<rparr>"
  assume inv: "chain_inv E bc" and acc: "acct (chain_provider E) bc a = Some acc"
  then have "acct (chain_provider E) bc a \<noteq> None" by simp
  with inv obtain m x bc' where u: "find_account E a bc = Some (m, x)"
    "account_update E a ?g bc = (Ok (), bc')"
    "chain_inv E bc'" "chain_room bc' = chain_room bc"
    "\<And>b. find_account E b bc' = (if b = a then Some (m, ?g x) else find_account E b bc)"
    by (rule account_update_run [where g = ?g]) simp_all
  have "acct (chain_provider E) bc' =
      (acct (chain_provider E) bc)(a \<mapsto> acc\<lparr>sa_balance := b, sa_nonce := n\<rparr>)"
    using acc by (auto simp: fun_eq_iff acct_chain u(1,5) state_account_of_def)
  moreover have "stored (chain_provider E) bc' = stored (chain_provider E) bc"
    by (simp add: fun_eq_iff stored_chain u(1,5))
  ultimately show "\<exists>p'. pv_update_account (chain_provider E) a b n bc = (Ok (), p') \<and>
      chain_inv E p' \<and> chain_room p' = chain_room bc \<and>
      acct (chain_provider E) p' =
        (acct (chain_provider E) bc)(a \<mapsto> acc\<lparr>sa_balance := b, sa_nonce := n\<rparr>) \<and>
      stored (chain_provider E) p' = stored (chain_provider E) bc"
    using u(2-4)
    by (intro exI [of _ bc']) (simp add: chain_provider_def chain_update_account_def unwrap_op_def)
qed

section \<open>A new chain\<close>

lemma contract_name_new:
  "contract_name k \<noteq> ''alice''" "contract_name k \<noteq> ''bob''" "contract_name k \<noteq> ''carol''"
  "contract_name k \<noteq> ''dave''" "contract_name k \<noteq> ''naga''"
  by (simp_all add: contract_name_def)

lemma chain_inv_new:
  assumes "fair E" and "distinct [r1, r2, r3, r4, genesis_address]"
  shows "chain_inv E (blockchain_new now r1 r2 r3 r4)"
proof -
  have "distinct_addresses (bc_accounts (blockchain_new now r1 r2 r3 r4))"
    unfolding distinct_addresses_def
  proof (intro allI impI)
    fix n x n' x'
    assume "bc_accounts (blockchain_new now r1 r2 r3 r4) n = Some x"
      and "bc_accounts (blockchain_new now r1 r2 r3 r4) n' = Some x'"
      and "ca_address x = ca_address x'"
    with assms(2) show "n = n'"
      by (auto simp: blockchain_new_def chain_account_new_def split: if_splits)
  qed
  with assms(1) show ?thesis
    by (simp add: chain_inv_def blockchain_new_def contract_name_new)
qed

lemma chain_room_new: "chain_room (blockchain_new now r1 r2 r3 r4) = 2147483647"
  by (simp add: chain_room_def blockchain_new_def)

section \<open>The chain of blocks\<close>

text \<open>
  Blocks carry their own position, the first one has no predecessor, and every other one
  names the hash of the block before it.
\<close>

definition linked :: "chain_env \<Rightarrow> block list \<Rightarrow> bool" where
  "linked E bs \<longleftrightarrow> bs \<noteq> [] \<and> bk_prev (hd bs) = 0 \<and>
     (\<forall>i < length bs. bk_num (bs ! i) = word_of_nat i) \<and>
     (\<forall>i. Suc i < length bs \<longrightarrow> hash E (bs ! i) = (Ok (bk_prev (bs ! Suc i)) :: (error, h256) outcome))"

lemma linked_new: "linked E (bc_blocks (blockchain_new now r1 r2 r3 r4))"
  by (simp add: linked_def blockchain_new_def block_new_def)

lemma commit_run:
  "commit E now bc =
    (if bc_blocks bc = [] then (Crash, bc)
     else case ce_serialize E (last (bc_blocks bc)) of
         Some bs \<Rightarrow>
           (let b = block_new now (word_of_nat (length (bc_blocks bc))) (ce_keccak E bs) in
            if ce_info E \<and> ce_serialize E b = None then (Crash, bc)
            else (Ok (), bc\<lparr>bc_blocks := bc_blocks bc @ [b]\<rparr>))
       | None \<Rightarrow> (Crash, bc))"
  by (auto simp: commit_def rbind_def lift_def asks_def modify_def pure_def last_block_def hash_def Let_def
      split: option.split)

lemma commit_linked:
  assumes l: "linked E (bc_blocks bc)" and run: "commit E now bc = (Ok (), bc')"
  shows "linked E (bc_blocks bc')" and "length (bc_blocks bc') = Suc (length (bc_blocks bc))"
    and "bc_accounts bc' = bc_accounts bc" and "bc_counter bc' = bc_counter bc"
    and "bc_transactions bc' = bc_transactions bc"
proof -
  let ?bs = "bc_blocks bc"
  from l have ne: "?bs \<noteq> []" by (simp add: linked_def)
  from run ne obtain prev where h: "hash E (last ?bs) = (Ok prev :: (error, h256) outcome)"
    and bc': "bc' = bc\<lparr>bc_blocks := ?bs @ [block_new now (word_of_nat (length ?bs)) prev]\<rparr>"
    by (auto simp: commit_run hash_def Let_def split: option.splits if_splits)
  show "linked E (bc_blocks bc')"
    unfolding linked_def
  proof (intro conjI allI impI)
    show "bc_blocks bc' \<noteq> []" by (simp add: bc')
    show "bk_prev (hd (bc_blocks bc')) = 0" using l ne by (simp add: bc' linked_def)
    show "bk_num (bc_blocks bc' ! i) = word_of_nat i" if "i < length (bc_blocks bc')" for i
      using l that by (cases "i < length ?bs") (auto simp: bc' linked_def nth_append block_new_def not_less less_Suc_eq)
    show "hash E (bc_blocks bc' ! i) = (Ok (bk_prev (bc_blocks bc' ! Suc i)) :: (error, h256) outcome)"
      if "Suc i < length (bc_blocks bc')" for i
    proof (cases "Suc i < length ?bs")
      case True
      with l show ?thesis by (simp add: bc' linked_def nth_append)
    next
      case False
      with that have "i = length ?bs - 1" by (simp add: bc')
      with ne h show ?thesis by (simp add: bc' nth_append last_conv_nth block_new_def)
    qed
  qed
qed (use run in \<open>auto simp: commit_run Let_def split: if_splits option.splits\<close>)

section \<open>What the machine cannot touch\<close>

text \<open>
  The three mutating methods of the provider leave blocks and stored transactions alone, never
  drop an alias, and move no alias to another address, but for those of deployed contracts.
\<close>

definition named_kept :: "blockchain \<Rightarrow> blockchain \<Rightarrow> bool" where
  "named_kept bc bc' \<longleftrightarrow> (\<forall>n. n \<notin> range contract_name \<longrightarrow>
     map_option ca_address (bc_accounts bc' n) = map_option ca_address (bc_accounts bc n))"

definition chain_frame :: "blockchain \<Rightarrow> blockchain \<Rightarrow> bool" where
  "chain_frame bc bc' \<longleftrightarrow> bc_blocks bc' = bc_blocks bc \<and> bc_transactions bc' = bc_transactions bc \<and>
     dom (bc_accounts bc) \<subseteq> dom (bc_accounts bc') \<and> named_kept bc bc'"

lemma named_kept_refl [simp]: "named_kept bc bc"
  by (simp add: named_kept_def)

lemma named_kept_trans: "named_kept a b \<Longrightarrow> named_kept b c \<Longrightarrow> named_kept a c"
  by (simp add: named_kept_def)

interpretation chain_frame: step_frame chain_frame
  by unfold_locales (simp_all add: chain_frame_def, blast intro: named_kept_trans)

lemma named_kept_counter [simp]: "named_kept bc (bc\<lparr>bc_counter := k\<rparr>)"
  by (simp add: named_kept_def)

lemma named_kept_deployed [simp]:
  "named_kept bc (bc_accounts_update (\<lambda>accs. accs(contract_name i \<mapsto> x)) bc)"
  by (auto simp: named_kept_def)

lemma find_in_set: "List.find P xs = Some x \<Longrightarrow> x \<in> set xs"
  by (auto simp: find_Some_iff)

lemma find_account_alias:
  assumes "find_account E a bc = Some (n, x)"
  shows "bc_accounts bc n = Some x"
proof -
  from assms have "(n, x) \<in> set (entries (ce_order E (bc_accounts bc)) (bc_accounts bc))"
    by (simp add: find_account_def) (rule find_in_set)
  then show ?thesis by (simp add: set_entries)
qed

lemma frame_account_update:
  assumes "\<And>x. ca_address (g x) = ca_address x"
  shows "stays chain_frame (account_update E a g)"
  by (rule staysI) (auto simp: account_update_def chain_frame_def named_kept_def assms
      dest: find_account_alias split: option.split)

lemma frame_mutators [frame_intros]:
  "stays chain_frame (pv_set_storage (chain_provider E) a k v)"
  "stays chain_frame (pv_update_account (chain_provider E) a b n)"
  "stays chain_frame (pv_create_contract (chain_provider E) a c)"
proof -
  show "stays chain_frame (pv_set_storage (chain_provider E) a k v)"
    by (simp add: chain_provider_def chain_set_storage_def chain_frame.stays_unwrap frame_account_update)
  show "stays chain_frame (pv_update_account (chain_provider E) a b n)"
    by (simp add: chain_provider_def chain_update_account_def chain_frame.stays_unwrap frame_account_update)
  have "stays chain_frame (\<lambda>bc. lift (next_counter (ce_overflow_checks E) (bc_counter bc)) bc)"
    by (rule chain_frame.stays_const) (simp add: lift_def)
  then show "stays chain_frame (pv_create_contract (chain_provider E) a c)"
    by (auto simp: chain_provider_def chain_create_contract_def chain_frame_def
        intro!: chain_frame.stays_rbind chain_frame.stays_modify)
qed

end
