(* ===== verification/Script_Engine.thy ===== *)
theory Script_Engine
  imports Blockchain_Laws "HOL-Library.List_Lexorder" "HOL-Library.Char_ord"
begin

text \<open>
  A concrete interpreter to run the model with: a contract is a list of host calls with
  literal arguments over a memory given in advance. It satisfies the hypotheses that the
  theorems put on an interpreter, and the examples of the development are executions on it.
\<close>

section \<open>The interpreter\<close>

datatype command = Invoke nat "u64 list" | Abort trap_kind

definition script_host :: "bytes \<Rightarrow> (u64 list, bytes) wasmi_host" where
  "script_host data =
     \<lparr>wh_overflow_checks = True, wh_trace = False,
      wh_show_trap = (\<lambda>_. ''trap''),
      wh_u32 = (\<lambda>args i. if i < length args then Inr (ucast (args ! i)) else Inl TrapUnexpectedSignature),
      wh_u64 = (\<lambda>args i. if i < length args then Inr (args ! i) else Inl TrapUnexpectedSignature),
      wh_get = (\<lambda>m p n. if unat p + n \<le> length m then Inr (take n (drop (unat p) m))
                        else Inl (ErrMemory ''out of bounds'')),
      wh_get_into = (\<lambda>m p n. if unat p + n \<le> length m then Inr (take n (drop (unat p) m))
                             else Inl (ErrMemory ''out of bounds'')),
      wh_set = (\<lambda>m p bs. if unat p + length bs \<le> length m
                         then Inr (take (unat p) m @ bs @ drop (unat p + length bs) m)
                         else Inl (ErrMemory ''out of bounds'')),
      wh_alloc = (\<lambda>initial maximum. Inr data),
      wh_size = (\<lambda>m. 1),
      wh_short = (\<lambda>bs. [])\<rparr>"

fun script_step :: "command list \<Rightarrow> bytes \<Rightarrow> (command list, u64 list, bytes) event" where
  "script_step [] m = Finished None m"
| "script_step (Abort t # cs) m = Finished (Some t) m"
| "script_step (Invoke i args # cs) m =
     HostCall i args m (\<lambda>r. case r of Inl t \<Rightarrow> [Abort t] | Inr _ \<Rightarrow> cs)"

definition script_engine ::
  "(bytes \<Rightarrow> h256) \<Rightarrow> bytes \<Rightarrow> command list \<Rightarrow>
   (u64 list, bytes, unit, unit, unit, command list) engine" where
  "script_engine keccak data script =
     \<lparr>en_host = script_host data,
      en_pwasm = \<lparr>pw_deserialize = (\<lambda>_. Inr ()), pw_memory_section = (\<lambda>_. None),
                  pw_inject_gas_counter = (\<lambda>m _. Some m), pw_inject_limiter = (\<lambda>m _. Some m)\<rparr>,
      en_keccak = keccak,
      en_load = (\<lambda>_. Inr ()),
      en_instantiate = (\<lambda>_ resolve_func resolve_memory.
        rbind (resolve_memory ''memory'' \<lparr>md_initial = 1, md_maximum = Some 16\<rparr>) (\<lambda>_. pure ())),
      en_start = (\<lambda>_. None),
      en_export = (\<lambda>_ name. if name = ''call'' then Inr script else Inl (ErrFunction name)),
      en_step = script_step\<rparr>"

lemma script_memory_laws: "memory_laws (script_host data)"
  by (auto simp: memory_laws_def script_host_def split: if_splits)

lemma script_traps_abort: "host_traps_abort script_step"
  unfolding host_traps_abort_def
proof (intro allI impI)
  fix cs m i args m' k t m''
  assume "script_step cs m = HostCall i args m' k"
  then show "script_step (k (Inl t)) m'' = Finished (Some t) m''"
    by (cases "(cs, m)" rule: script_step.cases) auto
qed

lemma script_metered: "metered W script_step length"
  unfolding metered_def
proof (intro allI)
  show "case script_step cs m of Finished k m' \<Rightarrow> True
    | Internal cfg' m' \<Rightarrow> length cfg' < length cs
    | HostCall i a m' resume \<Rightarrow> charges W i a \<or> (\<forall>v. length (resume (Inr v)) < length cs)" for cs m
    by (cases "(cs, m)" rule: script_step.cases) auto
qed

section \<open>Evaluation\<close>

lemma script_engine_simps [simp]:
  "en_host (script_engine k d s) = script_host d"
  "en_keccak (script_engine k d s) = k"
  "en_step (script_engine k d s) = script_step"
  "en_start (script_engine k d s) inst = None"
  "en_export (script_engine k d s) inst ''call'' = Inr s"
  by (simp_all add: script_engine_def)

lemma script_host_simps [simp]:
  "wh_overflow_checks (script_host d)" "\<not> wh_trace (script_host d)"
  "wh_show_trap (script_host d) = (\<lambda>_. ''trap'')"
  "wh_u32 (script_host d) args i =
    (if i < length args then Inr (ucast (args ! i)) else Inl TrapUnexpectedSignature)"
  "wh_u64 (script_host d) args i =
    (if i < length args then Inr (args ! i) else Inl TrapUnexpectedSignature)"
  "wh_get (script_host d) m p n =
    (if unat p + n \<le> length m then Inr (take n (drop (unat p) m)) else Inl (ErrMemory ''out of bounds''))"
  "wh_get_into (script_host d) m p n =
    (if unat p + n \<le> length m then Inr (take n (drop (unat p) m)) else Inl (ErrMemory ''out of bounds''))"
  "wh_set (script_host d) m p bs =
    (if unat p + length bs \<le> length m then Inr (take (unat p) m @ bs @ drop (unat p + length bs) m)
     else Inl (ErrMemory ''out of bounds''))"
  by (simp_all add: script_host_def)

lemma script_prepare:
  assumes "make_params k P p tx = Ok params" and "unat (ap_gas params) * 8 div 3 < 2 ^ 64"
  shows "prepare (script_engine k d s) P p tx =
    Ok (params, (), word_of_nat (unat (ap_gas params) * 8 div 3), 1, d)"
proof -
  have "\<not> 2 ^ 253 \<le> unat (ap_gas params)" using assms(2) by simp
  then have "adjusted_gas wasm_costs_default (ap_gas params) =
      Ok (word_of_nat (unat (ap_gas params) * 8 div 3))"
    using assms(2) by (simp add: adjusted_gas_run)
  with assms(1) show ?thesis
    by (simp add: prepare_def script_engine_def script_host_def payload_def with_limit_def
        resolve_memory_def plus_op_def checked_add_def memory_size_def memory_ref_def rbind_def
        pure_def Let_def)
qed

text \<open>A script runs one host call after the other.\<close>

lemma run_script [simp]:
  "run_guest W P script_step [] s = Some (Ok (), s)"
  "run_guest W P script_step (Abort t # cs) s = Some (Err t, s)"
  "run_guest W P script_step (Invoke i args # cs) s =
    (case invoke_index W P i args s of
       (Ok v, s') \<Rightarrow> run_guest W P script_step cs s'
     | (Err t, s') \<Rightarrow> Some (Err t, s')
     | (Crash, s') \<Rightarrow> Some (Crash, s'))"
  by (simp_all add: run_guest.simps [of W P script_step] split: outcome.split prod.split)

lemma script_contract:
  assumes "rt_schedule s0 = execute_schedule" and "rt_gas_counter s0 = 0"
    and "4096 \<le> rt_gas_limit s0"
  shows "run_contract (script_engine k d s) H P tx () 1 s0 =
    map_option (\<lambda>(r, t). rbind (lift (stopping (\<lambda>_. ''trap'') (map_err ErrTrap r))) (\<lambda>_. finish H P tx) t)
      (run_guest (script_host d) P script_step s (s0\<lparr>rt_gas_counter := 4096\<rparr>))"
proof -
  have "affordable 4096 s0" using assms by (simp add: affordable_def word_le_nat_alt)
  then have "initial_charge chk 1 s0 = (Ok (), s0\<lparr>rt_gas_counter := 4096\<rparr>)" for chk
    using assms
    by (simp add: initial_charge_def charge_def times_op_small rbind_lift charge_amount_run
        wasm_costs_default_def)
  then show ?thesis
    using assms
    by (cases "run_guest (script_host d) P script_step s (s0\<lparr>rt_gas_counter := 4096\<rparr>)")
      (auto simp: run_contract_def rbind_lift run_start_def invoke_export_def wasm_costs_default_def)
qed


text \<open>The whole execution of a script, when the gas covers the initial memory.\<close>

lemma script_execute:
  assumes par: "make_params k P p tx = Ok params"
    and gas: "unat (ap_gas params) * 8 div 3 < 2 ^ 64" "4096 \<le> unat (ap_gas params) * 8 div 3"
  shows "execute (script_engine k d s) H P tx p =
    map_option (\<lambda>(r, t). (r, st_provider (rt_state t)))
     (map_option (\<lambda>(r, t). rbind (lift (stopping (\<lambda>_. ''trap'') (map_err ErrTrap r))) (\<lambda>_. finish H P tx) t)
      (run_guest (script_host d) P script_step s
        ((runtime_new params execute_schedule (state_new p) d
           (word_of_nat (unat (ap_gas params) * 8 div 3)))\<lparr>rt_gas_counter := 4096\<rparr>)))"
proof -
  let ?s0 = "runtime_new params execute_schedule (state_new p) d (word_of_nat (unat (ap_gas params) * 8 div 3))"
  have "(4096 :: u64) \<le> word_of_nat (unat (ap_gas params) * 8 div 3)"
    using gas by (simp add: word_le_nat_alt unat_of_nat)
  then have "run_contract (script_engine k d s) H P tx () 1 ?s0 =
    map_option (\<lambda>(r, t). rbind (lift (stopping (\<lambda>_. ''trap'') (map_err ErrTrap r))) (\<lambda>_. finish H P tx) t)
      (run_guest (script_host d) P script_step s (?s0\<lparr>rt_gas_counter := 4096\<rparr>))"
    by (intro script_contract) (simp_all add: runtime_new_def)
  then show ?thesis by (simp add: execute_def script_prepare [OF par gas(1)])
qed

section \<open>Iteration orders and a chain\<close>

text \<open>The keys of a map in ascending order: one of the orders a hash map may have.\<close>

definition sorted_keys :: "('k::linorder \<rightharpoonup> 'v) \<Rightarrow> 'k list" where
  "sorted_keys m = sorted_list_of_set (dom m)"

lemma enumerates_sorted: "finite (dom m) \<Longrightarrow> enumerates (sorted_keys m) m"
  by (simp add: enumerates_def sorted_keys_def)

definition sorted_orders :: hash_orders where
  "sorted_orders = \<lparr>ho_accounts = sorted_keys, ho_storage = sorted_keys\<rparr>"

lemma fair_sorted: "fair_orders sorted_orders"
  by (simp add: fair_orders_def sorted_orders_def enumerates_sorted)

definition sample_env :: chain_env where
  "sample_env = \<lparr>ce_keccak = (\<lambda>bs. word_of_nat (length bs)),
     ce_serialize = (\<lambda>b. Some (le_bytes 8 (bk_num b) @ be_bytes 32 (bk_prev b))),
     ce_order = sorted_keys, ce_info = True, ce_overflow_checks = True\<rparr>"

lemma fair_sample: "fair sample_env"
  by (simp add: fair_def sample_env_def enumerates_sorted)

definition sample_chain :: blockchain where
  "sample_chain = blockchain_new 0 1 2 3 4"

end
