(* ===== verification/Call_Laws.thy ===== *)
theory Call_Laws
  imports Dispatch_Laws
begin

text \<open>
  What the host calls of \<open>durian/src/runtime.rs\<close> do when they are given arguments, memory and
  gas: closed forms of the storage calls, of \<open>ret\<close>, \<open>fetch_input\<close>, \<open>elog\<close> and the calls that
  are not completed in the source, the types of the replies, and the absence of panics.
\<close>

section \<open>Charges on the schedule of an execution\<close>

text \<open>The adjusted price of an amount: eight thirds of it, rounded down.\<close>

definition adjusted :: "nat \<Rightarrow> nat" where
  "adjusted x = x * 8 div 3"

lemma adjusted_charge_run:
  assumes sch: "rt_schedule s = execute_schedule" and f: "f execute_schedule = Ok x"
    and x: "unat x * 8 < 2 ^ 64"
  shows "adjusted_charge W f s = charge_amount (word_of_nat (adjusted (unat x))) s"
proof -
  have m: "unat x * unat (8 :: u64) < 2 ^ LENGTH(64)" using x by simp
  have "unat (x * 8) = unat x * 8" using unat_times_small [OF m] by simp
  then have "unat (x * 8 div 3) = adjusted (unat x)" by (simp add: unat_div adjusted_def)
  then have "x * 8 div 3 = word_of_nat (adjusted (unat x))" by (metis of_nat_unat ucast_id)
  then show ?thesis
    by (simp add: adjusted_charge_def charge_def sch f rbind_lift wasm_costs_default_def
        times_op_small [OF m, simplified] div_op_def)
qed

definition sload_price :: nat where "sload_price = adjusted 50"
definition sstore_set_price :: nat where "sstore_set_price = adjusted 20000"
definition sstore_reset_price :: nat where "sstore_reset_price = adjusted 5000"

lemma prices [simp]: "sload_price = 133" "sstore_set_price = 53333" "sstore_reset_price = 13333"
  by (simp_all add: sload_price_def sstore_set_price_def sstore_reset_price_def adjusted_def)

lemma sc_prices:
  "sc_sload_gas execute_schedule = 50" "sc_sstore_set_gas execute_schedule = 20000"
  "sc_sstore_reset_gas execute_schedule = 5000" "sc_log_gas execute_schedule = 375"
  "sc_log_data_gas execute_schedule = 8" "sc_log_topic_gas execute_schedule = 375"
  "sc_call_gas execute_schedule = 40" "sc_blockhash_gas execute_schedule = 20"
  by (simp_all add: execute_schedule_unfold)

section \<open>Storage\<close>

text \<open>
  The two storage calls in closed form, where the memory holds the words they are given and
  the provider's lookups do not panic: \<open>mem_word\<close> is a 32-byte word of the contract's memory.
\<close>

definition mem_word :: "('args, 'mem) wasmi_host \<Rightarrow> 'mem \<Rightarrow> u32 \<Rightarrow> h256 \<Rightarrow> bool" where
  "mem_word W m ptr w \<longleftrightarrow> wh_get_into W m ptr 32 = Inr (be_bytes 32 w)"

lemma h256_at_run: "mem_word W (rt_memory s) ptr w \<Longrightarrow> h256_at W ptr s = (Ok w, s)"
  by (simp add: h256_at_def rbind_def mem_get_into_def mem_word_def lift_def)

lemma arg_u32_run: "wh_u32 W args i = Inr n \<Longrightarrow> arg_u32 W args i s = (Ok n, s)"
  by (simp add: arg_u32_def lift_def)

lemma arg_u64_run: "wh_u64 W args i = Inr n \<Longrightarrow> arg_u64 W args i s = (Ok n, s)"
  by (simp add: arg_u64_def lift_def)

abbreviation own_addr :: "('mem, 'p) runtime \<Rightarrow> address" where
  "own_addr s \<equiv> ap_address (rt_params s)"

text \<open>The runtime after a slot of the contract's own account was read.\<close>

definition after_read :: "'p provider \<Rightarrow> h256 \<Rightarrow> ('mem, 'p) runtime \<Rightarrow> ('mem, 'p) runtime" where
  "after_read P key s =
     s\<lparr>rt_state := put_account (own_addr s) (loaded P (rt_state s) (own_addr s) key) (rt_state s)\<rparr>"

definition own_view :: "'p provider \<Rightarrow> ('mem, 'p) runtime \<Rightarrow> h256 \<Rightarrow> h256" where
  "own_view P s = storage_view P (rt_state s) (own_addr s)"

lemma after_read_simps [simp]:
  "rt_schedule (after_read P key s) = rt_schedule s" "rt_params (after_read P key s) = rt_params s"
  "rt_gas_counter (after_read P key s) = rt_gas_counter s"
  "rt_gas_limit (after_read P key s) = rt_gas_limit s" "rt_memory (after_read P key s) = rt_memory s"
  "rt_result (after_read P key s) = rt_result s" "rt_logs (after_read P key s) = rt_logs s"
  "st_provider (rt_state (after_read P key s)) = st_provider (rt_state s)"
  "affordable c (after_read P key s) = affordable c s"
  by (simp_all add: after_read_def affordable_def)

lemma view_after_read [simp]:
  "storage_view P (rt_state (after_read P key s)) = storage_view P (rt_state s)"
  by (simp add: after_read_def view_put_loaded)

lemma storage_read_run:
  assumes q: "quiet P (st_provider (rt_state s))" and sch: "rt_schedule s = execute_schedule"
    and args: "wh_u32 W args 0 = Inr kp" "wh_u32 W args 1 = Inr vp"
    and key: "mem_word W (rt_memory s) kp key"
  shows "storage_read W P args s =
    (if affordable (word_of_nat sload_price) s
     then mem_set W vp (be_bytes 32 (own_view P s key))
       ((after_read P key s)\<lparr>rt_gas_counter := rt_gas_counter s + word_of_nat sload_price\<rparr>)
     else (Err GasLimit, after_read P key s))"
proof -
  have get: "on_state (storage_at P (own_addr s) key) s = (Ok (own_view P s key), after_read P key s)"
    by (simp add: on_state_def storage_at_run [OF q] after_read_def own_view_def)
  have pay: "adjusted_charge W (\<lambda>sch. Ok (sc_sload_gas sch)) (after_read P key s) =
      charge_amount (word_of_nat sload_price) (after_read P key s)"
    using adjusted_charge_run [of "after_read P key s" "\<lambda>sch. Ok (sc_sload_gas sch)" 50 W]
    by (simp add: sch sc_prices sload_price_def del: prices)
  show ?thesis
    by (simp add: storage_read_def rbind_def arg_u32_run [OF args(1)] arg_u32_run [OF args(2)]
        h256_at_run [OF key] with_address_def get pay charge_amount_run del: prices One_nat_def)
qed

definition sstore_price :: "h256 \<Rightarrow> h256 \<Rightarrow> nat" where
  "sstore_price old new = (if old = 0 \<and> new \<noteq> 0 then sstore_set_price else sstore_reset_price)"

definition after_write :: "'p provider \<Rightarrow> h256 \<Rightarrow> h256 \<Rightarrow> ('mem, 'p) runtime \<Rightarrow> ('mem, 'p) runtime" where
  "after_write P key val s =
     s\<lparr>rt_gas_counter := rt_gas_counter s + word_of_nat (sstore_price (own_view P s key) val),
       rt_state := put_account (own_addr s)
         (insert_slot key val True (loaded P (rt_state s) (own_addr s) key)) (rt_state s)\<rparr>"

lemma storage_write_run:
  assumes q: "quiet P (st_provider (rt_state s))" and sch: "rt_schedule s = execute_schedule"
    and args: "wh_u32 W args 0 = Inr kp" "wh_u32 W args 1 = Inr vp"
    and key: "mem_word W (rt_memory s) kp key" and val: "mem_word W (rt_memory s) vp val"
  shows "storage_write W P args s =
    (if affordable (word_of_nat (sstore_price (own_view P s key) val)) s
     then (Ok (), after_write P key val s)
     else (Err GasLimit, after_read P key s))"
proof -
  let ?old = "own_view P s key" and ?s1 = "after_read P key s"
  let ?c = "word_of_nat (sstore_price ?old val)"
  have get: "on_state (storage_at P (own_addr s) key) s = (Ok ?old, ?s1)"
    by (simp add: on_state_def storage_at_run [OF q] after_read_def own_view_def)
  have pay_set: "adjusted_charge W (\<lambda>sch. Ok (sc_sstore_set_gas sch)) ?s1 =
      charge_amount (word_of_nat sstore_set_price) ?s1"
    using adjusted_charge_run [of ?s1 "\<lambda>sch. Ok (sc_sstore_set_gas sch)" 20000 W]
    by (simp add: sch sc_prices sstore_set_price_def del: prices)
  have pay_reset: "adjusted_charge W (\<lambda>sch. Ok (sc_sstore_reset_gas sch)) ?s1 =
      charge_amount (word_of_nat sstore_reset_price) ?s1"
    using adjusted_charge_run [of ?s1 "\<lambda>sch. Ok (sc_sstore_reset_gas sch)" 5000 W]
    by (simp add: sch sc_prices sstore_reset_price_def del: prices)
  have set: "on_state (set_storage P (own_addr s) key val) (?s1\<lparr>rt_gas_counter := n\<rparr>) =
      (Ok (), s\<lparr>rt_gas_counter := n, rt_state := put_account (own_addr s)
         (insert_slot key val True (loaded P (rt_state s) (own_addr s) key)) (rt_state s)\<rparr>)" for n
    using q by (simp add: on_state_def set_storage_run after_read_def)
  show ?thesis
    by (simp add: storage_write_def rbind_def arg_u32_run [OF args(1)] arg_u32_run [OF args(2)]
        h256_at_run [OF key] h256_at_run [OF val] with_address_def get pay_set pay_reset
        charge_amount_run set after_write_def sstore_price_def add_sstore_refund_def pure_run
        del: prices One_nat_def)
qed

lemma view_after_write:
  "storage_view P (rt_state (after_write P key val s)) =
    (storage_view P (rt_state s))(own_addr s := (own_view P s)(key := val))"
proof -
  have "storage_view P (put_account a (insert_slot k v True (loaded P st a k)) st) =
      (storage_view P st)(a := (storage_view P st a)(k := v))" for a k v st
    by (intro ext) (auto simp: storage_view_def loaded_def split: option.split)
  then show ?thesis by (simp add: after_write_def own_view_def)
qed

section \<open>Input and result\<close>

lemma ret_run:
  assumes "wh_u32 W args 0 = Inr p" and "wh_u32 W args 1 = Inr n"
    and "wh_get W (rt_memory s) p (unat n) = Inr bs"
  shows "ret W args s = (Err Return, s\<lparr>rt_result := bs\<rparr>)"
  by (simp add: ret_def rbind_def arg_u32_run [OF assms(1)] arg_u32_run [OF assms(2)]
      mem_get_def assms(3) modify_def fail_def del: One_nat_def)

text \<open>An amount of bytes is copied at the price of one unit each.\<close>

lemma fetch_input_run:
  assumes sch: "rt_schedule s = execute_schedule" and arg: "wh_u32 W args 0 = Inr p"
    and small: "length (ap_args (rt_params s)) < 2 ^ 64"
  shows "fetch_input W args s =
    (if affordable (word_of_nat (length (ap_args (rt_params s)))) s
     then mem_set W p (ap_args (rt_params s))
       (s\<lparr>rt_gas_counter := rt_gas_counter s + word_of_nat (length (ap_args (rt_params s)))\<rparr>)
     else (Err GasLimit, s))"
proof -
  let ?in = "ap_args (rt_params s)"
  have pay: "charge (\<lambda>sch. obind (schedule_wasm sch) (\<lambda>w.
         times_op (wh_overflow_checks W) (word_of_nat (length ?in)) (ucast (wc_memcpy w)))) s =
      charge_amount (word_of_nat (length ?in)) s"
    using small by (simp add: charge_def sch rbind_lift wasm_costs_default_def times_op_small unat_of_nat)
  show ?thesis
    by (simp add: fetch_input_def rbind_def arg_u32_run [OF arg] asks_def pay charge_amount_run)
qed

section \<open>The event log\<close>

text \<open>The topics as 32-byte words one after the other from \<open>tp\<close> on.\<close>

definition topics_at :: "('args, 'mem) wasmi_host \<Rightarrow> 'mem \<Rightarrow> u32 \<Rightarrow> h256 list \<Rightarrow> bool" where
  "topics_at W m tp ts \<longleftrightarrow> unat tp + 32 * length ts \<le> 2 ^ 32 \<and>
     (\<forall>i < length ts. wh_get W m (word_of_nat (unat tp + 32 * i)) 32 = Inr (be_bytes 32 (ts ! i)))"

lemma topic_offset:
  fixes tp i :: u32
  assumes "unat tp + 32 * (unat i + 1) \<le> 2 ^ 32"
  shows "checked_mul i 32 = Some (i * 32)" and "checked_add (i * 32) tp = Some (i * 32 + tp)"
    and "i * 32 + tp = word_of_nat (unat tp + 32 * unat i)"
proof -
  have m: "unat i * unat (32 :: u32) < 2 ^ LENGTH(32)" using assms by simp
  then show "checked_mul i 32 = Some (i * 32)" by (simp add: checked_mul_def)
  have i: "unat (i * 32) = unat i * 32" using unat_times_small [OF m] by simp
  have a: "unat (i * 32) + unat tp < 2 ^ LENGTH(32)" using i assms by simp
  then show "checked_add (i * 32) tp = Some (i * 32 + tp)" by (simp add: checked_add_def)
  have "unat (i * 32 + tp) = unat tp + 32 * unat i" using unat_plus_small [OF a] i by simp
  then show "i * 32 + tp = word_of_nat (unat tp + 32 * unat i)" by (metis of_nat_unat ucast_id)
qed

lemma read_topics_run:
  assumes "topics_at W (rt_memory s) tp all" and "all = pre @ ts" and "i = word_of_nat (length pre)"
    and "length all \<le> 4"
  shows "read_topics W tp i (length ts) s = (Ok ts, s)"
  using assms
proof (induction ts arbitrary: pre i)
  case Nil
  then show ?case by (simp add: pure_def)
next
  case (Cons t ts)
  have i: "unat i = length pre" using Cons.prems(2-4) by (simp add: unat_of_nat)
  have "unat tp + 32 * (unat i + 1) \<le> 2 ^ 32"
    using Cons.prems(1,2) i by (simp add: topics_at_def)
  note off = topic_offset [OF this]
  have "wh_get W (rt_memory s) (i * 32 + tp) 32 = Inr (be_bytes 32 t)"
    using Cons.prems(1,2) by (simp add: topics_at_def off(3) i)
  then have get: "mem_get W (i * 32 + tp) 32 s = (Ok (be_bytes 32 t), s)" by (simp add: mem_get_def)
  have "read_topics W tp (i + 1) (length ts) s = (Ok ts, s)"
    by (rule Cons.IH [of "pre @ [t]"]) (use Cons.prems in simp_all)
  with get show ?case
    by (simp add: rbind_def lift_def off(1,2) pure_def add.commute)
qed

definition elog_price :: "nat \<Rightarrow> nat" where
  "elog_price n = adjusted (439 + 375 * n)"

lemma elog_gas_run:
  assumes "unat (n :: u32) \<le> 4"
  shows "elog_gas chk n execute_schedule = Ok (Some (word_of_nat (439 + 375 * unat n)))"
proof -
  have n: "unat (ucast n :: u64) = unat n" by (rule unat_ucast_up) simp
  have m: "unat (375 :: u64) * unat (ucast n :: u64) < 2 ^ LENGTH(64)" using assms n by simp
  have t: "unat (375 * ucast n :: u64) = 375 * unat n" using unat_times_small [OF m] n by simp
  have p: "unat (375 :: u64) + unat (375 * ucast n :: u64) < 2 ^ LENGTH(64)" using assms t by simp
  have g: "unat (375 + 375 * ucast n :: u64) = 375 + 375 * unat n" using unat_plus_small [OF p] t by simp
  have q: "unat (64 :: u64) + unat (375 + 375 * ucast n :: u64) < 2 ^ LENGTH(64)" using assms g by simp
  have "unat (64 + (375 + 375 * ucast n) :: u64) = 439 + 375 * unat n"
    using unat_plus_small [OF q] g by simp
  then have "64 + (375 + 375 * ucast n) = (word_of_nat (439 + 375 * unat n) :: u64)"
    by (metis of_nat_unat ucast_id)
  moreover have "checked_mul 8 8 = Some (64 :: u64)" by (simp add: checked_mul_def)
  moreover have "checked_add 64 (375 + 375 * ucast n) = Some (64 + (375 + 375 * ucast n) :: u64)"
    using q by (simp add: checked_add_def)
  ultimately show ?thesis
    by (simp add: elog_gas_def sc_prices times_op_small [OF m] plus_op_small [OF p])
qed

lemma adjusted_overflow_charge_run:
  assumes sch: "rt_schedule s = execute_schedule" and f: "f execute_schedule = Ok (Some x)"
    and x: "unat x * 8 < 2 ^ 64"
  shows "adjusted_overflow_charge f s = charge_amount (word_of_nat (adjusted (unat x))) s"
proof -
  have m: "unat x * unat (8 :: u64) < 2 ^ LENGTH(64)" using x by simp
  have "unat (x * 8) = unat x * 8" using unat_times_small [OF m] by simp
  then have "unat (x * 8 div 3) = adjusted (unat x)" by (simp add: unat_div adjusted_def)
  then have "x * 8 div 3 = word_of_nat (adjusted (unat x))" by (metis of_nat_unat ucast_id)
  moreover have "checked_mul x 8 = Some (x * 8)" using m by (simp add: checked_mul_def)
  ultimately show ?thesis
    by (simp add: adjusted_overflow_charge_def overflow_charge_def sch f rbind_lift checked_adjust_def
        wasm_costs_default_def div_op_def)
qed

lemma elog_run:
  assumes sch: "rt_schedule s = execute_schedule"
    and args: "wh_u32 W args 0 = Inr tp" "wh_u32 W args 1 = Inr n"
      "wh_u32 W args 2 = Inr dp" "wh_u32 W args 3 = Inr dl"
    and n: "unat n = length ts" "length ts \<le> 4" and ts: "topics_at W (rt_memory s) tp ts"
    and data: "wh_get W (rt_memory s) dp (unat dl) = Inr bs"
  shows "elog W args s =
    (if affordable (word_of_nat (elog_price (length ts))) s
     then (Ok (), s\<lparr>rt_gas_counter := rt_gas_counter s + word_of_nat (elog_price (length ts)),
       rt_logs := rt_logs s @ [\<lparr>le_address = own_addr s, le_topics = ts, le_data = bs\<rparr>]\<rparr>)
     else (Err GasLimit, s))"
proof -
  let ?c = "word_of_nat (elog_price (length ts))"
  have four: "\<not> 4 < n" using n by (simp add: word_less_nat_alt)
  have "unat (word_of_nat k :: u64) = k" if "k < 2 ^ 64" for k using that by (simp add: unat_of_nat)
  from this [of "439 + 375 * unat n"] n
  have "unat (word_of_nat (439 + 375 * unat n) :: u64) = 439 + 375 * unat n" by simp
  then have pay: "adjusted_overflow_charge (elog_gas (wh_overflow_checks W) n) s = charge_amount ?c s"
    using n adjusted_overflow_charge_run [OF sch, of "elog_gas (wh_overflow_checks W) n"
        "word_of_nat (439 + 375 * unat n)"] elog_gas_run [of n "wh_overflow_checks W"]
    by (simp add: elog_price_def)
  have read: "read_topics W tp 0 (unat n) (s\<lparr>rt_gas_counter := c\<rparr>) = (Ok ts, s\<lparr>rt_gas_counter := c\<rparr>)" for c
    unfolding n(1) by (rule read_topics_run [where all = ts and pre = "[]"]) (use ts n in simp_all)
  show ?thesis
    using data four
    by (simp add: elog_def rbind_def arg_u32_run [OF args(1)] arg_u32_run [OF args(2)]
        arg_u32_run [OF args(3)] arg_u32_run [OF args(4)] pay charge_amount_run read mem_get_def
        with_address_def modify_def del: One_nat_def)
qed

lemma elog_too_many:
  assumes "wh_u32 W args 0 = Inr tp" "wh_u32 W args 1 = Inr n"
      "wh_u32 W args 2 = Inr dp" "wh_u32 W args 3 = Inr dl" and "4 < n"
  shows "elog W args s = (Err Log, s)"
  using assms(5)
  by (simp add: elog_def rbind_def arg_u32_run [OF assms(1)] arg_u32_run [OF assms(2)]
        arg_u32_run [OF assms(3)] arg_u32_run [OF assms(4)] fail_def del: One_nat_def)

section \<open>Calls that the source does not complete\<close>

text \<open>A call between contracts answers with the failure code, or ends in an error.\<close>

lemma do_call_result: "do_call W P use_val ty args s = (Ok v, t) \<Longrightarrow> v = I32 (- 1)"
  unfolding do_call_def Let_def
  by (auto elim!: rbind_OkE simp: pure_def fail_def split: if_splits option.splits)

lemma create_result: "create args s = (Err (Panic ''Not completed''), s)"
  by (simp add: create_def fail_def)

lemma suicide_result: "suicide W args s = (Ok v, t) \<Longrightarrow> False"
  unfolding suicide_def by (auto elim!: rbind_OkE simp: fail_def)

end
