(* ===== verification/Dispatch_Types.thy ===== *)
theory Dispatch_Types
  imports Call_Laws
begin

text \<open>
  The import table of \<open>durian/src/env.rs\<close> against the dispatcher of \<open>durian/src/runtime.rs\<close>:
  which index runs which method, that a reply has the declared type, that a method reads
  exactly the declared arguments, and that no importable function panics but two.
\<close>

section \<open>The dispatch table\<close>

lemma invoke_simps:
  "invoke_index W P STORAGE_WRITE_FUNC args = void (storage_write W P args)"
  "invoke_index W P STORAGE_READ_FUNC args = void (storage_read W P args)"
  "invoke_index W P RET_FUNC args = void (ret W args)"
  "invoke_index W P GAS_FUNC args = void (gas W args)"
  "invoke_index W P INPUT_LENGTH_FUNC args = cast input_length"
  "invoke_index W P FETCH_INPUT_FUNC args = void (fetch_input W args)"
  "invoke_index W P PANIC_FUNC args = void (panic W args)"
  "invoke_index W P DEBUG_FUNC args = void (debug W args)"
  "invoke_index W P CCALL_FUNC args = some (ccall W P args)"
  "invoke_index W P VALUE_FUNC args = void (value_passed W args)"
  "invoke_index W P CREATE_FUNC args = some (create args)"
  "invoke_index W P SUICIDE_FUNC args = void (suicide W args)"
  "invoke_index W P BLOCK_HASH_FUNC args = void (rt_block_hash W P args)"
  "invoke_index W P BLOCK_NUMBER_FUNC args = some (rt_block_number P)"
  "invoke_index W P BLOCK_AUTHOR_FUNC args = void (rt_block_author W P args)"
  "invoke_index W P DIFFICULTY_FUNC args = void (rt_difficulty W P args)"
  "invoke_index W P GASLIMIT_FUNC args = void (gaslimit W P args)"
  "invoke_index W P TIMESTAMP_FUNC args = some (rt_timestamp P)"
  "invoke_index W P ADDRESS_FUNC args = void (own_address W args)"
  "invoke_index W P SENDER_FUNC args = void (sender W args)"
  "invoke_index W P ORIGIN_FUNC args = void (origin W args)"
  "invoke_index W P ELOG_FUNC args = void (elog W args)"
  "invoke_index W P GASLEFT_FUNC args = some (gasleft W)"
  by (simp_all add: invoke_index_def id_defs)

lemma invoke_missing:
  "invoke_index W P DCALL_FUNC args s = (Crash, s)"
  "invoke_index W P SCALL_FUNC args s = (Crash, s)"
  "invoke_index W P CREATE2_FUNC args s = (Crash, s)"
  by (simp_all add: invoke_index_def id_defs)

text \<open>A reply has the type that the import signature declares.\<close>

fun has_type :: "runtime_value option \<Rightarrow> value_type option \<Rightarrow> bool" where
  "has_type None None = True"
| "has_type (Some (I32 _)) (Some VI32) = True"
| "has_type (Some (I64 _)) (Some VI64) = True"
| "has_type _ _ = False"

lemma void_Ok: "void m s = (Ok v, t) \<Longrightarrow> v = None"
  by (auto simp: void_def pure_def elim!: rbind_OkE)

lemma some_Ok: "some m s = (Ok v, t) \<Longrightarrow> \<exists>x. v = Some x \<and> m s = (Ok x, t)"
  by (cases "m s"; cases "fst (m s)") (auto simp: some_def trap_of_def rbind_def pure_def)

lemmas sig_defs = SIG_STORAGE_READ_def SIG_STORAGE_WRITE_def SIG_RET_def SIG_GAS_def
  SIG_FETCH_INPUT_def SIG_INPUT_LENGTH_def SIG_CCALL_def SIG_DCALL_def SIG_SCALL_def SIG_PANIC_def
  SIG_DEBUG_def SIG_VALUE_def SIG_CREATE_def SIG_CREATE2_def SIG_SUICIDE_def SIG_BLOCK_HASH_def
  SIG_BLOCK_NUMBER_def SIG_BLOCK_AUTHOR_def SIG_DIFFICULTY_def SIG_GASLEFT_def SIG_GASLIMIT_def
  SIG_TIMESTAMP_def SIG_ADDRESS_def SIG_SENDER_def SIG_ORIGIN_def SIG_ELOG_def

text \<open>The pairs of signature and index that an import can resolve to.\<close>

lemma if_InrE:
  assumes "(if b then Inr x else y) = Inr z"
  obtains "b" and "z = x" | "y = Inr z"
  using assms that by (cases b) simp_all

lemma resolve_func_cases:
  assumes "resolve_func R name = Inr (sg, i)"
  obtains
    "sg = SIG_STORAGE_READ \<and> i = STORAGE_READ_FUNC"
  | "sg = SIG_STORAGE_WRITE \<and> i = STORAGE_WRITE_FUNC"
  | "sg = SIG_RET \<and> i = RET_FUNC"
  | "sg = SIG_GAS \<and> i = GAS_FUNC"
  | "sg = SIG_INPUT_LENGTH \<and> i = INPUT_LENGTH_FUNC"
  | "sg = SIG_FETCH_INPUT \<and> i = FETCH_INPUT_FUNC"
  | "sg = SIG_PANIC \<and> i = PANIC_FUNC"
  | "sg = SIG_DEBUG \<and> i = DEBUG_FUNC"
  | "sg = SIG_CCALL \<and> i = CCALL_FUNC"
  | "name = ''dcall'' \<and> sg = SIG_DCALL \<and> i = DCALL_FUNC"
  | "name = ''scall'' \<and> sg = SIG_SCALL \<and> i = SCALL_FUNC"
  | "sg = SIG_VALUE \<and> i = VALUE_FUNC"
  | "sg = SIG_CREATE \<and> i = CREATE_FUNC"
  | "sg = SIG_SUICIDE \<and> i = SUICIDE_FUNC"
  | "sg = SIG_BLOCK_HASH \<and> i = BLOCK_HASH_FUNC"
  | "sg = SIG_BLOCK_NUMBER \<and> i = BLOCK_NUMBER_FUNC"
  | "sg = SIG_BLOCK_AUTHOR \<and> i = BLOCK_AUTHOR_FUNC"
  | "sg = SIG_DIFFICULTY \<and> i = DIFFICULTY_FUNC"
  | "sg = SIG_GASLIMIT \<and> i = GASLIMIT_FUNC"
  | "sg = SIG_TIMESTAMP \<and> i = TIMESTAMP_FUNC"
  | "sg = SIG_ADDRESS \<and> i = ADDRESS_FUNC"
  | "sg = SIG_SENDER \<and> i = SENDER_FUNC"
  | "sg = SIG_ORIGIN \<and> i = ORIGIN_FUNC"
  | "sg = SIG_ELOG \<and> i = ELOG_FUNC"
  | "ir_have_create2 R \<and> sg = SIG_CREATE2 \<and> i = CREATE2_FUNC"
  | "ir_have_gasleft R \<and> sg = SIG_GASLEFT \<and> i = GASLEFT_FUNC"
  using assms unfolding resolve_func_def host_def
  by (elim if_InrE; simp only: prod.inject sum.distinct; (elim conjE)?; (rule that, intro conjI; assumption)?)

lemma reply_typed:
  assumes "resolve_func R name = Inr ((ps, ret_ty), i)" and "invoke_index W P i args s = (Ok v, t)"
  shows "has_type v ret_ty"
  using assms(1)
proof (cases rule: resolve_func_cases)
  case 5
  with assms(2) show ?thesis by (auto simp: invoke_simps cast_def input_length_def sig_defs)
next
  case 9
  with assms(2) show ?thesis
    by (auto simp: invoke_simps sig_defs ccall_def dest!: some_Ok do_call_result)
next
  case 13
  with assms(2) show ?thesis
    by (auto simp: invoke_simps sig_defs create_result dest!: some_Ok)
next
  case 16
  with assms(2) show ?thesis
    by (auto simp: invoke_simps sig_defs rt_block_number_def pure_def dest!: some_Ok elim!: rbind_OkE)
next
  case 20
  with assms(2) show ?thesis
    by (auto simp: invoke_simps sig_defs rt_timestamp_def pure_def dest!: some_Ok elim!: rbind_OkE)
next
  case 26
  with assms(2) show ?thesis
    by (auto simp: invoke_simps sig_defs gasleft_def pure_def dest!: some_Ok elim!: rbind_OkE)
qed (use assms(2) in \<open>auto simp: invoke_simps invoke_missing sig_defs dest: void_Ok\<close>)

section \<open>Arguments\<close>

text \<open>Two argument lists that agree on the declared positions, each read at its declared type.\<close>

definition same_args :: "('args, 'mem) wasmi_host \<Rightarrow> value_type list \<Rightarrow> 'args \<Rightarrow> 'args \<Rightarrow> bool" where
  "same_args W ps args args' \<longleftrightarrow> (\<forall>j < length ps. case ps ! j of
     VI32 \<Rightarrow> wh_u32 W args j = wh_u32 W args' j
   | VI64 \<Rightarrow> wh_u64 W args j = wh_u64 W args' j)"

lemma same_u32: "same_args W ps args args' \<Longrightarrow> j < length ps \<Longrightarrow> ps ! j = VI32 \<Longrightarrow>
    wh_u32 W args j = wh_u32 W args' j"
  by (auto simp: same_args_def)

lemma same_u64: "same_args W ps args args' \<Longrightarrow> j < length ps \<Longrightarrow> ps ! j = VI64 \<Longrightarrow>
    wh_u64 W args j = wh_u64 W args' j"
  by (auto simp: same_args_def)

lemmas arg_readers = storage_write_def storage_read_def ret_def gas_def fetch_input_def panic_def
  debug_def value_passed_def suicide_def rt_block_hash_def rt_block_author_def rt_difficulty_def
  gaslimit_def own_address_def sender_def origin_def elog_def create_def

lemma do_call_args:
  assumes "same_args W [VI64, VI32, VI32, VI32, VI32, VI32, VI32] args args'"
  shows "do_call W P True ty args = do_call W P True ty args'"
proof -
  note u = same_u32 [OF assms]
  have "wh_u64 W args 0 = wh_u64 W args' 0" by (rule same_u64 [OF assms]) simp_all
  moreover have "wh_u32 W args 1 = wh_u32 W args' 1" "wh_u32 W args 2 = wh_u32 W args' 2"
    "wh_u32 W args 3 = wh_u32 W args' 3" "wh_u32 W args 4 = wh_u32 W args' 4"
    "wh_u32 W args 5 = wh_u32 W args' 5" "wh_u32 W args 6 = wh_u32 W args' 6"
    by (rule u; simp)+
  ultimately show ?thesis by (simp add: do_call_def arg_u32_def arg_u64_def del: One_nat_def)
qed

text \<open>The argument lists that occur in the table, position by position.\<close>

lemma arg_lists:
  "same_args W [VI32] args args' \<Longrightarrow> wh_u32 W args 0 = wh_u32 W args' 0"
  "same_args W [VI32, VI32] args args' \<Longrightarrow>
    wh_u32 W args 0 = wh_u32 W args' 0 \<and> wh_u32 W args 1 = wh_u32 W args' 1"
  "same_args W [VI64, VI32] args args' \<Longrightarrow>
    wh_u64 W args 0 = wh_u64 W args' 0 \<and> wh_u32 W args 1 = wh_u32 W args' 1"
  "same_args W [VI32, VI32, VI32, VI32] args args' \<Longrightarrow>
    wh_u32 W args 0 = wh_u32 W args' 0 \<and> wh_u32 W args 1 = wh_u32 W args' 1 \<and>
    wh_u32 W args 2 = wh_u32 W args' 2 \<and> wh_u32 W args 3 = wh_u32 W args' 3"
  using same_u32 [of W _ args args'] same_u64 [of W _ args args'] by force+

lemma invoke_args:
  assumes "resolve_func R name = Inr ((ps, ty), i)" and "same_args W ps args args'"
  shows "invoke_index W P i args = invoke_index W P i args'"
  using assms(1)
proof (cases rule: resolve_func_cases)
  case 9
  with assms(2) show ?thesis by (simp add: invoke_simps ccall_def sig_defs do_call_args [of W args args'])
next
  case 10
  then show ?thesis by (simp add: fun_eq_iff invoke_missing)
next
  case 11
  then show ?thesis by (simp add: fun_eq_iff invoke_missing)
next
  case 25
  then show ?thesis by (simp add: fun_eq_iff invoke_missing)
qed (use assms(2) in \<open>auto simp: invoke_simps sig_defs arg_readers arg_u32_def arg_u64_def
      dest!: arg_lists simp del: One_nat_def\<close>)

end
