(* ===== verification/Panic_Freedom.thy ===== *)
theory Panic_Freedom
  imports Dispatch_Types
begin

text \<open>
  No contract can bring the host process down through the host calls of
  \<open>durian/src/runtime.rs\<close>, if the provider's queries do not panic and the memory answers with
  as many bytes as it was asked for: every importable function but \<open>dcall\<close> and \<open>scall\<close>
  ends in a value or in a trap.
\<close>

section \<open>Panics\<close>

text \<open>
  A calm runtime: it runs on the schedule of \<open>execute\<close>, and no query of the provider panics.
  An operation is calm if from such a state it does not panic and leaves such a state.
\<close>

definition calm_state :: "'p provider \<Rightarrow> ('mem, 'p) runtime \<Rightarrow> bool" where
  "calm_state P s \<longleftrightarrow> rt_schedule s = execute_schedule \<and>
     (let p = st_provider (rt_state s) in quiet P p \<and> pv_block_number P p \<noteq> Crash \<and>
       (\<forall>n. pv_block_hash P p n \<noteq> Crash) \<and> pv_block_author P p \<noteq> Crash \<and>
       pv_difficulty P p \<noteq> Crash \<and> pv_gas_limit P p \<noteq> Crash)"

definition calm :: "'p provider \<Rightarrow> (('mem, 'p) runtime, 'e, 'a) oper \<Rightarrow> bool" where
  "calm P m \<longleftrightarrow> (\<forall>s. calm_state P s \<longrightarrow> fst (m s) \<noteq> Crash \<and> calm_state P (snd (m s)))"

named_theorems calm_intros \<open>operations that do not panic\<close>

lemma calmI: "(\<And>s. calm_state P s \<Longrightarrow> fst (m s) \<noteq> Crash) \<Longrightarrow>
    (\<And>s. calm_state P s \<Longrightarrow> calm_state P (snd (m s))) \<Longrightarrow> calm P m"
  by (simp add: calm_def)

lemma calm_pure [calm_intros]: "calm P (pure x)"
  by (simp add: calm_def pure_def)

lemma calm_fail [calm_intros]: "calm P (fail e)"
  by (simp add: calm_def fail_def)

lemma calm_lift: "r \<noteq> Crash \<Longrightarrow> calm P (lift r)"
  by (simp add: calm_def lift_def)

lemma calm_asks [calm_intros]: "calm P (asks f)"
  by (simp add: calm_def asks_def)

lemma calm_rbind [calm_intros]: "calm P m \<Longrightarrow> (\<And>x. calm P (f x)) \<Longrightarrow> calm P (rbind m f)"
  unfolding calm_def rbind_def
  by (auto split: prod.split outcome.split)

lemma calm_if [calm_intros]: "(b \<Longrightarrow> calm P m) \<Longrightarrow> (\<not> b \<Longrightarrow> calm P n) \<Longrightarrow> calm P (if b then m else n)"
  by simp

lemma calm_option [calm_intros]:
  "calm P m \<Longrightarrow> (\<And>x. calm P (f x)) \<Longrightarrow> calm P (case v of None \<Rightarrow> m | Some x \<Rightarrow> f x)"
  by (cases v) auto

lemma calm_with_address [calm_intros]: "(\<And>a. calm P (f a)) \<Longrightarrow> calm P (with_address f)"
  by (simp add: calm_def with_address_def)

lemma calm_state_cong:
  "rt_schedule t = rt_schedule s \<Longrightarrow> st_provider (rt_state t) = st_provider (rt_state s) \<Longrightarrow>
    calm_state P t = calm_state P s"
  by (simp add: calm_state_def)

lemma calm_arg_u32 [calm_intros]: "calm P (arg_u32 W args i)"
  unfolding arg_u32_def by (rule calm_lift) simp

lemma calm_arg_u64 [calm_intros]: "calm P (arg_u64 W args i)"
  unfolding arg_u64_def by (rule calm_lift) simp

lemma calm_mem_get [calm_intros]: "calm P (mem_get W p n)"
  by (simp add: calm_def mem_get_def)

lemma calm_mem_set [calm_intros]: "calm P (mem_set W p v)"
  by (auto simp: calm_def mem_set_def calm_state_def split: sum.split)

lemma calm_modify:
  "(\<And>s. rt_schedule (g s) = rt_schedule s) \<Longrightarrow> (\<And>s. rt_state (g s) = rt_state s) \<Longrightarrow> calm P (modify g)"
  by (simp add: calm_def modify_def calm_state_def)

lemma fixed_slices:
  assumes "memory_laws W" and "wh_get_into W m p n = Inr bs"
  shows "length bs = n"
  using assms memory_laws_get memory_laws_get_into by metis

lemma calm_h256_at [calm_intros]: "memory_laws W \<Longrightarrow> calm P (h256_at W p)"
  by (rule calmI) (auto simp: h256_at_def rbind_def mem_get_into_def lift_def h256_from_slice_def
      split: outcome.split dest: fixed_slices)

lemma calm_address_at [calm_intros]: "memory_laws W \<Longrightarrow> calm P (address_at W p)"
  by (rule calmI) (auto simp: address_at_def rbind_def mem_get_into_def lift_def h160_from_slice_def
      split: outcome.split dest: fixed_slices)

lemma calm_u256_at [calm_intros]: "memory_laws W \<Longrightarrow> calm P (u256_at W p)"
  by (rule calmI) (auto simp: u256_at_def rbind_def mem_get_into_def lift_def u256_from_be_def
      split: outcome.split dest: fixed_slices)

lemma calm_quiet: "calm_state P s \<Longrightarrow> quiet P (st_provider (rt_state s))"
  by (simp add: calm_state_def Let_def)

lemma calm_storage_at [calm_intros]: "calm P (on_state (storage_at P a k))"
  by (rule calmI) (simp_all add: on_state_def storage_at_run calm_quiet calm_state_def)

lemma calm_set_storage [calm_intros]: "calm P (on_state (set_storage P a k v))"
  by (rule calmI) (simp_all add: on_state_def set_storage_run calm_quiet calm_state_def)

lemma calm_balance [calm_intros]: "calm P (on_state (balance P a))"
  by (rule calmI) (simp_all add: on_state_def balance_run calm_quiet calm_state_def)

lemma calm_queries [calm_intros]:
  "calm P (of_state (block_number P))" "calm P (of_state (timestamp P))"
  "calm P (of_state (block_hash P n))" "calm P (of_state (block_author P))"
  "calm P (of_state (difficulty P))" "calm P (of_state (gas_limit P))"
  by (simp_all add: calm_def of_state_def calm_state_def block_number_def timestamp_def block_hash_def
      block_author_def difficulty_def gas_limit_def Let_def)

lemma calm_charge_amount [calm_intros]: "calm P (charge_amount n)"
  by (rule calmI) (simp_all add: charge_amount_run calm_state_def)

text \<open>A charge panics only if its price does.\<close>

lemma calm_charge: "f execute_schedule \<noteq> Crash \<Longrightarrow> calm P (charge f)"
  by (rule calmI) (auto simp: charge_def rbind_lift calm_state_def charge_amount_run split: outcome.split)

lemma calm_adjusted_charge:
  "f execute_schedule = Ok x \<Longrightarrow> unat x * 8 < 2 ^ 64 \<Longrightarrow> calm P (adjusted_charge W f)"
  by (rule calmI) (simp_all add: calm_state_def adjusted_charge_run charge_amount_run)

lemma calm_adjusted_overflow_charge:
  "f execute_schedule = Ok (Some x) \<Longrightarrow> unat x * 8 < 2 ^ 64 \<Longrightarrow> calm P (adjusted_overflow_charge f)"
  by (rule calmI) (simp_all add: calm_state_def adjusted_overflow_charge_run charge_amount_run)

lemma calm_prices [calm_intros]:
  "calm P (adjusted_charge W (\<lambda>sch. Ok (sc_sload_gas sch)))"
  "calm P (adjusted_charge W (\<lambda>sch. Ok (sc_sstore_set_gas sch)))"
  "calm P (adjusted_charge W (\<lambda>sch. Ok (sc_sstore_reset_gas sch)))"
  "calm P (adjusted_charge W (\<lambda>sch. Ok (sc_blockhash_gas sch)))"
  "calm P (adjusted_charge W (\<lambda>sch. Ok (sc_call_gas sch)))"
  using calm_adjusted_charge [of "\<lambda>sch. Ok (sc_sload_gas sch)" 50 P W]
    calm_adjusted_charge [of "\<lambda>sch. Ok (sc_sstore_set_gas sch)" 20000 P W]
    calm_adjusted_charge [of "\<lambda>sch. Ok (sc_sstore_reset_gas sch)" 5000 P W]
    calm_adjusted_charge [of "\<lambda>sch. Ok (sc_blockhash_gas sch)" 20 P W]
    calm_adjusted_charge [of "\<lambda>sch. Ok (sc_call_gas sch)" 40 P W]
  by (simp_all add: sc_prices)

lemma calm_return_address [calm_intros]: "calm P (return_address_ptr W p v)"
  unfolding return_address_ptr_def by (intro calm_intros calm_charge) simp

lemma calm_return_u256 [calm_intros]: "calm P (return_u256_ptr W p v)"
  unfolding return_u256_ptr_def by (intro calm_intros calm_charge) simp

lemma calm_topic:
  fixes P :: "'p provider" and W :: "('args, 'mem) wasmi_host"
  assumes laws: "memory_laws W" and f: "\<And>t. calm P (f t)"
  shows "calm P (rbind (mem_get W off 32) (\<lambda>buf. rbind (lift (h256_from_slice buf)) f))"
    (is "calm P ?m")
proof (rule calmI)
  fix s :: "('mem, 'p) runtime"
  assume s: "calm_state P s"
  have "?m s = (case wh_get W (rt_memory s) off 32 of
       Inl e \<Rightarrow> (Err (error_from_wasmi (wh_show_trap W) e), s)
     | Inr bs \<Rightarrow> f (of_be bs) s)"
    using memory_laws_get [OF laws]
    by (auto simp: rbind_def mem_get_def lift_def h256_from_slice_def split: sum.split prod.split outcome.split)
  with s f show "fst (?m s) \<noteq> Crash" and "calm_state P (snd (?m s))"
    by (auto simp: calm_def split: sum.split)
qed

lemma calm_read_topics: "memory_laws W \<Longrightarrow> calm P (read_topics W tp i n)"
proof (induction n arbitrary: i)
  case (Suc n)
  show ?case
    unfolding read_topics.simps
    by (intro calm_rbind [OF calm_lift] calm_topic Suc calm_rbind [OF Suc.IH] calm_pure; simp)
qed (simp add: calm_intros)

lemma calm_elog [calm_intros]:
  assumes "memory_laws W"
  shows "calm P (elog W args)"
proof -
  have pay: "calm P (adjusted_overflow_charge (elog_gas (wh_overflow_checks W) n))" if "\<not> 4 < n" for n
  proof -
    have n: "unat n \<le> 4" using that by (simp add: word_less_nat_alt)
    have "unat (word_of_nat k :: u64) = k" if "k < 2 ^ 64" for k using that by (simp add: unat_of_nat)
    from this [of "439 + 375 * unat n"] n
    have "unat (word_of_nat (439 + 375 * unat n) :: u64) * 8 < 2 ^ 64" by simp
    with elog_gas_run [OF n] show ?thesis by (rule calm_adjusted_overflow_charge)
  qed
  show ?thesis
    unfolding elog_def
    by (intro calm_intros pay calm_read_topics [OF assms] calm_modify) simp_all
qed

lemma calm_void: "calm P m \<Longrightarrow> calm P (void m)"
  unfolding void_def trap_of_def
  by (rule calm_rbind; auto simp: calm_def pure_def) (metis map_err.elims outcome.distinct(3,5))

lemma calm_some: "calm P m \<Longrightarrow> calm P (some m)"
  unfolding some_def trap_of_def
  by (rule calm_rbind; auto simp: calm_def pure_def) (metis map_err.elims outcome.distinct(3,5))


lemma calm_ret: "calm P (ret W args)"
  unfolding ret_def by (intro calm_intros calm_modify) simp_all

lemma calm_fetch_input: "calm P (fetch_input W args)"
proof (rule calmI)
  have small: "unat (word_of_nat n :: u64) * unat (1 :: u64) < 2 ^ LENGTH(64)" for n
    using unsigned_less [of "word_of_nat n :: u64"] by simp
  have "calm P (fetch_input W args)"
    unfolding fetch_input_def
    by (intro calm_intros calm_charge)
      (simp add: wasm_costs_default_def times_op_small [OF small, simplified])
  then show "calm_state P s \<Longrightarrow> fst (fetch_input W args s) \<noteq> Crash"
    and "calm_state P s \<Longrightarrow> calm_state P (snd (fetch_input W args s))" for s
    by (auto simp: calm_def)
qed

lemma calm_debug: "calm P (debug W args)"
  unfolding debug_def
  by (intro calm_intros calm_lift) (simp add: from_utf8_def)

lemma calm_do_call: "memory_laws W \<Longrightarrow> calm P (do_call W P uv ty args)"
proof -
  assume laws: "memory_laws W"
  have adj: "calm P (\<lambda>s. lift (checked_adjust (rt_schedule s) g) s)" for g
    by (rule calmI)
      (auto simp: lift_def calm_state_def checked_adjust_def wasm_costs_default_def div_op_def
        split: option.split)
  show ?thesis
    unfolding do_call_def Let_def by (intro calm_intros calm_charge adj laws) simp
qed

lemma calm_missing: "calm P (create args)" "memory_laws W \<Longrightarrow> calm P (suicide W args)"
  unfolding create_def suicide_def by (intro calm_intros; assumption?)+

text \<open>Every host function that a module can import runs without a panic, except two.\<close>

lemma invoke_calm:
  assumes laws: "memory_laws W" and fn: "resolve_func (with_limit n wasm_costs_default) name = Inr (sg, i)"
    and name: "name \<noteq> ''dcall''" "name \<noteq> ''scall''"
  shows "calm P (invoke_index W P i args)"
  using fn
proof (cases rule: resolve_func_cases)
  case 1
  then show ?thesis
    by (simp add: invoke_simps storage_read_def) (intro calm_void calm_intros laws)
next
  case 2
  then show ?thesis
    by (simp add: invoke_simps storage_write_def add_sstore_refund_def)
      (intro calm_void calm_intros laws; simp add: calm_def pure_def add_sstore_refund_def)
next
  case 5
  then show ?thesis by (simp add: invoke_simps calm_def cast_def)
next
  case 10
  with name show ?thesis by simp
next
  case 11
  with name show ?thesis by simp
next
  case 25
  then show ?thesis by (simp add: with_limit_def wasm_costs_default_def)
next
  case 26
  then show ?thesis by (simp add: with_limit_def wasm_costs_default_def)
qed (auto simp: invoke_simps gas_def panic_def ccall_def value_passed_def rt_block_hash_def
    rt_block_number_def rt_block_author_def rt_difficulty_def gaslimit_def rt_timestamp_def
    own_address_def sender_def origin_def laws
    intro!: calm_void calm_some calm_ret calm_fetch_input calm_debug calm_do_call calm_missing calm_intros)

end
