(* ===== verification/Guest_Steps.thy ===== *)
theory Guest_Steps
  imports Execute_Laws
begin

text \<open>
  A run of a contract as a state machine: one transition per step of the interpreter, with the
  host call in it. The loop of \<open>run_guest\<close> returns the state in which the machine stops, and it
  does not return exactly when the machine goes on forever; what holds in every state on the
  way is shown for runs that never return as well.
\<close>

section \<open>The transitions\<close>

datatype ('cfg, 'mem, 'p) guest_state =
    Running 'cfg "('mem, 'p) runtime"
  | Stopped "(trap_kind, unit) outcome" "('mem, 'p) runtime"

inductive guest_step ::
  "('args, 'mem) wasmi_host \<Rightarrow> 'p provider \<Rightarrow> ('cfg \<Rightarrow> 'mem \<Rightarrow> ('cfg, 'args, 'mem) event) \<Rightarrow>
   ('cfg, 'mem, 'p) guest_state \<Rightarrow> ('cfg, 'mem, 'p) guest_state \<Rightarrow> bool"
  for W P step where
  ends: "step cfg (rt_memory s) = Finished k m \<Longrightarrow>
    guest_step W P step (Running cfg s)
      (Stopped (case k of None \<Rightarrow> Ok () | Some k \<Rightarrow> Err k) (s\<lparr>rt_memory := m\<rparr>))"
| goes_on: "step cfg (rt_memory s) = Internal cfg' m \<Longrightarrow>
    guest_step W P step (Running cfg s) (Running cfg' (s\<lparr>rt_memory := m\<rparr>))"
| replies: "step cfg (rt_memory s) = HostCall i args m resume \<Longrightarrow>
    invoke_index W P i args (s\<lparr>rt_memory := m\<rparr>) = (Ok v, u) \<Longrightarrow>
    guest_step W P step (Running cfg s) (Running (resume (Inr v)) u)"
| traps: "step cfg (rt_memory s) = HostCall i args m resume \<Longrightarrow>
    invoke_index W P i args (s\<lparr>rt_memory := m\<rparr>) = (Err t, u) \<Longrightarrow>
    guest_step W P step (Running cfg s) (Running (resume (Inl t)) u)"
| panics: "step cfg (rt_memory s) = HostCall i args m resume \<Longrightarrow>
    invoke_index W P i args (s\<lparr>rt_memory := m\<rparr>) = (Crash, u) \<Longrightarrow>
    guest_step W P step (Running cfg s) (Stopped Crash u)"

inductive_cases StoppedE [elim!]: "guest_step W P step (Stopped r s) y"

inductive_simps guest_step_Running: "guest_step W P step (Running cfg s) y"

abbreviation guest_steps where
  "guest_steps W P step \<equiv> (guest_step W P step)\<^sup>*\<^sup>*"

text \<open>A running machine has exactly one transition.\<close>

lemma guest_step_deterministic:
  "guest_step W P step x y \<Longrightarrow> guest_step W P step x z \<Longrightarrow> y = z"
  by (induction rule: guest_step.induct) (auto simp: guest_step_Running)

lemma guest_step_progress:
  obtains y where "guest_step W P step (Running cfg s) y"
proof (cases "step cfg (rt_memory s)")
  case (HostCall i args m resume)
  obtain q u where "invoke_index W P i args (s\<lparr>rt_memory := m\<rparr>) = (q, u)" by fastforce
  with HostCall that show thesis by (cases q) (blast intro: guest_step.intros)+
qed (use that in \<open>blast intro: guest_step.intros\<close>)+

lemma guest_steps_Stopped: "guest_steps W P step (Stopped r s) y \<Longrightarrow> y = Stopped r s"
  by (erule converse_rtranclpE) auto

section \<open>Where the machine stops\<close>

fun stops :: "('args, 'mem) wasmi_host \<Rightarrow> 'p provider \<Rightarrow> ('cfg \<Rightarrow> 'mem \<Rightarrow> ('cfg, 'args, 'mem) event) \<Rightarrow>
   ('cfg, 'mem, 'p) guest_state \<Rightarrow> ((trap_kind, unit) outcome \<times> ('mem, 'p) runtime) option" where
  "stops W P step (Running cfg s) = run_guest W P step cfg s"
| "stops W P step (Stopped r s) = Some (r, s)"

lemma guest_step_stops: "guest_step W P step x y \<Longrightarrow> stops W P step x = stops W P step y"
  by (induction rule: guest_step.induct) (simp_all add: run_guest.simps [of W P step])

lemma guest_steps_stops: "guest_steps W P step x y \<Longrightarrow> stops W P step x = stops W P step y"
  by (induction rule: rtranclp_induct) (simp_all add: guest_step_stops)

lemma run_guest_stops:
  "run_guest W P step cfg s = Some (r, t) \<Longrightarrow> guest_steps W P step (Running cfg s) (Stopped r t)"
  by (induction rule: run_guest_induct)
    (blast intro: guest_step.intros converse_rtranclp_into_rtranclp)+

section \<open>Runs without end\<close>

coinductive endless ::
  "('args, 'mem) wasmi_host \<Rightarrow> 'p provider \<Rightarrow> ('cfg \<Rightarrow> 'mem \<Rightarrow> ('cfg, 'args, 'mem) event) \<Rightarrow>
   ('cfg, 'mem, 'p) guest_state \<Rightarrow> bool"
  for W P step where
  on: "guest_step W P step x y \<Longrightarrow> endless W P step y \<Longrightarrow> endless W P step x"

lemma stops_endless:
  assumes "stops W P step x = None"
  shows "endless W P step x"
  using assms
proof (coinduction arbitrary: x)
  case (endless x)
  then obtain cfg s where x: "x = Running cfg s" by (cases x) auto
  obtain y where "guest_step W P step x y" unfolding x by (rule guest_step_progress)
  with endless guest_step_stops [OF this] show ?case by auto
qed

lemma endless_never:
  "guest_steps W P step x (Stopped r t) \<Longrightarrow> \<not> endless W P step x"
proof (induction rule: converse_rtranclp_induct)
  case base
  then show ?case by (auto elim: endless.cases)
next
  case (step y z)
  then show ?case by (metis endless.cases guest_step_deterministic)
qed

lemma run_guest_endless: "run_guest W P step cfg s = None \<longleftrightarrow> endless W P step (Running cfg s)"
  using stops_endless [of W P step "Running cfg s"] run_guest_stops [of W P step cfg s]
  by (cases "run_guest W P step cfg s") (auto dest: endless_never)

section \<open>Every state on the way\<close>

fun guest_runtime :: "('cfg, 'mem, 'p) guest_state \<Rightarrow> ('mem, 'p) runtime" where
  "guest_runtime (Running cfg s) = s"
| "guest_runtime (Stopped r s) = s"

lemma guest_step_reach: "guest_step W P step x y \<Longrightarrow> rt_reach P a (guest_runtime x) (guest_runtime y)"
  by (induction rule: guest_step.induct) (auto intro: rt_reach_memory rt_reach_call)

lemma guest_steps_reach: "guest_steps W P step x y \<Longrightarrow> rt_reach P a (guest_runtime x) (guest_runtime y)"
  by (induction rule: rtranclp_induct) (auto intro: rt_reach_refl rt_reach_trans guest_step_reach)

section \<open>How long a metered run can be\<close>

lemma Stopped_steps: "(guest_step W P step ^^ n) (Stopped r s) x \<Longrightarrow> n = 0"
  by (cases n) (simp, blast dest: relpowp_Suc_D2)

lemma abort_stops:
  assumes abort: "host_traps_abort step" and "step cfg m0 = HostCall i args m1 resume"
    and "(guest_step W P step ^^ n) (Running (resume (Inl t)) u) x"
  shows "n \<le> 1"
proof (cases n)
  case (Suc k)
  obtain y where y: "guest_step W P step (Running (resume (Inl t)) u) y" "(guest_step W P step ^^ k) y x"
    using assms(3) relpowp_Suc_D2 [of k] unfolding Suc by metis
  have "step (resume (Inl t)) (rt_memory u) = Finished (Some t) (rt_memory u)"
    using assms(1,2) unfolding host_traps_abort_def by blast
  with y(1) have "y = Stopped (Err t) u" by (auto simp: guest_step_Running)
  with y(2) Stopped_steps [of k] show ?thesis by (simp add: Suc)
qed simp

text \<open>The gas that is left, weighed with the length of a metered block, and the rank within the block.\<close>

lemma guest_steps_bounded:
  assumes abort: "host_traps_abort step" and met: "metered W step rank"
    and "\<And>c u. guest_steps W P step (Running cfg s) (Running c u) \<Longrightarrow> rank c \<le> R"
    and "(guest_step W P step ^^ n) (Running cfg s) x"
  shows "n \<le> gas_room s * Suc R + rank cfg + 2"
  using assms(3,4)
proof (induction n arbitrary: cfg s)
  case (Suc n)
  obtain y where y: "guest_step W P step (Running cfg s) y" and rest: "(guest_step W P step ^^ n) y x"
    using relpowp_Suc_D2 [OF Suc.prems(2)] by blast
  have R: "rank c \<le> R" if "guest_steps W P step y (Running c u)" for c u
    using Suc.prems(1) [of c u] that y by (blast intro: converse_rtranclp_into_rtranclp)
  have IH: "n \<le> gas_room u * Suc R + rank c + 2" if "y = Running c u" for c u
    using Suc.IH [of c u] R rest unfolding that by blast
  have less: "Suc n \<le> gas_room s * Suc R + rank cfg + 2"
    if c: "y = Running c u" and "gas_room u < gas_room s \<or> gas_room u \<le> gas_room s \<and> rank c < rank cfg" for c u
  proof -
    have "rank c \<le> R" using R [of c u] c by blast
    moreover have "gas_room u * Suc R + Suc R \<le> gas_room s * Suc R" if "gas_room u < gas_room s"
      using mult_le_mono1 [of "Suc (gas_room u)" "gas_room s" "Suc R"] that by simp
    moreover have "gas_room u * Suc R \<le> gas_room s * Suc R" if "gas_room u \<le> gas_room s"
      using that by (rule mult_le_mono1)
    ultimately show ?thesis using IH [OF c] that(2) by linarith
  qed
  from met have rank: "case step cfg (rt_memory s) of
      Finished k m' \<Rightarrow> True
    | Internal cfg' m' \<Rightarrow> rank cfg' < rank cfg
    | HostCall i a m' resume \<Rightarrow> charges W i a \<or> (\<forall>v. rank (resume (Inr v)) < rank cfg)"
    by (simp add: metered_def)
  from y show ?case
  proof (cases rule: guest_step.cases)
    case (ends k m)
    then have "n = 0" using rest by (blast dest: Stopped_steps)
    then show ?thesis by simp
  next
    case (goes_on c m)
    with rank show ?thesis by (intro less [of c "s\<lparr>rt_memory := m\<rparr>"]) (auto simp: gas_room_def)
  next
    case (replies i args m resume v u)
    then have call: "invoke_index W P i args (s\<lparr>rt_memory := m\<rparr>) = (Ok v, u)" by simp
    have room: "gas_room u \<le> gas_room s" by (rule reach_room [OF rt_reach_call [OF call]])
    have "gas_room u < gas_room s" if "charges W i args"
      using charges_lowers_room [OF that call] by (simp add: gas_room_def)
    with rank replies room show ?thesis by (intro less [of "resume (Inr v)" u]) auto
  next
    case (traps i args m resume t u)
    have "n \<le> 1" by (rule abort_stops [OF abort traps(2)]) (rule rest [unfolded traps(1)])
    then show ?thesis by simp
  next
    case (panics i args m resume u)
    then have "n = 0" using rest by (blast dest: Stopped_steps)
    then show ?thesis by simp
  qed
qed simp

end
