(* ===== verification/Runtime_Properties.thy ===== *)
theory Runtime_Properties
  imports Script_Engine Panic_Freedom Guest_Steps
begin

text \<open>
  The properties of the running contract: of whole runs, of the gas meter and of the host
  calls of \<open>durian/src/runtime.rs\<close> and \<open>durian/src/env.rs\<close>, each with a run on the sample
  interpreter where it has hypotheses.
\<close>

section \<open>Runs\<close>

text \<open>
  C3: In every state that a running contract goes through, also when it never ends, schedule,
  parameters and gas limit are as at the start, the gas counter is not below its start and not
  above the limit, the provider is untouched, at most the contract's own account is cached,
  with the unmodified slots as the provider has them, and the log is only appended to, with entries of
  the contract's own address and at most four topics.
\<close>

theorem machine_keeps_frame:
  assumes "guest_steps W P step (Running cfg s) x" and "guest_runtime x = t"
    and "rt_gas_counter s \<le> rt_gas_limit s" and "own P (ap_address (rt_params s)) (rt_state s)"
  shows "rt_schedule t = rt_schedule s \<and> rt_params t = rt_params s \<and>
    rt_gas_limit t = rt_gas_limit s \<and> rt_gas_counter s \<le> rt_gas_counter t \<and>
    rt_gas_counter t \<le> rt_gas_limit t \<and>
    st_provider (rt_state t) = st_provider (rt_state s) \<and>
    own P (ap_address (rt_params t)) (rt_state t) \<and>
    (\<exists>es. rt_logs t = rt_logs s @ es \<and>
      (\<forall>e \<in> set es. le_address e = ap_address (rt_params s) \<and> length (le_topics e) \<le> 4))"
proof -
  have "rt_reach P (ap_address (rt_params s)) s t"
    using guest_steps_reach [OF assms(1)] assms(2) by simp
  from rt_reachD [OF this refl] assms(3,4) show ?thesis by (simp add: st_own_def log_ok_def)
qed

text \<open>
  A run of a contract that returns leaves schedule, parameters and gas limit as they were,
  never lowers the gas counter, never raises it above the limit, never touches the provider,
  and only appends log entries, each of the contract's own address with at most four topics.
\<close>

theorem run_keeps_frame:
  assumes "run_guest W P step cfg s = Some (r, t)" and "rt_gas_counter s \<le> rt_gas_limit s"
  shows "rt_schedule t = rt_schedule s \<and> rt_params t = rt_params s \<and>
    rt_gas_limit t = rt_gas_limit s \<and> rt_gas_counter s \<le> rt_gas_counter t \<and>
    rt_gas_counter t \<le> rt_gas_limit t \<and>
    st_provider (rt_state t) = st_provider (rt_state s) \<and>
    (\<exists>es. rt_logs t = rt_logs s @ es \<and>
      (\<forall>e \<in> set es. le_address e = ap_address (rt_params s) \<and> length (le_topics e) \<le> 4))"
  using rt_reachD [OF run_guest_reach [OF assms(1)] refl] assms(2)
  by (simp add: st_own_def log_ok_def)

definition sample_params :: action_params where
  "sample_params = \<lparr>ap_code_address = 7, ap_code_hash = None, ap_address = 7, ap_sender = 1,
     ap_origin = 1, ap_gas = 1000000, ap_gas_price = 0, ap_value = 0, ap_code = [], ap_code_version = 0,
     ap_args = [1, 2, 3], ap_action_type = ActionCall\<rparr>"

text \<open>A contract at address 7 with 100000 units of gas, over the sample chain.\<close>

definition sample_runtime :: "(bytes, blockchain) runtime" where
  "sample_runtime = runtime_new sample_params execute_schedule (state_new sample_chain)
     (be_bytes 32 (5 :: h256) @ be_bytes 32 (9 :: h256)) 100000"

lemma sample_runtime_simps [simp]:
  "rt_schedule sample_runtime = execute_schedule" "rt_gas_counter sample_runtime = 0"
  "rt_gas_limit sample_runtime = 100000" "rt_params sample_runtime = sample_params"
  "rt_memory sample_runtime = be_bytes 32 (5 :: h256) @ be_bytes 32 (9 :: h256)"
  "rt_result sample_runtime = []" "rt_logs sample_runtime = []"
  "rt_state sample_runtime = state_new sample_chain"
  "st_provider (state_new p) = p"
  by (simp_all add: sample_runtime_def runtime_new_def state_new_def)

lemma run_keeps_frame_witness:
  "\<exists>t. run_guest (script_host []) (chain_provider sample_env) script_step
      [Invoke GAS_FUNC [100]] sample_runtime = Some (Ok (), t) \<and> rt_gas_counter t = 100 \<and>
    rt_gas_counter t \<le> rt_gas_limit t"
proof -
  let ?t = "sample_runtime\<lparr>rt_gas_counter := 100\<rparr>"
  have run: "run_guest (script_host []) (chain_provider sample_env) script_step
      [Invoke GAS_FUNC [100]] sample_runtime = Some (Ok (), ?t)"
    by (simp add: invoke_gas affordable_def)
  from run_keeps_frame [OF run] run show ?thesis by simp
qed

lemma machine_keeps_frame_witness:
  "\<exists>x. guest_steps (script_host []) (chain_provider sample_env) script_step
      (Running [Invoke GAS_FUNC [100], Abort (TrapHost (RuntimeError Unreachable))] sample_runtime) x \<and>
    rt_gas_counter (guest_runtime x) = 100 \<and> rt_gas_counter (guest_runtime x) \<le> rt_gas_limit (guest_runtime x)"
proof -
  let ?cs = "[Invoke GAS_FUNC [100], Abort (TrapHost (RuntimeError Unreachable))]"
  let ?t = "sample_runtime\<lparr>rt_gas_counter := 100\<rparr>"
  have steps: "guest_steps (script_host []) (chain_provider sample_env) script_step (Running ?cs sample_runtime)
      (Running (tl ?cs) ?t)"
    by (intro r_into_rtranclp) (auto simp: guest_step_Running invoke_gas affordable_def)
  have "own (chain_provider sample_env) (ap_address (rt_params sample_runtime)) (rt_state sample_runtime)"
    by (simp add: own_new)
  from machine_keeps_frame [OF steps refl _ this] steps show ?thesis
    by (intro exI [of _ "Running (tl ?cs) ?t"]) simp
qed

text \<open>
  C21: A contract's result is set by the host call \<open>ret\<close> only: if the interpreter ends a run
  at the first host trap, then a run either keeps the result it started with or ends with the
  trap that \<open>ret\<close> raises.
\<close>

theorem result_only_from_ret:
  assumes "host_traps_abort step" and "run_guest W P step cfg s = Some (r, t)"
  shows "rt_result t = rt_result s \<or> r = Err (TrapHost (RuntimeError Return))"
  using run_guest_result [OF assms] by (simp add: return_trap_def)

lemma result_only_from_ret_witness:
  "\<exists>t. run_guest (script_host []) (chain_provider sample_env) script_step
      [Invoke RET_FUNC [0, 2]] sample_runtime = Some (Err (TrapHost (RuntimeError Return)), t) \<and>
    rt_result t = [0, 0] \<and>
    (rt_result t = [] \<or>
      (Err (TrapHost (RuntimeError Return)) :: (trap_kind, unit) outcome) = Err (TrapHost (RuntimeError Return)))"
proof -
  let ?t = "sample_runtime\<lparr>rt_result := [0, 0]\<rparr>"
  have "take 2 (be_bytes 32 (5 :: h256)) = [0, 0]" by code_simp
  then have "ret (script_host []) [0, 2] sample_runtime = (Err Return, ?t)"
    by (intro ret_run [where p = 0 and n = 2]) simp_all
  then have run: "run_guest (script_host []) (chain_provider sample_env) script_step
      [Invoke RET_FUNC [0, 2]] sample_runtime = Some (Err (TrapHost (RuntimeError Return)), ?t)"
    by (simp add: invoke_simps void_def trap_of_def rbind_def)
  from result_only_from_ret [OF script_traps_abort run] run show ?thesis by (intro exI [of _ ?t]) simp
qed


section \<open>Gas\<close>

text \<open>
  A run of gas-metered code returns. The hypotheses are what the instrumentation of
  \<open>pwasm_utils\<close> and the interpreter document: between two charges of a positive amount a run
  makes finitely many steps (\<open>rank\<close> goes down), and a host trap ends the run.
\<close>

theorem metered_run_returns:
  assumes "host_traps_abort step" and "metered W step rank"
  shows "\<exists>r t. run_guest W P step cfg s = Some (r, t)"
  using assms by (rule run_guest_returns)

lemma metered_run_returns_witness:
  "\<exists>r t. run_guest (script_host []) (chain_provider sample_env) script_step
      [Invoke GAS_FUNC [100], Invoke RET_FUNC [0, 2]] sample_runtime = Some (r, t)"
  using metered_run_returns [OF script_traps_abort script_metered] .

text \<open>
  C5: The gas bounds the length of a run, and how: if no stretch between two charges is longer
  than \<open>R\<close> steps, a run has at most \<open>R + 1\<close> steps for every unit of gas that is left, and
  \<open>R + 2\<close> more.
\<close>

theorem gas_bounds_steps:
  assumes "host_traps_abort step" and "metered W step rank"
    and "\<And>c u. guest_steps W P step (Running cfg s) (Running c u) \<Longrightarrow> rank c \<le> R"
    and "(guest_step W P step ^^ n) (Running cfg s) x"
  shows "n \<le> (unat (rt_gas_limit s) - unat (rt_gas_counter s)) * (R + 1) + R + 2"
proof -
  have "n \<le> gas_room s * Suc R + rank cfg + 2" using assms by (rule guest_steps_bounded)
  moreover have "rank cfg \<le> R" by (rule assms(3)) (rule rtranclp.rtrancl_refl)
  ultimately show ?thesis by (simp add: gas_room_def)
qed

lemma script_shrinks:
  assumes "guest_steps W P script_step (Running cs s) (Running c u)"
  shows "length c \<le> max 1 (length cs)"
proof -
  have "case x of Running c u \<Rightarrow> length c \<le> max 1 (length cs) | _ \<Rightarrow> True"
    if "guest_steps W P script_step (Running cs s) x" for x
    using that
  proof (induction rule: rtranclp_induct)
    case (step y z)
    show ?case
    proof (cases y)
      case (Running c u)
      with step show ?thesis
        by (cases "(c, rt_memory u)" rule: script_step.cases) (auto simp: guest_step_Running)
    qed (use step in auto)
  qed simp
  from this [OF assms] show ?thesis by simp
qed

lemma gas_bounds_steps_witness:
  "(guest_step (script_host []) (chain_provider sample_env) script_step ^^ 2)
      (Running [Invoke GAS_FUNC [100]] sample_runtime) (Stopped (Ok ()) (sample_runtime\<lparr>rt_gas_counter := 100\<rparr>)) \<and>
    (2 :: nat) \<le> 100000 * (1 + 1) + 1 + 2"
proof -
  let ?step = "guest_step (script_host []) (chain_provider sample_env) script_step"
  let ?s = "Running [Invoke GAS_FUNC [100]] sample_runtime" and ?t = "sample_runtime\<lparr>rt_gas_counter := 100\<rparr>"
  have "?step ?s (Running [] ?t)" by (simp add: guest_step_Running invoke_gas affordable_def)
  moreover have "?step (Running [] ?t) (Stopped (Ok ()) ?t)" by (simp add: guest_step_Running)
  ultimately have run: "(?step ^^ 2) ?s (Stopped (Ok ()) ?t)" by (auto simp: numeral_2_eq_2)
  have "length c \<le> 1" if "guest_steps (script_host []) (chain_provider sample_env) script_step ?s (Running c u)"
    for c u
    using script_shrinks [OF that] by simp
  from gas_bounds_steps [OF script_traps_abort script_metered this run] run show ?thesis by simp
qed

text \<open>
  C14: The meter is exact: a charge is taken if and only if the exact sum of counter and amount
  stays within the limit, it then raises the counter by exactly the amount, and a charge that
  is refused changes nothing.
\<close>

theorem charge_gas_exact:
  "charge_gas amount s =
    (if unat (rt_gas_counter s) + unat amount \<le> unat (rt_gas_limit s)
     then (True, s\<lparr>rt_gas_counter := word_of_nat (unat (rt_gas_counter s) + unat amount)\<rparr>)
     else (False, s))"
  by (simp add: charge_gas_run affordable_def)

text \<open>
  C30: What \<open>gasleft\<close> reports. The remaining gas is scaled back by three eighths in 64-bit
  arithmetic, so with overflow checks the host call panics once three times the remaining gas
  exceeds 64 bits, and without them it reports the scaled remainder modulo 2^64.
\<close>

theorem gasleft_scaled:
  assumes "rt_schedule s = execute_schedule" and "rt_gas_counter s \<le> rt_gas_limit s"
  shows "gasleft W s =
    (let left = unat (rt_gas_limit s) - unat (rt_gas_counter s) in
     if left * 3 < 2 ^ 64 then (Ok (I64 (word_of_nat (left * 3 div 8))), s)
     else if wh_overflow_checks W then (Crash, s)
     else (Ok (I64 (word_of_nat (left * 3 mod 2 ^ 64 div 8))), s))"
proof -
  let ?l = "rt_gas_limit s - rt_gas_counter s"
  have l: "unat ?l = unat (rt_gas_limit s) - unat (rt_gas_counter s)"
    using assms(2) by (simp add: unat_sub_if_size word_le_nat_alt)
  have left: "gas_left s = Ok ?l" using assms(2) by (simp add: gas_left_def linorder_not_less)
  have "unat (l * 3 div 8) = unat l * 3 mod 2 ^ 64 div 8" for l :: u64
    by (simp add: unat_div unat_word_ariths)
  then have div: "?l * 3 div 8 = word_of_nat (unat ?l * 3 mod 2 ^ 64 div 8)"
    by (metis of_nat_unat ucast_id)
  show ?thesis
  proof (cases "unat ?l * 3 < 2 ^ 64")
    case True
    then have "checked_mul ?l 3 = Some (?l * 3)" by (simp add: checked_mul_def)
    with True left div show ?thesis
      by (simp add: gasleft_def rbind_lift assms(1) wasm_costs_default_def times_op_def div_op_def
          Let_def l [symmetric] pure_def)
  next
    case False
    then have "checked_mul ?l 3 = None" by (simp add: checked_mul_def)
    with False left div show ?thesis
      by (simp add: gasleft_def rbind_lift assms(1) wasm_costs_default_def times_op_def div_op_def
          Let_def l [symmetric] pure_def)
  qed
qed

lemma gasleft_scaled_witness:
  "gasleft (script_host []) sample_runtime = (Ok (I64 37500), sample_runtime) \<and>
   gasleft (script_host []) (sample_runtime\<lparr>rt_gas_limit := - 1\<rparr>) =
     (Crash, sample_runtime\<lparr>rt_gas_limit := - 1\<rparr>)"
  using gasleft_scaled [of sample_runtime "script_host []"]
    gasleft_scaled [of "sample_runtime\<lparr>rt_gas_limit := - 1\<rparr>" "script_host []"]
  by (simp add: Let_def unsigned_minus_1_eq_mask mask_eq_exp_minus_1)

section \<open>Storage\<close>

text \<open>
  C10: \<open>storage_write\<close> on every branch. It prices the write by the value the contract sees at
  the slot (setting a zero slot costs more), and if the gas covers it, the contract's view
  changes at exactly that slot of its own account; otherwise the call fails with the gas
  error and no view changes. The provider is not touched either way.
\<close>

theorem storage_write_effect:
  assumes "quiet P (st_provider (rt_state s))" and "rt_schedule s = execute_schedule"
    and "wh_u32 W args 0 = Inr kp" and "wh_u32 W args 1 = Inr vp"
    and "mem_word W (rt_memory s) kp key" and "mem_word W (rt_memory s) vp val"
  shows "\<exists>t. let a = ap_address (rt_params s);
        price = (if own_view P s key = 0 \<and> val \<noteq> 0 then 53333 else 13333);
        ok = (unat (rt_gas_counter s) + price \<le> unat (rt_gas_limit s)) in
    storage_write W P args s = (if ok then Ok () else Err GasLimit, t) \<and>
    unat (rt_gas_counter t) = unat (rt_gas_counter s) + (if ok then price else 0) \<and>
    storage_view P (rt_state t) = (if ok
      then (storage_view P (rt_state s))(a := (own_view P s)(key := val))
      else storage_view P (rt_state s)) \<and>
    st_provider (rt_state t) = st_provider (rt_state s)"
proof -
  let ?n = "sstore_price (own_view P s key) val"
  let ?c = "word_of_nat ?n :: u64"
  have c: "unat ?c = ?n" by (simp add: sstore_price_def)
  have n: "(if own_view P s key = 0 \<and> val \<noteq> 0 then 53333 else 13333) = ?n"
    by (simp add: sstore_price_def)
  have aff: "affordable ?c s \<longleftrightarrow> unat (rt_gas_counter s) + ?n \<le> unat (rt_gas_limit s)"
    by (simp add: affordable_def c)
  note run = storage_write_run [OF assms]
  show ?thesis
  proof (cases "affordable ?c s")
    case True
    have "unat (rt_gas_counter (after_write P key val s)) = unat (rt_gas_counter s) + ?n"
      using affordable_unat [OF True] c by (simp add: after_write_def)
    moreover have "st_provider (rt_state (after_write P key val s)) = st_provider (rt_state s)"
      by (simp add: after_write_def)
    ultimately show ?thesis
      using True run view_after_write [of P key val s] aff unfolding Let_def n
      by (intro exI [of _ "after_write P key val s"]) simp
  next
    case False
    with run aff show ?thesis
      unfolding Let_def n by (intro exI [of _ "after_read P key s"]) simp
  qed
qed

lemma sample_words:
  "mem_word (script_host d) (be_bytes 32 (5 :: h256) @ be_bytes 32 (9 :: h256)) 0 5"
  "mem_word (script_host d) (be_bytes 32 (5 :: h256) @ be_bytes 32 (9 :: h256)) 32 9"
  by (simp_all add: mem_word_def)

lemma quiet_sample: "quiet (chain_provider sample_env) sample_chain"
  by (rule chain.inv_quiet [of sample_env])
    (simp add: sample_chain_def chain_inv_new [OF fair_sample] genesis_address_def)

lemma storage_write_effect_witness:
  "\<exists>t. storage_write (script_host []) (chain_provider sample_env) [0, 32] sample_runtime = (Ok (), t) \<and>
     storage_view (chain_provider sample_env) (rt_state t) 7 5 = 9"
proof -
  have "storage_view (chain_provider sample_env) (state_new sample_chain) 7 5 = 0"
    by (simp add: storage_view_def cached_def state_new_def stored_chain find_account_def
        sample_chain_def blockchain_new_def chain_account_new_def sample_env_def sorted_keys_def
        genesis_address_def split: option.split)
  then have "own_view (chain_provider sample_env) sample_runtime 5 = 0"
    by (simp add: own_view_def sample_params_def)
  then show ?thesis
    using storage_write_effect [of "chain_provider sample_env" sample_runtime "script_host []" "[0, 32]" 0 32 5 9]
    by (auto simp: quiet_sample sample_words sample_params_def Let_def)
qed

text \<open>
  C11: What a contract stores it reads back: after a successful \<open>storage_write\<close>, a
  \<open>storage_read\<close> of the same key in any later state with the same cache either fails for
  gas or memory, or puts exactly the written word into the contract's memory.
\<close>

theorem storage_read_your_write:
  assumes "quiet P (st_provider (rt_state s))" and "rt_schedule s = execute_schedule"
    and "wh_u32 W args 0 = Inr kp" and "wh_u32 W args 1 = Inr vp"
    and "mem_word W (rt_memory s) kp key" and "mem_word W (rt_memory s) vp val"
    and "storage_write W P args s = (Ok (), t)"
    and "rt_state u = rt_state t" and "rt_params u = rt_params t" and "rt_schedule u = rt_schedule t"
    and "wh_u32 W args' 0 = Inr kp'" and "wh_u32 W args' 1 = Inr vp'"
    and "mem_word W (rt_memory u) kp' key" and "memory_laws W"
    and "storage_read W P args' u = (Ok (), v)"
  shows "wh_get W (rt_memory v) vp' 32 = Inr (be_bytes 32 val)"
proof -
  have t: "t = after_write P key val s"
    using storage_write_run [OF assms(1-6)] assms(7) by (simp split: if_splits)
  have q: "quiet P (st_provider (rt_state u))" and sch: "rt_schedule u = execute_schedule"
    using assms(1,2,8,10) by (simp_all add: t after_write_def)
  have view: "own_view P u key = val"
    using view_after_write [of P key val s] assms(8,9)
    by (simp add: own_view_def t) (simp add: after_write_def)
  from storage_read_run [OF q sch assms(11,12,13)] assms(15) view
  obtain w where "mem_set W vp' (be_bytes 32 val) w = (Ok (), v)"
    by (auto split: if_splits)
  then have "wh_set W (rt_memory w) vp' (be_bytes 32 val) = Inr (rt_memory v)"
    by (auto simp: mem_set_def split: sum.splits)
  with memory_laws_set [OF assms(14)] show ?thesis by fastforce
qed

lemma sample_view: "own_view (chain_provider sample_env) sample_runtime 5 = 0"
  by (simp add: own_view_def sample_params_def storage_view_def cached_def state_new_def stored_chain
      find_account_def sample_chain_def blockchain_new_def chain_account_new_def sample_env_def
      sorted_keys_def genesis_address_def split: option.split)

lemma storage_read_your_write_witness:
  "\<exists>t v. storage_write (script_host []) (chain_provider sample_env) [0, 32] sample_runtime = (Ok (), t) \<and>
     storage_read (script_host []) (chain_provider sample_env) [0, 0] t = (Ok (), v) \<and>
     wh_get (script_host []) (rt_memory v) 0 32 = Inr (be_bytes 32 (9 :: h256))"
proof -
  let ?W = "script_host []" and ?P = "chain_provider sample_env" and ?s = sample_runtime
  let ?t = "after_write ?P 5 9 ?s"
  have q: "quiet ?P (st_provider (rt_state ?s))" by (simp add: quiet_sample)
  have price: "sstore_price (own_view ?P ?s 5) 9 = 53333" by (simp add: sstore_price_def sample_view)
  have w: "storage_write ?W ?P [0, 32] ?s = (Ok (), ?t)"
    using storage_write_run [OF q, of ?W "[0, 32]" 0 32 5 9]
    by (simp add: sample_words price affordable_def)
  have t: "rt_schedule ?t = execute_schedule" "rt_params ?t = sample_params"
    "rt_memory ?t = be_bytes 32 (5 :: h256) @ be_bytes 32 (9 :: h256)" "rt_gas_counter ?t = 53333"
    "rt_gas_limit ?t = 100000" "st_provider (rt_state ?t) = sample_chain"
    by (simp_all add: after_write_def price)
  have "\<exists>v. storage_read ?W ?P [0, 0] ?t = (Ok (), v)"
    using storage_read_run [of ?P ?t ?W "[0, 0]" 0 0 5]
    by (simp add: t quiet_sample sample_words affordable_def mem_set_def)
  then obtain v where r: "storage_read ?W ?P [0, 0] ?t = (Ok (), v)" by blast
  have "wh_get ?W (rt_memory v) 0 32 = Inr (be_bytes 32 (9 :: h256))"
    by (rule storage_read_your_write [OF q _ _ _ _ _ w _ _ _ _ _ _ script_memory_laws r, where kp = 0 and vp = 32 and kp' = 0 and key = 5])
      (simp_all add: sample_words t)
  with w r show ?thesis by blast
qed

section \<open>Input and events\<close>

text \<open>
  \<open>fetch_input\<close> copies exactly the transaction's arguments to the address it is given,
  for one unit of gas per byte, and fails with the gas error, changing nothing, when the gas
  does not cover them.
\<close>

theorem fetch_input_effect:
  assumes "rt_schedule s = execute_schedule" and "wh_u32 W args 0 = Inr p" and "memory_laws W"
    and "length (ap_args (rt_params s)) < 2 ^ 64" and "fetch_input W args s = (r, t)"
  shows "(r = Ok () \<longrightarrow> wh_get W (rt_memory t) p (length (ap_args (rt_params s))) = Inr (ap_args (rt_params s)) \<and>
      unat (rt_gas_counter t) = unat (rt_gas_counter s) + length (ap_args (rt_params s))) \<and>
    (unat (rt_gas_limit s) < unat (rt_gas_counter s) + length (ap_args (rt_params s)) \<longrightarrow>
      r = Err GasLimit \<and> t = s)"
proof -
  let ?n = "length (ap_args (rt_params s))"
  let ?c = "word_of_nat ?n :: u64"
  have n: "unat ?c = ?n" using assms(4) by (simp add: unat_of_nat)
  note run = fetch_input_run [OF assms(1,2,4)]
  show ?thesis
  proof (cases "affordable ?c s")
    case True
    have c: "unat (rt_gas_counter s + ?c) = unat (rt_gas_counter s) + ?n"
      using affordable_unat [OF True] n by simp
    from True run assms(5)
    have "mem_set W p (ap_args (rt_params s)) (s\<lparr>rt_gas_counter := rt_gas_counter s + ?c\<rparr>) = (r, t)"
      by simp
    with True n c memory_laws_set [OF assms(3)] show ?thesis
      by (auto simp: mem_set_def affordable_def split: sum.splits)
  next
    case False
    with run assms(5) n show ?thesis by (simp add: affordable_def)
  qed
qed

lemma fetch_input_effect_witness:
  "\<exists>t. fetch_input (script_host []) [10] sample_runtime = (Ok (), t) \<and>
     wh_get (script_host []) (rt_memory t) 10 (length (ap_args sample_params)) = Inr (ap_args sample_params) \<and>
     rt_gas_counter t = 3"
proof -
  have "fetch_input (script_host []) [10] sample_runtime =
      mem_set (script_host []) 10 [1, 2, 3] (sample_runtime\<lparr>rt_gas_counter := 3\<rparr>)"
    by (subst fetch_input_run [where p = 10]) (simp_all add: sample_params_def affordable_def)
  then obtain t where t: "fetch_input (script_host []) [10] sample_runtime = (Ok (), t)"
    and g: "rt_gas_counter t = 3"
    by (simp add: mem_set_def)
  have "wh_get (script_host []) (rt_memory t) 10 (length (ap_args (rt_params sample_runtime))) =
      Inr (ap_args (rt_params sample_runtime))"
    using fetch_input_effect [of sample_runtime, OF _ _ script_memory_laws _ t, where p = 10]
    by (simp add: sample_params_def del: script_host_simps(6))
  with t g show ?thesis by (metis sample_runtime_simps(4))
qed


text \<open>
  C26: \<open>elog\<close> on its branches. With up to four topics laid out in memory and enough gas it
  appends one entry with the contract's own address, the topics in order and the data; the
  price depends on the number of topics only, never on the length of the data. With too
  little gas it fails with the gas error and changes nothing.
\<close>

theorem elog_effect:
  assumes "rt_schedule s = execute_schedule"
    and "wh_u32 W args 0 = Inr tp" and "wh_u32 W args 1 = Inr n"
    and "wh_u32 W args 2 = Inr dp" and "wh_u32 W args 3 = Inr dl"
    and "unat n = length ts" and "length ts \<le> 4" and "topics_at W (rt_memory s) tp ts"
    and "wh_get W (rt_memory s) dp (unat dl) = Inr bs"
  shows "elog W args s =
    (let price = (439 + 375 * length ts) * 8 div 3 in
     if unat (rt_gas_counter s) + price \<le> unat (rt_gas_limit s)
     then (Ok (), s\<lparr>rt_gas_counter := rt_gas_counter s + word_of_nat price,
       rt_logs := rt_logs s @ [\<lparr>le_address = ap_address (rt_params s), le_topics = ts, le_data = bs\<rparr>]\<rparr>)
     else (Err GasLimit, s))"
proof -
  have p: "elog_price (length ts) = (439 + 375 * length ts) * 8 div 3"
    by (simp add: elog_price_def adjusted_def)
  have "unat (word_of_nat k :: u64) = k" if "k < 2 ^ 64" for k using that by (simp add: unat_of_nat)
  from this [of "elog_price (length ts)"] assms(7)
  have "unat (word_of_nat (elog_price (length ts)) :: u64) = elog_price (length ts)"
    by (simp add: p)
  with elog_run [OF assms] show ?thesis by (simp only: affordable_def p Let_def)
qed

lemma elog_effect_witness:
  "elog (script_host []) [0, 1, 62, 2] sample_runtime =
    (Ok (), sample_runtime\<lparr>rt_gas_counter := 2170,
      rt_logs := [\<lparr>le_address = 7, le_topics = [5], le_data = [0, 9]\<rparr>]\<rparr>)"
proof -
  have "topics_at (script_host []) (rt_memory sample_runtime) 0 [5]"
    by (simp add: topics_at_def)
  moreover have "drop 62 (be_bytes 32 (5 :: h256) @ be_bytes 32 (9 :: h256)) = [0, 9]"
    by code_simp
  then have "wh_get (script_host []) (rt_memory sample_runtime) 62 (unat (2 :: u32)) = Inr [0, 9]"
    by simp
  ultimately show ?thesis
    using elog_effect [of sample_runtime "script_host []" "[0, 1, 62, 2]" 0 1 62 2 "[5]" "[0, 9]"]
    by (simp add: sample_params_def)
qed

text \<open>
  \<open>elog\<close> rejects more than four topics with the log error before it charges or reads
  anything.
\<close>

theorem elog_rejects_topics:
  assumes "wh_u32 W args 0 = Inr tp" and "wh_u32 W args 1 = Inr n"
    and "wh_u32 W args 2 = Inr dp" and "wh_u32 W args 3 = Inr dl" and "4 < unat n"
  shows "elog W args s = (Err Log, s)"
  using assms(5) by (intro elog_too_many [OF assms(1-4)]) (simp add: word_less_nat_alt)

lemma elog_rejects_topics_witness:
  "elog (script_host []) [0, 5, 0, 0] sample_runtime = (Err Log, sample_runtime)"
  by (rule elog_rejects_topics [where tp = 0 and n = 5 and dp = 0 and dl = 0]) simp_all

section \<open>Dispatch\<close>

text \<open>
  Every host call but \<open>ret\<close> keeps the frame of the runtime: the result, schedule,
  parameters, gas limit and provider stay, the counter never goes down or beyond the limit,
  and the cache holds at most the contract's own account, unmarked, clean slots as the
  provider has them.
\<close>

theorem dispatch_keeps_frame:
  assumes "invoke_index W P i args s = (r, t)" and "i \<noteq> RET_FUNC"
    and "rt_gas_counter s \<le> rt_gas_limit s" and "own P (ap_address (rt_params s)) (rt_state s)"
  shows "rt_result t = rt_result s \<and> rt_schedule t = rt_schedule s \<and> rt_params t = rt_params s \<and>
    rt_gas_limit t = rt_gas_limit s \<and> rt_gas_counter s \<le> rt_gas_counter t \<and>
    rt_gas_counter t \<le> rt_gas_limit t \<and> st_provider (rt_state t) = st_provider (rt_state s) \<and>
    own P (ap_address (rt_params t)) (rt_state t)"
proof -
  have step: "rt_step P (own_addr s) s t" using staysD_run [OF invoke_step [OF assms(2)] assms(1)] .
  then have "rt_reach P (own_addr s) s t" by (simp add: rt_step_def)
  from rt_reachD [OF this refl] step assms(3,4) show ?thesis
    by (simp add: rt_step_def st_own_def)
qed

lemma dispatch_keeps_frame_witness:
  "\<exists>r t. invoke_index (script_host []) (chain_provider sample_env) STORAGE_WRITE_FUNC [0, 32] sample_runtime = (r, t) \<and>
     rt_gas_counter t \<le> 100000 \<and> own (chain_provider sample_env) 7 (rt_state t)"
proof -
  obtain r t where run: "invoke_index (script_host []) (chain_provider sample_env) STORAGE_WRITE_FUNC
      [0, 32] sample_runtime = (r, t)" by fastforce
  from dispatch_keeps_frame [OF run] show ?thesis
    using run by (auto simp: id_defs own_new sample_params_def)
qed

text \<open>
  C17: A host function's reply has the type that its import signature declares: no value for
  a function without a result, otherwise one of the declared width.
\<close>

theorem reply_has_declared_type:
  assumes "resolve_func R name = Inr ((ps, ty), i)" and "invoke_index W P i args s = (Ok v, t)"
  shows "has_type v ty"
  using assms by (rule reply_typed)

lemma reply_has_declared_type_witness:
  "has_type (Some (I32 3)) (Some VI32) \<and>
   invoke_index (script_host []) (chain_provider sample_env) INPUT_LENGTH_FUNC [] sample_runtime =
     (Ok (Some (I32 3)), sample_runtime)"
proof -
  have run: "invoke_index (script_host []) (chain_provider sample_env) INPUT_LENGTH_FUNC [] sample_runtime =
     (Ok (Some (I32 3)), sample_runtime)"
    by (simp add: invoke_simps cast_def input_length_def sample_params_def)
  have "resolve_func (with_limit 16 wasm_costs_default) ''input_length'' =
      Inr (([], Some VI32), INPUT_LENGTH_FUNC)"
    by (simp add: resolve_func_def host_def sig_defs)
  from reply_has_declared_type [OF this run] run show ?thesis by blast
qed

text \<open>
  C28: A host function depends on its arguments only at the declared positions, each read at
  the declared width.
\<close>

theorem call_reads_declared_arguments:
  assumes "resolve_func R name = Inr ((ps, ty), i)"
    and "\<And>j. j < length ps \<Longrightarrow> ps ! j = VI32 \<Longrightarrow> wh_u32 W args j = wh_u32 W args' j"
    and "\<And>j. j < length ps \<Longrightarrow> ps ! j = VI64 \<Longrightarrow> wh_u64 W args j = wh_u64 W args' j"
  shows "invoke_index W P i args s = invoke_index W P i args' s"
proof -
  have "same_args W ps args args'"
    unfolding same_args_def using assms(2,3) by (auto split: value_type.split)
  with invoke_args [OF assms(1)] show ?thesis by metis
qed

lemma call_reads_declared_arguments_witness:
  "invoke_index (script_host []) (chain_provider sample_env) GAS_FUNC [100] sample_runtime =
   invoke_index (script_host []) (chain_provider sample_env) GAS_FUNC [100, 8] sample_runtime"
proof (rule call_reads_declared_arguments)
  show "resolve_func (with_limit 16 wasm_costs_default) ''gas'' = Inr (([VI32], None), GAS_FUNC)"
    by (simp add: resolve_func_def host_def sig_defs)
qed simp_all

text \<open>
  C15: No importable host function panics, except \<open>dcall\<close> and \<open>scall\<close>, when the provider's
  queries do not panic, the memory answers with the length it was asked for, and the runtime
  has the schedule of \<open>execute\<close>.
\<close>

theorem importable_calls_do_not_panic:
  assumes "memory_laws W" and "resolve_func (with_limit n wasm_costs_default) name = Inr (sg, i)"
    and "name \<noteq> ''dcall''" and "name \<noteq> ''scall''" and "calm_state P s"
  shows "fst (invoke_index W P i args s) \<noteq> Crash"
  using invoke_calm [OF assms(1-4)] assms(5) unfolding calm_def by blast

definition calm_provider :: "blockchain provider" where
  "calm_provider = (chain_provider sample_env)\<lparr>pv_block_hash := (\<lambda>_ _. Err NotSupported)\<rparr>"

lemma calm_sample: "calm_state calm_provider sample_runtime"
proof -
  have "quiet calm_provider sample_chain"
    using quiet_sample by (simp add: quiet_def calm_provider_def)
  then show ?thesis
    by (simp add: calm_state_def Let_def)
      (simp add: calm_provider_def chain_provider_def chain_block_number_def last_block_def
        address_from_alias_def sample_chain_def blockchain_new_def)
qed

lemma importable_calls_do_not_panic_witness:
  "fst (invoke_index (script_host []) calm_provider BLOCK_AUTHOR_FUNC [0] sample_runtime) \<noteq> Crash"
proof (rule importable_calls_do_not_panic [OF script_memory_laws _ _ _ calm_sample])
  show "resolve_func (with_limit 16 wasm_costs_default) ''coinbase'' =
      Inr (SIG_BLOCK_AUTHOR, BLOCK_AUTHOR_FUNC)"
    by (simp add: resolve_func_def host_def)
qed simp_all

text \<open>
  \<open>dcall\<close> and \<open>scall\<close> can be imported, but no index of the dispatcher answers for them:
  a contract that calls one panics the host, whatever the state.
\<close>

theorem dcall_scall_panic:
  "\<exists>sd si. resolve_func R ''dcall'' = Inr sd \<and> resolve_func R ''scall'' = Inr si \<and>
    invoke_index W P (snd sd) args s = (Crash, s) \<and> invoke_index W P (snd si) args s = (Crash, s)"
  by (simp add: resolve_func_def host_def invoke_missing)

text \<open>
  A call between contracts never succeeds: the only value \<open>ccall\<close> answers is the failure
  code, and it changes nobody's account or storage as the contract sees them.
\<close>

theorem ccall_never_succeeds:
  assumes "ccall W P args s = (Ok v, t)"
  shows "v = I32 (- 1) \<and> rt_result t = rt_result s \<and>
    st_provider (rt_state t) = st_provider (rt_state s)"
proof -
  have "rt_step P (own_addr s) s t" using staysD_run [OF step_ccall assms] .
  with do_call_result [of W P True ActionCall args s v t] assms show ?thesis
    by (simp add: ccall_def rt_step_def rt_reach_def st_own_def)
qed

text \<open>
  The body of \<open>debug\<close> is the argument of a log macro: with the level off it accepts any
  arguments, and with the level on it can fail, so the level decides the contract's fate.
\<close>

theorem debug_depends_on_log_level:
  "(\<not> wh_trace W \<longrightarrow> debug W args s = (Ok (), s)) \<and>
   (wh_trace W \<longrightarrow> wh_u32 W args 0 = Inr p \<longrightarrow> wh_u32 W args 1 = Inr n \<longrightarrow>
     wh_get W (rt_memory s) p (unat n) = Inr bs \<longrightarrow>
     debug W args s = ((if utf8_valid bs then Ok () else Err BadUtf8), s))"
  by (simp add: debug_def arg_u32_run rbind_def mem_get_def lift_def from_utf8_def pure_def
      del: One_nat_def)


lemma debug_depends_on_log_level_witness:
  "debug (script_host []) [0, 1] sample_runtime = (Ok (), sample_runtime) \<and>
   debug ((script_host [])\<lparr>wh_trace := True\<rparr>) [0, 1] (sample_runtime\<lparr>rt_memory := [0xff]\<rparr>) =
     (Err BadUtf8, sample_runtime\<lparr>rt_memory := [0xff]\<rparr>)"
proof -
  have "\<not> utf8_valid [0xff]" by code_simp
  moreover have "wh_get ((script_host [])\<lparr>wh_trace := True\<rparr>) [0xff] 0 (unat (1 :: u32)) = Inr [0xff]"
    "wh_u32 ((script_host [])\<lparr>wh_trace := True\<rparr>) [0, 1] 0 = Inr 0"
    "wh_u32 ((script_host [])\<lparr>wh_trace := True\<rparr>) [0, 1] 1 = Inr 1"
    by (simp_all add: script_host_def)
  ultimately show ?thesis
    using debug_depends_on_log_level [of "script_host []" "[0, 1]" sample_runtime 0 1 "[]"]
      debug_depends_on_log_level [of "(script_host [])\<lparr>wh_trace := True\<rparr>" "[0, 1]"
        "sample_runtime\<lparr>rt_memory := [0xff]\<rparr>" 0 1 "[0xff]"]
    by simp
qed

lemma ccall_never_succeeds_witness:
  "\<exists>t. ccall (script_host []) (chain_provider sample_env) [0, 0, 32, 0, 0, 0, 0] sample_runtime =
     (Ok (I32 (- 1)), t) \<and> rt_result t = [] \<and>
     (I32 (- 1) = I32 (- 1) \<and> rt_result t = rt_result sample_runtime \<and>
      st_provider (rt_state t) = st_provider (rt_state sample_runtime))"
proof -
  let ?P = "chain_provider sample_env"
  have "quiet ?P (st_provider (state_new sample_chain))" by (simp add: quiet_sample)
  note bal = balance_run [OF this, of 7]
  have "ai_balance (fst (cached ?P (state_new sample_chain) 7)) = 1"
    by (simp add: cached_def fetched_def state_new_def acct_chain find_account_def account_info_new_def
        sample_chain_def blockchain_new_def chain_account_new_def sample_env_def sorted_keys_def
        genesis_address_def split: option.split)
  then have "\<exists>t. ccall (script_host []) ?P [0, 0, 32, 0, 0, 0, 0] sample_runtime = (Ok (I32 (- 1)), t)"
    by (simp add: ccall_def do_call_def rbind_def arg_u32_def arg_u64_def lift_def address_at_def
        u256_at_def mem_get_into_def h160_from_slice_def pure_def with_address_def on_state_def
        sample_params_def bal)
  then obtain t where t: "ccall (script_host []) ?P [0, 0, 32, 0, 0, 0, 0] sample_runtime = (Ok (I32 (- 1)), t)"
    by blast
  from ccall_never_succeeds [OF t] t show ?thesis by auto
qed

text \<open>
  C27: A contract's panic arrives unharmed: a payload laid out as length-prefixed message and
  file, line and column decodes to exactly those, and the host call ends the run with a panic
  error that prints them, missing texts replaced by their placeholders.
\<close>

theorem panic_reports_payload:
  assumes "wh_u32 W args 0 = Inr p" and "wh_u32 W args 1 = Inr n"
    and "wh_get W (rt_memory s) p (unat n) = Inr (put_payload m f l c)"
    and "printable m" and "printable f"
  shows "panic W args s = (Err (Panic (
    (case m of Some t \<Rightarrow> bytes_str t | None \<Rightarrow> ''<msg was stripped>'') @ '', '' @
    (case f of Some t \<Rightarrow> bytes_str t | None \<Rightarrow> ''<unknown>'') @ '':'' @
    show_nat (unat l) @ '':'' @ show_nat (unat c))), s)"
  using decode_put [OF assms(4,5), of "wh_short W" l c "[]"]
  by (simp add: panic_def rbind_def arg_u32_run assms(1-3) mem_get_def panic_message_def fail_def
      del: One_nat_def)

lemma panic_reports_payload_witness:
  "panic (script_host []) [0, 18]
      (sample_runtime\<lparr>rt_memory := put_payload (Some [111, 107]) None 3 4\<rparr>) =
    (Err (Panic ''ok, <unknown>:3:4''),
     sample_runtime\<lparr>rt_memory := put_payload (Some [111, 107]) None 3 4\<rparr>)"
proof -
  have shown: "printable (Some [111, 107])" "printable None"
    by (simp_all add: utf8_unit_def byte_at_def)
  have "length (put_payload (Some [111, 107]) None 3 4) = 18" by (simp add: put_payload_def)
  then have "panic (script_host []) [0, 18]
      (sample_runtime\<lparr>rt_memory := put_payload (Some [111, 107]) None 3 4\<rparr>) =
    (Err (Panic (bytes_str [111, 107] @ '', '' @ ''<unknown>'' @ '':'' @
      show_nat (unat (3 :: u32)) @ '':'' @ show_nat (unat (4 :: u32)))),
     sample_runtime\<lparr>rt_memory := put_payload (Some [111, 107]) None 3 4\<rparr>)"
    by (subst panic_reports_payload [where p = 0 and n = 18 and m = "Some [111, 107]" and f = None
          and l = 3 and c = 4]) (simp_all only: shown, simp_all)
  moreover have "show_nat 3 = ''3''" "show_nat 4 = ''4''" by (simp_all add: show_nat.simps char_of_def bit_simps)
  moreover have "bytes_str [111, 107] = ''ok''" by (simp add: bytes_str_def char_of_def bit_simps)
  ultimately show ?thesis by simp
qed

end
