(* ===== verification/Sample_Execution.thy ===== *)
theory Sample_Execution
  imports Runtime_Properties
begin

text \<open>
  One deployment, evaluated from the transaction to the provider's new state: the concrete
  input at which the properties of whole executions are instantiated.
\<close>

section \<open>A sample execution\<close>

definition sample_keccak :: "bytes \<Rightarrow> h256" where
  "sample_keccak bs = word_of_nat (length bs)"

text \<open>
  The sample contract pays for 100 units, stores the second word of its memory under the
  first one as key, and returns the last two bytes of its memory.
\<close>

definition sample_engine :: "(u64 list, bytes, unit, unit, unit, command list) engine" where
  "sample_engine = script_engine sample_keccak
     (be_bytes 32 (5 :: h256) @ be_bytes 32 (9 :: h256) @ [0xca, 0xfe])
     [Invoke GAS_FUNC [100], Invoke STORAGE_WRITE_FUNC [0, 32], Invoke RET_FUNC [64, 2]]"

definition sample_deploy :: transaction where
  "sample_deploy = make_create 1 0 1000000 0 [1] [2] 0"

text \<open>The sample chain with the address of alice left open; at 85 she has the contract's address.\<close>

definition sample_chain_at :: "address \<Rightarrow> blockchain" where
  "sample_chain_at r = blockchain_new 0 r 2 3 4"

lemma sample_chain_eq: "sample_chain = sample_chain_at 1"
  by (simp add: sample_chain_def sample_chain_at_def)

lemma chain_inv_sample_at: "r \<notin> {2, 3, 4, genesis_address} \<Longrightarrow> chain_inv sample_env (sample_chain_at r)"
  unfolding sample_chain_at_def by (rule chain_inv_new [OF fair_sample]) (simp add: genesis_address_def)

lemma chain_inv_sample: "chain_inv sample_env sample_chain"
  unfolding sample_chain_eq by (rule chain_inv_sample_at) (simp add: genesis_address_def)

lemma sample_target: "target sample_keccak sample_deploy = 85"
proof -
  have "address_of_hash 85 = 85" by code_simp
  then show ?thesis
    by (simp add: target_def sample_deploy_def make_create_def contract_address_def sample_keccak_def
        address_preimage_def)
qed

definition deploy_params :: action_params where
  "deploy_params = \<lparr>ap_code_address = 85, ap_code_hash = None, ap_address = 85, ap_sender = 1,
     ap_origin = 1, ap_gas = 1000000, ap_gas_price = 0, ap_value = 0, ap_code = [1],
     ap_code_version = 0, ap_args = [2], ap_action_type = ActionCreate\<rparr>"

lemma sample_make_params:
  "make_params sample_keccak P p sample_deploy = Ok deploy_params"
  using sample_target
  by (simp add: make_params_def target_def sample_deploy_def make_create_def deploy_params_def Let_def)

abbreviation sample_provider :: "blockchain provider" where
  "sample_provider \<equiv> chain_provider sample_env"

lemma sample_addresses:
  "bc_accounts (sample_chain_at r) n = Some x \<Longrightarrow>
    ca_address x \<in> {r, 2, 3, 4, genesis_address} \<and> ca_storage x = Map.empty"
  by (auto simp: sample_chain_at_def blockchain_new_def chain_account_new_def split: if_splits)

lemma find_sample_at:
  "r \<notin> {2, 3, 4, genesis_address} \<Longrightarrow> find_account sample_env a (sample_chain_at r) = Some (n, x) \<Longrightarrow>
    a \<in> {r, 2, 3, 4, genesis_address} \<and> ca_storage x = Map.empty"
  using find_account_iff [OF chain_inv_sample_at, of r a n x] sample_addresses [of r n x] by blast

lemma find_sample: "a \<notin> {1, 2, 3, 4, genesis_address} \<Longrightarrow> find_account sample_env a sample_chain = None"
  using find_sample_at [of 1 a]
  by (cases "find_account sample_env a sample_chain") (auto simp: sample_chain_eq genesis_address_def)

lemma stored_sample_at:
  "r \<notin> {2, 3, 4, genesis_address} \<Longrightarrow> stored sample_provider (sample_chain_at r) a = Map.empty"
  using find_sample_at [of r a]
  by (cases "find_account sample_env a (sample_chain_at r)") (auto simp: stored_chain)

text \<open>
  The sample deployment runs to a successful, non-empty result, on every provider that can
  store values and has nothing at the contract's address.
\<close>

context provider_store
begin

lemma sample_run_store:
  assumes inv: "inv p" and room: "0 < room p" and can: "updates \<or> acct P p 85 = None"
    and empty: "stored P p 85 = Map.empty"
  shows "\<exists>rd q. execute sample_engine sorted_orders P sample_deploy p = Some (Ok rd, q) \<and>
    rd_data rd = [0xca, 0xfe]"
proof -
  let ?mem = "be_bytes 32 (5 :: h256) @ be_bytes 32 (9 :: h256) @ [0xca, 0xfe]"
  let ?W = "script_host ?mem"
  let ?s = "\<lparr>rt_schedule = execute_schedule, rt_gas_counter = 4196, rt_gas_limit = 2666666,
    rt_params = deploy_params, rt_memory = ?mem, rt_result = [], rt_state = state_new p, rt_logs = []\<rparr>
    :: (bytes, 'p) runtime"
  have addr: "ap_address deploy_params = 85" by (simp add: deploy_params_def)
  have view: "own_view P ?s 5 = 0"
    by (simp add: own_view_def storage_view_def cached_def state_new_def addr empty)
  have q: "quiet P (st_provider (rt_state ?s))" using inv_quiet [OF inv] by simp
  have words: "mem_word ?W (rt_memory ?s) 0 5" "mem_word ?W (rt_memory ?s) 32 9"
    by (simp_all add: mem_word_def)
  have store: "storage_write ?W P [0, 32] ?s = (Ok (), after_write P 5 9 ?s)"
    using storage_write_run [OF q _ _ _ words, of "[0, 32]"]
    by (simp add: sstore_price_def view affordable_def)
  let ?t = "after_write P 5 9 ?s"
  have gas: "invoke_index ?W P GAS_FUNC [100] (?s\<lparr>rt_gas_counter := 4096\<rparr>) = (Ok None, ?s)"
    by (simp add: invoke_gas affordable_def)
  have ret: "ret ?W [64, 2] ?t = (Err Return, ?t\<lparr>rt_result := [0xca, 0xfe]\<rparr>)"
    by (rule ret_run [where p = 64 and n = 2]) (simp_all add: after_write_def)
  let ?u = "?t\<lparr>rt_result := [0xca, 0xfe]\<rparr>"
  have run: "run_guest ?W P script_step
      [Invoke GAS_FUNC [100], Invoke STORAGE_WRITE_FUNC [0, 32], Invoke RET_FUNC [64, 2]]
      (?s\<lparr>rt_gas_counter := 4096\<rparr>) = Some (Err (TrapHost (RuntimeError Return)), ?u)"
    using store ret gas by (simp add: invoke_simps void_def trap_of_def rbind_def pure_def)
  have "rt_reach P 85 (?s\<lparr>rt_gas_counter := 4096\<rparr>) ?u" using run by (rule run_guest_reach)
  from rt_reachD(4) [OF this] have own: "own P 85 (rt_state ?u)"
    by (simp add: st_own_def own_new deploy_params_def)
  have price: "sstore_price (own_view P ?s 5) 9 = 53333" by (simp add: sstore_price_def view)
  have u: "st_provider (rt_state ?u) = p" "ap_address (rt_params ?u) = 85"
    "rt_schedule ?u = execute_schedule" "rt_gas_counter ?u \<le> rt_gas_limit ?u" "rt_result ?u \<noteq> []"
    "rt_result ?u = [0xca, 0xfe]"
    by (simp_all add: after_write_def price addr)
  have create: "is_create (tx_action sample_deploy)"
    by (simp add: sample_deploy_def make_create_def is_create_def)
  from finish_commit [OF inv fair_sorted room can u(1) own u(2-4) _ u(5), of sample_deploy]
    create obtain q where fin: "finish sorted_orders P sample_deploy ?u =
      (Ok \<lparr>rd_gas_left = refund (rt_gas_limit ?u - rt_gas_counter ?u), rd_data = rt_result ?u,
        rd_contract = 85, rd_logs = []\<rparr>, ?u\<lparr>rt_state := q\<rparr>)" by blast
  obtain rd t where "finish sorted_orders P sample_deploy ?u = (Ok rd, t)" "rd_data rd = [0xca, 0xfe]"
    by (rule that [OF fin]) (simp add: u(6))
  moreover have "execute sample_engine sorted_orders P sample_deploy p =
      map_option (\<lambda>(r, t). (r, st_provider (rt_state t))) (Some (finish sorted_orders P sample_deploy ?u))"
    using run unfolding sample_engine_def
    by (subst script_execute [OF sample_make_params])
      (simp_all add: deploy_params_def runtime_new_def stopping_def rbind_lift)
  ultimately show ?thesis by auto
qed

end

text \<open>A contract that aborts at once leaves every provider as it was.\<close>

definition abort_engine :: "(u64 list, bytes, unit, unit, unit, command list) engine" where
  "abort_engine = script_engine sample_keccak [] [Abort TrapUnreachable]"

lemma abort_run:
  obtains rd where "execute abort_engine H P sample_deploy p = Some (Ok rd, p)" and "rd_data rd = []"
proof -
  have "\<exists>rd q. execute abort_engine H P sample_deploy p = Some (Ok rd, q) \<and> rd_data rd = []"
    unfolding abort_engine_def
    by (subst script_execute [OF sample_make_params])
      (simp_all add: deploy_params_def runtime_new_def stopping_def rbind_lift finish_run Let_def)
  with execute_unchanged that show thesis by metis
qed

lemma sample_run:
  assumes r: "r \<notin> {2, 3, 4, genesis_address}"
  shows "\<exists>rd bc. execute sample_engine sorted_orders sample_provider sample_deploy (sample_chain_at r) = Some (Ok rd, bc) \<and>
    rd_data rd = [0xca, 0xfe]"
  by (rule provider_store.sample_run_store [OF chain.provider_store_axioms chain_inv_sample_at [OF r]])
    (simp_all add: stored_sample_at [OF r], simp add: sample_chain_at_def chain_room_new)

end
