(* ===== verification/Silent_Traps.thy ===== *)
theory Silent_Traps
  imports Execute_Laws
begin

text \<open>
  Of the traps that end a contract's call, \<open>execute\<close> looks at those of the host only. What that
  means for an interpreter: it makes no difference to the execution whether its own traps
  (an \<open>unreachable\<close> instruction, a division by zero, an access out of bounds) end the call as traps
  or as if the function had returned.
\<close>

section \<open>The same interpreter without traps of its own\<close>

fun host_trap :: "trap_kind \<Rightarrow> bool" where
  "host_trap (TrapHost h) = True"
| "host_trap k = False"

definition silenced ::
  "('cfg \<Rightarrow> 'mem \<Rightarrow> ('cfg, 'args, 'mem) event) \<Rightarrow> 'cfg \<Rightarrow> 'mem \<Rightarrow> ('cfg, 'args, 'mem) event" where
  "silenced step cfg m = (case step cfg m of
     Finished (Some k) m' \<Rightarrow> if host_trap k then Finished (Some k) m' else Finished None m'
   | e \<Rightarrow> e)"

fun without_trap :: "(trap_kind, unit) outcome \<Rightarrow> (trap_kind, unit) outcome" where
  "without_trap (Err k) = (if host_trap k then Err k else Ok ())"
| "without_trap r = r"

lemma silenced_simps:
  "step cfg m = Internal cfg' m' \<Longrightarrow> silenced step cfg m = Internal cfg' m'"
  "step cfg m = HostCall i args m' resume \<Longrightarrow> silenced step cfg m = HostCall i args m' resume"
  "silenced step cfg m = Internal cfg' m' \<Longrightarrow> step cfg m = Internal cfg' m'"
  "silenced step cfg m = HostCall i args m' resume \<Longrightarrow> step cfg m = HostCall i args m' resume"
  by (auto simp: silenced_def split: event.splits option.splits if_splits)

lemma silenced_finished:
  "step cfg m = Finished k m' \<Longrightarrow>
    \<exists>k'. silenced step cfg m = Finished k' m' \<and>
      (case k' of None \<Rightarrow> Ok () | Some t \<Rightarrow> Err t) =
        without_trap (case k of None \<Rightarrow> Ok () | Some t \<Rightarrow> Err t)"
  by (auto simp: silenced_def split: option.split)

lemma finished_silenced:
  "silenced step cfg m = Finished k' m' \<Longrightarrow> \<exists>k. step cfg m = Finished k m'"
  by (auto simp: silenced_def split: event.splits option.splits if_splits)

section \<open>Runs\<close>

lemma run_silenced:
  assumes "run_guest W P step cfg s = Some (r, t)"
  shows "run_guest W P (silenced step) cfg s = Some (without_trap r, t)"
  using assms
proof (induction rule: run_guest_induct)
  case (finished cfg s k m)
  from silenced_finished [of step cfg "rt_memory s", OF this] obtain k' where
    "silenced step cfg (rt_memory s) = Finished k' m"
    and "(case k' of None \<Rightarrow> Ok () | Some t \<Rightarrow> Err t) = without_trap (case k of None \<Rightarrow> Ok () | Some t \<Rightarrow> Err t)"
    by blast
  then show ?case by (subst run_guest.simps) simp
next
  case (internal cfg s cfg' m r t)
  then show ?case by (subst run_guest.simps) (simp add: silenced_simps(1))
next
  case (reply cfg s i a m k v s' r t)
  then show ?case by (subst run_guest.simps) (simp add: silenced_simps(2))
next
  case (trap cfg s i a m k e s' r t)
  then show ?case by (subst run_guest.simps) (simp add: silenced_simps(2))
next
  case (crash cfg s i a m k s')
  then show ?case by (subst run_guest.simps) (simp add: silenced_simps(2))
qed

lemma silenced_run:
  assumes "run_guest W P (silenced step) cfg s = Some (r', t)"
  shows "\<exists>r. run_guest W P step cfg s = Some (r, t)"
  using assms
proof (induction rule: run_guest_induct)
  case (finished cfg s k m)
  from finished_silenced [of step cfg "rt_memory s", OF this] show ?case
    by (subst run_guest.simps) auto
next
  case (internal cfg s cfg' m r t)
  with silenced_simps(3) [OF internal(1)] show ?case by (subst run_guest.simps) simp
next
  case (reply cfg s i a m k v s' r t)
  with silenced_simps(4) [OF reply(1)] show ?case by (subst run_guest.simps) simp
next
  case (trap cfg s i a m k e s' r t)
  with silenced_simps(4) [OF trap(1)] show ?case by (subst run_guest.simps) simp
next
  case (crash cfg s i a m k s')
  with silenced_simps(4) [OF crash(1)] show ?case by (subst run_guest.simps) simp
qed

lemma run_guest_silenced:
  "run_guest W P (silenced step) cfg s =
    map_option (\<lambda>(r, t). (without_trap r, t)) (run_guest W P step cfg s)"
proof (cases "run_guest W P step cfg s")
  case None
  then have "run_guest W P (silenced step) cfg s = None"
    using silenced_run [of W P step cfg s] by (cases "run_guest W P (silenced step) cfg s") auto
  with None show ?thesis by simp
next
  case (Some x)
  then show ?thesis using run_silenced [of W P step cfg s] by (cases x) auto
qed

section \<open>Executions\<close>

lemma stopping_silenced:
  "stopping st (map_err ErrTrap (without_trap r)) = stopping st (map_err ErrTrap r)"
proof (cases r)
  case (Err k)
  then show ?thesis by (cases k) (simp_all add: stopping_def)
qed simp_all

lemma call_silenced:
  "map_option (\<lambda>(r, t). f (stopping st r) t) (invoke_export (E\<lparr>en_step := silenced (en_step E)\<rparr>) P inst name s) =
    map_option (\<lambda>(r, t). f (stopping st r) t) (invoke_export E P inst name s)"
  by (cases "run_guest (en_host E) P (en_step E) (projr (en_export E inst name)) s")
    (auto simp: invoke_export_def run_guest_silenced stopping_silenced split: sum.split)

lemma execute_silenced:
  assumes "\<And>inst. en_start E inst = None"
  shows "execute (E\<lparr>en_step := silenced (en_step E)\<rparr>) H P tx p = execute E H P tx p"
proof -
  have "prepare (E\<lparr>en_step := silenced (en_step E)\<rparr>) P p tx = prepare E P p tx"
    by (simp add: prepare_def)
  moreover have run: "run_contract (E\<lparr>en_step := silenced (en_step E)\<rparr>) H P tx inst pages s =
      run_contract E H P tx inst pages s" for inst pages s
  proof -
    note call = call_silenced [where f = "\<lambda>r. rbind (lift r) (\<lambda>_. finish H P tx)" and E = E]
    obtain r u where "rbind (lift (schedule_wasm (rt_schedule s))) (\<lambda>w.
        if wc_initial_mem w < 65536 then initial_charge (wh_overflow_checks (en_host E)) pages
        else lift Crash) s = (r, u)" by fastforce
    moreover have host: "en_host (E\<lparr>en_step := silenced (en_step E)\<rparr>) = en_host E" by simp
    ultimately show ?thesis
      unfolding run_contract_def host by (cases r) (simp_all add: run_start_def assms call)
  qed
  ultimately show ?thesis unfolding execute_def run by simp
qed

end
