(* ===== verification/Execute_Properties.thy ===== *)
theory Execute_Properties
  imports Sample_Execution Silent_Traps
begin

text \<open>
  The properties of whole executions (\<open>durian/src/execute.rs\<close>) and of writing the cache back
  (\<open>durian/src/state.rs\<close>), with their instances at the sample execution.
\<close>

section \<open>Gas of a transaction\<close>

text \<open>
  C25: Converting the gas of a transaction. With the default costs the machine runs with eight
  thirds of the gas, rounded down; it answers with an error when that exceeds 64 bits, and
  panics instead of answering when the multiplication exceeds 256 bits.
\<close>

theorem gas_conversion:
  "adjusted_gas wasm_costs_default g =
    (if 2 ^ 253 \<le> unat g then Crash
     else if 2 ^ 64 \<le> unat g * 8 div 3 then Err (Wasm gas_msg)
     else Ok (word_of_nat (unat g * 8 div 3)))"
  by (rule adjusted_gas_run)

text \<open>
  C20: An execution that succeeds reports at most the gas it was given, the address of the
  contract that ran (the called one, or the one derived from sender, code and salt), and no
  log entries.
\<close>

theorem execution_report:
  assumes "execute E H P tx p = Some (Ok rd, p')"
  shows "unat (rd_gas_left rd) \<le> unat (tx_gas tx) \<and> rd_logs rd = [] \<and>
    rd_contract rd = (case tx_action tx of
      Create code salt \<Rightarrow> contract_address (en_keccak E) (tx_sender tx) code salt
    | Call a \<Rightarrow> a)"
  using execute_report [OF assms] by (simp add: target_def)

lemma execution_report_witness:
  "\<exists>rd bc. execute sample_engine sorted_orders sample_provider sample_deploy sample_chain = Some (Ok rd, bc) \<and>
    unat (rd_gas_left rd) \<le> 1000000 \<and> rd_logs rd = []"
proof -
  obtain rd bc where "execute sample_engine sorted_orders sample_provider sample_deploy sample_chain = Some (Ok rd, bc)"
    using sample_run [of 1] by (auto simp: sample_chain_eq genesis_address_def)
  from execution_report [OF this] this show ?thesis by (auto simp: sample_deploy_def make_create_def)
qed

section \<open>Returning\<close>

text \<open>
  C4: An execution returns, for every transaction and every provider, when the interpreter
  runs gas-metered code (between two positive charges it makes finitely many steps, counted
  by \<open>rank\<close>) and ends a run at the first host trap.
\<close>

theorem execution_returns:
  assumes "host_traps_abort (en_step E)" and "metered (en_host E) (en_step E) rank"
  shows "\<exists>r p'. execute E H P tx p = Some (r, p')"
  using assms by (rule execute_returns)

lemma execution_returns_witness:
  "\<exists>r p'. execute sample_engine sorted_orders sample_provider (make_call 1 2 0 5 0 []) sample_chain = Some (r, p')"
  by (rule execution_returns [where rank = length])
    (simp_all add: sample_engine_def script_traps_abort script_metered)

section \<open>When nothing is written\<close>

text \<open>
  C31: An execution whose result is empty leaves the provider as it was, for every provider:
  whatever the contract stored is dropped, although the transaction is reported as a success.
\<close>

theorem empty_result_writes_nothing:
  assumes "execute E H P tx p = Some (Ok rd, p')" and "rd_data rd = []"
  shows "p' = p"
  using assms by (rule execute_unchanged)

text \<open>
  C32: A trap of the interpreter during the call (an \<open>unreachable\<close> instruction, a division by
  zero, an access out of bounds, a stack overflow) leaves no trace in the execution. For a
  module without a start function and on every provider, the execution is the same, in
  whether it returns, its result and the provider afterwards, as with an interpreter that ends the call
  normally at that point: only host traps are looked at.
\<close>

theorem guest_traps_unseen:
  assumes "\<And>inst. en_start E inst = None"
  shows "execute E H P tx p = execute (E\<lparr>en_step := silenced (en_step E)\<rparr>) H P tx p"
  using execute_silenced [OF assms] by (rule sym)

lemma guest_traps_unseen_witness:
  "\<exists>rd. execute abort_engine sorted_orders sample_provider sample_deploy sample_chain = Some (Ok rd, sample_chain) \<and>
    execute (abort_engine\<lparr>en_step := silenced script_step\<rparr>) sorted_orders sample_provider sample_deploy sample_chain =
      Some (Ok rd, sample_chain) \<and>
    silenced script_step [Abort TrapUnreachable] [] = Finished None []"
proof -
  obtain rd where run: "execute abort_engine sorted_orders sample_provider sample_deploy sample_chain = Some (Ok rd, sample_chain)"
    by (rule abort_run)
  have start: "en_start abort_engine inst = None" for inst by (simp add: abort_engine_def)
  have "en_step abort_engine = script_step" by (simp add: abort_engine_def)
  note same = guest_traps_unseen [of abort_engine sorted_orders sample_provider sample_deploy sample_chain,
      OF start, unfolded this]
  from run show ?thesis by (intro exI [of _ rd]) (simp add: same [symmetric] silenced_def)
qed

lemma empty_result_writes_nothing_witness:
  "\<exists>rd. execute abort_engine sorted_orders sample_provider sample_deploy sample_chain = Some (Ok rd, sample_chain)"
proof -
  obtain rd where run: "execute abort_engine sorted_orders sample_provider sample_deploy sample_chain = Some (Ok rd, sample_chain)"
    and "rd_data rd = []" by (rule abort_run)
  from empty_result_writes_nothing [OF this] run show ?thesis by simp
qed

section \<open>What is written\<close>

text \<open>
  C2: Writing back implements the contract's view. For a cache as a contract can leave it
  (its own account only, clean slots as the provider has them) of an existing account,
  \<open>update_state\<close> succeeds on the chain, keeps the chain's invariant and every account, and
  afterwards the chain holds at each slot of the contract the value the contract saw, and at
  the slots of every other account the value it had.
\<close>

theorem write_back_keeps_view:
  assumes "chain_inv E (st_provider s)" and "fair_orders H" and "own (chain_provider E) a s"
    and "acct (chain_provider E) (st_provider s) a \<noteq> None"
  shows "\<exists>bc. update_state H (chain_provider E) s = (Ok (), s\<lparr>st_provider := bc\<rparr>) \<and>
    chain_inv E bc \<and> acct (chain_provider E) bc = acct (chain_provider E) (st_provider s) \<and>
    (\<forall>k. slot_value (chain_provider E) bc a k = storage_view (chain_provider E) s a k) \<and>
    (\<forall>b k. b \<noteq> a \<longrightarrow> slot_value (chain_provider E) bc b k = slot_value (chain_provider E) (st_provider s) b k)"
proof -
  let ?P = "chain_provider E"
  from chain.update_call [OF assms] obtain bc where
    bc: "update_state H ?P s = (Ok (), s\<lparr>st_provider := bc\<rparr>)" "chain_inv E bc"
      "acct ?P bc = acct ?P (st_provider s)"
      "stored ?P bc = (stored ?P (st_provider s))
        (a := stored ?P (st_provider s) a ++ writes (st_accounts s) a)"
    by blast
  have "slot_value ?P bc a k = storage_view ?P s a k" for k
    using view_written [OF agrees_cached [OF assms(3)], of k]
    by (simp add: slot_value_def bc(4) writes_cached [of s a ?P])
  moreover have "slot_value ?P bc b k = slot_value ?P (st_provider s) b k" if "b \<noteq> a" for b k
    using that by (simp add: slot_value_def bc(4))
  ultimately show ?thesis using bc(1-3) by blast
qed

text \<open>The account of alice, with one written slot in the cache.\<close>

definition sample_cache :: "blockchain state" where
  "sample_cache = put_account 1 (insert_slot 5 9 True (cached sample_provider (state_new sample_chain) 1))
     (state_new sample_chain)"

lemma sample_cache_own: "own sample_provider 1 sample_cache"
proof -
  have "st_own sample_provider 1 (state_new sample_chain) sample_cache"
    unfolding sample_cache_def by (rule st_own_put) (rule agrees_insert_dirty)
  then show ?thesis by (simp add: st_own_def own_new)
qed

lemma sample_alice: "acct sample_provider sample_chain 1 = Some \<lparr>sa_nonce = 0, sa_balance = 1000000, sa_code = []\<rparr>"
proof -
  have "find_account sample_env 1 sample_chain = Some (''alice'', chain_account_new 1 1000000 0 [])"
    by (subst find_account_iff [OF chain_inv_sample])
      (simp add: sample_chain_def blockchain_new_def chain_account_new_def)
  then show ?thesis by (simp add: acct_chain state_account_of_def chain_account_new_def)
qed

lemma write_back_keeps_view_witness:
  "\<exists>bc. update_state sorted_orders sample_provider sample_cache = (Ok (), sample_cache\<lparr>st_provider := bc\<rparr>) \<and>
    slot_value sample_provider bc 1 5 = 9"
proof -
  have prov: "st_provider sample_cache = sample_chain" by (simp add: sample_cache_def)
  have "storage_view sample_provider sample_cache 1 5 = 9"
    by (simp add: sample_cache_def storage_view_def)
  with write_back_keeps_view [OF _ fair_sorted sample_cache_own]
  show ?thesis by (auto simp: prov chain_inv_sample sample_alice)
qed

text \<open>
  The outcome of writing back does not depend on the iteration orders of the hash maps:
  on the chain, two runs of \<open>update_state\<close> with different orders both succeed and leave the
  same accounts and the same storage.
\<close>

theorem write_back_order_independent:
  assumes "chain_inv E (st_provider s)" and "fair_orders H" and "fair_orders H'"
    and "finite (dom (st_accounts s))"
    and "\<And>a acc d. st_accounts s a = Some (acc, d) \<Longrightarrow> finite (dom (ai_storage acc))"
    and "flushable (acct (chain_provider E) (st_provider s)) (st_accounts s)"
    and "card (dirty_accounts (st_accounts s)) \<le> chain_room (st_provider s)"
  shows "\<exists>bc bc'. update_state H (chain_provider E) s = (Ok (), s\<lparr>st_provider := bc\<rparr>) \<and>
    update_state H' (chain_provider E) s = (Ok (), s\<lparr>st_provider := bc'\<rparr>) \<and>
    acct (chain_provider E) bc = acct (chain_provider E) bc' \<and>
    stored (chain_provider E) bc = stored (chain_provider E) bc'"
proof -
  have "\<exists>bc. update_state G (chain_provider E) s = (Ok (), s\<lparr>st_provider := bc\<rparr>) \<and> chain_inv E bc \<and>
      acct (chain_provider E) bc =
        written_acct chain_fresh (st_accounts s) (acct (chain_provider E) (st_provider s)) \<and>
      stored (chain_provider E) bc =
        written_stored (st_accounts s) (stored (chain_provider E) (st_provider s))"
    if "fair_orders G" for G
    by (rule chain.update_state_ok)
      (use that assms fair_ordersD in \<open>auto\<close>)
  from this [OF assms(2)] this [OF assms(3)] show ?thesis by metis
qed

definition reverse_orders :: hash_orders where
  "reverse_orders = \<lparr>ho_accounts = (\<lambda>m. rev (sorted_keys m)), ho_storage = (\<lambda>m. rev (sorted_keys m))\<rparr>"

lemma write_back_order_independent_witness:
  "\<exists>bc bc'. update_state sorted_orders sample_provider sample_cache = (Ok (), sample_cache\<lparr>st_provider := bc\<rparr>) \<and>
    update_state reverse_orders sample_provider sample_cache = (Ok (), sample_cache\<lparr>st_provider := bc'\<rparr>) \<and>
    stored sample_provider bc = stored sample_provider bc'"
proof -
  have rev: "fair_orders reverse_orders"
    by (simp add: fair_orders_def reverse_orders_def enumerates_def sorted_keys_def)
  have prov: "st_provider sample_cache = sample_chain" by (simp add: sample_cache_def)
  have accs: "st_accounts sample_cache =
      [1 \<mapsto> insert_slot 5 9 True (fetched sample_provider sample_chain 1, False)]"
    by (simp add: sample_cache_def cached_def state_new_def)
  have flush: "flushable (acct sample_provider (st_provider sample_cache)) (st_accounts sample_cache)"
    by (simp add: flushable_def accs prov insert_slot_def sample_alice)
  have dirty: "dirty_accounts (st_accounts sample_cache) = {}"
    by (auto simp: dirty_accounts_def accs insert_slot_def split: if_splits)
  have slots: "st_accounts sample_cache b = Some (acc, d) \<Longrightarrow> finite (dom (ai_storage acc))" for b acc d
    by (auto simp: accs insert_slot_def split: if_splits)
  have inv: "chain_inv sample_env (st_provider sample_cache)" by (simp add: prov chain_inv_sample)
  have dom: "finite (dom (st_accounts sample_cache))" by (simp add: accs)
  have room: "card (dirty_accounts (st_accounts sample_cache)) \<le> chain_room (st_provider sample_cache)"
    by (simp add: dirty)
  from write_back_order_independent [OF inv fair_sorted rev dom _ flush room] slots
  show ?thesis by blast
qed

text \<open>
  C33: Deploying again at an address that exists does not install code: the account keeps its
  code, and its balance and nonce come back exchanged, because the cache reads the provider's
  account with the two in the wrong order.
\<close>

theorem redeploy_swaps_balance_and_nonce:
  assumes "chain_inv E bc" and "fair_orders H" and "0 < chain_room bc"
    and "execute X H (chain_provider E) tx bc = Some (Ok rd, bc')" and "rd_data rd \<noteq> []"
    and "is_create (tx_action tx)" and "pv_account (chain_provider E) bc (rd_contract rd) = Ok x"
  shows "pv_account (chain_provider E) bc' (rd_contract rd) =
    Ok \<lparr>sa_nonce = sa_balance x, sa_balance = sa_nonce x, sa_code = sa_code x\<rparr>"
  using assms(1-4)
proof (cases rule: chain.execute_outcome)
  case unchanged
  with assms(5) show ?thesis by simp
next
  case (committed rd' w)
  have "acct (chain_provider E) bc' (rd_contract rd) =
      Some \<lparr>sa_nonce = sa_balance x, sa_balance = sa_nonce x, sa_code = sa_code x\<rparr>"
    using committed(1,5) assms(6,7) by (simp add: committed_def deployed_def acct_Some [symmetric])
  then show ?thesis by (simp add: acct_Some)
qed


lemma redeploy_swaps_balance_and_nonce_witness:
  "\<exists>rd bc. execute sample_engine sorted_orders sample_provider sample_deploy (sample_chain_at 85) = Some (Ok rd, bc) \<and>
    pv_account sample_provider bc 85 = Ok \<lparr>sa_nonce = 1000000, sa_balance = 0, sa_code = []\<rparr>"
proof -
  have inv: "chain_inv sample_env (sample_chain_at 85)"
    by (rule chain_inv_sample_at) (simp add: genesis_address_def)
  obtain rd bc where
    run: "execute sample_engine sorted_orders sample_provider sample_deploy (sample_chain_at 85) = Some (Ok rd, bc)"
    and data: "rd_data rd = [0xca, 0xfe]" using sample_run [of 85] by (auto simp: genesis_address_def)
  have a: "rd_contract rd = 85"
    using execute_report(2) [OF run] sample_target by (simp add: sample_engine_def)
  have "find_account sample_env 85 (sample_chain_at 85) = Some (''alice'', chain_account_new 85 1000000 0 [])"
    by (subst find_account_iff [OF inv])
      (simp add: sample_chain_at_def blockchain_new_def chain_account_new_def)
  then have acc: "pv_account sample_provider (sample_chain_at 85) (rd_contract rd) =
      Ok \<lparr>sa_nonce = 0, sa_balance = 1000000, sa_code = []\<rparr>"
    by (simp add: a chain_provider_def account_ref_def state_account_of_def chain_account_new_def)
  have create: "is_create (tx_action sample_deploy)"
    by (simp add: sample_deploy_def make_create_def is_create_def)
  have "0 < chain_room (sample_chain_at 85)" by (simp add: sample_chain_at_def chain_room_new)
  from redeploy_swaps_balance_and_nonce [OF inv fair_sorted this run _ create acc] data a run
  show ?thesis by auto
qed

end
