(* ===== verification/Chain_Properties.thy ===== *)
theory Chain_Properties
  imports Execute_Properties
begin

text \<open>
  Properties of the blockchain of the example node
  (\<open>src/examples/blockchain/src/blockchain.rs\<close>): its invariant, its links, its accounts, and
  what the hash of a transaction covers. The laws they rest on are those of \<open>Blockchain_Laws\<close>.
\<close>

section \<open>The chain\<close>

text \<open>
  A new chain satisfies the invariant of the account map, whatever the clock and the
  iteration order, if its four random addresses and the fixed one are distinct: one alias per
  address, every alias above the contract counter unused, and all but the last of the values
  of the counter still to be given out.
\<close>

theorem new_chain_invariant:
  assumes "fair E" and "distinct [r1, r2, r3, r4, genesis_address]"
  shows "chain_inv E (blockchain_new now r1 r2 r3 r4) \<and>
    chain_room (blockchain_new now r1 r2 r3 r4) = 2 ^ 31 - 1"
  using chain_inv_new [OF assms] by (simp add: chain_room_new)

lemma new_chain_invariant_witness: "chain_inv sample_env (blockchain_new 7 10 11 12 13)"
  using new_chain_invariant [OF fair_sample, of 10 11 12 13 7] by (simp add: genesis_address_def)

text \<open>
  C18: A successful \<open>commit\<close> adds exactly one block and keeps the chain linked: every block
  carries its position, and every block but the first names the hash of the one before it.
  Accounts, counter and transactions stay.
\<close>

theorem commit_keeps_links:
  assumes "linked E (bc_blocks bc)" and "commit E now bc = (Ok (), bc')"
  shows "linked E (bc_blocks bc') \<and> length (bc_blocks bc') = Suc (length (bc_blocks bc)) \<and>
    bc_accounts bc' = bc_accounts bc \<and> bc_counter bc' = bc_counter bc \<and>
    bc_transactions bc' = bc_transactions bc"
  using commit_linked [OF assms] by blast

lemma commit_keeps_links_witness:
  "\<exists>bc. commit sample_env 5 sample_chain = (Ok () :: (error, unit) outcome, bc) \<and> linked sample_env (bc_blocks bc) \<and>
    length (bc_blocks bc) = 2"
proof -
  have one: "length (bc_blocks sample_chain) = 1"
    by (simp add: sample_chain_def blockchain_new_def)
  then have "fst (commit sample_env 5 sample_chain) = (Ok () :: (error, unit) outcome)"
    by (auto simp: commit_run Let_def sample_env_def)
  then obtain bc where run: "commit sample_env 5 sample_chain = (Ok () :: (error, unit) outcome, bc)"
    by (metis prod.collapse)
  have "linked sample_env (bc_blocks sample_chain)" by (simp add: sample_chain_def linked_new)
  from commit_keeps_links [OF this run] run one show ?thesis by (intro exI [of _ bc]) simp
qed

text \<open>
  Looking an account up by address does not depend on the iteration order of the account
  map, on any chain that satisfies the invariant.
\<close>

theorem lookup_order_independent:
  assumes "chain_inv E bc" and "chain_inv E' bc"
  shows "account_ref E a bc = account_ref E' a bc"
  using assms by (rule lookup_eq)

definition reverse_env :: chain_env where
  "reverse_env = sample_env\<lparr>ce_order := (\<lambda>m. rev (sorted_keys m))\<rparr>"

lemma lookup_order_independent_witness:
  "account_ref sample_env 1 sample_chain = account_ref reverse_env 1 sample_chain"
proof -
  have "fair reverse_env"
    by (simp add: fair_def reverse_env_def enumerates_def sorted_keys_def)
  then have "chain_inv reverse_env sample_chain"
    unfolding sample_chain_def by (rule chain_inv_new) (simp add: genesis_address_def)
  with chain_inv_sample show ?thesis by (rule lookup_order_independent)
qed

text \<open>
  C13: Creating a contract at a new address, while the counter has room, succeeds, keeps the
  invariant (so the alias it takes was free), uses up one value of the counter, and makes the
  contract's account, with zero balance and nonce and the given code, the only change to the
  accounts and storage that can be looked up.
\<close>

theorem create_contract_effect:
  assumes "chain_inv E bc" and "account_ref E a bc = Err (InvalidAddress a)" and "0 < chain_room bc"
  shows "\<exists>bc'. chain_create_contract E a code bc = (Ok (), bc') \<and> chain_inv E bc' \<and>
    chain_room bc = Suc (chain_room bc') \<and>
    account_ref E a bc' = Ok (chain_account_new a 0 0 code) \<and>
    (\<forall>b. b \<noteq> a \<longrightarrow> account_ref E b bc' = account_ref E b bc)"
proof -
  have "acct (chain_provider E) bc a = None"
    using assms(2) by (cases "find_account E a bc") (auto simp: acct_chain account_ref_def)
  from chain_create_run [OF assms(1) this assms(3)] obtain bc' n where
    "chain_create_contract E a code bc = (Ok (), bc')" "chain_inv E bc'"
    "chain_room bc = Suc (chain_room bc')"
    "\<And>b. find_account E b bc' =
      (if b = a then Some (n, chain_account_new a 0 0 code) else find_account E b bc)" by blast
  then show ?thesis by (intro exI [of _ bc']) (simp add: account_ref_def)
qed

lemma create_contract_effect_witness:
  "\<exists>bc. chain_create_contract sample_env 85 [1, 2] sample_chain = (Ok (), bc) \<and>
    account_ref sample_env 85 bc = Ok (chain_account_new 85 0 0 [1, 2])"
proof -
  have "find_account sample_env 85 sample_chain = None"
    by (rule find_sample) (simp add: genesis_address_def)
  then have "account_ref sample_env 85 sample_chain = Err (InvalidAddress 85)"
    by (simp add: account_ref_def)
  from create_contract_effect [OF chain_inv_sample this, of "[1, 2]"] show ?thesis
    by (auto simp: sample_chain_def chain_room_new)
qed

text \<open>
  A contract can bring the node down: asking for the hash of a block that does not exist
  yet panics in the chain, and the panic passes through the host call, whenever the gas for
  the call is there.
\<close>

theorem block_hash_panics:
  assumes "wh_u64 W args 0 = Inr n" and "length (bc_blocks (st_provider (rt_state s))) \<le> unat n"
    and "rt_schedule s = execute_schedule"
    and "unat (rt_gas_counter s) + 53 \<le> unat (rt_gas_limit s)"
  shows "\<exists>t. invoke_index W (chain_provider E) BLOCK_HASH_FUNC args s = (Crash, t)"
proof -
  have "adjusted_charge W (\<lambda>sch. Ok (sc_blockhash_gas sch)) s = charge_amount 53 s"
    using adjusted_charge_run [OF assms(3), of "\<lambda>sch. Ok (sc_blockhash_gas sch)" 20 W]
    by (simp add: sc_prices adjusted_def)
  moreover have "affordable 53 s" using assms(4) by (simp add: affordable_def)
  ultimately show ?thesis
    using assms(1,2)
    by (simp add: invoke_simps void_def trap_of_def rt_block_hash_def rbind_def charge_amount_run
        arg_u64_run of_state_def block_hash_def chain_provider_def chain_block_hash_def)
qed

lemma block_hash_panics_witness:
  "\<exists>t. invoke_index (script_host []) sample_provider BLOCK_HASH_FUNC [1, 0] sample_runtime = (Crash, t)"
  by (rule block_hash_panics [where n = 1])
    (simp_all add: sample_chain_def blockchain_new_def)

text \<open>
  Between calls, the hash of a transaction covers everything: the hashed bytes of two
  calls are equal only if sender, value, gas, gas price, callee and arguments are.
\<close>

theorem call_bytes_injective:
  assumes "transaction_bytes (make_call s a v g gp args) = transaction_bytes (make_call s' a' v' g' gp' args')"
  shows "s = s' \<and> a = a' \<and> v = v' \<and> g = g' \<and> gp = gp' \<and> args = args'"
  using assms
  by (simp add: transaction_bytes_def make_call_def action_bytes_def be_bytes_inject le_bytes_inject)

lemma call_bytes_injective_witness:
  "let tx = make_call 1 2 3 4 5 [6] in transaction_bytes tx = transaction_bytes tx \<and> (1::address) = 1"
  using call_bytes_injective [of 1 2 3 4 5 "[6]" 1 2 3 4 5 "[6]"] by simp

text \<open>
  Between deployments it does not: moving the border between code, salt and arguments
  gives a different transaction with the same hash, so the stored result of one replaces the
  other's.
\<close>

theorem create_hash_collision:
  "\<exists>t t'. t \<noteq> t' \<and> is_create (tx_action t) \<and> is_create (tx_action t') \<and>
    transaction_hash E t = transaction_hash E t'"
proof -
  let ?t = "make_create 1 0 0 0 [] [0] 0" and ?t' = "make_create 1 0 0 0 [0] [] 0"
  have "be_bytes 32 (0 :: h256) @ [0] = 0 # be_bytes 32 (0 :: h256)" by code_simp
  then have "transaction_bytes ?t = transaction_bytes ?t'"
    by (simp add: transaction_bytes_def make_create_def action_bytes_def)
  then show ?thesis
    by (intro exI [of _ ?t] exI [of _ ?t'])
      (simp add: transaction_hash_def make_create_def is_create_def)
qed

end
