(* ===== verification/Simulation.thy ===== *)
theory Simulation
  imports Commit_Laws
begin

text \<open>
  Two providers of which a contract sees the same cannot be told apart by an execution: the same
  steps, the same charges, the same replies, the same result, and the same accounts and storage
  afterwards. A relation between the two runtimes, kept by every host call, and the composition
  rules that prove it.
\<close>

section \<open>Operations that simulate each other\<close>

named_theorems sim_intros

definition simulates ::
  "('s \<Rightarrow> 't \<Rightarrow> bool) \<Rightarrow> ('s, 'e, 'a) oper \<Rightarrow> ('t, 'e, 'a) oper \<Rightarrow> bool" where
  "simulates R m n \<longleftrightarrow> (\<forall>s t. R s t \<longrightarrow> fst (m s) = fst (n t) \<and> R (snd (m s)) (snd (n t)))"

lemma simI:
  "(\<And>s t. R s t \<Longrightarrow> fst (m s) = fst (n t) \<and> R (snd (m s)) (snd (n t))) \<Longrightarrow> simulates R m n"
  by (simp add: simulates_def)

lemma simD: "simulates R m n \<Longrightarrow> R s t \<Longrightarrow> fst (m s) = fst (n t) \<and> R (snd (m s)) (snd (n t))"
  by (simp add: simulates_def)

lemma sim_run:
  assumes "simulates R m n" and "R s t" and "m s = (r, s')"
  obtains t' where "n t = (r, t')" and "R s' t'"
  using simD [OF assms(1,2)] assms(3) by (cases "n t") auto

lemma sim_pure [sim_intros]: "simulates R (pure x) (pure x)"
  by (simp add: simulates_def pure_def)

lemma sim_fail [sim_intros]: "simulates R (fail e) (fail e)"
  by (simp add: simulates_def fail_def)

lemma sim_lift [sim_intros]: "simulates R (lift r) (lift r)"
  by (simp add: simulates_def lift_def)

lemma sim_rbind [sim_intros]:
  assumes m: "simulates R m n" and f: "\<And>x. simulates R (f x) (g x)"
  shows "simulates R (rbind m f) (rbind n g)"
proof (rule simI)
  fix s t
  assume R: "R s t"
  obtain r s' where run: "m s = (r, s')" by fastforce
  from m R run obtain t' where run': "n t = (r, t')" and R': "R s' t'" by (rule sim_run)
  show "fst (rbind m f s) = fst (rbind n g t) \<and> R (snd (rbind m f s)) (snd (rbind n g t))"
    using run run' R' simD [OF f R'] by (cases r) (simp_all add: rbind_def)
qed

lemma sim_if [sim_intros]:
  "simulates R m n \<Longrightarrow> simulates R m' n' \<Longrightarrow> simulates R (if b then m else m') (if b then n else n')"
  by simp

lemma sim_option [sim_intros]:
  "simulates R m n \<Longrightarrow> (\<And>x. simulates R (f x) (g x)) \<Longrightarrow>
    simulates R (case v of None \<Rightarrow> m | Some x \<Rightarrow> f x) (case v of None \<Rightarrow> n | Some x \<Rightarrow> g x)"
  by (cases v) simp_all

text \<open>Operations that read something both states agree on, and operations that change neither state.\<close>

lemma sim_env:
  "(\<And>s t. R s t \<Longrightarrow> f s = g t) \<Longrightarrow> (\<And>x. simulates R (m x) (n x)) \<Longrightarrow>
    simulates R (\<lambda>s. m (f s) s) (\<lambda>t. n (g t) t)"
  by (simp add: simulates_def)

lemma sim_const:
  "(\<And>s t. R s t \<Longrightarrow> fst (m s) = fst (n t)) \<Longrightarrow> (\<And>s. snd (m s) = s) \<Longrightarrow> (\<And>t. snd (n t) = t) \<Longrightarrow>
    simulates R m n"
  by (simp add: simulates_def)

section \<open>Providers that look alike\<close>

definition alike :: "address \<Rightarrow> 'p provider \<Rightarrow> 'q provider \<Rightarrow> 'p \<Rightarrow> 'q \<Rightarrow> bool" where
  "alike c P Q p q \<longleftrightarrow> quiet P p \<and> quiet Q q \<and> acct P p c = acct Q q c \<and> stored P p c = stored Q q c \<and>
     pv_block_number P p = pv_block_number Q q \<and> pv_block_hash P p = pv_block_hash Q q \<and>
     pv_block_author P p = pv_block_author Q q \<and> pv_difficulty P p = pv_difficulty Q q \<and>
     pv_gas_limit P p = pv_gas_limit Q q"

definition st_alike :: "address \<Rightarrow> 'p provider \<Rightarrow> 'q provider \<Rightarrow> 'p state \<Rightarrow> 'q state \<Rightarrow> bool" where
  "st_alike c P Q s t \<longleftrightarrow> st_accounts s = st_accounts t \<and> alike c P Q (st_provider s) (st_provider t)"

definition rt_alike ::
  "address \<Rightarrow> 'p provider \<Rightarrow> 'q provider \<Rightarrow> ('mem, 'p) runtime \<Rightarrow> ('mem, 'q) runtime \<Rightarrow> bool" where
  "rt_alike c P Q u v \<longleftrightarrow> rt_schedule u = rt_schedule v \<and> rt_gas_counter u = rt_gas_counter v \<and>
     rt_gas_limit u = rt_gas_limit v \<and> rt_params u = rt_params v \<and> rt_memory u = rt_memory v \<and>
     rt_result u = rt_result v \<and> rt_logs u = rt_logs v \<and> ap_address (rt_params v) = c \<and>
     st_alike c P Q (rt_state u) (rt_state v)"

lemma alike_sym: "alike c P Q p q \<Longrightarrow> alike c Q P q p"
  by (simp add: alike_def)

lemma rt_alike_sym: "rt_alike c P Q u v \<Longrightarrow> rt_alike c Q P v u"
  by (simp add: rt_alike_def st_alike_def alike_sym)

lemma rt_alikeD:
  assumes "rt_alike c P Q u v"
  shows "rt_schedule u = rt_schedule v" and "rt_gas_counter u = rt_gas_counter v"
    and "rt_gas_limit u = rt_gas_limit v" and "rt_params u = rt_params v"
    and "rt_memory u = rt_memory v" and "rt_result u = rt_result v" and "rt_logs u = rt_logs v"
    and "st_alike c P Q (rt_state u) (rt_state v)" and "ap_address (rt_params u) = c"
  using assms by (simp_all add: rt_alike_def)

text \<open>What a contract reads through the cache is the same on both sides.\<close>

lemma alike_views:
  assumes "st_alike c P Q s t"
  shows "quiet P (st_provider s)" and "quiet Q (st_provider t)" and "cached P s c = cached Q t c"
    and "loaded P s c = loaded Q t c" and "storage_view P s c = storage_view Q t c"
proof -
  from assms have accs: "st_accounts s = st_accounts t"
    and acct: "acct P (st_provider s) c = acct Q (st_provider t) c"
    and stored: "stored P (st_provider s) c = stored Q (st_provider t) c"
    and "quiet P (st_provider s)" and "quiet Q (st_provider t)"
    by (simp_all add: st_alike_def alike_def)
  then show "quiet P (st_provider s)" and "quiet Q (st_provider t)" by simp_all
  show cached: "cached P s c = cached Q t c"
    by (simp add: cached_def fetched_def accs acct split: option.split)
  show "loaded P s c = loaded Q t c" and "storage_view P s c = storage_view Q t c"
    by (intro ext, simp add: loaded_def storage_view_def cached stored split: option.split)+
qed

lemma st_alike_put: "st_alike c P Q s t \<Longrightarrow> st_alike c P Q (put_account a e s) (put_account a e t)"
  by (simp add: st_alike_def)

lemma sim_storage_at [sim_intros]: "simulates (st_alike c P Q) (storage_at P c k) (storage_at Q c k)"
  by (rule simI) (simp add: storage_at_run alike_views st_alike_put)

lemma sim_set_storage [sim_intros]: "simulates (st_alike c P Q) (set_storage P c k v) (set_storage Q c k v)"
  by (rule simI) (simp add: set_storage_run alike_views st_alike_put)

lemma sim_balance [sim_intros]: "simulates (st_alike c P Q) (balance P c) (balance Q c)"
  by (rule simI) (simp add: balance_run alike_views st_alike_put)

section \<open>Host calls\<close>

lemma rt_alike_state:
  "rt_alike c P Q u v \<Longrightarrow> st_alike c P Q s t \<Longrightarrow> rt_alike c P Q (u\<lparr>rt_state := s\<rparr>) (v\<lparr>rt_state := t\<rparr>)"
  by (simp add: rt_alike_def)

lemma sim_on_state [sim_intros]:
  "simulates (st_alike c P Q) m n \<Longrightarrow> simulates (rt_alike c P Q) (on_state m) (on_state n)"
proof (rule simI)
  fix u v
  assume "simulates (st_alike c P Q) m n" and uv: "rt_alike c P Q u v"
  from simD [OF this(1) rt_alikeD(8) [OF uv]] rt_alike_state [OF uv]
  show "fst (on_state m u) = fst (on_state n v) \<and> rt_alike c P Q (snd (on_state m u)) (snd (on_state n v))"
    by (simp add: on_state_def)
qed

lemma sim_of_state:
  "(\<And>s t. st_alike c P Q s t \<Longrightarrow> f s = g t) \<Longrightarrow> simulates (rt_alike c P Q) (of_state f) (of_state g)"
  by (rule sim_const) (simp_all add: of_state_def rt_alikeD(8))

lemma sim_queries [sim_intros]:
  "simulates (rt_alike c P Q) (of_state (block_hash P k)) (of_state (block_hash Q k))"
  "simulates (rt_alike c P Q) (of_state (block_number P)) (of_state (block_number Q))"
  "simulates (rt_alike c P Q) (of_state (timestamp P)) (of_state (timestamp Q))"
  "simulates (rt_alike c P Q) (of_state (block_author P)) (of_state (block_author Q))"
  "simulates (rt_alike c P Q) (of_state (difficulty P)) (of_state (difficulty Q))"
  "simulates (rt_alike c P Q) (of_state (gas_limit P)) (of_state (gas_limit Q))"
  by (rule sim_of_state; simp add: st_alike_def alike_def block_hash_def block_number_def timestamp_def
      block_author_def difficulty_def gas_limit_def)+

lemma sim_arg_u32 [sim_intros]: "simulates R (arg_u32 W args i) (arg_u32 W args i)"
  unfolding arg_u32_def by (rule sim_lift)

lemma sim_arg_u64 [sim_intros]: "simulates R (arg_u64 W args i) (arg_u64 W args i)"
  unfolding arg_u64_def by (rule sim_lift)

lemma sim_mem_get [sim_intros]: "simulates (rt_alike c P Q) (mem_get W p n) (mem_get W p n)"
  by (rule sim_const) (simp_all add: mem_get_def rt_alikeD(5))

lemma sim_mem_get_into [sim_intros]: "simulates (rt_alike c P Q) (mem_get_into W p n) (mem_get_into W p n)"
  by (rule sim_const) (simp_all add: mem_get_into_def rt_alikeD(5))

lemma sim_mem_set [sim_intros]: "simulates (rt_alike c P Q) (mem_set W p v) (mem_set W p v)"
  by (rule simI) (auto simp: mem_set_def rt_alike_def split: sum.split)

lemma sim_asks:
  "(\<And>s t. R s t \<Longrightarrow> f s = g t) \<Longrightarrow> simulates R (asks f) (asks g)"
  by (simp add: simulates_def asks_def)

lemma sim_asks_params [sim_intros]:
  "simulates (rt_alike c P Q) (asks (\<lambda>s. f (rt_params s))) (asks (\<lambda>s. f (rt_params s)))"
  by (rule sim_asks) (simp add: rt_alikeD(4))

lemma sim_with_address [sim_intros]:
  "simulates (rt_alike c P Q) (f c) (g c) \<Longrightarrow> simulates (rt_alike c P Q) (with_address f) (with_address g)"
  by (rule simI) (simp add: with_address_def rt_alikeD(9) rt_alikeD(4) [symmetric] simD)

lemma sim_charge_amount [sim_intros]: "simulates (rt_alike c P Q) (charge_amount k) (charge_amount k)"
  by (rule simI) (auto simp: charge_amount_run affordable_def rt_alike_def)

lemma sim_schedule:
  "(\<And>x. simulates (rt_alike c P Q) (m x) (n x)) \<Longrightarrow>
    simulates (rt_alike c P Q) (\<lambda>s. m (rt_schedule s) s) (\<lambda>t. n (rt_schedule t) t)"
  by (rule sim_env) (simp_all add: rt_alikeD(1))

lemma sim_charge [sim_intros]: "simulates (rt_alike c P Q) (charge f) (charge f)"
  unfolding charge_def [abs_def] by (rule sim_schedule) (intro sim_intros)

lemma sim_overflow_charge [sim_intros]: "simulates (rt_alike c P Q) (overflow_charge f) (overflow_charge f)"
  unfolding overflow_charge_def [abs_def] by (rule sim_schedule) (intro sim_intros)

lemma sim_adjusted [sim_intros]:
  "simulates (rt_alike c P Q) (adjusted_charge W f) (adjusted_charge W f)"
  "simulates (rt_alike c P Q) (adjusted_overflow_charge g) (adjusted_overflow_charge g)"
  unfolding adjusted_charge_def adjusted_overflow_charge_def by (intro sim_intros)+

lemma sim_words [sim_intros]:
  "simulates (rt_alike c P Q) (h256_at W p) (h256_at W p)"
  "simulates (rt_alike c P Q) (address_at W p) (address_at W p)"
  "simulates (rt_alike c P Q) (u256_at W p) (u256_at W p)"
  "simulates (rt_alike c P Q) (return_address_ptr W p a) (return_address_ptr W p a)"
  "simulates (rt_alike c P Q) (return_u256_ptr W p x) (return_u256_ptr W p x)"
  unfolding h256_at_def address_at_def u256_at_def return_address_ptr_def return_u256_ptr_def
  by (intro sim_intros)+

lemma sim_storage_read [sim_intros]: "simulates (rt_alike c P Q) (storage_read W P args) (storage_read W Q args)"
  unfolding storage_read_def by (intro sim_intros)

lemma sim_storage_write [sim_intros]:
  "simulates (rt_alike c P Q) (storage_write W P args) (storage_write W Q args)"
  unfolding storage_write_def by (intro sim_intros) (simp add: simulates_def add_sstore_refund_def pure_def)

lemma sim_modify:
  "(\<And>s t. R s t \<Longrightarrow> R (f s) (g t)) \<Longrightarrow> simulates R (modify f) (modify g)"
  by (simp add: simulates_def modify_def)

lemma sim_ret [sim_intros]: "simulates (rt_alike c P Q) (ret W args) (ret W args)"
  unfolding ret_def by (intro sim_intros sim_modify) (simp add: rt_alike_def)

lemma sim_read_topics [sim_intros]:
  "simulates (rt_alike c P Q) (read_topics W p i n) (read_topics W p i n)"
  by (induction n arbitrary: i) (auto intro!: sim_intros)

lemma sim_elog [sim_intros]: "simulates (rt_alike c P Q) (elog W args) (elog W args)"
  unfolding elog_def by (intro sim_intros sim_modify) (simp add: rt_alike_def)

lemma sim_checked_adjust [sim_intros]:
  "simulates (rt_alike c P Q) (\<lambda>s. lift (checked_adjust (rt_schedule s) g) s)
     (\<lambda>s. lift (checked_adjust (rt_schedule s) g) s)"
  by (rule sim_schedule) (rule sim_lift)

lemma sim_do_call [sim_intros]: "simulates (rt_alike c P Q) (do_call W P b t args) (do_call W Q b t args)"
  unfolding do_call_def Let_def by (intro sim_intros)

lemma sim_gasleft [sim_intros]: "simulates (rt_alike c P Q) (gasleft W) (gasleft W)"
  by (rule sim_const)
    (auto simp: gasleft_def gas_left_def rt_alikeD rbind_def lift_def pure_def split: outcome.split)

lemmas call_defs = gas_def fetch_input_def panic_def debug_def ccall_def create_def suicide_def
  value_passed_def rt_block_hash_def rt_block_number_def rt_block_author_def rt_difficulty_def
  gaslimit_def rt_timestamp_def own_address_def sender_def origin_def

lemma sim_trap_of: "simulates R m n \<Longrightarrow> simulates R (trap_of m) (trap_of n)"
  by (simp add: simulates_def trap_of_def)

lemma sim_void: "simulates (rt_alike c P Q) m n \<Longrightarrow> simulates (rt_alike c P Q) (void m) (void n)"
  unfolding void_def by (intro sim_intros sim_trap_of)

lemma sim_some: "simulates (rt_alike c P Q) m n \<Longrightarrow> simulates (rt_alike c P Q) (some m) (some n)"
  unfolding some_def by (intro sim_intros sim_trap_of)

lemma sim_cast: "simulates (rt_alike c P Q) (cast input_length) (cast input_length)"
  by (rule sim_const) (simp_all add: cast_def input_length_def rt_alikeD(4))

lemma sim_crash: "simulates R (\<lambda>s. (Crash, s)) (\<lambda>s. (Crash, s))"
  by (simp add: simulates_def)

lemma sim_invoke: "simulates (rt_alike c P Q) (invoke_index W P i args) (invoke_index W Q i args)"
  unfolding invoke_index_def call_defs
  by (intro sim_if sim_void sim_some sim_cast sim_crash sim_intros)

section \<open>Runs\<close>

lemma rt_alike_memory: "rt_alike c P Q u v \<Longrightarrow> rt_alike c P Q (u\<lparr>rt_memory := m\<rparr>) (v\<lparr>rt_memory := m\<rparr>)"
  by (simp add: rt_alike_def)

lemma run_guest_follows:
  assumes "run_guest W P step cfg u = Some (r, u')" and "rt_alike c P Q u v"
  shows "\<exists>v'. run_guest W Q step cfg v = Some (r, v') \<and> rt_alike c P Q u' v'"
  using assms
proof (induction arbitrary: v rule: run_guest_induct)
  case (finished cfg s k m)
  then show ?case
    by (subst run_guest.simps) (simp add: rt_alikeD(5) [symmetric] rt_alike_memory)
next
  case (internal cfg s cfg' m r t)
  then show ?case
    by (subst run_guest.simps) (simp add: rt_alikeD(5) [symmetric] rt_alike_memory)
next
  case (reply cfg s i a m k x u r t)
  obtain v' where "invoke_index W Q i a (v\<lparr>rt_memory := m\<rparr>) = (Ok x, v')" "rt_alike c P Q u v'"
    using sim_run [OF sim_invoke rt_alike_memory [OF reply.prems] reply.hyps(2)] .
  with reply show ?case
    by (subst run_guest.simps) (simp add: rt_alikeD(5) [symmetric])
next
  case (trap cfg s i a m k x u r t)
  obtain v' where "invoke_index W Q i a (v\<lparr>rt_memory := m\<rparr>) = (Err x, v')" "rt_alike c P Q u v'"
    using sim_run [OF sim_invoke rt_alike_memory [OF trap.prems] trap.hyps(2)] .
  with trap show ?case
    by (subst run_guest.simps) (simp add: rt_alikeD(5) [symmetric])
next
  case (crash cfg s i a m k u)
  obtain v' where "invoke_index W Q i a (v\<lparr>rt_memory := m\<rparr>) = (Crash, v')" "rt_alike c P Q u v'"
    using sim_run [OF sim_invoke rt_alike_memory [OF crash.prems] crash.hyps(2)] .
  with crash show ?case
    by (subst run_guest.simps) (simp add: rt_alikeD(5) [symmetric])
qed

text \<open>Both return, with the same outcome and related states, or neither does.\<close>

abbreviation matched ::
  "('s \<Rightarrow> 't \<Rightarrow> bool) \<Rightarrow> ('a \<times> 's) option \<Rightarrow> ('a \<times> 't) option \<Rightarrow> bool" where
  "matched R \<equiv> rel_option (rel_prod (=) R)"

lemma matchedI:
  assumes "\<And>r s. x = Some (r, s) \<Longrightarrow> \<exists>t. y = Some (r, t) \<and> R s t"
    and "\<And>r t. y = Some (r, t) \<Longrightarrow> \<exists>s. x = Some (r, s)"
  shows "matched R x y"
proof (cases x)
  case None
  then show ?thesis using assms(2) by (cases y) auto
next
  case (Some a)
  with assms(1) [of "fst a" "snd a"] show ?thesis by (cases a) auto
qed

lemma matched_map:
  "matched R x y \<Longrightarrow> matched R (map_option (\<lambda>(r, s). (f r, s)) x) (map_option (\<lambda>(r, s). (f r, s)) y)"
  by (cases x; cases y) auto

lemma run_guest_matched:
  "rt_alike c P Q u v \<Longrightarrow> matched (rt_alike c P Q) (run_guest W P step cfg u) (run_guest W Q step cfg v)"
  by (rule matchedI) (blast dest: run_guest_follows rt_alike_sym)+

lemma run_start_matched:
  "rt_alike c P Q u v \<Longrightarrow> matched (rt_alike c P Q) (run_start E P inst u) (run_start E Q inst v)"
  by (simp add: run_start_def run_guest_matched split: option.split)

lemma invoke_export_matched:
  assumes "rt_alike c P Q u v"
  shows "matched (rt_alike c P Q) (invoke_export E P inst name u) (invoke_export E Q inst name v)"
proof (cases "en_export E inst name")
  case (Inr cfg)
  show ?thesis
    unfolding invoke_export_def Inr sum.case by (intro matched_map run_guest_matched assms)
qed (simp add: invoke_export_def assms)

text \<open>A run of a contract up to its end.\<close>

lemma run_until_matched:
  assumes "rt_alike c P Q u v"
  shows "matched (rt_alike c P Q) (run_until E P inst pages u) (run_until E Q inst pages v)"
proof -
  let ?m = "rbind (lift (schedule_wasm (rt_schedule v))) (\<lambda>w.
    if wc_initial_mem w < 65536 then initial_charge (wh_overflow_checks (en_host E)) pages else lift Crash)"
  have sim: "simulates (rt_alike c P Q) ?m ?m"
    unfolding initial_charge_def by (intro sim_intros)
  obtain r u1 where m: "?m u = (r, u1)" by fastforce
  from sim assms m obtain v1 where m': "?m v = (r, v1)" and one: "rt_alike c P Q u1 v1" by (rule sim_run)
  show ?thesis
  proof (cases r)
    case (Ok x)
    from run_start_matched [OF one, of E inst] show ?thesis
    proof (cases rule: option.rel_cases)
      case None
      with m m' Ok show ?thesis by (simp add: run_until_def rt_alikeD(1) [OF assms])
    next
      case (Some a b)
      obtain q u2 v2 where two: "a = (q, u2)" "b = (q, v2)" "rt_alike c P Q u2 v2"
        using Some(3) by (cases a; cases b) auto
      from invoke_export_matched [OF two(3), of E inst "''call''"] m m' Ok Some(1,2) two show ?thesis
        by (cases q) (simp_all add: run_until_def rt_alikeD(1) [OF assms] matched_map)
    qed
  qed (use m m' one in \<open>simp_all add: run_until_def rt_alikeD(1) [OF assms]\<close>)
qed

section \<open>Executions\<close>

lemma prepare_cong:
  "make_params (en_keccak E) P p tx = make_params (en_keccak E) Q q tx \<Longrightarrow>
    prepare E P p tx = prepare E Q q tx"
  by (simp add: prepare_def)

lemma execute_until:
  "execute E H P tx p = (case prepare E P p tx of
      Err e \<Rightarrow> Some (Err e, p)
    | Crash \<Rightarrow> Some (Crash, p)
    | Ok (params, inst, limit, pages, mem) \<Rightarrow>
        map_option (\<lambda>(r, u). let (x, t) = rbind (lift r) (\<lambda>_. finish H P tx) u in (x, st_provider (rt_state t)))
          (run_until E P inst pages (runtime_new params execute_schedule (state_new p) mem limit)))"
  by (auto simp: execute_def run_contract_until option.map_comp Let_def
      split: outcome.split prod.split intro!: map_option_cong)

text \<open>What is left behind: the two sides agree on the contract, and neither has changed elsewhere.\<close>

definition elsewhere :: "address \<Rightarrow> 'p provider \<Rightarrow> 'p \<Rightarrow> 'p \<Rightarrow> bool" where
  "elsewhere c P p p' \<longleftrightarrow>
     (\<forall>b. b \<noteq> c \<longrightarrow> acct P p' b = acct P p b \<and> stored P p' b = stored P p b)"

definition left_alike ::
  "address \<Rightarrow> 'p provider \<Rightarrow> 'q provider \<Rightarrow> ('p \<Rightarrow> bool) \<Rightarrow> ('q \<Rightarrow> bool) \<Rightarrow> 'p \<Rightarrow> 'q \<Rightarrow> 'p \<Rightarrow> 'q \<Rightarrow> bool" where
  "left_alike c P Q I J p q p' q' \<longleftrightarrow> I p' \<and> J q' \<and> acct P p' c = acct Q q' c \<and>
     stored P p' c = stored Q q' c \<and> elsewhere c P p p' \<and> elsewhere c Q q q'"

lemma elsewhere_refl [simp]: "elsewhere c P p p"
  by (simp add: elsewhere_def)

lemma committed_elsewhere: "b \<noteq> c \<Longrightarrow> committed fresh tx c code base b = base b"
  by (simp add: committed_def)

lemma committed_at: "base c = base' c \<Longrightarrow> committed fresh tx c code base c = committed fresh tx c code base' c"
  by (simp add: committed_def)

lemma until_own:
  assumes run: "run_until E P inst pages (runtime_new params execute_schedule (state_new p) mem limit) = Some (r, u)"
  shows "st_provider (rt_state u) = p" and "own P (ap_address params) (rt_state u)"
    and "rt_params u = params" and "rt_schedule u = execute_schedule"
    and "rt_gas_counter u \<le> rt_gas_limit u"
proof -
  let ?s0 = "runtime_new params execute_schedule (state_new p) mem limit"
  have "ap_address (rt_params ?s0) = ap_address params" by (simp add: runtime_new_def)
  note d = rt_reachD [OF run_until_reach [OF run] this]
  show "st_provider (rt_state u) = p" and "own P (ap_address params) (rt_state u)"
    using d(4) own_new [of P "ap_address params" p] by (simp_all add: st_own_def runtime_new_def)
      (simp add: state_new_def)
  show "rt_params u = params" and "rt_schedule u = execute_schedule"
    and "rt_gas_counter u \<le> rt_gas_limit u"
    using d(1-3,6) by (simp_all add: runtime_new_def)
qed

lemma finish_alike:
  fixes P :: "'p provider" and Q :: "'q provider"
  assumes A: "provider_store P I room fresh updates" and B: "provider_store Q J room' fresh updates'"
    and fair: "fair_orders H" "fair_orders H'" and inv: "I p" "J q"
    and eq: "acct P p c = acct Q q c" "stored P p c = stored Q q c"
    and room: "is_create (tx_action tx) \<Longrightarrow> 0 < room p \<and> 0 < room' q"
    and can: "is_create (tx_action tx) \<Longrightarrow> updates \<and> updates' \<or> acct P p c = None"
    and exist: "\<not> is_create (tx_action tx) \<Longrightarrow> acct P p c \<noteq> None"
    and uv: "rt_alike c P Q u v" and own: "own P c (rt_state u)" "own Q c (rt_state v)"
    and prov: "st_provider (rt_state u) = p" "st_provider (rt_state v) = q"
    and u: "rt_schedule u = execute_schedule" "rt_gas_counter u \<le> rt_gas_limit u"
  shows "\<exists>r t t'. finish H P tx u = (r, t) \<and> finish H' Q tx v = (r, t') \<and>
    left_alike c P Q I J p q (st_provider (rt_state t)) (st_provider (rt_state t'))"
proof -
  note same = rt_alikeD [OF uv]
  have v: "ap_address (rt_params v) = c" "rt_schedule v = execute_schedule" "rt_gas_counter v \<le> rt_gas_limit v"
    using u same by simp_all
  show ?thesis
  proof (cases "rt_result u = []")
    case True
    with same prov inv eq show ?thesis
      by (simp add: finish_run [OF u(2,1)] finish_run [OF v(3,2)] Let_def left_alike_def)
  next
    case False
    from room can exist eq
    have conds: "is_create (tx_action tx) \<Longrightarrow> 0 < room p" "is_create (tx_action tx) \<Longrightarrow> 0 < room' q"
      "is_create (tx_action tx) \<Longrightarrow> updates \<or> acct P p c = None"
      "is_create (tx_action tx) \<Longrightarrow> updates' \<or> acct Q q c = None"
      "\<not> is_create (tx_action tx) \<Longrightarrow> acct P p c \<noteq> None"
      "\<not> is_create (tx_action tx) \<Longrightarrow> acct Q q c \<noteq> None" by auto
    obtain s where P: "finish H P tx u = (Ok \<lparr>rd_gas_left = refund (rt_gas_limit u - rt_gas_counter u),
        rd_data = rt_result u, rd_contract = c, rd_logs = []\<rparr>, u\<lparr>rt_state := s\<rparr>)" "I (st_provider s)"
      "acct P (st_provider s) = committed fresh tx c (rt_result u) (acct P p)"
      "stored P (st_provider s) = (stored P p)(c := stored P p c ++ writes (st_accounts (rt_state u)) c)"
      using provider_store.finish_commit [OF A inv(1) fair(1) conds(1,3) prov(1) own(1) same(9) u conds(5) False]
      by blast
    have False': "rt_result v \<noteq> []" using False same by simp
    obtain t where Q: "finish H' Q tx v = (Ok \<lparr>rd_gas_left = refund (rt_gas_limit v - rt_gas_counter v),
        rd_data = rt_result v, rd_contract = c, rd_logs = []\<rparr>, v\<lparr>rt_state := t\<rparr>)" "J (st_provider t)"
      "acct Q (st_provider t) = committed fresh tx c (rt_result v) (acct Q q)"
      "stored Q (st_provider t) = (stored Q q)(c := stored Q q c ++ writes (st_accounts (rt_state v)) c)"
      using provider_store.finish_commit [OF B inv(2) fair(2) conds(2,4) prov(2) own(2) v conds(6) False']
      by blast
    have "st_accounts (rt_state u) = st_accounts (rt_state v)" using same(8) by (simp add: st_alike_def)
    moreover have "committed fresh tx c (rt_result v) (acct P p) c = committed fresh tx c (rt_result v) (acct Q q) c"
      by (rule committed_at) (rule eq(1))
    ultimately show ?thesis
      using P Q same eq by (simp add: left_alike_def elsewhere_def committed_elsewhere)
  qed
qed

text \<open>
  The skeleton of a whole execution on two sides: what holds of the two ways to stop early with
  the provider untouched, and of the two ways to finish after the same run, holds of the two
  executions.
\<close>

lemma execute_related:
  fixes E :: "('args, 'mem, 'pmod, 'wmod, 'inst, 'cfg) engine" and P :: "'p provider" and Q :: "'q provider"
  assumes alike: "alike (target (en_keccak E) tx) P Q p q"
    and params: "make_params (en_keccak E) P p tx = make_params (en_keccak E) Q q tx"
    and stop: "\<And>r. (\<forall>rd. r \<noteq> Ok rd) \<Longrightarrow> K (r, p) (r, q)"
    and finish: "\<And>(u :: ('mem, 'p) runtime) (v :: ('mem, 'q) runtime). rt_alike (target (en_keccak E) tx) P Q u v \<Longrightarrow>
      own P (target (en_keccak E) tx) (rt_state u) \<Longrightarrow> own Q (target (en_keccak E) tx) (rt_state v) \<Longrightarrow>
      st_provider (rt_state u) = p \<Longrightarrow> st_provider (rt_state v) = q \<Longrightarrow>
      rt_schedule u = execute_schedule \<Longrightarrow> rt_gas_counter u \<le> rt_gas_limit u \<Longrightarrow>
      (\<not> is_create (tx_action tx) \<Longrightarrow> acct P p (target (en_keccak E) tx) \<noteq> None) \<Longrightarrow>
      \<exists>x y s t. finish H P tx u = (x, s) \<and> finish H' Q tx v = (y, t) \<and>
        K (x, st_provider (rt_state s)) (y, st_provider (rt_state t))"
  shows "rel_option K (execute E H P tx p) (execute E H' Q tx q)"
proof (cases "prepare E P p tx")
  case (Ok x)
  let ?c = "target (en_keccak E) tx"
  obtain params inst limit pages mem where x: "x = (params, inst, limit, pages, mem)" by (cases x) auto
  let ?u = "runtime_new params execute_schedule (state_new p) mem limit"
  let ?v = "runtime_new params execute_schedule (state_new q) mem limit"
  note par = make_params_Ok [OF prepare_Ok(1) [OF Ok [unfolded x]]]
  have "rt_alike ?c P Q ?u ?v"
    using alike par(1) by (simp add: rt_alike_def st_alike_def runtime_new_def state_new_def)
  from run_until_matched [OF this, of E inst pages] show ?thesis
  proof (cases rule: option.rel_cases)
    case None
    then show ?thesis
      using Ok x prepare_cong [OF params] by (simp add: execute_until)
  next
    case (Some a b)
    obtain r u v where b: "a = (r, u)" "b = (r, v)" and uv: "rt_alike ?c P Q u v"
      using Some(3) by (cases a; cases b) auto
    note U = until_own [OF Some(1) [unfolded b]] and V = until_own [OF Some(2) [unfolded b]]
    have "\<exists>x y s t. rbind (lift r) (\<lambda>_. finish H P tx) u = (x, s) \<and>
        rbind (lift r) (\<lambda>_. finish H' Q tx) v = (y, t) \<and>
        K (x, st_provider (rt_state s)) (y, st_provider (rt_state t))"
    proof (cases r)
      case (Ok y)
      from finish [OF uv U(2) [unfolded par(1)] V(2) [unfolded par(1)] U(1) V(1) U(4,5) par(3)] Ok
      show ?thesis by (simp add: rbind_lift)
    qed (use U V stop in \<open>simp_all add: rbind_lift\<close>)
    then show ?thesis
      using Ok x b Some(1,2) prepare_cong [OF params] by (auto simp: execute_until Let_def)
  qed
qed (use stop prepare_cong [OF params] in \<open>simp_all add: execute_until\<close>)

text \<open>
  An execution depends on what can be read of the provider at the contract's address, on the
  information on blocks, and on nothing else.
\<close>

theorem execute_alike:
  fixes E :: "('args, 'mem, 'pmod, 'wmod, 'inst, 'cfg) engine"
  assumes A: "provider_store P I room fresh updates" and B: "provider_store Q J room' fresh updates'"
    and fair: "fair_orders H" "fair_orders H'"
    and inv: "I p" "J q" and alike: "alike (target (en_keccak E) tx) P Q p q"
    and room: "is_create (tx_action tx) \<Longrightarrow> 0 < room p \<and> 0 < room' q"
    and can: "is_create (tx_action tx) \<Longrightarrow>
      updates \<and> updates' \<or> acct P p (target (en_keccak E) tx) = None"
    and params: "make_params (en_keccak E) P p tx = make_params (en_keccak E) Q q tx"
  shows "matched (left_alike (target (en_keccak E) tx) P Q I J p q) (execute E H P tx p) (execute E H' Q tx q)"
proof -
  have eq: "acct P p (target (en_keccak E) tx) = acct Q q (target (en_keccak E) tx)"
    "stored P p (target (en_keccak E) tx) = stored Q q (target (en_keccak E) tx)"
    using alike by (simp_all add: alike_def)
  show ?thesis
  proof (rule execute_related [OF alike params])
    fix r :: "(error, result_data) outcome"
    show "rel_prod (=) (left_alike (target (en_keccak E) tx) P Q I J p q) (r, p) (r, q)"
      using inv eq by (simp add: left_alike_def)
  next
    fix u v
    assume "rt_alike (target (en_keccak E) tx) P Q u v" "own P (target (en_keccak E) tx) (rt_state u)"
      "own Q (target (en_keccak E) tx) (rt_state v)" "st_provider (rt_state u) = p" "st_provider (rt_state v) = q"
      "rt_schedule u = execute_schedule" "rt_gas_counter u \<le> rt_gas_limit u"
      "\<not> is_create (tx_action tx) \<Longrightarrow> acct P p (target (en_keccak E) tx) \<noteq> None"
    from finish_alike [where tx = tx, OF A B fair inv eq room can this(8,1-7)]
    show "\<exists>x y s t. finish H P tx u = (x, s) \<and> finish H' Q tx v = (y, t) \<and>
        rel_prod (=) (left_alike (target (en_keccak E) tx) P Q I J p q)
          (x, st_provider (rt_state s)) (y, st_provider (rt_state t))" by auto
  qed
qed

text \<open>
  A deployment at an existing address, on a provider that refuses updates beside one that takes
  them: the same until the result is written; then an error in place of the success.
\<close>

definition refused ::
  "(error \<Rightarrow> 'p \<Rightarrow> bool) \<Rightarrow> 'p \<Rightarrow> (error, result_data) outcome \<times> 'p \<Rightarrow>
   (error, result_data) outcome \<times> 'q \<Rightarrow> bool" where
  "refused R p x y \<longleftrightarrow>
     (if \<exists>rd. fst y = Ok rd \<and> rd_data rd \<noteq> [] then \<exists>e. fst x = Err e \<and> R e (snd x)
      else fst x = fst y \<and> snd x = p)"

theorem execute_refused:
  fixes E :: "('args, 'mem, 'pmod, 'wmod, 'inst, 'cfg) engine"
  assumes A: "provider_store P I room fresh updates" and B: "provider_store Q J room' fresh True"
    and fair: "fair_orders H" "fair_orders H'"
    and inv: "I p" "J q" and alike: "alike (target (en_keccak E) tx) P Q p q"
    and create: "is_create (tx_action tx)" and room: "0 < room' q"
    and exist: "acct P p (target (en_keccak E) tx) \<noteq> None"
    and refuse: "\<And>b n. \<exists>e p'. pv_update_account P (target (en_keccak E) tx) b n p = (Err e, p') \<and> R e p'"
    and params: "make_params (en_keccak E) P p tx = make_params (en_keccak E) Q q tx"
  shows "rel_option (refused R p) (execute E H P tx p) (execute E H' Q tx q)"
proof (rule execute_related [OF alike params])
  fix r :: "(error, result_data) outcome"
  assume "\<forall>rd. r \<noteq> Ok rd"
  then show "refused R p (r, p) (r, q)" by (simp add: refused_def)
next
  let ?c = "target (en_keccak E) tx"
  fix u v
  assume uv: "rt_alike ?c P Q u v" and own: "own P ?c (rt_state u)" "own Q ?c (rt_state v)"
    and prov: "st_provider (rt_state u) = p" "st_provider (rt_state v) = q"
    and gas: "rt_schedule u = execute_schedule" "rt_gas_counter u \<le> rt_gas_limit u"
  note same = rt_alikeD [OF uv]
  have gas': "rt_schedule v = execute_schedule" "rt_gas_counter v \<le> rt_gas_limit v"
    and at: "ap_address (rt_params v) = ?c" using gas same by simp_all
  show "\<exists>x y s t. finish H P tx u = (x, s) \<and> finish H' Q tx v = (y, t) \<and>
      refused R p (x, st_provider (rt_state s)) (y, st_provider (rt_state t))"
  proof (cases "rt_result u = []")
    case True
    with same prov show ?thesis
      by (simp add: finish_run [OF gas(2,1)] finish_run [OF gas'(2,1)] Let_def refused_def)
  next
    case False
    obtain e s where P: "finish H P tx u = (Err e, s)" "R e (st_provider (rt_state s))"
      using provider_store.refused_finish [OF A inv(1) fair(1) create exist refuse prov(1) own(1) same(9) gas False]
      by blast
    have False': "rt_result v \<noteq> []" using False same by simp
    obtain t where "finish H' Q tx v = (Ok \<lparr>rd_gas_left = refund (rt_gas_limit v - rt_gas_counter v),
        rd_data = rt_result v, rd_contract = ?c, rd_logs = []\<rparr>, v\<lparr>rt_state := t\<rparr>)"
      using provider_store.finish_commit [OF B inv(2) fair(2) _ _ prov(2) own(2) at gas' _ False'] room create
      by blast
    with P False' show ?thesis by (simp add: refused_def)
  qed
qed

text \<open>When the two sides agree everywhere before, they agree everywhere afterwards.\<close>

lemma left_alike_everywhere:
  assumes "left_alike c P Q I J p q p' q'" and "acct P p = acct Q q" and "stored P p = stored Q q"
  shows "acct P p' = acct Q q'" and "stored P p' = stored Q q'"
proof -
  have "acct P p' b = acct Q q' b \<and> stored P p' b = stored Q q' b" for b
    using assms by (cases "b = c") (simp_all add: left_alike_def elsewhere_def)
  then show "acct P p' = acct Q q'" and "stored P p' = stored Q q'" by (simp_all add: fun_eq_iff)
qed

end
