(* ===== verification/Rpc_Messages.thy ===== *)
theory Rpc_Messages
  imports Execute
begin

text \<open>
  The messages that \<open>durian-server\<close> and \<open>examples/durian-client\<close> exchange (both build them from
  the same \<open>durian.capnp\<close>), and the functions on both ends that fill and read them. A field of a
  received message answers with its bytes or, when the message is malformed, with an error of
  the \<open>capnp\<close> package, of which the sources use the description only.
\<close>

section \<open>Messages\<close>

type_synonym rpc_error = string

type_synonym 'a field = "rpc_error + 'a"

datatype action_message = MsgCreate "bytes field" "bytes field" | MsgCall "bytes field"

record transaction_message =
  tm_sender :: "bytes field"
  tm_value :: "bytes field"
  tm_gas :: "bytes field"
  tm_gas_price :: "bytes field"
  tm_action :: "action_message field"
  tm_args :: "bytes field"

record result_message =
  rm_gas_left :: "bytes field"
  rm_data :: "bytes field"
  rm_contract :: "bytes field"

record account_message =
  am_nonce :: "bytes field"
  am_balance :: "bytes field"
  am_code :: "bytes field"

text \<open>The question-mark operator on a field.\<close>

definition get :: "'a field \<Rightarrow> (rpc_error, 'a) outcome" where
  "get x = of_sum (\<lambda>e. e) x"

lemma get_simps [simp]: "get (Inr x) = Ok x" "get (Inl e) = Err e"
  by (simp_all add: get_def)

section \<open>Transactions\<close>

text \<open>The client fills a new message; every field is set.\<close>

definition build_tx :: "transaction \<Rightarrow> transaction_message \<Rightarrow> transaction_message" where
  "build_tx tx builder = builder
     \<lparr>tm_sender := Inr (be_bytes 20 (tx_sender tx)),
      tm_value := Inr (le_bytes 32 (tx_value tx)),
      tm_gas := Inr (le_bytes 32 (tx_gas tx)),
      tm_gas_price := Inr (le_bytes 32 (tx_gas_price tx)),
      tm_args := Inr (tx_args tx),
      tm_action := Inr (case tx_action tx of
          Create code salt \<Rightarrow> MsgCreate (Inr code) (Inr (be_bytes 32 salt))
        | Call address \<Rightarrow> MsgCall (Inr (be_bytes 20 address)))\<rparr>"

text \<open>The server reads it; a field of the wrong length panics.\<close>

definition transaction_of_reader :: "transaction_message \<Rightarrow> (rpc_error, transaction) outcome" where
  "transaction_of_reader reader =
     obind (obind (get (tm_sender reader)) h160_from_slice) (\<lambda>sender.
     obind (obind (get (tm_value reader)) u256_from_le) (\<lambda>val.
     obind (obind (get (tm_gas reader)) u256_from_le) (\<lambda>gas.
     obind (obind (get (tm_gas_price reader)) u256_from_le) (\<lambda>gas_price.
     obind (get (tm_args reader)) (\<lambda>args.
     obind (obind (get (tm_action reader)) (\<lambda>m. case m of
         MsgCreate c s \<Rightarrow>
           obind (get c) (\<lambda>code.
           obind (obind (get s) h256_from_slice) (\<lambda>salt.
             Ok (Create code salt)))
       | MsgCall a \<Rightarrow>
           obind (obind (get a) h160_from_slice) (\<lambda>address. Ok (Call address)))) (\<lambda>action.
       Ok \<lparr>tx_sender = sender, tx_value = val, tx_gas = gas, tx_gas_price = gas_price,
           tx_action = action, tx_args = args\<rparr>))))))"

lemma transaction_build: "transaction_of_reader (build_tx tx builder) = Ok tx"
  by (cases "tx_action tx") (simp_all add: transaction_of_reader_def build_tx_def)

text \<open>A panic while reading means that a field has a length that no client writes.\<close>

lemma u256_from_le_Crash: "u256_from_le bs = Crash \<longleftrightarrow> 32 < length bs"
  by (simp add: u256_from_le_def)

section \<open>Results\<close>

text \<open>The server leaves the log entries out, and the client reads none.\<close>

definition fill_result :: "result_data \<Rightarrow> result_message \<Rightarrow> result_message" where
  "fill_result result_data builder = builder
     \<lparr>rm_gas_left := Inr (le_bytes 32 (rd_gas_left result_data)),
      rm_data := Inr (rd_data result_data),
      rm_contract := Inr (be_bytes 20 (rd_contract result_data))\<rparr>"

definition result_of_reader :: "result_message field \<Rightarrow> ('e, result_data) outcome" where
  "result_of_reader reader =
     obind (unwrap (get reader)) (\<lambda>m.
     obind (obind (unwrap (get (rm_gas_left m))) u256_from_le) (\<lambda>gas_left.
     obind (unwrap (get (rm_data m))) (\<lambda>data.
     obind (obind (unwrap (get (rm_contract m))) h160_from_slice) (\<lambda>contract.
       Ok \<lparr>rd_gas_left = gas_left, rd_data = data, rd_contract = contract, rd_logs = []\<rparr>))))"

lemma result_fill: "result_of_reader (Inr (fill_result rd builder)) = Ok (rd\<lparr>rd_logs := []\<rparr>)"
  by (cases rd) (simp add: result_of_reader_def fill_result_def)

section \<open>Accounts\<close>

definition fill_account :: "state_account \<Rightarrow> account_message \<Rightarrow> account_message" where
  "fill_account acc builder = builder
     \<lparr>am_nonce := Inr (le_bytes 32 (sa_nonce acc)),
      am_balance := Inr (le_bytes 32 (sa_balance acc)),
      am_code := Inr (sa_code acc)\<rparr>"

definition account_of_reader :: "account_message \<Rightarrow> (rpc_error, state_account) outcome" where
  "account_of_reader m =
     obind (obind (get (am_nonce m)) u256_from_le) (\<lambda>n.
     obind (obind (get (am_balance m)) u256_from_le) (\<lambda>b.
     obind (get (am_code m)) (\<lambda>c.
       Ok \<lparr>sa_nonce = n, sa_balance = b, sa_code = c\<rparr>)))"

lemma account_fill [simp]: "account_of_reader (fill_account acc builder) = Ok acc"
  by (cases acc) (simp add: account_of_reader_def fill_account_def)

end
