(* ===== verification/Remote_Provider.thy ===== *)
theory Remote_Provider
  imports Rpc_Messages Commit_Laws
begin

text \<open>
  A provider at the other end of a connection. \<open>examples/durian-client/src/provider_impl.rs\<close>
  serves a provider's methods to messages; \<open>durian-server/src/provider_adaptor.rs\<close> implements the
  provider interface by sending them. What lies between, the client object that \<open>capnp\<close>
  generates and the connection of \<open>capnp-rpc\<close>, is a parameter.
\<close>

section \<open>The serving end\<close>

text \<open>
  A method reads its parameters (the outer field is the parameter message itself), panics on
  an address or word of the wrong length, and turns an error of the provider into its text.
  \<open>update_account\<close> is not implemented.
\<close>

definition param :: "('m \<Rightarrow> bytes field) \<Rightarrow> 'm field \<Rightarrow> (rpc_error, bytes) outcome" where
  "param f params = obind (get params) (\<lambda>m. get (f m))"

lemma param_Inr [simp]: "param f (Inr m) = get (f m)"
  by (simp add: param_def)

text \<open>Errors are sent as their text; how addresses and words are shown belongs to \<open>primitive_types\<close>.\<close>

type_synonym hash_display = "(address \<Rightarrow> string) \<times> (h256 \<Rightarrow> string)"

definition display_error :: "hash_display \<Rightarrow> error \<Rightarrow> string" where
  "display_error display = error_display (fst display) (snd display)"

definition serve_exist :: "'p provider \<Rightarrow> bytes field field \<Rightarrow> ('p, rpc_error, bool) oper" where
  "serve_exist P params =
     rbind (lift (obind (param id params) h160_from_slice)) (\<lambda>address.
       asks (\<lambda>p. pv_exist P p address))"

definition serve_account ::
  "hash_display \<Rightarrow> 'p provider \<Rightarrow> account_message \<Rightarrow> bytes field field \<Rightarrow>
   ('p, rpc_error, account_message) oper" where
  "serve_account display P builder params =
     rbind (lift (obind (param id params) h160_from_slice)) (\<lambda>address.
     rbind (\<lambda>p. lift (map_err (display_error display) (pv_account P p address)) p) (\<lambda>acc.
       pure (fill_account acc builder)))"

text \<open>A method on the provider whose error becomes the text of a failure.\<close>

definition served :: "hash_display \<Rightarrow> ('p, error, 'a) oper \<Rightarrow> ('p, rpc_error, 'a) oper" where
  "served display m p = (map_err (display_error display) (fst (m p)), snd (m p))"

definition serve_create_contract ::
  "hash_display \<Rightarrow> 'p provider \<Rightarrow> (bytes field \<times> bytes field) field \<Rightarrow>
   ('p, rpc_error, unit) oper" where
  "serve_create_contract display P params =
     rbind (lift (obind (param fst params) h160_from_slice)) (\<lambda>address.
     rbind (lift (param snd params)) (\<lambda>code.
       served display (pv_create_contract P address code)))"

definition serve_storage_at ::
  "hash_display \<Rightarrow> 'p provider \<Rightarrow> (bytes field \<times> bytes field) field \<Rightarrow>
   ('p, rpc_error, bytes) oper" where
  "serve_storage_at display P params =
     rbind (lift (obind (param fst params) h160_from_slice)) (\<lambda>address.
     rbind (lift (obind (param snd params) h256_from_slice)) (\<lambda>key.
     rbind (\<lambda>p. lift (map_err (display_error display) (pv_storage_at P p address key)) p) (\<lambda>storage.
       pure (be_bytes 32 storage))))"

definition serve_set_storage ::
  "hash_display \<Rightarrow> 'p provider \<Rightarrow> (bytes field \<times> bytes field \<times> bytes field) field \<Rightarrow>
   ('p, rpc_error, unit) oper" where
  "serve_set_storage display P params =
     rbind (lift (obind (param fst params) h160_from_slice)) (\<lambda>address.
     rbind (lift (obind (param (fst \<circ> snd) params) h256_from_slice)) (\<lambda>key.
     rbind (lift (obind (param (snd \<circ> snd) params) h256_from_slice)) (\<lambda>val.
       served display (pv_set_storage P address key val))))"

section \<open>The calling end\<close>

text \<open>
  The generated client: a call sends the bytes of its arguments and answers with an error or
  with the result. The state is that of the connection and of what it reaches. The source blocks
  until a call is answered, so a call that is never answered is one from which the server's
  method does not return; here every call has an answer, which may be an error.
\<close>

record 'r provider_client =
  pc_exist :: "'r \<Rightarrow> bytes \<Rightarrow> bool field"
  pc_account :: "'r \<Rightarrow> bytes \<Rightarrow> account_message field"
  pc_create_contract :: "bytes \<Rightarrow> bytes \<Rightarrow> 'r \<Rightarrow> unit field \<times> 'r"
  pc_update_account :: "bytes \<Rightarrow> bytes \<Rightarrow> bytes \<Rightarrow> 'r \<Rightarrow> unit field \<times> 'r"
  pc_storage_at :: "'r \<Rightarrow> bytes \<Rightarrow> bytes \<Rightarrow> bytes field"
  pc_set_storage :: "bytes \<Rightarrow> bytes \<Rightarrow> bytes \<Rightarrow> 'r \<Rightarrow> unit field \<times> 'r"

text \<open>Both conversions of errors: from \<open>capnp\<close> and into the machine's.\<close>

definition remote_error :: "rpc_error \<Rightarrow> error" where
  "remote_error failed = Other failed"

definition adaptor_exist :: "'r provider_client \<Rightarrow> 'r \<Rightarrow> address \<Rightarrow> bool" where
  "adaptor_exist C r address = (case pc_exist C r (be_bytes 20 address) of
     Inr e \<Rightarrow> e
   | Inl _ \<Rightarrow> False)"

definition adaptor_account ::
  "'r provider_client \<Rightarrow> 'r \<Rightarrow> address \<Rightarrow> (error, state_account) outcome" where
  "adaptor_account C r address =
     map_err remote_error (obind (get (pc_account C r (be_bytes 20 address))) account_of_reader)"

text \<open>A call without a result, as an operation.\<close>

definition calling :: "('r \<Rightarrow> unit field \<times> 'r) \<Rightarrow> ('r, error, unit) oper" where
  "calling c r = (of_sum remote_error (fst (c r)), snd (c r))"

definition adaptor_create_contract ::
  "'r provider_client \<Rightarrow> address \<Rightarrow> bytes \<Rightarrow> ('r, error, unit) oper" where
  "adaptor_create_contract C address code = calling (pc_create_contract C (be_bytes 20 address) code)"

definition adaptor_update_account ::
  "'r provider_client \<Rightarrow> address \<Rightarrow> u256 \<Rightarrow> u256 \<Rightarrow> ('r, error, unit) oper" where
  "adaptor_update_account C address bal n =
     calling (pc_update_account C (be_bytes 20 address) (le_bytes 32 bal) (le_bytes 32 n))"

definition adaptor_storage_at ::
  "'r provider_client \<Rightarrow> 'r \<Rightarrow> address \<Rightarrow> h256 \<Rightarrow> (error, h256) outcome" where
  "adaptor_storage_at C r address key =
     map_err remote_error
       (obind (get (pc_storage_at C r (be_bytes 20 address) (be_bytes 32 key))) h256_from_slice)"

definition adaptor_set_storage ::
  "'r provider_client \<Rightarrow> address \<Rightarrow> h256 \<Rightarrow> h256 \<Rightarrow> ('r, error, unit) oper" where
  "adaptor_set_storage C address key val =
     calling (pc_set_storage C (be_bytes 20 address) (be_bytes 32 key) (be_bytes 32 val))"

text \<open>The rest of the interface does not ask the other end.\<close>

definition adaptor :: "'r provider_client \<Rightarrow> 'r provider" where
  "adaptor C =
     \<lparr>pv_exist = adaptor_exist C,
      pv_account = adaptor_account C,
      pv_update_account = adaptor_update_account C,
      pv_create_contract = adaptor_create_contract C,
      pv_storage_at = adaptor_storage_at C,
      pv_set_storage = adaptor_set_storage C,
      pv_timestamp = (\<lambda>r. Ok 0),
      pv_block_number = (\<lambda>r. Ok 0),
      pv_block_hash = (\<lambda>r num. Ok 0),
      pv_block_author = (\<lambda>r. Err NotSupported),
      pv_difficulty = (\<lambda>r. Err NotSupported),
      pv_gas_limit = (\<lambda>r. Ok 0)\<rparr>"

end
