(* ===== verification/Remote_Laws.thy ===== *)
theory Remote_Laws
  imports Remote_Provider Blockchain_Laws
begin

text \<open>
  A remote provider against the contract of a provider: over a connection that carries calls,
  the adaptor of \<open>durian-server\<close> shows the accounts and the storage of the provider that
  \<open>durian-client\<close> serves, creates contracts and stores values there, and fails whenever an
  account is to be updated.
\<close>

section \<open>A connection that carries calls\<close>

text \<open>
  The documented behaviour of a connection, at states where it is \<open>up\<close> and reaches the object
  \<open>obj\<close>: a call whose method returns delivers its result, or an error for its error, and leaves
  the object as the method left it; a method that the server does not implement answers with
  an error. Nothing is said of a method that panics.
\<close>

definition answers :: "'a field \<Rightarrow> (rpc_error, 'a) outcome \<Rightarrow> bool" where
  "answers x r \<longleftrightarrow> (case r of
     Ok v \<Rightarrow> x = Inr v
   | Err e \<Rightarrow> \<exists>e'. x = Inl e'
   | Crash \<Rightarrow> True)"

definition performs ::
  "('r \<Rightarrow> bool) \<Rightarrow> ('r \<Rightarrow> 'p) \<Rightarrow> ('r \<Rightarrow> 'a field \<times> 'r) \<Rightarrow> ('p, rpc_error, 'a) oper \<Rightarrow> bool" where
  "performs up obj c m \<longleftrightarrow> (\<forall>r. up r \<longrightarrow> fst (m (obj r)) \<noteq> Crash \<longrightarrow>
     answers (fst (c r)) (fst (m (obj r))) \<and> up (snd (c r)) \<and> obj (snd (c r)) = snd (m (obj r)))"

definition carries ::
  "hash_display \<Rightarrow> account_message \<Rightarrow> 'p provider \<Rightarrow> 'r provider_client \<Rightarrow>
   ('r \<Rightarrow> bool) \<Rightarrow> ('r \<Rightarrow> 'p) \<Rightarrow> bool" where
  "carries display blank P C up obj \<longleftrightarrow>
     (\<forall>r a. up r \<longrightarrow> answers (pc_exist C r a) (fst (serve_exist P (Inr (Inr a)) (obj r)))) \<and>
     (\<forall>r a. up r \<longrightarrow>
        answers (pc_account C r a) (fst (serve_account display P blank (Inr (Inr a)) (obj r)))) \<and>
     (\<forall>r a k. up r \<longrightarrow>
        answers (pc_storage_at C r a k)
          (fst (serve_storage_at display P (Inr (Inr a, Inr k)) (obj r)))) \<and>
     (\<forall>a c. performs up obj (pc_create_contract C a c)
        (serve_create_contract display P (Inr (Inr a, Inr c)))) \<and>
     (\<forall>a k v. performs up obj (pc_set_storage C a k v)
        (serve_set_storage display P (Inr (Inr a, Inr k, Inr v)))) \<and>
     (\<forall>a b n r. up r \<longrightarrow>
        (\<exists>e. fst (pc_update_account C a b n r) = Inl e) \<and>
        up (snd (pc_update_account C a b n r)) \<and> obj (snd (pc_update_account C a b n r)) = obj r)"

lemma carriesD:
  assumes "carries display blank P C up obj" and "up r"
  shows "answers (pc_exist C r a) (fst (serve_exist P (Inr (Inr a)) (obj r)))"
    and "answers (pc_account C r a) (fst (serve_account display P blank (Inr (Inr a)) (obj r)))"
    and "answers (pc_storage_at C r a k)
      (fst (serve_storage_at display P (Inr (Inr a, Inr k)) (obj r)))"
    and "performs up obj (pc_create_contract C a c)
      (serve_create_contract display P (Inr (Inr a, Inr c)))"
    and "performs up obj (pc_set_storage C a k v)
      (serve_set_storage display P (Inr (Inr a, Inr k, Inr v)))"
    and "\<exists>e. fst (pc_update_account C a b n r) = Inl e"
  using assms unfolding carries_def by blast+

section \<open>What the adaptor shows\<close>

lemma serve_exist_run: "serve_exist P (Inr (Inr (be_bytes 20 a))) p = (Ok (pv_exist P p a), p)"
  by (simp add: serve_exist_def rbind_def lift_def asks_def)

lemma serve_account_run:
  "serve_account display P blank (Inr (Inr (be_bytes 20 a))) p =
    (obind (map_err (display_error display) (pv_account P p a)) (\<lambda>acc. Ok (fill_account acc blank)), p)"
  by (cases "pv_account P p a") (simp_all add: serve_account_def rbind_def lift_def pure_def)

lemma serve_storage_at_run:
  "serve_storage_at display P (Inr (Inr (be_bytes 20 a), Inr (be_bytes 32 k))) p =
    (obind (map_err (display_error display) (pv_storage_at P p a k)) (\<lambda>v. Ok (be_bytes 32 v)), p)"
  by (cases "pv_storage_at P p a k") (simp_all add: serve_storage_at_def rbind_def lift_def pure_def)

lemma serve_create_run:
  "serve_create_contract display P (Inr (Inr (be_bytes 20 a), Inr c)) =
    served display (pv_create_contract P a c)"
  by (simp add: serve_create_contract_def rbind_def lift_def fun_eq_iff)

lemma serve_set_run:
  "serve_set_storage display P (Inr (Inr (be_bytes 20 a), Inr (be_bytes 32 k), Inr (be_bytes 32 v))) =
    served display (pv_set_storage P a k v)"
  by (simp add: serve_set_storage_def rbind_def lift_def fun_eq_iff)

lemma adaptor_simps [simp]:
  "pv_exist (adaptor C) = adaptor_exist C" "pv_account (adaptor C) = adaptor_account C"
  "pv_update_account (adaptor C) = adaptor_update_account C"
  "pv_create_contract (adaptor C) = adaptor_create_contract C"
  "pv_storage_at (adaptor C) = adaptor_storage_at C"
  "pv_set_storage (adaptor C) = adaptor_set_storage C"
  by (simp_all add: adaptor_def)

lemma adaptor_exist_eq:
  assumes "carries display blank P C up obj" and "up r"
  shows "adaptor_exist C r a = pv_exist P (obj r) a"
  using carriesD(1) [OF assms, of "be_bytes 20 a"]
  by (simp add: serve_exist_run answers_def adaptor_exist_def)

lemma adaptor_account_eq:
  assumes "carries display blank P C up obj" and "up r"
  shows "pv_account P (obj r) a = Ok x \<Longrightarrow> adaptor_account C r a = Ok x"
    and "pv_account P (obj r) a = Err e \<Longrightarrow> \<exists>e'. adaptor_account C r a = Err (Other e')"
  using carriesD(2) [OF assms, of "be_bytes 20 a"]
  by (auto simp: serve_account_run answers_def adaptor_account_def remote_error_def)

lemma adaptor_storage_eq:
  assumes "carries display blank P C up obj" and "up r"
  shows "pv_storage_at P (obj r) a k = Ok x \<Longrightarrow> adaptor_storage_at C r a k = Ok x"
    and "pv_storage_at P (obj r) a k = Err e \<Longrightarrow> \<exists>e'. adaptor_storage_at C r a k = Err (Other e')"
  using carriesD(3) [OF assms, of "be_bytes 20 a" "be_bytes 32 k"]
  by (auto simp: serve_storage_at_run answers_def adaptor_storage_at_def remote_error_def)

lemma adaptor_views:
  assumes "carries display blank P C up obj" and "up r" and q: "quiet P (obj r)"
  shows "quiet (adaptor C) r" and "acct (adaptor C) r = acct P (obj r)"
    and "stored (adaptor C) r = stored P (obj r)"
proof -
  note eqs = adaptor_account_eq [OF assms(1,2)] adaptor_storage_eq [OF assms(1,2)]
  have acc: "(case adaptor_account C r a of Ok x \<Rightarrow> Some x | _ \<Rightarrow> None) =
      (case pv_account P (obj r) a of Ok x \<Rightarrow> Some x | _ \<Rightarrow> None)"
    and acc_quiet: "adaptor_account C r a \<noteq> Crash" for a
    using q eqs(1,2) [of a] by (cases "pv_account P (obj r) a"; force simp: quiet_def)+
  have sto: "(case adaptor_storage_at C r a k of Ok x \<Rightarrow> Some x | _ \<Rightarrow> None) =
      (case pv_storage_at P (obj r) a k of Ok x \<Rightarrow> Some x | _ \<Rightarrow> None)"
    and sto_quiet: "adaptor_storage_at C r a k \<noteq> Crash" for a k
    using q eqs(3,4) [of a k] by (cases "pv_storage_at P (obj r) a k"; force simp: quiet_def)+
  show "quiet (adaptor C) r" using acc_quiet sto_quiet by (simp add: quiet_def)
  show "acct (adaptor C) r = acct P (obj r)" by (simp add: acct_def fun_eq_iff acc)
  show "stored (adaptor C) r = stored P (obj r)" by (simp add: stored_def fun_eq_iff sto)
qed

text \<open>A mutating method that succeeds at the object succeeds through the connection.\<close>

lemma calling_Ok:
  assumes "performs up obj c (served display m)" and "up r" and "m (obj r) = (Ok (), p')"
  shows "\<exists>r'. calling c r = (Ok (), r') \<and> up r' \<and> obj r' = p'"
  using assms(1) [unfolded performs_def, rule_format, OF assms(2)] assms(3)
  by (simp add: served_def answers_def calling_def)

lemma adaptor_create_Ok:
  assumes "carries display blank P C up obj" and "up r"
    and "pv_create_contract P a c (obj r) = (Ok (), p')"
  shows "\<exists>r'. adaptor_create_contract C a c r = (Ok (), r') \<and> up r' \<and> obj r' = p'"
  using calling_Ok [OF carriesD(4) [OF assms(1,2), of "be_bytes 20 a" c, unfolded serve_create_run] assms(2,3)]
  by (simp add: adaptor_create_contract_def)

lemma adaptor_set_Ok:
  assumes "carries display blank P C up obj" and "up r"
    and "pv_set_storage P a k v (obj r) = (Ok (), p')"
  shows "\<exists>r'. adaptor_set_storage C a k v r = (Ok (), r') \<and> up r' \<and> obj r' = p'"
  using calling_Ok [OF carriesD(5) [OF assms(1,2), of "be_bytes 20 a" "be_bytes 32 k" "be_bytes 32 v",
        unfolded serve_set_run] assms(2,3)]
  by (simp add: adaptor_set_storage_def)

section \<open>The contract\<close>

text \<open>
  The adaptor keeps the contract of a provider as far as the served provider does, but for
  updates.
\<close>

context provider_store
begin

lemma remote_store:
  assumes c: "carries display blank P C up obj"
  shows "provider_store (adaptor C) (\<lambda>r. up r \<and> inv (obj r)) (\<lambda>r. room (obj r)) fresh False"
proof
  fix r a
  assume r: "up r \<and> inv (obj r)"
  note views = adaptor_views [OF c conjunct1 [OF r] inv_quiet [OF conjunct2 [OF r]]]
  show "quiet (adaptor C) r" by (rule views)
  show "pv_exist (adaptor C) r a \<longleftrightarrow> acct (adaptor C) r a \<noteq> None"
    using r by (simp add: adaptor_exist_eq [OF c] exist_iff views(2))
next
  show "sa_code (fresh code) = code" for code by (rule fresh_code)
next
  fix r a code
  assume r: "up r \<and> inv (obj r)" and none: "acct (adaptor C) r a = None" and room: "0 < room (obj r)"
  note views = adaptor_views [OF c _ inv_quiet]
  from create_ok [of "obj r" a code] r none room obtain p' where
    p': "pv_create_contract P a code (obj r) = (Ok (), p')" "inv p'" "room (obj r) \<le> Suc (room p')"
      "acct P p' = (acct P (obj r))(a \<mapsto> fresh code)" "stored P p' = stored P (obj r)"
    by (auto simp: views)
  from adaptor_create_Ok [OF c conjunct1 [OF r] p'(1)] obtain r' where
    r': "adaptor_create_contract C a code r = (Ok (), r')" "up r'" "obj r' = p'" by blast
  show "\<exists>p'. pv_create_contract (adaptor C) a code r = (Ok (), p') \<and> (up p' \<and> inv (obj p')) \<and>
      room (obj r) \<le> Suc (room (obj p')) \<and>
      acct (adaptor C) p' = (acct (adaptor C) r)(a \<mapsto> fresh code) \<and>
      stored (adaptor C) p' = stored (adaptor C) r"
    using r r' p' by (intro exI [of _ r']) (simp add: views)
next
  fix r a k v
  assume r: "up r \<and> inv (obj r)" and some: "acct (adaptor C) r a \<noteq> None"
  note views = adaptor_views [OF c _ inv_quiet]
  from set_ok [of "obj r" a k v] r some obtain p' where
    p': "pv_set_storage P a k v (obj r) = (Ok (), p')" "inv p'" "room p' = room (obj r)"
      "acct P p' = acct P (obj r)" "stored P p' = (stored P (obj r))(a := (stored P (obj r) a)(k \<mapsto> v))"
    by (auto simp: views)
  from adaptor_set_Ok [OF c conjunct1 [OF r] p'(1)] obtain r' where
    r': "adaptor_set_storage C a k v r = (Ok (), r')" "up r'" "obj r' = p'" by blast
  show "\<exists>p'. pv_set_storage (adaptor C) a k v r = (Ok (), p') \<and> (up p' \<and> inv (obj p')) \<and>
      room (obj p') = room (obj r) \<and> acct (adaptor C) p' = acct (adaptor C) r \<and>
      stored (adaptor C) p' = (stored (adaptor C) r)(a := (stored (adaptor C) r a)(k \<mapsto> v))"
    using r r' p' by (intro exI [of _ r']) (simp add: views)
qed simp

end

end
