(* ===== verification/Rpc_Executor.thy ===== *)
theory Rpc_Executor
  imports Remote_Provider
begin

text \<open>
  \<open>durian-server/src/executor_impl.rs\<close>: the server's only method. It reads the transaction,
  starts a task that executes it against the provider behind the connection, polls the channel
  on which the task reports, and fills the reply.
\<close>

section \<open>The channel\<close>

text \<open>What \<open>try_recv\<close> answers at the successive polls.\<close>

datatype 'a try_recv = RecvEmpty | RecvClosed | Received 'a

text \<open>
  The polling loop from the \<open>i\<close>-th poll on: \<open>None\<close> when it never ends, \<open>Some None\<close> when the
  sender was dropped without a value.
\<close>

partial_function (option) poll_result :: "(nat \<Rightarrow> 'a try_recv) \<Rightarrow> nat \<Rightarrow> 'a option option" where
  "poll_result rx i = (case rx i of
     RecvEmpty \<Rightarrow> poll_result rx (Suc i)
   | RecvClosed \<Rightarrow> Some None
   | Received x \<Rightarrow> Some (Some x))"

text \<open>A channel whose sender sends (or drops) between polls \<open>n - 1\<close> and \<open>n\<close>.\<close>

definition oneshot :: "nat \<Rightarrow> 'a option \<Rightarrow> nat \<Rightarrow> 'a try_recv" where
  "oneshot n sent i = (if i < n then RecvEmpty
     else case sent of None \<Rightarrow> RecvClosed | Some x \<Rightarrow> Received x)"

text \<open>The loop ends as soon as the channel has something to say, and says what that is.\<close>

lemma poll_result_first:
  assumes "\<And>j. i \<le> j \<Longrightarrow> j < k \<Longrightarrow> rx j = RecvEmpty" and "rx k \<noteq> RecvEmpty" and "i \<le> k"
  shows "poll_result rx i = (case rx k of Received x \<Rightarrow> Some (Some x) | _ \<Rightarrow> Some None)"
  using assms
proof (induction "k - i" arbitrary: i)
  case 0
  then have "i = k" by simp
  with "0.prems"(2) show ?case by (subst poll_result.simps) (simp split: try_recv.split)
next
  case (Suc d)
  then have "i < k" by simp
  then have "rx i = RecvEmpty" using Suc.prems(1) by simp
  moreover have "poll_result rx (Suc i) = (case rx k of Received x \<Rightarrow> Some (Some x) | _ \<Rightarrow> Some None)"
    using Suc.hyps(2) Suc.prems \<open>i < k\<close> by (intro Suc.hyps(1)) auto
  ultimately show ?case by (subst poll_result.simps) simp
qed

lemma poll_result_returns:
  assumes "rx k \<noteq> RecvEmpty" and "i \<le> k"
  shows "\<exists>r. poll_result rx i = Some r"
proof -
  let ?P = "\<lambda>j. i \<le> j \<and> rx j \<noteq> RecvEmpty"
  have P: "?P (LEAST j. ?P j)" using assms by (intro LeastI [of ?P k]) simp
  then have "poll_result rx i =
      (case rx (LEAST j. ?P j) of Received x \<Rightarrow> Some (Some x) | _ \<Rightarrow> Some None)"
    by (intro poll_result_first) (auto dest: not_less_Least)
  then show ?thesis by (cases "rx (LEAST j. ?P j)") simp_all
qed

lemma poll_result_Some:
  assumes "poll_result rx i = Some y"
  shows "\<exists>k \<ge> i. rx k \<noteq> RecvEmpty"
proof (rule poll_result.raw_induct [of "\<lambda>rx i y. \<exists>k \<ge> i. rx k \<noteq> RecvEmpty", OF _ assms], goal_cases)
  case (1 poll rx i y)
  show ?case
  proof (cases "rx i = RecvEmpty")
    case True
    with 1 obtain k where "Suc i \<le> k" "rx k \<noteq> RecvEmpty" by fastforce
    then show ?thesis by (intro exI [of _ k]) simp
  qed blast
qed

lemma poll_result_never: "(\<forall>k \<ge> i. rx k = RecvEmpty) \<Longrightarrow> poll_result rx i = None"
  using poll_result_Some [of rx i] by (cases "poll_result rx i") auto

lemma poll_oneshot: "poll_result (oneshot n sent) 0 = Some sent"
  by (subst poll_result_first [where k = n]) (auto simp: oneshot_def split: option.split)

section \<open>The method\<close>

text \<open>The task unwraps the result of the execution, so anything but a result drops the sender.\<close>

definition task_sends :: "(error, result_data) outcome \<Rightarrow> result_data option" where
  "task_sends r = (case r of Ok rd \<Rightarrow> Some rd | _ \<Rightarrow> None)"

text \<open>
  The parameters are the provider's client and the transaction; \<open>n\<close> is the number of polls
  that come before the task's report, \<open>closed\<close> the text of the channel's error.
\<close>

record 'r execute_params =
  ep_provider :: "'r provider_client field"
  ep_transaction :: "transaction_message field"

definition executor_execute ::
  "('args, 'mem, 'pmod, 'wmod, 'inst, 'cfg) engine \<Rightarrow> hash_orders \<Rightarrow> string \<Rightarrow> nat \<Rightarrow>
   result_message \<Rightarrow> 'r execute_params field \<Rightarrow> 'r \<Rightarrow>
   ((rpc_error, result_message) outcome \<times> 'r) option" where
  "executor_execute E H closed n results params r =
     (case obind (get params) (\<lambda>m. get (ep_provider m)) of
        Err e \<Rightarrow> Some (Err e, r)
      | Crash \<Rightarrow> Some (Crash, r)
      | Ok provider_client \<Rightarrow>
     (case obind (obind (get params) (\<lambda>m. get (ep_transaction m))) transaction_of_reader of
        Err e \<Rightarrow> Some (Err e, r)
      | Crash \<Rightarrow> Some (Crash, r)
      | Ok transaction \<Rightarrow>
     (case execute E H (adaptor provider_client) transaction r of
        None \<Rightarrow> None
      | Some (result, r') \<Rightarrow>
     (case poll_result (oneshot n (task_sends result)) 0 of
        None \<Rightarrow> None
      | Some None \<Rightarrow> Some (Err closed, r')
      | Some (Some result_data) \<Rightarrow> Some (Ok (fill_result result_data results), r')))))"

lemma executor_run:
  assumes "get params = Ok m" and "get (ep_provider m) = Ok C"
    and "get (ep_transaction m) = Ok tm" and "transaction_of_reader tm = Ok tx"
  shows "executor_execute E H closed n results params r =
    map_option (\<lambda>(res, r').
      (case res of Ok rd \<Rightarrow> Ok (fill_result rd results) | _ \<Rightarrow> Err closed, r'))
      (execute E H (adaptor C) tx r)"
  using assms
  by (auto simp: executor_execute_def poll_oneshot task_sends_def split: option.split outcome.split)

end
