(* ===== verification/Chain_History.thy ===== *)
theory Chain_History
  imports Blockchain_Laws
begin

text \<open>
  What no program around \<open>examples/blockchain/src/blockchain.rs\<close> can take back: blocks are only
  appended and stay linked, recorded transactions and aliases are never forgotten, and no alias
  but those of deployed contracts changes its address. One frame
  for the command line, the client and the web3 node.
\<close>

definition grows :: "chain_env \<Rightarrow> blockchain \<Rightarrow> blockchain \<Rightarrow> bool" where
  "grows E bc bc' \<longleftrightarrow> (linked E (bc_blocks bc) \<longrightarrow> linked E (bc_blocks bc')) \<and>
     (\<exists>bs. bc_blocks bc' = bc_blocks bc @ bs) \<and>
     dom (bc_transactions bc) \<subseteq> dom (bc_transactions bc') \<and>
     dom (bc_accounts bc) \<subseteq> dom (bc_accounts bc') \<and> named_kept bc bc'"

interpretation history: step_frame "grows E" for E
proof
  show "grows E bc bc" for bc by (simp add: grows_def)
next
  fix a b c
  assume "grows E a b" and "grows E b c"
  moreover from this obtain bs cs where "bc_blocks b = bc_blocks a @ bs" "bc_blocks c = bc_blocks b @ cs"
    by (auto simp: grows_def)
  then have "bc_blocks c = bc_blocks a @ bs @ cs" by simp
  ultimately show "grows E a c" unfolding grows_def by (meson subset_trans named_kept_trans)
qed

lemma frame_grows: "chain_frame bc bc' \<Longrightarrow> grows E bc bc'"
  by (simp add: chain_frame_def grows_def)

lemma commit_grows: "stays (grows E) (commit E now :: (blockchain, 'e, unit) oper)"
proof (rule staysI)
  fix bc
  obtain q bc' where run: "(commit E now :: (blockchain, 'e, unit) oper) bc = (q, bc')" by fastforce
  show "grows E bc (snd ((commit E now :: (blockchain, 'e, unit) oper) bc))"
  proof (cases q)
    case (Ok u)
    then have run: "(commit E now :: (blockchain, 'e, unit) oper) bc = (Ok (), bc')" using run by simp
    then have "\<exists>bs. bc_blocks bc' = bc_blocks bc @ bs" "bc_accounts bc' = bc_accounts bc"
      "bc_transactions bc' = bc_transactions bc"
      by (auto simp: commit_run Let_def split: if_splits option.splits)
    with commit_linked(1) [OF _ run] run show ?thesis by (simp add: grows_def named_kept_def)
  qed (use run in \<open>auto simp: commit_run Let_def history.frame_refl split: if_splits option.splits\<close>)
qed

lemma inc_nonce_frame: "stays chain_frame (inc_nonce alias)"
  by (rule staysI) (auto simp: inc_nonce_def rbind_def lift_def modify_def chain_frame_def named_kept_def
      split: option.split outcome.split)

lemma inc_nonce_grows: "stays (grows E) (inc_nonce alias)"
  using staysD [OF inc_nonce_frame] by (blast intro: staysI frame_grows)

lemma add_transactions_grows: "stays (grows E) (add_transactions E tx result)"
  by (rule staysI) (auto simp: add_transactions_def rbind_def modify_def pure_def grows_def named_kept_def)

lemma execute_grows: "keeps (grows E) (execute X H (chain_provider E) tx)"
  using chain_frame.execute_frame [OF frame_mutators] by (blast intro: keepsI frame_grows)

lemmas grows_rules = commit_grows inc_nonce_grows add_transactions_grows execute_grows

text \<open>The steps that succeed, exactly.\<close>

lemma inc_nonce_Ok:
  assumes "inc_nonce alias bc = (Ok (), bc')"
  shows "bc_blocks bc' = bc_blocks bc" and "bc_transactions bc' = bc_transactions bc"
    and "bc_counter bc' = bc_counter bc"
    and "\<exists>acc. bc_accounts bc alias = Some acc \<and>
      bc_accounts bc' = (bc_accounts bc)(alias \<mapsto> acc\<lparr>ca_nonce := ca_nonce acc + 1\<rparr>)"
  using assms
  by (auto simp: inc_nonce_def rbind_def lift_def modify_def plus_op_def checked_add_def
      split: option.splits outcome.splits if_splits)

lemma add_transactions_Ok:
  "add_transactions E tx result bc =
    (Ok (transaction_hash E tx),
     bc\<lparr>bc_transactions := (bc_transactions bc)(transaction_hash E tx \<mapsto> (tx, result))\<rparr>)"
  by (simp add: add_transactions_def rbind_def modify_def pure_def)

lemma execute_blocks:
  assumes "execute X H (chain_provider E) tx bc = Some (r, bc')"
  shows "bc_blocks bc' = bc_blocks bc" and "bc_transactions bc' = bc_transactions bc"
  using chain_frame.execute_frame [OF frame_mutators assms] by (simp_all add: chain_frame_def)

end
