(* ===== verification/Front_Ends.thy ===== *)
theory Front_Ends
  imports Chain_History Rpc_Executor
begin

text \<open>
  The two example programs around the machine: \<open>examples/cli/src/main.rs\<close> executes four
  transactions against its own blockchain, \<open>examples/durian-client/src/main.rs\<close> sends the same
  four to a server. The file with the contract's code, the clock and the random addresses are
  arguments; so is, for the client, what sending a request does.
\<close>

section \<open>The token contract's arguments\<close>

text \<open>The initial supply, and the call data of transfer, total supply and balance.\<close>

definition params1 :: bytes where
  "params1 = replicate 32 0xFF"

definition params2 :: "address \<Rightarrow> bytes" where
  "params2 bob = [0xa9, 0x05, 0x9c, 0xbb] @ replicate 12 0 @ be_bytes 20 bob @
     [0x00, 0x00, 0x00] @ replicate 29 0xFF"

definition params3 :: bytes where
  "params3 = [0x18, 0x16, 0x0d, 0xdd]"

definition params4 :: "address \<Rightarrow> bytes" where
  "params4 bob = [0x70, 0xa0, 0x82, 0x31] @ replicate 12 0 @ be_bytes 20 bob"

text \<open>Reading the code: a failed open or read panics.\<close>

definition read_code :: "string + bytes \<Rightarrow> ('s, 'e, bytes) run" where
  "read_code file = reading (\<lambda>_. unwrap (of_sum (\<lambda>e. e) file))"

section \<open>Command line\<close>

text \<open>Executing a transaction, and recording its result afterwards.\<close>

definition cli_execute ::
  "('args, 'mem, 'pmod, 'wmod, 'inst, 'cfg) engine \<Rightarrow> hash_orders \<Rightarrow> chain_env \<Rightarrow> transaction \<Rightarrow>
   (blockchain, 'e, result_data) run" where
  "cli_execute X H E tx = unwrapping (execute X H (chain_provider E) tx)"

definition cli_record ::
  "chain_env \<Rightarrow> int \<Rightarrow> string \<Rightarrow> transaction \<Rightarrow> result_data \<Rightarrow> (blockchain, 'e, h256) run" where
  "cli_record E now alias tx result =
     rthen (returning (inc_nonce alias)) (\<lambda>_.
     rthen (returning (commit E now)) (\<lambda>_.
       returning (add_transactions E tx result)))"

definition cli_steps ::
  "('args, 'mem, 'pmod, 'wmod, 'inst, 'cfg) engine \<Rightarrow> hash_orders \<Rightarrow> chain_env \<Rightarrow>
   (nat \<Rightarrow> int) \<Rightarrow> string + bytes \<Rightarrow> (blockchain, 'e, unit) run" where
  "cli_steps X H E now file =
     rthen (read_code file) (\<lambda>code.
     rthen (returning (commit E (now 0))) (\<lambda>_.
     rthen (reading (address_from_alias ''alice'')) (\<lambda>alice.
     let tx1 = make_create alice 0 1000000 0 code params1 0 in
     rthen (cli_execute X H E tx1) (\<lambda>ret1.
     rthen (cli_record E (now 1) ''alice'' tx1 ret1) (\<lambda>_.
     let contract = rd_contract ret1 in
     rthen (reading (address_from_alias ''bob'')) (\<lambda>bob.
     rthen (reading (address_from_alias ''alice'')) (\<lambda>alice.
     let tx2 = make_call alice contract 0 1000000 0 (params2 bob) in
     rthen (cli_execute X H E tx2) (\<lambda>ret2.
     rthen (cli_record E (now 2) ''alice'' tx2 ret2) (\<lambda>_.
     rthen (reading (address_from_alias ''alice'')) (\<lambda>alice.
     let tx3 = make_call alice contract 0 1000000 0 params3 in
     rthen (cli_execute X H E tx3) (\<lambda>ret3.
     rthen (cli_record E (now 3) ''alice'' tx3 ret3) (\<lambda>_.
     rthen (reading (address_from_alias ''bob'')) (\<lambda>bob.
     let tx4 = make_call bob contract 0 1000000 0 (params4 bob) in
     rthen (cli_execute X H E tx4) (\<lambda>ret4.
     rthen (cli_record E (now 4) ''bob'' tx4 ret4) (\<lambda>_.
       returning (pure ()))))))))))))))))"

definition cli_main ::
  "('args, 'mem, 'pmod, 'wmod, 'inst, 'cfg) engine \<Rightarrow> hash_orders \<Rightarrow> chain_env \<Rightarrow>
   (nat \<Rightarrow> int) \<Rightarrow> address \<times> address \<times> address \<times> address \<Rightarrow> string + bytes \<Rightarrow>
   (('e, unit) outcome \<times> blockchain) option" where
  "cli_main X H E now randoms file = (case randoms of (r1, r2, r3, r4) \<Rightarrow>
     cli_steps X H E (\<lambda>i. now (Suc i)) file (blockchain_new (now 0) r1 r2 r3 r4))"

section \<open>Client\<close>

text \<open>
  \<open>send\<close> is a request on the connection: it takes the filled transaction and answers with the
  server's reply, after the server has called back the provider over the same blockchain.
  A failed request ends the program's task with that error.
\<close>

type_synonym request_sender = "transaction_message \<Rightarrow> (blockchain, rpc_error, result_message) run"

definition client_execute ::
  "request_sender \<Rightarrow> transaction_message \<Rightarrow> transaction \<Rightarrow> (blockchain, rpc_error, result_data) run" where
  "client_execute send builder tx =
     rthen (send (build_tx tx builder)) (\<lambda>reply. reading (\<lambda>_. result_of_reader (Inr reply)))"

definition client_steps ::
  "request_sender \<Rightarrow> transaction_message \<Rightarrow> chain_env \<Rightarrow> (nat \<Rightarrow> int) \<Rightarrow> string + bytes \<Rightarrow>
   (blockchain, rpc_error, unit) run" where
  "client_steps send builder E now file =
     rthen (returning (commit E (now 0))) (\<lambda>_.
     rthen (read_code file) (\<lambda>code.
     rthen (reading (address_from_alias ''alice'')) (\<lambda>alice.
     let tx1 = make_create alice 0 1000000 0 code params1 0 in
     rthen (client_execute send builder tx1) (\<lambda>ret1.
     rthen (returning (commit E (now 1))) (\<lambda>_.
     rthen (cli_record E (now 2) ''alice'' tx1 ret1) (\<lambda>_.
     let contract = rd_contract ret1 in
     rthen (reading (address_from_alias ''bob'')) (\<lambda>bob.
     rthen (reading (address_from_alias ''alice'')) (\<lambda>alice.
     let tx2 = make_call alice contract 0 1000000 0 (params2 bob) in
     rthen (client_execute send builder tx2) (\<lambda>ret2.
     rthen (cli_record E (now 3) ''alice'' tx2 ret2) (\<lambda>_.
     rthen (reading (address_from_alias ''alice'')) (\<lambda>alice.
     let tx3 = make_call alice contract 0 1000000 0 params3 in
     rthen (client_execute send builder tx3) (\<lambda>ret3.
     rthen (cli_record E (now 4) ''alice'' tx3 ret3) (\<lambda>_.
     rthen (reading (address_from_alias ''bob'')) (\<lambda>bob.
     let tx4 = make_call bob contract 0 1000000 0 (params4 bob) in
     rthen (client_execute send builder tx4) (\<lambda>ret4.
     rthen (cli_record E (now 5) ''bob'' tx4 ret4) (\<lambda>_.
       returning (pure ())))))))))))))))))"

section \<open>The history of the chain\<close>

lemma cli_execute_grows: "keeps (grows E) (cli_execute X H E tx)"
  unfolding cli_execute_def by (intro history.keeps_unwrapping execute_grows)

lemma cli_record_grows: "keeps (grows E) (cli_record E now alias tx result)"
  unfolding cli_record_def by (intro history.keeps_rules grows_rules)

lemma read_code_grows: "keeps (grows E) (read_code file)"
  unfolding read_code_def by (rule history.keeps_reading)

lemmas step_rules = history.keeps_rules cli_execute_grows cli_record_grows read_code_grows
  commit_grows history.stays_pure

lemma cli_steps_grows: "keeps (grows E) (cli_steps X H E now file)"
  unfolding cli_steps_def Let_def by (intro step_rules)

lemma client_steps_grows:
  assumes "\<And>m. keeps (grows E) (send m)"
  shows "keeps (grows E) (client_steps send builder E now file)"
  unfolding client_steps_def client_execute_def Let_def by (intro step_rules assms)

text \<open>The number of blocks after steps that succeed.\<close>

lemma commit_length:
  assumes "commit E now bc = (Ok (), bc')"
  shows "length (bc_blocks bc') = Suc (length (bc_blocks bc))"
  using assms by (auto simp: commit_run Let_def split: if_splits option.splits)

lemma cli_execute_length:
  "cli_execute X H E tx bc = Some (Ok result, bc') \<Longrightarrow> length (bc_blocks bc') = length (bc_blocks bc)"
  by (auto simp: cli_execute_def dest: execute_blocks(1))

lemma cli_record_length:
  "cli_record E now alias tx result bc = Some (Ok h, bc') \<Longrightarrow>
    length (bc_blocks bc') = Suc (length (bc_blocks bc))"
  by (auto simp: cli_record_def add_transactions_Ok dest!: inc_nonce_Ok(1) commit_length)

lemmas step_lengths = commit_length cli_execute_length cli_record_length

lemma cli_steps_length:
  assumes "cli_steps X H E now file bc = Some (Ok (), bc')"
  shows "length (bc_blocks bc') = length (bc_blocks bc) + 5"
  using assms
  by (auto simp: cli_steps_def Let_def read_code_def pure_def dest!: step_lengths)

lemma client_steps_length:
  assumes send: "\<And>m bc r bc'. send m bc = Some (r, bc') \<Longrightarrow> bc_blocks bc' = bc_blocks bc"
    and "client_steps send builder E now file bc = Some (Ok (), bc')"
  shows "length (bc_blocks bc') = length (bc_blocks bc) + 6"
  using assms(2)
  by (auto simp: client_steps_def client_execute_def Let_def read_code_def pure_def
      dest!: step_lengths send)

section \<open>Returning\<close>

lemma cli_execute_returns:
  assumes "host_traps_abort (en_step X)" and "metered (en_host X) (en_step X) rank"
  shows "always (cli_execute X H E tx)"
  using execute_returns [OF assms]
  unfolding cli_execute_def by (intro always_unwrapping) (auto simp: always_def)

lemma cli_steps_returns:
  assumes "host_traps_abort (en_step X)" and "metered (en_host X) (en_step X) rank"
  shows "always (cli_steps X H E now file)"
  unfolding cli_steps_def cli_record_def read_code_def Let_def
  by (intro always_rules cli_execute_returns [OF assms])

end
