(* ===== verification/Endpoints.thy ===== *)
theory Endpoints
  imports Front_Ends
begin

text \<open>
  The two programs at the ends of the connection: \<open>durian-server/src/main.rs\<close>, which accepts
  connections and serves the executor on each, and the beginning of
  \<open>examples/durian-client/src/main.rs\<close>, which connects and then runs its four transactions. The
  network (resolving, binding, accepting, connecting) is a parameter on a world of any type,
  and so is what the connected \<open>capnp\<close> systems do.
\<close>

section \<open>The network\<close>

record ('w, 'addr, 'listener, 'stream, 'io, 'system) network =
  nw_to_socket_addrs :: "string \<Rightarrow> 'io + 'addr list"
  nw_bind :: "'addr \<Rightarrow> 'w \<Rightarrow> ('io + 'listener) \<times> 'w"
  nw_accept :: "'listener \<Rightarrow> 'system list \<Rightarrow> 'w \<Rightarrow> (('io + 'stream \<times> 'addr) \<times> 'w) option"
  nw_connect :: "'addr \<Rightarrow> 'w \<Rightarrow> ('io + 'stream) \<times> 'w"
  nw_set_nodelay :: "'stream \<Rightarrow> bool \<Rightarrow> 'w \<Rightarrow> ('io + unit) \<times> 'w"

text \<open>One end of a connection: the stream, the side, and the object it offers to the other end.\<close>

datatype side = Server | Client

record ('stream, 'cap) rpc_system =
  ry_stream :: 'stream
  ry_side :: side
  ry_bootstrap :: "'cap option"

text \<open>The address on the command line, or the text that explains the usage.\<close>

definition usage :: "string \<Rightarrow> string" where
  "usage program = ''usage: '' @ program @ '' HOST:PORT''"

definition parse_args :: "(string \<Rightarrow> 'io + 'addr list) \<Rightarrow> string list \<Rightarrow> ('e, string + 'addr) outcome" where
  "parse_args to_socket_addrs args =
     (if length args \<noteq> 2 then
        (case args of [] \<Rightarrow> Crash | program # _ \<Rightarrow> Ok (Inl (usage program)))
      else
        obind (unwrap (of_sum (\<lambda>e. e) (to_socket_addrs (args ! 1)))) (\<lambda>addrs.
        case addrs of [] \<Rightarrow> Crash | addr # _ \<Rightarrow> Ok (Inr addr)))"

section \<open>Server\<close>

text \<open>The tasks run while the loop waits for the next connection; what they do is the world's.\<close>

record ('w, 'stream, 'cap) server_state =
  sv_world :: 'w
  sv_output :: "string list"
  sv_tasks :: "('stream, 'cap) rpc_system list"

partial_function (option) serve_loop ::
  "('w, 'addr, 'listener, 'stream, 'io, ('stream, 'cap) rpc_system) network \<Rightarrow> 'listener \<Rightarrow> 'cap \<Rightarrow>
   (('w, 'stream, 'cap) server_state, 'io, unit) run" where
  "serve_loop N listener executor s =
     (case nw_accept N listener (sv_tasks s) (sv_world s) of
        None \<Rightarrow> None
      | Some (Inl e, w) \<Rightarrow> Some (Err e, s\<lparr>sv_world := w\<rparr>)
      | Some (Inr (stream, _), w) \<Rightarrow>
          (case nw_set_nodelay N stream True w of
             (Inl e, w') \<Rightarrow> Some (Err e, s\<lparr>sv_world := w'\<rparr>)
           | (Inr _, w') \<Rightarrow> serve_loop N listener executor
               (s\<lparr>sv_world := w', sv_tasks := sv_tasks s @
                  [\<lparr>ry_stream = stream, ry_side = Server, ry_bootstrap = Some executor\<rparr>]\<rparr>)))"

text \<open>\<open>logged\<close> says whether the logger could be installed.\<close>

definition server_main ::
  "('w, 'addr, 'listener, 'stream, 'io, ('stream, 'cap) rpc_system) network \<Rightarrow> bool \<Rightarrow> 'cap \<Rightarrow>
   string list \<Rightarrow> 'w \<Rightarrow> (('io, unit) outcome \<times> ('w, 'stream, 'cap) server_state) option" where
  "server_main N logged executor args w =
     (let s = \<lparr>sv_world = w, sv_output = [], sv_tasks = []\<rparr> in
      if \<not> logged then Some (Crash, s)
      else case parse_args (nw_to_socket_addrs N) args of
        Ok (Inl text) \<Rightarrow> Some (Ok (), s\<lparr>sv_output := [text]\<rparr>)
      | Ok (Inr addr) \<Rightarrow>
          (case nw_bind N addr w of
             (Inl e, w') \<Rightarrow> Some (Err e, s\<lparr>sv_world := w'\<rparr>)
           | (Inr listener, w') \<Rightarrow> serve_loop N listener executor (s\<lparr>sv_world := w'\<rparr>))
      | Err e \<Rightarrow> Some (Err e, s)
      | Crash \<Rightarrow> Some (Crash, s))"

section \<open>Client\<close>

text \<open>
  The blockchain is made when it is first used, so it is there only after connecting. The
  result of the task is dropped: whatever error ends it, the program ends normally.
\<close>

record 'w client_state =
  ct_world :: 'w
  ct_output :: "string list"
  ct_chain :: "blockchain option"

fun dropped :: "('x, unit) outcome \<Rightarrow> ('e, unit) outcome" where
  "dropped Crash = Crash"
| "dropped _ = Ok ()"

definition client_main ::
  "('w, 'addr, 'listener, 'stream, 'io, ('stream, 'cap) rpc_system) network \<Rightarrow> bool \<Rightarrow> bool \<Rightarrow>
   (('stream, 'cap) rpc_system \<Rightarrow> request_sender) \<Rightarrow> transaction_message \<Rightarrow> chain_env \<Rightarrow> (nat \<Rightarrow> int) \<Rightarrow>
   address \<times> address \<times> address \<times> address \<Rightarrow> string + bytes \<Rightarrow> string list \<Rightarrow> 'w \<Rightarrow>
   (('e, unit) outcome \<times> 'w client_state) option" where
  "client_main N logged spawned bootstrap builder E now randoms wasm args w =
     (let s = \<lparr>ct_world = w, ct_output = [], ct_chain = None\<rparr> in
      if \<not> logged then Some (Crash, s)
      else case parse_args (nw_to_socket_addrs N) args of
        Ok (Inl text) \<Rightarrow> Some (Ok (), s\<lparr>ct_output := [text]\<rparr>)
      | Ok (Inr addr) \<Rightarrow>
          (case nw_connect N addr w of
             (Inl e, w') \<Rightarrow> Some (Ok (), s\<lparr>ct_world := w'\<rparr>)
           | (Inr stream, w') \<Rightarrow>
               (case nw_set_nodelay N stream True w' of
                  (Inl e, w') \<Rightarrow> Some (Ok (), s\<lparr>ct_world := w'\<rparr>)
                | (Inr _, w') \<Rightarrow>
                    if \<not> spawned then Some (Crash, s\<lparr>ct_world := w'\<rparr>)
                    else case randoms of (r1, r2, r3, r4) \<Rightarrow>
                      map_option (\<lambda>(r, bc). (dropped r, s\<lparr>ct_world := w', ct_chain := Some bc\<rparr>))
                        (client_steps (bootstrap \<lparr>ry_stream = stream, ry_side = Client, ry_bootstrap = None\<rparr>)
                          builder E (\<lambda>i. now (Suc i)) wasm (blockchain_new (now 0) r1 r2 r3 r4))))
      | Err e \<Rightarrow> Some (Err e, s)
      | Crash \<Rightarrow> Some (Crash, s))"

section \<open>How the programs end\<close>

lemma parse_args_Err [simp]: "parse_args f args \<noteq> Err e"
  by (cases "f (args ! 1)") (auto simp: parse_args_def split: list.split)

lemma parse_args_usage: "parse_args f args = Ok (Inl t) \<longleftrightarrow> args \<noteq> [] \<and> length args \<noteq> 2 \<and> t = usage (hd args)"
  by (cases "f (args ! 1)") (auto simp: parse_args_def split: list.split)

lemma parse_args_Crash:
  "parse_args f args = Crash \<longleftrightarrow> args = [] \<or> length args = 2 \<and> (\<forall>a as. f (args ! 1) \<noteq> Inr (a # as))"
  by (cases "f (args ! 1)") (auto simp: parse_args_def neq_Nil_conv split: list.split)

text \<open>
  Serving so far: the connections that were accepted, each with its task, from the state of the
  world in which listening began. A failure of the network is one of accepting, or of setting
  up a connection that was accepted.
\<close>

inductive served_so_far ::
  "('w, 'addr, 'listener, 'stream, 'io, ('stream, 'cap) rpc_system) network \<Rightarrow> 'listener \<Rightarrow> 'cap \<Rightarrow> 'w \<Rightarrow>
   ('stream, 'cap) rpc_system list \<Rightarrow> 'w \<Rightarrow> bool"
  for N listener executor w where
  start: "served_so_far N listener executor w [] w"
| one_more: "served_so_far N listener executor w tasks w1 \<Longrightarrow>
    nw_accept N listener tasks w1 = Some (Inr (stream, peer), w2) \<Longrightarrow>
    nw_set_nodelay N stream True w2 = (Inr u, w3) \<Longrightarrow>
    served_so_far N listener executor w
      (tasks @ [\<lparr>ry_stream = stream, ry_side = Server, ry_bootstrap = Some executor\<rparr>]) w3"

definition network_fails ::
  "('w, 'addr, 'listener, 'stream, 'io, ('stream, 'cap) rpc_system) network \<Rightarrow> 'listener \<Rightarrow>
   ('stream, 'cap) rpc_system list \<Rightarrow> 'w \<Rightarrow> 'io \<Rightarrow> 'w \<Rightarrow> bool" where
  "network_fails N listener tasks w e w' \<longleftrightarrow>
     nw_accept N listener tasks w = Some (Inl e, w') \<or>
     (\<exists>stream peer w1. nw_accept N listener tasks w = Some (Inr (stream, peer), w1) \<and>
        nw_set_nodelay N stream True w1 = (Inl e, w'))"

text \<open>The loop ends where the network fails, with its error and with one task per connection.\<close>

lemma serve_loop_ends:
  assumes "serve_loop N listener executor s = Some (r, t)"
    and "served_so_far N listener executor w (sv_tasks s) (sv_world s)"
  shows "sv_output t = sv_output s \<and> (\<exists>e w1. r = Err e \<and>
    served_so_far N listener executor w (sv_tasks t) w1 \<and>
    network_fails N listener (sv_tasks t) w1 e (sv_world t))"
proof -
  let ?Q = "\<lambda>N l ex s (r, t). served_so_far N l ex w (sv_tasks s) (sv_world s) \<longrightarrow>
    sv_output t = sv_output s \<and> (\<exists>e w1. r = Err e \<and>
      served_so_far N l ex w (sv_tasks t) w1 \<and> network_fails N l (sv_tasks t) w1 e (sv_world t))"
  have "?Q N listener executor s (r, t)"
  proof (rule serve_loop.raw_induct [of ?Q, OF _ assms(1)], goal_cases)
    case (1 loop N l ex s y)
    note IH = 1(1) and eq = 1(2)
    show ?case
    proof (cases "nw_accept N l (sv_tasks s) (sv_world s)")
      case (Some x)
      obtain c w1 where x: "x = (c, w1)" by (cases x)
      show ?thesis
      proof (cases c)
        case (Inl e)
        then have "network_fails N l (sv_tasks s) (sv_world s) e w1"
          using Some x by (simp add: network_fails_def)
        with eq Some x Inl show ?thesis by auto
      next
        case (Inr a)
        obtain stream peer where a: "a = (stream, peer)" by (cases a)
        obtain q w2 where q: "nw_set_nodelay N stream True w1 = (q, w2)" by fastforce
        show ?thesis
        proof (cases q)
          case q': (Inl e)
          then have "network_fails N l (sv_tasks s) (sv_world s) e w2"
            using Some x Inr a q by (simp add: network_fails_def)
          with eq Some x Inr a q q' show ?thesis by auto
        next
          case q': (Inr u)
          let ?s = "s\<lparr>sv_world := w2, sv_tasks := sv_tasks s @
            [\<lparr>ry_stream = stream, ry_side = Server, ry_bootstrap = Some ex\<rparr>]\<rparr>"
          from eq Some x Inr a q q' have "loop N l ex ?s = Some y" by simp
          from IH [OF this] served_so_far.one_more [of N l ex w "sv_tasks s" "sv_world s" stream peer w1 u w2]
            Some x Inr a q q'
          show ?thesis by (simp split: prod.splits)
        qed
      qed
    qed (use eq in simp)
  qed
  with assms(2) show ?thesis by simp
qed

lemma dropped_cases [simp]:
  "dropped r = Crash \<longleftrightarrow> r = Crash" "dropped r = Ok () \<longleftrightarrow> r \<noteq> Crash" "dropped r \<noteq> Err e"
  by (cases r; simp)+

lemma client_main_outcome:
  assumes "client_main N logged spawned bootstrap builder E now (r1, r2, r3, r4) wasm args w = Some (r, s)"
  shows "(r = Ok () \<or> r = Crash) \<and>
    (\<forall>bc. ct_chain s = Some bc \<longrightarrow> (\<exists>stream q.
      client_steps (bootstrap \<lparr>ry_stream = stream, ry_side = Client, ry_bootstrap = None\<rparr>) builder E
        (\<lambda>i. now (Suc i)) wasm (blockchain_new (now 0) r1 r2 r3 r4) = Some (q, bc) \<and> r = dropped q))"
  using assms
  by (auto simp: client_main_def Let_def split: if_splits outcome.splits sum.splits prod.splits) blast

end
