(* ===== verification/Remote_Properties.thy ===== *)
theory Remote_Properties
  imports Remote_Laws Rpc_Executor Endpoints Chain_Properties
begin

text \<open>
  Properties of executions over a connection: \<open>durian-server\<close> executes, and the provider is the
  blockchain that \<open>durian-client\<close> serves.
\<close>

section \<open>A direct connection\<close>

text \<open>
  The simplest client that carries calls: the object is the state, and every call reaches it.
  The properties are instantiated on it.
\<close>

fun as_field :: "(rpc_error, 'a) outcome \<Rightarrow> 'a field" where
  "as_field (Ok x) = Inr x"
| "as_field (Err e) = Inl e"
| "as_field Crash = Inl ''disconnected''"

definition blank_account :: account_message where
  "blank_account = \<lparr>am_nonce = Inr [], am_balance = Inr [], am_code = Inr []\<rparr>"

definition blank_transaction :: transaction_message where
  "blank_transaction = \<lparr>tm_sender = Inr [], tm_value = Inr [], tm_gas = Inr [], tm_gas_price = Inr [],
     tm_action = Inl ''unset'', tm_args = Inr []\<rparr>"

definition sample_display :: hash_display where
  "sample_display = (\<lambda>a. ''0x'' @ show_nat (unat a), \<lambda>k. ''0x'' @ show_nat (unat k))"

definition direct_client :: "'p provider \<Rightarrow> 'p provider_client" where
  "direct_client P =
     \<lparr>pc_exist = (\<lambda>p a. as_field (fst (serve_exist P (Inr (Inr a)) p))),
      pc_account = (\<lambda>p a. as_field (fst (serve_account sample_display P blank_account (Inr (Inr a)) p))),
      pc_create_contract = (\<lambda>a c p. case serve_create_contract sample_display P (Inr (Inr a, Inr c)) p of
        (r, q) \<Rightarrow> (as_field r, q)),
      pc_update_account = (\<lambda>a b n p. (Inl ''unimplemented'', p)),
      pc_storage_at = (\<lambda>p a k. as_field (fst (serve_storage_at sample_display P (Inr (Inr a, Inr k)) p))),
      pc_set_storage = (\<lambda>a k v p. case serve_set_storage sample_display P (Inr (Inr a, Inr k, Inr v)) p of
        (r, q) \<Rightarrow> (as_field r, q))\<rparr>"

lemma answers_as_field: "answers (as_field r) r"
  by (cases r) (simp_all add: answers_def)

lemma direct_carries:
  "carries sample_display blank_account P (direct_client P) (\<lambda>p. True) (\<lambda>p. p)"
  by (simp add: carries_def performs_def direct_client_def answers_as_field split: prod.split)

section \<open>Executions against a remote chain\<close>

text \<open>
  An execution against a remote chain, of a call or of a deployment at a new address, is all
  or nothing and stays in its place, exactly as on a local chain: either the connection's state
  is as before and any successful result is empty, or the result is a non-empty success, the
  connection is up, and the chain behind it keeps its invariant, has changed its accounts only
  by the deployment and storage only at the contract's own address.
\<close>

theorem remote_execution:
  assumes "carries display blank (chain_provider E) C up obj"
    and "up r" and "chain_inv E (obj r)" and "fair_orders H" and "0 < chain_room (obj r)"
    and "is_create (tx_action tx) \<Longrightarrow>
      \<not> pv_exist (chain_provider E) (obj r) (target (en_keccak X) tx)"
    and "execute X H (adaptor C) tx r = Some (res, r')"
  shows "(r' = r \<and> (\<forall>rd. res = Ok rd \<longrightarrow> rd_data rd = [])) \<or>
    (\<exists>rd w. res = Ok rd \<and> rd_data rd \<noteq> [] \<and> rd_contract rd = target (en_keccak X) tx \<and>
      up r' \<and> chain_inv E (obj r') \<and>
      acct (chain_provider E) (obj r') =
        committed chain_fresh tx (rd_contract rd) (rd_data rd) (acct (chain_provider E) (obj r)) \<and>
      stored (chain_provider E) (obj r') =
        (stored (chain_provider E) (obj r))
          (rd_contract rd := stored (chain_provider E) (obj r) (rd_contract rd) ++ w))"
proof -
  note store = chain.remote_store [OF assms(1)]
  have views: "acct (adaptor C) q = acct (chain_provider E) (obj q)"
      "stored (adaptor C) q = stored (chain_provider E) (obj q)" if "up q" "chain_inv E (obj q)" for q
    using adaptor_views [OF assms(1) that(1) chain.inv_quiet [OF that(2)]] by simp_all
  have new: "is_create (tx_action tx) \<Longrightarrow>
      False \<or> acct (adaptor C) r (target (en_keccak X) tx) = None"
    using assms(6) chain.exist_iff [OF assms(3)] views(1) [OF assms(2,3)] by auto
  from assms(2,3) have inv: "up r \<and> chain_inv E (obj r)" by simp
  show ?thesis
  proof (rule provider_store.store_outcome [OF store inv assms(4) _ new assms(7)])
    show "0 < chain_room (obj r)" by (rule assms(5))
  next
    assume "r' = r" and "\<And>rd. res = Ok rd \<Longrightarrow> rd_data rd = []"
    then show ?thesis by blast
  next
    fix rd w
    assume "res = Ok rd" "rd_data rd \<noteq> []" "rd_contract rd = target (en_keccak X) tx"
      and inv': "up r' \<and> chain_inv E (obj r')"
      and "acct (adaptor C) r' =
        committed chain_fresh tx (rd_contract rd) (rd_data rd) (acct (adaptor C) r)"
      and "stored (adaptor C) r' =
        (stored (adaptor C) r)(rd_contract rd := stored (adaptor C) r (rd_contract rd) ++ w)"
    with views [of r'] views [OF assms(2,3)] show ?thesis
      by (intro disjI2 exI [of _ rd] exI [of _ w]) simp
  qed
qed

abbreviation remote_sample :: "blockchain provider" where
  "remote_sample \<equiv> adaptor (direct_client sample_provider)"

lemma remote_sample_run:
  "\<exists>rd bc. execute sample_engine sorted_orders remote_sample sample_deploy sample_chain = Some (Ok rd, bc) \<and>
    rd_data rd = [0xca, 0xfe]"
proof (rule provider_store.sample_run_store [OF chain.remote_store [OF direct_carries]])
  note views = adaptor_views [OF direct_carries TrueI chain.inv_quiet [OF chain_inv_sample]]
  have none: "find_account sample_env 85 sample_chain = None"
    by (rule find_sample) (simp add: genesis_address_def)
  show "True \<and> chain_inv sample_env sample_chain" by (simp add: chain_inv_sample)
  show "0 < chain_room sample_chain" by (simp add: sample_chain_def chain_room_new)
  show "False \<or> acct remote_sample sample_chain 85 = None"
    by (simp add: views(2) acct_chain none)
  show "stored remote_sample sample_chain 85 = Map.empty"
    by (simp add: views(3) stored_chain none fun_eq_iff)
qed

lemma remote_execution_witness:
  "\<exists>rd bc. execute sample_engine sorted_orders remote_sample sample_deploy sample_chain = Some (Ok rd, bc) \<and>
    chain_inv sample_env bc \<and> acct sample_provider bc 85 = Some (chain_fresh [0xca, 0xfe])"
proof -
  obtain rd bc where run: "execute sample_engine sorted_orders remote_sample sample_deploy sample_chain = Some (Ok rd, bc)"
    and data: "rd_data rd = [0xca, 0xfe]" using remote_sample_run by blast
  have none: "find_account sample_env 85 sample_chain = None"
    by (rule find_sample) (simp add: genesis_address_def)
  have new: "\<not> pv_exist sample_provider sample_chain (target (en_keccak sample_engine) sample_deploy)"
    by (simp add: sample_engine_def sample_target chain_provider_def account_ref_def none)
  have room: "0 < chain_room sample_chain" by (simp add: sample_chain_def chain_room_new)
  have create: "is_create (tx_action sample_deploy)"
    by (simp add: sample_deploy_def make_create_def is_create_def)
  have fresh: "acct sample_provider sample_chain 85 = None" by (simp add: acct_chain none)
  from remote_execution [OF direct_carries TrueI chain_inv_sample fair_sorted room new run] data
  have "chain_inv sample_env bc" and "acct sample_provider bc =
      committed chain_fresh sample_deploy 85 [0xca, 0xfe] (acct sample_provider sample_chain)"
    by (auto simp: sample_engine_def sample_target)
  with run create fresh show ?thesis by (auto simp: committed_def deployed_def)
qed

section \<open>The server's method\<close>

text \<open>
  C16: The messages lose nothing but the log entries. The server reads from the message that the
  client filled exactly the transaction it was filled with; the client reads from the reply
  exactly the result, without its log entries; the server's adaptor reads from the client's answer
  exactly the account. What the messages held before does not matter. So a client that sends a
  transaction and reads the reply gets a result exactly when the execution on the server has it.
\<close>

theorem request_roundtrip:
  "transaction_of_reader (build_tx tx builder) = Ok tx \<and>
   (result_of_reader (Inr (fill_result rd results)) :: (error, result_data) outcome) = Ok (rd\<lparr>rd_logs := []\<rparr>) \<and>
   account_of_reader (fill_account acc answer) = Ok acc \<and>
   ((\<exists>reply. executor_execute X H closed n results
       (Inr \<lparr>ep_provider = Inr C, ep_transaction = Inr (build_tx tx builder)\<rparr>) r = Some (Ok reply, r') \<and>
     (result_of_reader (Inr reply) :: (error, result_data) outcome) = Ok rd) \<longleftrightarrow>
    execute X H (adaptor C) tx r = Some (Ok rd, r'))"
proof -
  have run: "executor_execute X H closed n results
      (Inr \<lparr>ep_provider = Inr C, ep_transaction = Inr (build_tx tx builder)\<rparr>) r =
    map_option (\<lambda>(res, r').
      (case res of Ok rd \<Rightarrow> Ok (fill_result rd results) | _ \<Rightarrow> Err closed, r'))
      (execute X H (adaptor C) tx r)"
    by (rule executor_run [where tm = "build_tx tx builder" and
          m = "\<lparr>ep_provider = Inr C, ep_transaction = Inr (build_tx tx builder)\<rparr>"]) (simp_all add: transaction_build)
  have logs: "rd\<lparr>rd_logs := []\<rparr> = rd" if "execute X H (adaptor C) tx r = Some (Ok rd, r')" for rd r'
    using execute_report(3) [OF that] by (cases rd) simp
  have "(\<exists>reply. executor_execute X H closed n results
       (Inr \<lparr>ep_provider = Inr C, ep_transaction = Inr (build_tx tx builder)\<rparr>) r = Some (Ok reply, r') \<and>
     (result_of_reader (Inr reply) :: (error, result_data) outcome) = Ok rd) \<longleftrightarrow>
    execute X H (adaptor C) tx r = Some (Ok rd, r')"
  proof (cases "execute X H (adaptor C) tx r")
    case (Some x)
    obtain res q where x: "x = (res, q)" by (cases x)
    with run Some logs show ?thesis by (cases res) (auto simp: result_fill)
  qed (simp add: run)
  then show ?thesis by (simp add: transaction_build result_fill)
qed

text \<open>
  C22: How the server answers a request, on every branch. A parameter or a field that cannot be
  read is answered with its error, before anything is executed. Otherwise the server answers
  exactly when the execution returns, with the result, or, when the execution failed or panicked, with
  the error of the closed channel; the polls do not matter. Reading a transaction panics exactly
  when an address or the salt has a wrong length or a number has more than 32 bytes.
\<close>

theorem server_reply:
  "executor_execute X H closed n results (Inl unread) r = Some (Err unread, r) \<and>
   executor_execute X H closed n results (Inr \<lparr>ep_provider = client, ep_transaction = message\<rparr>) r =
    (case client of Inl e \<Rightarrow> Some (Err e, r) | Inr C \<Rightarrow>
     (case message of Inl e \<Rightarrow> Some (Err e, r) | Inr tm \<Rightarrow>
      (case transaction_of_reader tm of Err e \<Rightarrow> Some (Err e, r) | Crash \<Rightarrow> Some (Crash, r) | Ok tx \<Rightarrow>
       (case execute X H (adaptor C) tx r of
          None \<Rightarrow> None
        | Some (Ok rd, r') \<Rightarrow> Some (Ok (fill_result rd results), r')
        | Some (_, r') \<Rightarrow> Some (Err closed, r'))))) \<and>
   (transaction_of_reader \<lparr>tm_sender = Inr sender_bs, tm_value = Inr value_bs, tm_gas = Inr gas_bs, tm_gas_price = Inr price_bs,
       tm_action = Inr (MsgCall (Inr to_bs)), tm_args = Inr args_bs\<rparr> = Crash \<longleftrightarrow>
     length sender_bs \<noteq> 20 \<or> 32 < length value_bs \<or> 32 < length gas_bs \<or> 32 < length price_bs \<or> length to_bs \<noteq> 20) \<and>
   (transaction_of_reader \<lparr>tm_sender = Inr sender_bs, tm_value = Inr value_bs, tm_gas = Inr gas_bs, tm_gas_price = Inr price_bs,
       tm_action = Inr (MsgCreate (Inr code_bs) (Inr salt_bs)), tm_args = Inr args_bs\<rparr> = Crash \<longleftrightarrow>
     length sender_bs \<noteq> 20 \<or> 32 < length value_bs \<or> 32 < length gas_bs \<or> 32 < length price_bs \<or> length salt_bs \<noteq> 32)"
proof (intro conjI)
  show "executor_execute X H closed n results (Inl unread) r = Some (Err unread, r)"
    by (simp add: executor_execute_def)
next
  show "executor_execute X H closed n results (Inr \<lparr>ep_provider = client, ep_transaction = message\<rparr>) r =
    (case client of Inl e \<Rightarrow> Some (Err e, r) | Inr C \<Rightarrow>
     (case message of Inl e \<Rightarrow> Some (Err e, r) | Inr tm \<Rightarrow>
      (case transaction_of_reader tm of Err e \<Rightarrow> Some (Err e, r) | Crash \<Rightarrow> Some (Crash, r) | Ok tx \<Rightarrow>
       (case execute X H (adaptor C) tx r of
          None \<Rightarrow> None
        | Some (Ok rd, r') \<Rightarrow> Some (Ok (fill_result rd results), r')
        | Some (_, r') \<Rightarrow> Some (Err closed, r')))))"
    by (auto simp: executor_execute_def poll_oneshot task_sends_def
        split: sum.split outcome.split option.split prod.split)
qed (auto simp: transaction_of_reader_def h160_from_slice_def h256_from_slice_def u256_from_le_def)

lemma server_reply_witness:
  "executor_execute sample_engine sorted_orders ''channel closed'' 3
      \<lparr>rm_gas_left = Inr [], rm_data = Inr [], rm_contract = Inr []\<rparr>
      (Inr \<lparr>ep_provider = Inr (direct_client sample_provider),
        ep_transaction = Inr \<lparr>tm_sender = Inr (replicate 20 1), tm_value = Inr (replicate 33 0), tm_gas = Inr [0, 1],
          tm_gas_price = Inr [], tm_action = Inr (MsgCall (Inr (replicate 20 2))), tm_args = Inr []\<rparr>\<rparr>)
      sample_chain = Some (Crash, sample_chain)"
proof -
  let ?client = "Inr (direct_client sample_provider) :: blockchain provider_client field"
  have "transaction_of_reader \<lparr>tm_sender = Inr (replicate 20 1), tm_value = Inr (replicate 33 0), tm_gas = Inr [0, 1],
      tm_gas_price = Inr [], tm_action = Inr (MsgCall (Inr (replicate 20 2))), tm_args = Inr []\<rparr> = Crash"
    by (simp add: server_reply [THEN conjunct2, THEN conjunct2, THEN conjunct1])
  then show ?thesis
    by (simp add: server_reply [where client = ?client, THEN conjunct2, THEN conjunct1])
qed

text \<open>
  C37: The loop in which the server waits for its task ends if and only if some poll finds the
  channel filled or closed, and what it says is what the first such poll finds: the value, or
  that the task is gone without one.
\<close>

theorem polling_ends:
  "(poll_result rx 0 = None \<longleftrightarrow> (\<forall>k. rx k = RecvEmpty)) \<and>
   (poll_result rx 0 = Some (Some x) \<longleftrightarrow> (\<exists>k. rx k = Received x \<and> (\<forall>j < k. rx j = RecvEmpty))) \<and>
   (poll_result rx 0 = Some None \<longleftrightarrow> (\<exists>k. rx k = RecvClosed \<and> (\<forall>j < k. rx j = RecvEmpty)))"
proof (cases "\<exists>k. rx k \<noteq> RecvEmpty")
  case True
  then obtain k where k: "rx k \<noteq> RecvEmpty" and before: "\<And>j. j < k \<Longrightarrow> rx j = RecvEmpty"
    using exists_least_iff [of "\<lambda>k. rx k \<noteq> RecvEmpty"] by blast
  have first: "(rx i = y \<and> (\<forall>j < i. rx j = RecvEmpty)) \<longleftrightarrow> i = k \<and> rx k = y" if "y \<noteq> RecvEmpty" for i y
    using k before that by (metis linorder_neqE_nat)
  have "poll_result rx 0 = (case rx k of Received x \<Rightarrow> Some (Some x) | _ \<Rightarrow> Some None)"
    using k before by (intro poll_result_first) auto
  with k show ?thesis
    by (cases "rx k") (use True in \<open>auto simp: first\<close>)
next
  case False
  then show ?thesis using poll_result_never [of 0 rx] by simp
qed

lemma polling_ends_witness:
  "poll_result (\<lambda>k. if k < 3 then RecvEmpty else Received (7 :: nat)) 0 = Some (Some 7)"
proof -
  let ?rx = "\<lambda>k :: nat. if k < 3 then RecvEmpty else Received (7 :: nat)"
  have "?rx 3 = Received 7 \<and> (\<forall>j < 3. ?rx j = RecvEmpty)" by simp
  with polling_ends [of ?rx 7] show ?thesis by blast
qed

section \<open>The server's program\<close>

text \<open>
  C36: How the server ends. It panics only when the logger cannot be installed, when there is no
  program name to print, or when its argument names no address; it ends normally only to
  explain its usage. It ends with an error only as the network does: with the error of binding
  the address, before it serves anyone, or, after any number of connections, with the error of
  accepting the next one or of setting it up; then its tasks are exactly the server's ends of
  the accepted connections, in their order, each with the one executor.
\<close>

theorem server_ends:
  fixes r :: "('io, unit) outcome"
  assumes "server_main N logged executor args w = Some (r, s)"
  shows "(r = Crash \<longleftrightarrow> \<not> logged \<or> args = [] \<or>
      length args = 2 \<and> (\<forall>a as. nw_to_socket_addrs N (args ! 1) \<noteq> Inr (a # as))) \<and>
    (r = Ok () \<longleftrightarrow> logged \<and> args \<noteq> [] \<and> length args \<noteq> 2) \<and>
    (r = Ok () \<longrightarrow> sv_output s = [usage (hd args)] \<and> sv_tasks s = [] \<and> sv_world s = w) \<and>
    (\<forall>e. r = Err e \<longrightarrow> (\<exists>addr as. nw_to_socket_addrs N (args ! 1) = Inr (addr # as) \<and>
      (nw_bind N addr w = (Inl e, sv_world s) \<and> sv_tasks s = [] \<or>
       (\<exists>listener w0 w1. nw_bind N addr w = (Inr listener, w0) \<and>
          served_so_far N listener executor w0 (sv_tasks s) w1 \<and>
          network_fails N listener (sv_tasks s) w1 e (sv_world s)))))"
proof (cases logged)
  case False
  with assms show ?thesis by (auto simp: server_main_def)
next
  case True
  show ?thesis
  proof (cases "parse_args (nw_to_socket_addrs N) args :: ('io, _) outcome")
    case (Ok a)
    show ?thesis
    proof (cases a)
      case (Inl t)
      have "args \<noteq> []" "length args \<noteq> 2" "t = usage (hd args)"
        using Ok Inl parse_args_usage by blast+
      with Ok Inl True assms show ?thesis by (auto simp: server_main_def)
    next
      case (Inr addr)
      have args: "args \<noteq> []" "length args = 2" "\<exists>as. nw_to_socket_addrs N (args ! 1) = Inr (addr # as)"
        using Ok Inr by (cases "nw_to_socket_addrs N (args ! 1)"; auto simp: parse_args_def
            split: if_splits list.splits)+
      obtain c w0 where bind: "nw_bind N addr w = (c, w0)" by fastforce
      show ?thesis
      proof (cases c)
        case (Inl e)
        then show ?thesis using Ok Inr True assms args bind by (auto simp: server_main_def)
      next
        case c: (Inr listener)
        let ?s = "\<lparr>sv_world = w0, sv_output = [], sv_tasks = []\<rparr>"
        have "serve_loop N listener executor ?s = Some (r, s)"
          using Ok Inr True assms bind c by (simp add: server_main_def)
        from serve_loop_ends [OF this, of w0] obtain e w1 where "r = Err e"
          "served_so_far N listener executor w0 (sv_tasks s) w1" "network_fails N listener (sv_tasks s) w1 e (sv_world s)"
          by (auto intro: served_so_far.start)
        then show ?thesis using True args bind c by auto
      qed
    qed
  next
    case Crash
    with True assms parse_args_Crash [of "nw_to_socket_addrs N" args] show ?thesis
      by (auto simp: server_main_def)
  qed simp
qed

text \<open>A network on which two clients connect before the listener fails.\<close>

definition sample_network ::
  "(nat list, nat, nat, nat, string, (nat, nat) rpc_system) network" where
  "sample_network = \<lparr>nw_to_socket_addrs = (\<lambda>host. Inr [80]),
     nw_bind = (\<lambda>addr w. (Inr addr, w)),
     nw_accept = (\<lambda>l tasks w. case w of [] \<Rightarrow> Some (Inl ''closed'', []) | x # xs \<Rightarrow> Some (Inr (x, x), xs)),
     nw_connect = (\<lambda>addr w. (Inr addr, w)),
     nw_set_nodelay = (\<lambda>stream on w. (Inr (), w))\<rparr>"

lemma server_ends_witness:
  "\<exists>s w1. server_main sample_network True 1 [''server'', ''localhost:80''] [7, 9] =
      Some (Err ''closed'' :: (string, unit) outcome, s) \<and> map ry_stream (sv_tasks s) = [7, 9] \<and>
    served_so_far sample_network 80 (1 :: nat) [7, 9] (sv_tasks s) w1 \<and>
    network_fails sample_network 80 (sv_tasks s) w1 ''closed'' (sv_world s)"
proof -
  have "\<exists>s. server_main sample_network True 1 [''server'', ''localhost:80''] [7, 9] =
      Some (Err ''closed'' :: (string, unit) outcome, s) \<and> map ry_stream (sv_tasks s) = [7, 9]"
    by (simp add: server_main_def parse_args_def sample_network_def)
      (subst serve_loop.simps, simp)+
  then obtain s where run: "server_main sample_network True 1 [''server'', ''localhost:80''] [7, 9] =
      Some (Err ''closed'' :: (string, unit) outcome, s)" and tasks: "map ry_stream (sv_tasks s) = [7, 9]"
    by (elim exE conjE) (rule that)
  have bind: "nw_bind sample_network 80 [7, 9] = (Inr 80, [7, 9])"
    and addr: "nw_to_socket_addrs sample_network ([''server'', ''localhost:80''] ! 1) = Inr [80]"
    by (simp_all add: sample_network_def)
  obtain w1 where "served_so_far sample_network 80 1 [7, 9] (sv_tasks s) w1"
    "network_fails sample_network 80 (sv_tasks s) w1 ''closed'' (sv_world s)"
    using server_ends [OF run, THEN conjunct2, THEN conjunct2, THEN conjunct2, rule_format, OF refl]
    unfolding addr using bind by auto
  with run tasks show ?thesis by (intro exI conjI)
qed

end
