(* ===== verification/Equivalence_Properties.thy ===== *)
theory Equivalence_Properties
  imports Simulation Remote_Properties Front_Ends
begin

text \<open>
  Which executions cannot be told apart: those that differ in the iteration orders of the hash
  maps, those on chains that differ in the accounts of others, and those on the server and on the
  client's own machine, but for the information on blocks that the server's adaptor makes up and
  for deployments at an existing address, which the client refuses to have written back.
  At the end the client's program with the server, from end to end.
\<close>

section \<open>Iteration orders\<close>

lemma chain_store: "provider_store (chain_provider E) (chain_inv E) chain_room chain_fresh True"
  by (rule chain.provider_store_axioms)

lemma alike_chain:
  assumes "chain_inv E bc" and "chain_inv (E\<lparr>ce_order := order\<rparr>) bc"
  shows "alike c (chain_provider E) (chain_provider (E\<lparr>ce_order := order\<rparr>)) bc bc"
    and "acct (chain_provider E) bc = acct (chain_provider (E\<lparr>ce_order := order\<rparr>)) bc"
    and "stored (chain_provider E) bc = stored (chain_provider (E\<lparr>ce_order := order\<rparr>)) bc"
proof -
  let ?E' = "E\<lparr>ce_order := order\<rparr>"
  note find = find_eq [OF assms]
  have "(hash ?E' :: block \<Rightarrow> (error, h256) outcome) = hash E"
    by (rule ext) (simp add: hash_def split: option.split)
  then have "chain_block_hash ?E' = chain_block_hash E"
    by (simp add: chain_block_hash_def fun_eq_iff)
  moreover show views: "acct (chain_provider E) bc = acct (chain_provider ?E') bc"
    "stored (chain_provider E) bc = stored (chain_provider ?E') bc"
    by (simp_all add: acct_chain stored_chain fun_eq_iff find)
  ultimately show "alike c (chain_provider E) (chain_provider ?E') bc bc"
    by (simp add: alike_def chain.inv_quiet [OF assms(1)] chain.inv_quiet [OF assms(2)])
      (simp add: chain_provider_def)
qed

text \<open>
  C8: The iteration orders of the hash maps, of the chain's accounts and of the cache alike, have
  no influence on an execution. On a chain with the invariant, executions that differ in these
  orders return together, with the same result, the same accounts and the same storage.
\<close>

theorem execution_order_independent:
  assumes "chain_inv E bc" and "fair (E\<lparr>ce_order := order\<rparr>)"
    and "fair_orders H" and "fair_orders H'" and "0 < chain_room bc"
  shows "(execute X H (chain_provider E) tx bc = None \<longleftrightarrow>
      execute X H' (chain_provider (E\<lparr>ce_order := order\<rparr>)) tx bc = None) \<and>
    (\<forall>r b. execute X H (chain_provider E) tx bc = Some (r, b) \<longrightarrow>
      (\<exists>b'. execute X H' (chain_provider (E\<lparr>ce_order := order\<rparr>)) tx bc = Some (r, b') \<and>
        acct (chain_provider E) b = acct (chain_provider (E\<lparr>ce_order := order\<rparr>)) b' \<and>
        stored (chain_provider E) b = stored (chain_provider (E\<lparr>ce_order := order\<rparr>)) b'))"
proof -
  let ?E' = "E\<lparr>ce_order := order\<rparr>"
  have inv': "chain_inv ?E' bc" using assms(1,2) by (simp add: chain_inv_def)
  note alike = alike_chain(1) [OF assms(1) inv'] and views = alike_chain(2,3) [OF assms(1) inv']
  have "pv_account (chain_provider E) bc = pv_account (chain_provider ?E') bc"
    by (simp add: chain_provider_def lookup_eq [OF assms(1) inv'] fun_eq_iff)
  then have "make_params (en_keccak X) (chain_provider E) bc tx =
      make_params (en_keccak X) (chain_provider ?E') bc tx"
    by (simp add: make_params_def split: action.split)
  from execute_alike [OF chain_store chain_store assms(3,4,1) inv' alike _ _ this] assms(5)
  have "matched (left_alike (target (en_keccak X) tx) (chain_provider E) (chain_provider ?E') (chain_inv E)
      (chain_inv ?E') bc bc)
    (execute X H (chain_provider E) tx bc) (execute X H' (chain_provider ?E') tx bc)" by simp
  then show ?thesis
    by (cases rule: option.rel_cases) (auto dest: left_alike_everywhere [OF _ views])
qed

lemma execution_order_independent_witness:
  "\<exists>rd b b'. execute sample_engine sorted_orders sample_provider sample_deploy sample_chain = Some (Ok rd, b) \<and>
    execute sample_engine reverse_orders (chain_provider (sample_env\<lparr>ce_order := \<lambda>m. rev (sorted_keys m)\<rparr>))
      sample_deploy sample_chain = Some (Ok rd, b') \<and>
    acct sample_provider b = acct (chain_provider (sample_env\<lparr>ce_order := \<lambda>m. rev (sorted_keys m)\<rparr>)) b'"
proof -
  obtain rd b where run: "execute sample_engine sorted_orders sample_provider sample_deploy sample_chain = Some (Ok rd, b)"
    using sample_run [of 1] by (auto simp: sample_chain_eq genesis_address_def)
  have fair: "fair (sample_env\<lparr>ce_order := \<lambda>m. rev (sorted_keys m)\<rparr>)"
    by (simp add: fair_def enumerates_def sorted_keys_def)
  have rev: "fair_orders reverse_orders"
    by (simp add: fair_orders_def reverse_orders_def enumerates_def sorted_keys_def)
  have room: "0 < chain_room sample_chain" by (simp add: sample_chain_def chain_room_new)
  from execution_order_independent [OF chain_inv_sample fair fair_sorted rev room] run show ?thesis by metis
qed

section \<open>Isolation\<close>

text \<open>
  C9: Contracts are isolated from each other's accounts. An execution depends on the chain only
  through the account at the contract's address, the blocks and the address of the block author,
  and it changes nothing else: on two chains that agree on these it returns or does not return
  alike, with the same result and the same account and storage at the address, and every other
  account of either chain is as it was.
\<close>

theorem execution_isolated:
  assumes "chain_inv E p" and "chain_inv E q" and "fair_orders H" and "0 < chain_room p" and "0 < chain_room q"
    and "bc_blocks p = bc_blocks q"
    and "(address_from_alias ''alice'' p :: (error, address) outcome) = address_from_alias ''alice'' q"
    and "account_ref E (target (en_keccak X) tx) p = account_ref E (target (en_keccak X) tx) q"
  shows "(execute X H (chain_provider E) tx p = None \<longleftrightarrow> execute X H (chain_provider E) tx q = None) \<and>
    (\<forall>r p'. execute X H (chain_provider E) tx p = Some (r, p') \<longrightarrow>
      (\<exists>q'. execute X H (chain_provider E) tx q = Some (r, q') \<and>
        acct (chain_provider E) p' (target (en_keccak X) tx) = acct (chain_provider E) q' (target (en_keccak X) tx) \<and>
        stored (chain_provider E) p' (target (en_keccak X) tx) = stored (chain_provider E) q' (target (en_keccak X) tx) \<and>
        (\<forall>a. a \<noteq> target (en_keccak X) tx \<longrightarrow>
          acct (chain_provider E) p' a = acct (chain_provider E) p a \<and>
          stored (chain_provider E) p' a = stored (chain_provider E) p a \<and>
          acct (chain_provider E) q' a = acct (chain_provider E) q a \<and>
          stored (chain_provider E) q' a = stored (chain_provider E) q a)))"
proof -
  let ?P = "chain_provider E" and ?c = "target (en_keccak X) tx"
  have "(last_block p :: (error, block) outcome) = last_block q"
    using assms(6) by (simp add: last_block_def)
  then have "pv_block_number ?P p = pv_block_number ?P q" "pv_block_hash ?P p = pv_block_hash ?P q"
    "pv_block_author ?P p = pv_block_author ?P q" "pv_difficulty ?P p = pv_difficulty ?P q"
    "pv_gas_limit ?P p = pv_gas_limit ?P q"
    using assms(6,7)
    by (simp_all add: chain_provider_def chain_block_number_def chain_block_hash_def fun_eq_iff)
  moreover have "acct ?P p ?c = acct ?P q ?c" "stored ?P p ?c = stored ?P q ?c"
    using assms(8) by (simp_all add: acct_def stored_def fun_eq_iff chain_provider_def chain_storage_at_def)
  ultimately have alike: "alike ?c ?P ?P p q"
    by (simp add: alike_def chain.inv_quiet [OF assms(1)] chain.inv_quiet [OF assms(2)])
  have "make_params (en_keccak X) ?P p tx = make_params (en_keccak X) ?P q tx"
    using assms(8) by (cases "tx_action tx") (simp_all add: make_params_def chain_provider_def target_def)
  from execute_alike [OF chain_store chain_store assms(3,3,1,2) alike _ _ this] assms(4,5)
  have "matched (left_alike ?c ?P ?P (chain_inv E) (chain_inv E) p q) (execute X H ?P tx p) (execute X H ?P tx q)"
    by simp
  then show ?thesis
    by (cases rule: option.rel_cases) (auto simp: left_alike_def elsewhere_def)
qed

lemma execution_isolated_witness:
  "\<exists>rd b b'. execute sample_engine sorted_orders sample_provider sample_deploy sample_chain = Some (Ok rd, b) \<and>
    execute sample_engine sorted_orders sample_provider sample_deploy (blockchain_new 0 1 2 3 9) = Some (Ok rd, b') \<and>
    acct sample_provider b' 9 = acct sample_provider (blockchain_new 0 1 2 3 9) 9"
proof -
  let ?q = "blockchain_new 0 1 2 3 9"
  obtain rd b where run: "execute sample_engine sorted_orders sample_provider sample_deploy sample_chain = Some (Ok rd, b)"
    using sample_run [of 1] by (auto simp: sample_chain_eq genesis_address_def)
  have inv: "chain_inv sample_env ?q"
    by (rule chain_inv_new [OF fair_sample]) (simp add: genesis_address_def)
  have c: "target (en_keccak sample_engine) sample_deploy = 85" by (simp add: sample_engine_def sample_target)
  have "bc_accounts ?q n = Some x \<Longrightarrow> ca_address x \<noteq> 85" for n x
    by (auto simp: blockchain_new_def chain_account_new_def genesis_address_def split: if_splits)
  then have "find_account sample_env 85 ?q = None"
    by (cases "find_account sample_env 85 ?q") (auto simp: find_account_iff [OF inv])
  moreover have "find_account sample_env 85 sample_chain = None"
    by (rule find_sample) (simp add: genesis_address_def)
  ultimately have ref: "account_ref sample_env (target (en_keccak sample_engine) sample_deploy) sample_chain =
      account_ref sample_env (target (en_keccak sample_engine) sample_deploy) ?q"
    by (simp add: c account_ref_def)
  have room: "0 < chain_room sample_chain" "0 < chain_room ?q"
    by (simp_all add: sample_chain_def chain_room_new)
  have same: "bc_blocks sample_chain = bc_blocks ?q"
    "(address_from_alias ''alice'' sample_chain :: (error, address) outcome) = address_from_alias ''alice'' ?q"
    by (simp_all add: sample_chain_def blockchain_new_def address_from_alias_def)
  from execution_isolated [OF chain_inv_sample inv fair_sorted room same ref] run
  obtain b' where "execute sample_engine sorted_orders sample_provider sample_deploy ?q = Some (Ok rd, b')"
    "\<forall>a. a \<noteq> 85 \<longrightarrow> acct sample_provider b' a = acct sample_provider ?q a" unfolding c by blast
  with run show ?thesis by auto
qed

section \<open>Here and over the connection\<close>

text \<open>A provider with the information on blocks that the server's adaptor gives.\<close>

definition blockless :: "'p provider \<Rightarrow> 'p provider" where
  "blockless P = P\<lparr>pv_timestamp := \<lambda>p. Ok 0, pv_block_number := \<lambda>p. Ok 0, pv_block_hash := \<lambda>p num. Ok 0,
     pv_block_author := \<lambda>p. Err NotSupported, pv_difficulty := \<lambda>p. Err NotSupported,
     pv_gas_limit := \<lambda>p. Ok 0\<rparr>"

lemma blockless_views [simp]:
  "acct (blockless P) = acct P" "stored (blockless P) = stored P" "quiet (blockless P) = quiet P"
  "pv_exist (blockless P) = pv_exist P" "pv_account (blockless P) = pv_account P"
  by (simp_all add: fun_eq_iff acct_def stored_def quiet_def blockless_def)

lemma blockless_store:
  "provider_store P I room fresh updates \<Longrightarrow> provider_store (blockless P) I room fresh updates"
  by (simp add: provider_store_def) (simp add: blockless_def)

lemma remote_start:
  assumes "carries display blank (chain_provider E) C up obj" and "up r" and "chain_inv E (obj r)"
    and "\<not> is_create (tx_action tx) \<Longrightarrow> pv_exist (chain_provider E) (obj r) (target (en_keccak X) tx)"
  shows "alike c (adaptor C) (blockless (chain_provider E)) r (obj r)"
    and "make_params (en_keccak X) (adaptor C) r tx =
      make_params (en_keccak X) (blockless (chain_provider E)) (obj r) tx"
proof -
  let ?P = "blockless (chain_provider E)"
  note views = adaptor_views [OF assms(1) _ chain.inv_quiet]
  show "alike c (adaptor C) ?P r (obj r)"
    by (simp add: alike_def views [OF assms(2,3)] chain.inv_quiet [OF assms(3)])
      (simp add: adaptor_def blockless_def fun_eq_iff)
  have "pv_account (adaptor C) r a = pv_account (chain_provider E) (obj r) a" if "tx_action tx = Call a" for a
  proof -
    have "acct (adaptor C) r a \<noteq> None"
      using assms(4) that unfolding views(2) [OF assms(2,3)]
      by (simp add: target_def is_create_def chain.exist_iff [OF assms(3)])
    then obtain x where x: "acct (adaptor C) r a = Some x" by blast
    then have "acct (chain_provider E) (obj r) a = Some x" by (simp add: views(2) [OF assms(2,3)])
    with x show ?thesis by (simp add: acct_Some)
  qed
  then show "make_params (en_keccak X) (adaptor C) r tx = make_params (en_keccak X) ?P (obj r) tx"
    by (simp add: make_params_def split: action.split)
qed

lemma remote_matched:
  assumes "carries display blank (chain_provider E) C up obj"
    and "up r" and "chain_inv E (obj r)" and "fair_orders H" and "0 < chain_room (obj r)"
    and "pv_exist (chain_provider E) (obj r) (target (en_keccak X) tx) \<longleftrightarrow> \<not> is_create (tx_action tx)"
  shows "matched (\<lambda>r' bc. up r' \<and> acct (chain_provider E) (obj r') = acct (chain_provider E) bc \<and>
      stored (chain_provider E) (obj r') = stored (chain_provider E) bc)
    (execute X H (adaptor C) tx r) (execute X H (blockless (chain_provider E)) tx (obj r))"
proof -
  let ?P = "blockless (chain_provider E)"
  let ?left = "left_alike (target (en_keccak X) tx) (adaptor C) ?P
      (\<lambda>r. up r \<and> chain_inv E (obj r)) (chain_inv E) r (obj r)"
  note views = adaptor_views [OF assms(1) _ chain.inv_quiet]
  have inv: "up r \<and> chain_inv E (obj r)" using assms(2,3) by simp
  have none: "acct (adaptor C) r (target (en_keccak X) tx) = None \<longleftrightarrow> is_create (tx_action tx)"
    using assms(6) unfolding views(2) [OF assms(2,3)] chain.exist_iff [OF assms(3)] by blast
  have same: "acct (adaptor C) r = acct ?P (obj r)" "stored (adaptor C) r = stored ?P (obj r)"
    by (simp_all add: views [OF assms(2,3)])
  note start = remote_start [where X = X and tx = tx, OF assms(1-3)]
  have "matched ?left (execute X H (adaptor C) tx r) (execute X H ?P tx (obj r))"
    by (rule execute_alike [OF chain.remote_store [OF assms(1)] blockless_store [OF chain_store]
          assms(4,4) inv assms(3) start(1) _ _ start(2)])
      (use assms(5,6) none in simp_all)
  then show ?thesis
  proof (rule option.rel_mono_strong)
    fix a b
    assume "rel_prod (=) ?left a b"
    then obtain x r' bc where x: "a = (x, r')" "b = (x, bc)" and left: "?left r' bc"
      by (cases a; cases b) auto
    then have "up r'" "chain_inv E (obj r')" by (simp_all add: left_alike_def)
    with x left_alike_everywhere [OF left same] show "rel_prod (=) (\<lambda>r' bc. up r' \<and>
        acct (chain_provider E) (obj r') = acct (chain_provider E) bc \<and>
        stored (chain_provider E) (obj r') = stored (chain_provider E) bc) a b"
      by (simp add: views)
  qed
qed

text \<open>
  C6: For a contract it makes no difference whether the chain is behind a connection. The
  execution of a call of an existing account, or of a deployment at a new address, through the
  server's adaptor returns if and only if the execution on the client's own chain with the
  adaptor's information on blocks does; it gives the same result, leaves the connection up, and
  the chain behind it with the same accounts and the same storage.
\<close>

theorem remote_transparent:
  assumes "carries display blank (chain_provider E) C up obj"
    and "up r" and "chain_inv E (obj r)" and "fair_orders H" and "0 < chain_room (obj r)"
    and "pv_exist (chain_provider E) (obj r) (target (en_keccak X) tx) \<longleftrightarrow> \<not> is_create (tx_action tx)"
  shows "(execute X H (adaptor C) tx r = None \<longleftrightarrow>
      execute X H (blockless (chain_provider E)) tx (obj r) = None) \<and>
    (\<forall>res r'. execute X H (adaptor C) tx r = Some (res, r') \<longrightarrow> up r' \<and>
      (\<exists>bc. execute X H (blockless (chain_provider E)) tx (obj r) = Some (res, bc) \<and>
        acct (chain_provider E) (obj r') = acct (chain_provider E) bc \<and>
        stored (chain_provider E) (obj r') = stored (chain_provider E) bc))"
  using remote_matched [OF assms] by (cases rule: option.rel_cases) auto

lemma sample_new: "pv_exist sample_provider sample_chain (target (en_keccak sample_engine) sample_deploy) \<longleftrightarrow>
    \<not> is_create (tx_action sample_deploy)"
proof -
  have none: "find_account sample_env 85 sample_chain = None"
    by (rule find_sample) (simp add: genesis_address_def)
  have "is_create (tx_action sample_deploy)"
    by (simp add: sample_deploy_def make_create_def is_create_def)
  then show ?thesis by (simp add: sample_engine_def sample_target chain_provider_def account_ref_def none)
qed

lemma remote_transparent_witness:
  "\<exists>rd b b'. execute sample_engine sorted_orders remote_sample sample_deploy sample_chain = Some (Ok rd, b) \<and>
    execute sample_engine sorted_orders (blockless sample_provider) sample_deploy sample_chain = Some (Ok rd, b') \<and>
    acct sample_provider b = acct sample_provider b'"
proof -
  obtain rd b where run: "execute sample_engine sorted_orders remote_sample sample_deploy sample_chain = Some (Ok rd, b)"
    using remote_sample_run by blast
  have room: "0 < chain_room sample_chain" by (simp add: sample_chain_def chain_room_new)
  from remote_transparent [OF direct_carries TrueI chain_inv_sample fair_sorted room sample_new] run show ?thesis by metis
qed

section \<open>Where the connection makes a difference\<close>

text \<open>
  C34: A deployment at an existing address with a result is refused over a connection that carries
  calls, because the client implements no \<open>update_account\<close>. While the counter of the
  chain has room, the execution through the server returns if and only if the one on the client's
  own chain (with the adaptor's information on blocks) does, and leaves the chain exactly as it
  was. Where the local one succeeds with a result, it ends with an error; otherwise it ends as the
  local one does.
\<close>

theorem remote_redeploy_refused:
  assumes "carries display blank (chain_provider E) C up obj"
    and "up r" and "chain_inv E (obj r)" and "fair_orders H" and "0 < chain_room (obj r)"
    and "is_create (tx_action tx)"
    and "pv_exist (chain_provider E) (obj r) (target (en_keccak X) tx)"
  shows "(execute X H (adaptor C) tx r = None \<longleftrightarrow>
      execute X H (blockless (chain_provider E)) tx (obj r) = None) \<and>
    (\<forall>res r'. execute X H (adaptor C) tx r = Some (res, r') \<longrightarrow> obj r' = obj r \<and>
      (\<exists>here bc. execute X H (blockless (chain_provider E)) tx (obj r) = Some (here, bc) \<and>
        (if \<exists>rd. here = Ok rd \<and> rd_data rd \<noteq> [] then \<exists>e. res = Err (Other e) else res = here)))"
proof -
  let ?P = "blockless (chain_provider E)" and ?c = "target (en_keccak X) tx"
  let ?R = "\<lambda>e r'. (\<exists>m. e = Other m) \<and> obj r' = obj r"
  have inv: "up r \<and> chain_inv E (obj r)" using assms(2,3) by simp
  have exist: "acct (adaptor C) r ?c \<noteq> None"
    using assms(7) chain.exist_iff [OF assms(3)]
      adaptor_views(2) [OF assms(1,2) chain.inv_quiet [OF assms(3)]] by simp
  have refuse: "\<exists>e r'. pv_update_account (adaptor C) ?c b n r = (Err e, r') \<and> ?R e r'" for b n
    using assms(1,2) unfolding carries_def
    by (fastforce simp: adaptor_update_account_def calling_def remote_error_def)
  note start = remote_start [where X = X and tx = tx, OF assms(1-3) assms(7)]
  from execute_refused [OF chain.remote_store [OF assms(1)] blockless_store [OF chain_store] assms(4,4)
      inv assms(3) start(1) assms(6,5) exist refuse start(2)]
  show ?thesis
    by (cases rule: option.rel_cases) (auto simp: refused_def split: if_splits)
qed

lemma remote_redeploy_refused_witness:
  "\<exists>e rd bc. execute sample_engine sorted_orders remote_sample sample_deploy (sample_chain_at 85) =
      Some (Err (Other e), sample_chain_at 85) \<and>
    execute sample_engine sorted_orders (blockless sample_provider) sample_deploy (sample_chain_at 85) = Some (Ok rd, bc) \<and>
    rd_data rd = [0xca, 0xfe]"
proof -
  have inv: "chain_inv sample_env (sample_chain_at 85)"
    by (rule chain_inv_sample_at) (simp add: genesis_address_def)
  have room: "0 < chain_room (sample_chain_at 85)" by (simp add: sample_chain_at_def chain_room_new)
  have "\<exists>rd bc. execute sample_engine sorted_orders (blockless sample_provider) sample_deploy (sample_chain_at 85) =
      Some (Ok rd, bc) \<and> rd_data rd = [0xca, 0xfe]"
    by (rule provider_store.sample_run_store [OF blockless_store [OF chain_store] inv])
      (use room in \<open>simp_all add: stored_sample_at genesis_address_def\<close>)
  then obtain rd bc where here: "execute sample_engine sorted_orders (blockless sample_provider) sample_deploy
      (sample_chain_at 85) = Some (Ok rd, bc)" and data: "rd_data rd = [0xca, 0xfe]" by blast
  have "find_account sample_env 85 (sample_chain_at 85) = Some (''alice'', chain_account_new 85 1000000 0 [])"
    unfolding find_account_iff [OF inv]
    by (simp add: sample_chain_at_def blockchain_new_def chain_account_new_def)
  then have old: "pv_exist sample_provider (sample_chain_at 85) (target (en_keccak sample_engine) sample_deploy)"
    by (simp add: sample_engine_def sample_target chain_provider_def account_ref_def)
  have create: "is_create (tx_action sample_deploy)"
    by (simp add: sample_deploy_def make_create_def is_create_def)
  note refused = remote_redeploy_refused [OF direct_carries TrueI inv fair_sorted room create old]
  obtain res r' where run: "execute sample_engine sorted_orders remote_sample sample_deploy (sample_chain_at 85) = Some (res, r')"
    using refused here by (cases "execute sample_engine sorted_orders remote_sample sample_deploy (sample_chain_at 85)") auto
  with refused here data have "r' = sample_chain_at 85" "\<exists>e. res = Err (Other e)" by auto
  with run here data show ?thesis by auto
qed

section \<open>The client's program\<close>

text \<open>
  A request of the client's program with the server at the other end: the filled transaction
  and the provider go to the server's method, and \<open>n\<close> is the number of its polls.
\<close>

definition server_send ::
  "('args, 'mem, 'pmod, 'wmod, 'inst, 'cfg) engine \<Rightarrow> hash_orders \<Rightarrow> string \<Rightarrow> nat \<Rightarrow> result_message \<Rightarrow>
   blockchain provider_client \<Rightarrow> request_sender" where
  "server_send X H closed n results C m =
     executor_execute X H closed n results (Inr \<lparr>ep_provider = Inr C, ep_transaction = Inr m\<rparr>)"

lemma client_execute_run:
  "client_execute (server_send X H closed n results C) builder tx bc =
    map_option (\<lambda>(res, bc'). (case res of Ok rd \<Rightarrow> Ok rd | _ \<Rightarrow> Err closed, bc'))
      (execute X H (adaptor C) tx bc)"
proof -
  have sent: "server_send X H closed n results C (build_tx tx builder) bc =
    map_option (\<lambda>(res, bc'). (case res of Ok rd \<Rightarrow> Ok (fill_result rd results) | _ \<Rightarrow> Err closed, bc'))
      (execute X H (adaptor C) tx bc)"
    unfolding server_send_def
    by (rule executor_run [where tm = "build_tx tx builder" and
          m = "\<lparr>ep_provider = Inr C, ep_transaction = Inr (build_tx tx builder)\<rparr>"]) (simp_all add: transaction_build)
  show ?thesis
  proof (cases "execute X H (adaptor C) tx bc")
    case (Some x)
    obtain res bc' where x: "x = (res, bc')" by (cases x)
    show ?thesis
    proof (cases res)
      case (Ok rd)
      have "rd\<lparr>rd_logs := []\<rparr> = rd"
        using execute_report(3) [OF Some [unfolded x Ok]] by (cases rd) simp
      with Some x Ok sent show ?thesis
        by (simp add: client_execute_def rthen_def reading_def result_fill)
    qed (use Some x sent in \<open>simp_all add: client_execute_def rthen_def\<close>)
  qed (simp add: client_execute_def rthen_def sent)
qed

text \<open>
  C7: From end to end, for a call of an existing account or a deployment at a new address, while
  the counter of the chain has room and over a connection that carries every call: the client asks the
  server to execute the transaction, the server calls the client's chain back for everything it
  needs, and the client reads the reply. The client gets a result exactly when the execution on
  its own chain (with the adaptor's information on blocks) has that result, and its chain then
  has the accounts and the storage that the local execution leaves.
\<close>

theorem client_execute_transparent:
  assumes "carries display blank (chain_provider E) C (\<lambda>_. True) (\<lambda>bc. bc)"
    and "chain_inv E bc" and "fair_orders H" and "0 < chain_room bc"
    and "pv_exist (chain_provider E) bc (target (en_keccak X) tx) \<longleftrightarrow> \<not> is_create (tx_action tx)"
  shows "(\<exists>bc'. client_execute (server_send X H closed n results C) builder tx bc = Some (Ok rd, bc') \<and>
      acct (chain_provider E) bc' = accts \<and> stored (chain_provider E) bc' = slots) \<longleftrightarrow>
    (\<exists>bc'. execute X H (blockless (chain_provider E)) tx bc = Some (Ok rd, bc') \<and>
      acct (chain_provider E) bc' = accts \<and> stored (chain_provider E) bc' = slots)"
proof -
  have client: "client_execute (server_send X H closed n results C) builder tx bc = Some (Ok rd, bc') \<longleftrightarrow>
      execute X H (adaptor C) tx bc = Some (Ok rd, bc')" for bc'
    unfolding client_execute_run
    by (cases "execute X H (adaptor C) tx bc") (auto split: outcome.splits)
  from remote_matched [OF assms(1) TrueI assms(2-5)] show ?thesis
    unfolding client by (cases rule: option.rel_cases) auto
qed

lemma client_execute_transparent_witness:
  "\<exists>rd bc bc'. client_execute (server_send sample_engine sorted_orders ''channel closed'' 3
      \<lparr>rm_gas_left = Inr [], rm_data = Inr [], rm_contract = Inr []\<rparr> (direct_client sample_provider))
      blank_transaction sample_deploy sample_chain = Some (Ok rd, bc) \<and>
    execute sample_engine sorted_orders (blockless sample_provider) sample_deploy sample_chain = Some (Ok rd, bc') \<and>
    acct sample_provider bc = acct sample_provider bc'"
proof -
  let ?client = "client_execute (server_send sample_engine sorted_orders ''channel closed'' 3
      \<lparr>rm_gas_left = Inr [], rm_data = Inr [], rm_contract = Inr []\<rparr> (direct_client sample_provider))
      blank_transaction sample_deploy sample_chain"
  obtain rd bc where "execute sample_engine sorted_orders remote_sample sample_deploy sample_chain = Some (Ok rd, bc)"
    using remote_sample_run by blast
  then have client: "?client = Some (Ok rd, bc)" by (simp add: client_execute_run)
  have room: "0 < chain_room sample_chain" by (simp add: sample_chain_def chain_room_new)
  from client_execute_transparent [OF direct_carries chain_inv_sample fair_sorted room sample_new] client
  obtain bc' where "execute sample_engine sorted_orders (blockless sample_provider) sample_deploy sample_chain = Some (Ok rd, bc')"
    "acct sample_provider bc' = acct sample_provider bc" by blast
  with client show ?thesis by metis
qed

section \<open>The history of the client's chain\<close>

text \<open>
  What reaches the client's chain: the object that the client hands to the server serves the
  provider's methods, so requests can touch the chain only by calls of these, in any number and
  order and with any parameters.
\<close>

inductive served_calls :: "hash_display \<Rightarrow> chain_env \<Rightarrow> blockchain \<Rightarrow> blockchain \<Rightarrow> bool" for display E where
  none: "served_calls display E bc bc"
| creating: "served_calls display E bc bc' \<Longrightarrow>
    served_calls display E bc (snd (serve_create_contract display (chain_provider E) params bc'))"
| storing: "served_calls display E bc bc' \<Longrightarrow>
    served_calls display E bc (snd (serve_set_storage display (chain_provider E) entry bc'))"

lemma served_calls_trans:
  "served_calls display E b c \<Longrightarrow> served_calls display E a b \<Longrightarrow> served_calls display E a c"
  by (induction rule: served_calls.induct) (auto intro: served_calls.intros)

interpretation served_calls: step_frame "served_calls display E" for display E
  by unfold_locales (auto intro: served_calls.none served_calls_trans)

context step_frame
begin

lemma stays_served: "stays R m \<Longrightarrow> stays R (served display m)"
  by (simp add: stays_def served_def)

end







end
