(* ===== verification/Web3_Types.thy ===== *)
theory Web3_Types
  imports Errors
begin

text \<open>
  The types of \<open>examples/web3\<close> and how they are read and printed: byte strings
  (\<open>types/bytes.rs\<close>), block numbers (\<open>types/block_number.rs\<close>), requests
  (\<open>types/transaction_request.rs\<close>, \<open>types/call_request.rs\<close>, \<open>helpers/request.rs\<close>), receipts and
  origins. A string is its UTF-8 bytes as characters. Of \<open>serde\<close>'s errors only the message is
  kept. The hex encoding of \<open>rustc_hex\<close> is a parameter, as are the debug format of addresses
  and the colours of \<open>ansi_term\<close>.
\<close>

type_synonym serde_error = string

definition starts_with_0x :: "string \<Rightarrow> bool" where
  "starts_with_0x v \<longleftrightarrow> take 2 v = ''0x''"

text \<open>
  An input that describes itself, as \<open>serde\<close> presents it to a visitor: a borrowed or an owned
  string, a map, or something else, which is refused with what was found and what the visitor
  says it expects. A map is read entry by entry: the reader answers each request for a key and for a value
  of the type asked for, or fails, and an entry is its key and what its value reads as.
\<close>

record map_entry =
  me_key :: string
  me_string :: "serde_error + string"
  me_h256 :: "serde_error + h256"
  me_bool :: "serde_error + bool"

datatype any_input =
    AnyStr string
  | AnyString string
  | AnyMap "(serde_error + map_entry) list"
  | AnyOther string

section \<open>Byte strings\<close>

datatype rpc_bytes = Bytes (into_vec: bytes)

definition bytes_new :: "bytes \<Rightarrow> rpc_bytes" where
  "bytes_new bs = Bytes bs"

definition bytes_from_vec :: "bytes \<Rightarrow> rpc_bytes" where
  "bytes_from_vec bs = Bytes bs"

fun bytes_into :: "rpc_bytes \<Rightarrow> bytes" where
  "bytes_into (Bytes bs) = bs"

definition bytes_serialize :: "(bytes \<Rightarrow> string) \<Rightarrow> rpc_bytes \<Rightarrow> string" where
  "bytes_serialize to_hex b = ''0x'' @ to_hex (into_vec b)"

definition bytes_visit_str :: "(string \<Rightarrow> string + bytes) \<Rightarrow> string \<Rightarrow> serde_error + rpc_bytes" where
  "bytes_visit_str from_hex v =
     (if 2 \<le> length v \<and> starts_with_0x v \<and> even (length v) then
        (case from_hex (drop 2 v) of
           Inr bs \<Rightarrow> Inr (bytes_new bs)
         | Inl e \<Rightarrow> Inl (''Invalid hex: '' @ e))
      else Inl ''Invalid bytes format. Expected a 0x-prefixed hex string with even length'')"

definition bytes_visit_string :: "(string \<Rightarrow> string + bytes) \<Rightarrow> string \<Rightarrow> serde_error + rpc_bytes" where
  "bytes_visit_string from_hex v = bytes_visit_str from_hex v"

definition bytes_expecting :: string where
  "bytes_expecting = ''a 0x-prefixed, hex-encoded vector of bytes''"

fun bytes_deserialize ::
  "(string \<Rightarrow> string \<Rightarrow> serde_error) \<Rightarrow> (string \<Rightarrow> string + bytes) \<Rightarrow> any_input \<Rightarrow> serde_error + rpc_bytes" where
  "bytes_deserialize invalid_type from_hex (AnyStr v) = bytes_visit_str from_hex v"
| "bytes_deserialize invalid_type from_hex (AnyString v) = bytes_visit_string from_hex v"
| "bytes_deserialize invalid_type from_hex (AnyMap es) = Inl (invalid_type ''map'' bytes_expecting)"
| "bytes_deserialize invalid_type from_hex (AnyOther found) = Inl (invalid_type found bytes_expecting)"

text \<open>What is written is read back, by an encoding that can be undone and has two digits a byte.\<close>

lemma bytes_round_trip:
  assumes "from_hex (to_hex (into_vec b)) = Inr (into_vec b)" and "length (to_hex (into_vec b)) = 2 * length (into_vec b)"
  shows "bytes_deserialize invalid_type from_hex (AnyStr (bytes_serialize to_hex b)) = Inr b"
  using assms by (simp add: bytes_visit_str_def bytes_serialize_def starts_with_0x_def bytes_new_def)

section \<open>Hexadecimal numbers\<close>

text \<open>\<open>char::to_digit(16)\<close> and \<open>u64::from_str_radix(_, 16)\<close> of the standard library.\<close>

definition to_digit :: "char \<Rightarrow> nat option" where
  "to_digit c = (let n = of_char c :: nat in
     if 48 \<le> n \<and> n \<le> 57 then Some (n - 48)
     else if 97 \<le> n \<and> n \<le> 102 then Some (n - 87)
     else if 65 \<le> n \<and> n \<le> 70 then Some (n - 55)
     else None)"

datatype int_error = EmptyNumber | InvalidDigit | NumberOverflow

fun int_error_display :: "int_error \<Rightarrow> string" where
  "int_error_display EmptyNumber = ''cannot parse integer from empty string''"
| "int_error_display InvalidDigit = ''invalid digit found in string''"
| "int_error_display NumberOverflow = ''number too large to fit in target type''"

fun hex_digits :: "u64 \<Rightarrow> string \<Rightarrow> int_error + u64" where
  "hex_digits acc [] = Inr acc"
| "hex_digits acc (c # cs) = (case to_digit c of
     None \<Rightarrow> Inl InvalidDigit
   | Some d \<Rightarrow> (case checked_mul acc 16 of
       None \<Rightarrow> Inl NumberOverflow
     | Some m \<Rightarrow> (case checked_add m (word_of_nat d) of
         None \<Rightarrow> Inl NumberOverflow
       | Some acc' \<Rightarrow> hex_digits acc' cs)))"

definition from_str_radix_16 :: "string \<Rightarrow> int_error + u64" where
  "from_str_radix_16 v = (case v of
     [] \<Rightarrow> Inl EmptyNumber
   | c # cs \<Rightarrow>
       if c = CHR ''+'' then (if cs = [] then Inl InvalidDigit else hex_digits 0 cs)
       else hex_digits 0 v)"

section \<open>Block numbers\<close>

datatype rpc_block_number =
    BnHash h256 bool
  | BnNum u64
  | BnLatest
  | BnEarliest
  | BnPending

definition block_number_default :: rpc_block_number where
  "block_number_default = BnLatest"

fun to_min_block_num :: "rpc_block_number \<Rightarrow> u64 option" where
  "to_min_block_num (BnNum x) = Some x"
| "to_min_block_num _ = None"

definition parse_number :: "string \<Rightarrow> serde_error + u64" where
  "parse_number v =
     (if starts_with_0x v then
        (case from_str_radix_16 (drop 2 v) of
           Inr n \<Rightarrow> Inr n
         | Inl e \<Rightarrow> Inl (''Invalid block number: '' @ int_error_display e))
      else Inl ''Invalid block number: missing 0x prefix'')"

definition block_number_visit_str :: "string \<Rightarrow> serde_error + rpc_block_number" where
  "block_number_visit_str v =
     (if v = ''latest'' then Inr BnLatest
      else if v = ''earliest'' then Inr BnEarliest
      else if v = ''pending'' then Inr BnPending
      else map_sum (\<lambda>e. e) BnNum (parse_number v))"

definition block_number_of ::
  "bool \<Rightarrow> u64 option \<Rightarrow> h256 option \<Rightarrow> serde_error + rpc_block_number" where
  "block_number_of require_canonical number hash =
     (case number of
        Some n \<Rightarrow> Inr (BnNum n)
      | None \<Rightarrow> (case hash of
          Some h \<Rightarrow> Inr (BnHash h require_canonical)
        | None \<Rightarrow> Inl ''Invalid input''))"

fun block_number_visit_map ::
  "bool \<Rightarrow> h256 option \<Rightarrow> (serde_error + map_entry) list \<Rightarrow> serde_error + rpc_block_number" where
  "block_number_visit_map rc bh [] = block_number_of rc None bh"
| "block_number_visit_map rc bh (Inl e # es) = Inl e"
| "block_number_visit_map rc bh (Inr m # es) =
     (if me_key m = ''blockNumber'' then
        (case me_string m of
           Inl e \<Rightarrow> Inl e
         | Inr v \<Rightarrow> (case parse_number v of
             Inl e \<Rightarrow> Inl e
           | Inr n \<Rightarrow> block_number_of rc (Some n) bh))
      else if me_key m = ''blockHash'' then
        (case me_h256 m of
           Inl e \<Rightarrow> Inl e
         | Inr h \<Rightarrow> block_number_visit_map rc (Some h) es)
      else if me_key m = ''requireCanonical'' then
        (case me_bool m of
           Inl e \<Rightarrow> Inl e
         | Inr b \<Rightarrow> block_number_visit_map b bh es)
      else Inl (''Unknown key: '' @ me_key m))"

definition block_number_visit_string :: "string \<Rightarrow> serde_error + rpc_block_number" where
  "block_number_visit_string v = block_number_visit_str v"

definition block_number_expecting :: string where
  "block_number_expecting = ''a block number or '' @ [CHR 0x27] @ ''latest'' @ [CHR 0x27] @ '', '' @ [CHR 0x27] @ ''earliest'' @ [CHR 0x27] @
     '' or '' @ [CHR 0x27] @ ''pending'' @ [CHR 0x27]"

fun block_number_deserialize ::
  "(string \<Rightarrow> string \<Rightarrow> serde_error) \<Rightarrow> any_input \<Rightarrow> serde_error + rpc_block_number" where
  "block_number_deserialize invalid_type (AnyStr v) = block_number_visit_str v"
| "block_number_deserialize invalid_type (AnyString v) = block_number_visit_string v"
| "block_number_deserialize invalid_type (AnyMap es) = block_number_visit_map False None es"
| "block_number_deserialize invalid_type (AnyOther found) = Inl (invalid_type found block_number_expecting)"

end
