(* ===== verification/Web3_Requests.thy ===== *)
theory Web3_Requests
  imports Web3_Types Transactions
begin

text \<open>
  Requests and receipts of \<open>examples/web3\<close>: the types that come from and go to JSON, the helper
  types, the conversions between them, and how a request is shown.
\<close>

section \<open>Requests\<close>

record tx_request =
  rq_from :: "address option"
  rq_to :: "address option"
  rq_gas_price :: "u256 option"
  rq_gas :: "u256 option"
  rq_value :: "u256 option"
  rq_data :: "rpc_bytes option"
  rq_nonce :: "u256 option"

text \<open>The helper request of the same fields, and the one with defaults filled in.\<close>

record helper_request =
  hq_from :: "address option"
  hq_to :: "address option"
  hq_gas_price :: "u256 option"
  hq_gas :: "u256 option"
  hq_value :: "u256 option"
  hq_data :: "rpc_bytes option"
  hq_nonce :: "u256 option"

record filled_request =
  fq_from :: address
  fq_used_default_from :: bool
  fq_to :: "address option"
  fq_gas_price :: u256
  fq_gas :: u256
  fq_value :: u256
  fq_data :: rpc_bytes
  fq_nonce :: "u256 option"

definition request_of_helper :: "helper_request \<Rightarrow> tx_request" where
  "request_of_helper r =
     \<lparr>rq_from = hq_from r, rq_to = hq_to r, rq_gas_price = hq_gas_price r, rq_gas = hq_gas r,
      rq_value = hq_value r, rq_data = hq_data r, rq_nonce = hq_nonce r\<rparr>"

definition helper_of_request :: "tx_request \<Rightarrow> helper_request" where
  "helper_of_request r =
     \<lparr>hq_from = rq_from r, hq_to = rq_to r, hq_gas_price = rq_gas_price r, hq_gas = rq_gas r,
      hq_value = rq_value r, hq_data = rq_data r, hq_nonce = rq_nonce r\<rparr>"

definition request_of_filled :: "filled_request \<Rightarrow> tx_request" where
  "request_of_filled r =
     \<lparr>rq_from = Some (fq_from r), rq_to = fq_to r, rq_gas_price = Some (fq_gas_price r),
      rq_gas = Some (fq_gas r), rq_value = Some (fq_value r), rq_data = Some (fq_data r),
      rq_nonce = fq_nonce r\<rparr>"

definition helper_of_filled :: "filled_request \<Rightarrow> helper_request" where
  "helper_of_filled r =
     \<lparr>hq_from = Some (fq_from r), hq_to = fq_to r, hq_gas_price = Some (fq_gas_price r),
      hq_gas = Some (fq_gas r), hq_value = Some (fq_value r), hq_data = Some (fq_data r),
      hq_nonce = fq_nonce r\<rparr>"

text \<open>The call request, and the helper's, whose data is a plain vector.\<close>

record call_request =
  cq_from :: "address option"
  cq_to :: "address option"
  cq_gas_price :: "u256 option"
  cq_gas :: "u256 option"
  cq_value :: "u256 option"
  cq_data :: "rpc_bytes option"
  cq_nonce :: "u256 option"

record helper_call =
  hc_from :: "address option"
  hc_to :: "address option"
  hc_gas_price :: "u256 option"
  hc_gas :: "u256 option"
  hc_value :: "u256 option"
  hc_data :: "bytes option"
  hc_nonce :: "u256 option"

definition helper_of_call :: "call_request \<Rightarrow> helper_call" where
  "helper_of_call r =
     \<lparr>hc_from = cq_from r, hc_to = cq_to r, hc_gas_price = cq_gas_price r, hc_gas = cq_gas r,
      hc_value = cq_value r, hc_data = map_option into_vec (cq_data r), hc_nonce = cq_nonce r\<rparr>"

text \<open>Conversions lose nothing but the mark of a default sender.\<close>

lemma request_helper: "request_of_helper (helper_of_request r) = r"
  by (simp add: request_of_helper_def helper_of_request_def)

lemma helper_request: "helper_of_request (request_of_helper r) = r"
  by (simp add: request_of_helper_def helper_of_request_def)

lemma request_filled: "request_of_filled r = request_of_helper (helper_of_filled r)"
  by (simp add: request_of_filled_def request_of_helper_def helper_of_filled_def)

section \<open>Showing a request\<close>

text \<open>\<open>str::trim_end_matches\<close> of a character.\<close>

definition trim_end :: "char \<Rightarrow> string \<Rightarrow> string" where
  "trim_end c s = rev (dropWhile (\<lambda>x. x = c) (rev s))"

text \<open>An amount of wei, printed in ether.\<close>

definition format_ether :: "u256 \<Rightarrow> string" where
  "format_ether i =
     (let s = show_nat (unat i); idx = int (length s) - 18;
          s' = (if idx \<le> 0 then ''0.'' @ replicate (nat \<bar>idx\<bar>) (CHR ''0'') @ s
                else take (nat idx) s @ ''.'' @ drop (nat idx) s)
      in trim_end (CHR ''.'') (trim_end (CHR ''0'') s'))"

definition request_display ::
  "(string \<Rightarrow> string) \<Rightarrow> (address \<Rightarrow> string) \<Rightarrow> tx_request \<Rightarrow> string" where
  "request_display paint debug_h160 r =
     (let eth = (case rq_value r of Some v \<Rightarrow> v | None \<Rightarrow> 0);
          sender = paint (case rq_from r of Some f \<Rightarrow> ''0x'' @ debug_h160 f | None \<Rightarrow> ''?'')
      in case rq_to r of
           Some to \<Rightarrow> paint (format_ether eth) @ '' ETH from '' @ sender @ '' to 0x'' @ debug_h160 to
         | None \<Rightarrow> paint (format_ether eth) @ '' ETH from '' @ sender @ '' for contract creation'')"

section \<open>Signed transactions\<close>

text \<open>A transaction with its signature, and with the sender recovered from it.\<close>

type_synonym public = "512 word"

record unverified_transaction =
  ut_unsigned :: transaction
  ut_v :: u64
  ut_r :: u256
  ut_s :: u256
  ut_hash :: h256

record signed_transaction =
  sg_transaction :: unverified_transaction
  sg_sender :: address
  sg_public :: "public option"

definition unverified_deref :: "unverified_transaction \<Rightarrow> transaction" where
  "unverified_deref u = ut_unsigned u"

section \<open>Receipts and origins\<close>

record tx_receipt =
  tr_transaction_hash :: h256
  tr_transaction_index :: u256
  tr_block_hash :: h256
  tr_from :: address
  tr_to :: h160
  tr_block_number :: u32
  tr_gas_used :: u256
  tr_contract_address :: h160
  tr_cumulative_gas_used :: u256
  tr_status :: string

datatype request_origin = RpcOrigin string | UnknownOrigin

definition origin_default :: request_origin where
  "origin_default = UnknownOrigin"

fun origin_display :: "request_origin \<Rightarrow> string" where
  "origin_display (RpcOrigin s) = s @ '' via RPC''"
| "origin_display UnknownOrigin = ''unknown origin''"

end
