(* ===== verification/Web3_Node.thy ===== *)
theory Web3_Node
  imports Web3_Requests Chain_History
begin

text \<open>
  The JSON-RPC node of \<open>examples/web3\<close>: deploying a contract and writing receipts
  (\<open>contract_call.rs\<close>), and the methods of the service over a shared blockchain
  (\<open>impls/transaction.rs\<close>). The blockchain is behind a mutex, and a panic while it is locked
  poisons the mutex: from then on every lock, and with it every request, panics.
\<close>

section \<open>Contracts and receipts\<close>

definition run_tx ::
  "('args, 'mem, 'pmod, 'wmod, 'inst, 'cfg) engine \<Rightarrow> hash_orders \<Rightarrow> chain_env \<Rightarrow> transaction \<Rightarrow>
   (blockchain, 'e, result_data) run" where
  "run_tx X H E tx = unwrapping (execute X H (chain_provider E) tx)"

text \<open>\<open>unwrap\<close> on an optional field.\<close>

definition need :: "'a option \<Rightarrow> ('s, 'e, 'a) run" where
  "need x = reading (\<lambda>_. case x of Some v \<Rightarrow> Ok v | None \<Rightarrow> Crash)"

text \<open>\<open>peek_size\<close> belongs to \<open>parity_wasm\<close>; the two times are those of the two commits.\<close>

definition web3_create ::
  "('args, 'mem, 'pmod, 'wmod, 'inst, 'cfg) engine \<Rightarrow> hash_orders \<Rightarrow> chain_env \<Rightarrow>
   (bytes \<Rightarrow> nat) \<Rightarrow> int \<Rightarrow> int \<Rightarrow> tx_request \<Rightarrow> (blockchain, 'e, h256) run" where
  "web3_create X H E peek_size now1 now2 request =
     rthen (need (rq_from request)) (\<lambda>from_address.
     rthen (need (rq_data request)) (\<lambda>data.
     let val = (case rq_value request of Some v \<Rightarrow> v | None \<Rightarrow> 0) in
     rthen (need (rq_gas request)) (\<lambda>gas.
     let code = into_vec data in
     rthen (returning (commit E now1)) (\<lambda>_.
     rthen (reading (\<lambda>_. make_create_embedded_code peek_size from_address val gas 0 code 0)) (\<lambda>tx1.
     rthen (run_tx X H E tx1) (\<lambda>ret1.
     rthen (returning (add_transactions E tx1 ret1)) (\<lambda>tx_hash.
     rthen (returning (inc_nonce ''naga'')) (\<lambda>_.
     rthen (returning (commit E now2)) (\<lambda>_.
       returning (pure tx_hash))))))))))"

definition transaction_recipit :: "chain_env \<Rightarrow> h256 \<Rightarrow> blockchain \<Rightarrow> ('e, tx_receipt) outcome" where
  "transaction_recipit E params bc =
     obind (get_transaction_details params bc) (\<lambda>(tx, result).
     obind (latest_block_hash E bc) (\<lambda>hash.
     obind (unwrap (chain_block_number bc)) (\<lambda>number.
       Ok \<lparr>tr_transaction_hash = params, tr_transaction_index = 0, tr_block_hash = hash,
           tr_from = tx_sender tx, tr_to = 0, tr_block_number = ucast number,
           tr_gas_used = rd_gas_left result, tr_contract_address = rd_contract result,
           tr_cumulative_gas_used = rd_gas_left result, tr_status = ''0x01''\<rparr>)))"

section \<open>The service\<close>

record node =
  nd_chain :: blockchain
  nd_poisoned :: bool

definition node_new :: "blockchain \<Rightarrow> node" where
  "node_new bc = \<lparr>nd_chain = bc, nd_poisoned = False\<rparr>"

definition locked :: "(blockchain, 'e, 'a) run \<Rightarrow> (node, 'e, 'a) run" where
  "locked m nd =
     (if nd_poisoned nd then Some (Crash, nd)
      else map_option (\<lambda>(r, bc). (r, \<lparr>nd_chain = bc,
        nd_poisoned = (case r of Crash \<Rightarrow> True | _ \<Rightarrow> False)\<rparr>)) (m (nd_chain nd)))"

text \<open>The methods; the price of gas is the only one that does not lock.\<close>

definition node_gas_price :: u256 where
  "node_gas_price = 0"

definition send_transaction ::
  "('args, 'mem, 'pmod, 'wmod, 'inst, 'cfg) engine \<Rightarrow> hash_orders \<Rightarrow> chain_env \<Rightarrow>
   (bytes \<Rightarrow> nat) \<Rightarrow> int \<Rightarrow> int \<Rightarrow> tx_request \<Rightarrow> (node, 'e, h256) run" where
  "send_transaction X H E peek_size now1 now2 request =
     locked (web3_create X H E peek_size now1 now2 request)"

definition transaction_receipt :: "chain_env \<Rightarrow> h256 \<Rightarrow> (node, 'e, tx_receipt) run" where
  "transaction_receipt E params = locked (reading (transaction_recipit E params))"

definition node_code_at :: "chain_env \<Rightarrow> address \<Rightarrow> rpc_block_number option \<Rightarrow> (node, 'e, rpc_bytes) run" where
  "node_code_at E address number =
     locked (reading (\<lambda>bc. obind (code_at E address bc) (\<lambda>code. Ok (Bytes code))))"

definition node_call ::
  "('args, 'mem, 'pmod, 'wmod, 'inst, 'cfg) engine \<Rightarrow> hash_orders \<Rightarrow> chain_env \<Rightarrow>
   call_request \<Rightarrow> rpc_block_number option \<Rightarrow> (node, 'e, rpc_bytes) run" where
  "node_call X H E request number =
     locked (
       rthen (need (cq_to request)) (\<lambda>contract_address.
       rthen (need (cq_data request)) (\<lambda>params.
       rthen (reading (address_from_alias ''naga'')) (\<lambda>naga.
       let tx_call = make_call naga contract_address 0 1000000 0 (into_vec params) in
       rthen (run_tx X H E tx_call) (\<lambda>ret3.
         returning (pure (Bytes (rd_data ret3))))))))"

section \<open>Requests as steps\<close>

text \<open>The methods of \<open>traits/transaction.rs\<close>: one request of any kind, for what holds of all of them.\<close>

datatype web3_request =
    GasPrice
  | SendTransaction int int tx_request
  | TransactionReceipt h256
  | CodeAt address "rpc_block_number option"
  | CallContract call_request "rpc_block_number option"

text \<open>A reply of any of the methods' types.\<close>

datatype web3_reply = Price u256 | TransactionHash h256 | Receipt tx_receipt | Data rpc_bytes

definition replying :: "('a \<Rightarrow> web3_reply) \<Rightarrow> ('s, 'e, 'a) run \<Rightarrow> ('s, 'e, web3_reply) run" where
  "replying f m = rthen m (\<lambda>x. returning (pure (f x)))"

definition serve ::
  "('args, 'mem, 'pmod, 'wmod, 'inst, 'cfg) engine \<Rightarrow> hash_orders \<Rightarrow> chain_env \<Rightarrow>
   (bytes \<Rightarrow> nat) \<Rightarrow> web3_request \<Rightarrow> (node, error, web3_reply) run" where
  "serve X H E peek_size q = (case q of
     GasPrice \<Rightarrow> returning (pure (Price node_gas_price))
   | SendTransaction t1 t2 r \<Rightarrow> replying TransactionHash (send_transaction X H E peek_size t1 t2 r)
   | TransactionReceipt h \<Rightarrow> replying Receipt (transaction_receipt E h)
   | CodeAt a n \<Rightarrow> replying Data (node_code_at E a n)
   | CallContract r n \<Rightarrow> replying Data (node_call X H E r n))"

text \<open>The node's life: any number of requests, each of which returns.\<close>

inductive node_step ::
  "('args, 'mem, 'pmod, 'wmod, 'inst, 'cfg) engine \<Rightarrow> hash_orders \<Rightarrow> chain_env \<Rightarrow>
   (bytes \<Rightarrow> nat) \<Rightarrow> node \<Rightarrow> node \<Rightarrow> bool"
  for X H E peek_size where
  step: "serve X H E peek_size q nd = Some (r, nd') \<Longrightarrow> node_step X H E peek_size nd nd'"

inductive node_reach ::
  "('args, 'mem, 'pmod, 'wmod, 'inst, 'cfg) engine \<Rightarrow> hash_orders \<Rightarrow> chain_env \<Rightarrow>
   (bytes \<Rightarrow> nat) \<Rightarrow> node \<Rightarrow> node \<Rightarrow> bool"
  for X H E peek_size where
  start: "node_reach X H E peek_size nd nd"
| further: "node_reach X H E peek_size nd nd' \<Longrightarrow> node_step X H E peek_size nd' nd'' \<Longrightarrow>
    node_reach X H E peek_size nd nd''"

inductive_cases node_stepE: "node_step X H E peek_size nd nd'"

inductive_simps node_step_iff: "node_step X H E peek_size nd nd'"

end
