(* ===== verification/Web3_Service.thy ===== *)
theory Web3_Service
  imports Web3_Node
begin

text \<open>
  Bringing the node's HTTP service up: the configuration and the start of the server
  (\<open>rpc.rs\<close>, \<open>rpc_service.rs\<close>), the methods it offers (\<open>rpc_apis.rs\<close>), and the origin that is
  recorded with each request (\<open>extractors.rs\<close>, \<open>http_common.rs\<close>, \<open>metadata.rs\<close>). The handler
  and the server of \<open>jsonrpc\<close>, its parser of socket addresses and its domain lists are
  parameters.
\<close>

section \<open>Methods offered\<close>

datatype api = TransactionApi

text \<open>Iterating over a set of them uses the order of the variants; there is only one.\<close>

instantiation api :: linorder
begin

definition less_eq_api :: "api \<Rightarrow> api \<Rightarrow> bool" where
  "less_eq_api x y = True"

definition less_api :: "api \<Rightarrow> api \<Rightarrow> bool" where
  "less_api x y = False"

instance
proof
  show "x = y" for x y :: api by (cases x; cases y) simp
qed (simp_all add: less_eq_api_def less_api_def)

end

datatype api_set = ApiList "api set"

definition api_set_default :: api_set where
  "api_set_default = ApiList {TransactionApi}"

fun list_apis :: "api_set \<Rightarrow> api set" where
  "list_apis (ApiList apis) = apis"

text \<open>Every API gets a node with a blockchain of its own.\<close>

definition setup_rpc :: "(node \<Rightarrow> 'handler \<Rightarrow> 'handler) \<Rightarrow> 'handler \<Rightarrow> api_set \<Rightarrow> blockchain \<Rightarrow> 'handler" where
  "setup_rpc extend_with handler apis bc =
     fold (\<lambda>a h. case a of TransactionApi \<Rightarrow> extend_with (node_new bc) h)
       (sorted_list_of_set (list_apis apis)) handler"

lemma setup_rpc_eq:
  "setup_rpc extend_with handler apis bc =
    (if TransactionApi \<in> list_apis apis then extend_with (node_new bc) handler else handler)"
proof -
  have "api = TransactionApi" for api by (cases api)
  then have "list_apis apis = {} \<or> list_apis apis = {TransactionApi}" by (metis is_singletonI' is_singleton_def ex_in_conv)
  then show ?thesis by (auto simp: setup_rpc_def)
qed

section \<open>Starting the server\<close>

record http_configuration =
  cf_enabled :: bool
  cf_interface :: string
  cf_port :: "16 word"
  cf_apis :: api_set
  cf_cors :: "string list option"
  cf_server_threads :: u64
  cf_max_payload :: u64
  cf_keep_alive :: bool

definition http_configuration_default :: http_configuration where
  "http_configuration_default =
     \<lparr>cf_enabled = True, cf_interface = ''127.0.0.1'', cf_port = 8545, cf_apis = api_set_default,
      cf_cors = Some [], cf_server_threads = 1, cf_max_payload = 5, cf_keep_alive = True\<rparr>"

text \<open>What \<open>start_http\<close> hands to the server's builder before it starts it at an address.\<close>

record ('handler, 'domains) server_options =
  so_handler :: 'handler
  so_keep_alive :: bool
  so_threads :: u64
  so_cors :: 'domains
  so_health_api :: "string \<times> string"
  so_max_request_body_size :: u64

text \<open>An error of starting: its kind, of which only one matters, and how it is printed.\<close>

datatype io_error = AddrInUse | OtherKind string

definition start_http ::
  "bool \<Rightarrow> (('handler, 'domains) server_options \<Rightarrow> 'addr \<Rightarrow> io_error + 'server) \<Rightarrow> 'addr \<Rightarrow>
   'domains \<Rightarrow> 'handler \<Rightarrow> u64 \<Rightarrow> u64 \<Rightarrow> bool \<Rightarrow> ('e, io_error + 'server) outcome" where
  "start_http checks start addr cors_domains handler threads max_payload keep_alive =
     obind (times_op checks max_payload 1024) (\<lambda>kib.
     obind (times_op checks kib 1024) (\<lambda>size.
       Ok (start \<lparr>so_handler = handler, so_keep_alive = keep_alive, so_threads = threads,
            so_cors = cors_domains, so_health_api = (''/api/health'', ''durian_value''),
            so_max_request_body_size = size\<rparr> addr)))"

definition into_domains ::
  "(string \<Rightarrow> 'd) \<Rightarrow> ('d list option \<Rightarrow> 'domains) \<Rightarrow> string list option \<Rightarrow> 'domains" where
  "into_domains from validation items = validation (map_option (map from) items)"

definition in_use_message :: "string \<Rightarrow> string \<Rightarrow> string \<Rightarrow> string" where
  "in_use_message name url options =
     name @ '' address '' @ url @ '' is already in use, make sure that another instance of an '' @
     ''Ethereum client is not running or change the address using the --'' @ options @
     ''-port and --'' @ options @ ''-interface options.''"

text \<open>The chain is the one that \<open>Blockchain::new\<close> makes at this moment.\<close>

definition new_http ::
  "bool \<Rightarrow> (string \<Rightarrow> 'addr option) \<Rightarrow> (node \<Rightarrow> 'handler \<Rightarrow> 'handler) \<Rightarrow> 'handler \<Rightarrow>
   (string \<Rightarrow> 'd) \<Rightarrow> ('d list option \<Rightarrow> 'domains) \<Rightarrow>
   (('handler, 'domains) server_options \<Rightarrow> 'addr \<Rightarrow> io_error + 'server) \<Rightarrow>
   blockchain \<Rightarrow> string \<Rightarrow> string \<Rightarrow> http_configuration \<Rightarrow> (string, 'server option) outcome" where
  "new_http checks parse extend_with handler0 from validation start bc name options conf =
     (if \<not> cf_enabled conf then Ok None
      else
        let url = cf_interface conf @ '':'' @ show_nat (unat (cf_port conf)) in
        obind (of_option (''Invalid '' @ name @ '' listen host/port given: '' @ url) (parse url)) (\<lambda>addr.
        let handler = setup_rpc extend_with handler0 (cf_apis conf) bc;
            cors_domains = into_domains from validation (cf_cors conf) in
        obind (start_http checks start addr cors_domains handler (cf_server_threads conf)
                 (cf_max_payload conf) (cf_keep_alive conf)) (\<lambda>start_result.
        case start_result of
          Inr server \<Rightarrow> Ok (Some server)
        | Inl AddrInUse \<Rightarrow> Err (in_use_message name url options)
        | Inl (OtherKind e) \<Rightarrow> Err (name @ '' error: '' @ e))))"

section \<open>Origins of requests\<close>

record metadata =
  md_origin :: request_origin

definition metadata_default :: metadata where
  "metadata_default = \<lparr>md_origin = origin_default\<rparr>"

definition read_metadata :: "string option \<Rightarrow> string option \<Rightarrow> metadata" where
  "read_metadata site user_agent =
     \<lparr>md_origin = RpcOrigin
        ((case site of Some v \<Rightarrow> v | None \<Rightarrow> ''unknown origin'') @ '' / '' @
         (case user_agent of Some v \<Rightarrow> v | None \<Rightarrow> ''unknown agent''))\<rparr>"

text \<open>A header that is missing or not text counts as none.\<close>

definition request_metadata ::
  "(string option \<Rightarrow> string option \<Rightarrow> 'm) \<Rightarrow> (string \<Rightarrow> 'v option) \<Rightarrow> ('v \<Rightarrow> string option) \<Rightarrow> 'm" where
  "request_metadata extractor headers to_str =
     (let as_string = (\<lambda>header. Option.bind header to_str);
          site = as_string (headers ''origin'');
          user_agent = as_string (headers ''user-agent'')
      in extractor site user_agent)"

lemma request_origin_shown:
  assumes "headers ''origin'' = Some h" and "to_str h = Some t" and "headers ''user-agent'' = None"
  shows "origin_display (md_origin (request_metadata read_metadata headers to_str)) =
    t @ '' / unknown agent via RPC''"
  using assms by (simp add: request_metadata_def read_metadata_def)

section \<open>What starting does\<close>

lemma start_http_small:
  assumes "unat max_payload < 2 ^ 44"
  shows "start_http checks start addr cors handler threads max_payload keep_alive =
    (Ok (start \<lparr>so_handler = handler, so_keep_alive = keep_alive, so_threads = threads,
            so_cors = cors, so_health_api = (''/api/health'', ''durian_value''),
            so_max_request_body_size = max_payload * 1024 * 1024\<rparr> addr) :: ('e, io_error + 'server) outcome)"
proof -
  have k: "unat (max_payload * 1024) = unat max_payload * 1024"
    using assms by (simp add: unat_word_ariths)
  have "times_op checks max_payload 1024 = (Ok (max_payload * 1024) :: ('e, u64) outcome)"
    using assms by (intro times_op_small) simp
  moreover have "times_op checks (max_payload * 1024) 1024 = (Ok (max_payload * 1024 * 1024) :: ('e, u64) outcome)"
    using assms by (intro times_op_small) (simp add: k)
  ultimately show ?thesis by (simp add: start_http_def)
qed

lemma times_op_Ok: "times_op chk a b = Ok c \<Longrightarrow> c = a * b"
  by (auto simp: times_op_def checked_mul_def split: option.splits if_splits)

text \<open>
  A server runs only when it is enabled, its address is valid and the start succeeded, with
  the options of the configuration.
\<close>

lemma new_http_running:
  assumes "new_http checks parse extend_with handler0 from validation start bc name options conf = Ok (Some server)"
  obtains addr where "cf_enabled conf"
    and "parse (cf_interface conf @ '':'' @ show_nat (unat (cf_port conf))) = Some addr"
    and "start \<lparr>so_handler = setup_rpc extend_with handler0 (cf_apis conf) bc,
        so_keep_alive = cf_keep_alive conf, so_threads = cf_server_threads conf,
        so_cors = into_domains from validation (cf_cors conf),
        so_health_api = (''/api/health'', ''durian_value''),
        so_max_request_body_size = cf_max_payload conf * 1024 * 1024\<rparr> addr = Inr server"
  using assms
  by (auto simp: new_http_def start_http_def Let_def elim!: obind_OkE dest!: times_op_Ok
      split: if_splits sum.splits io_error.splits)

end
