(* ===== verification/Web3_Laws.thy ===== *)
theory Web3_Laws
  imports Web3_Requests
begin

text \<open>
  What the parsers and printers of \<open>examples/web3\<close> compute: the value of a hexadecimal number,
  the amount that a printed number of ether stands for.
\<close>

section \<open>Hexadecimal numbers\<close>

definition hex_step :: "nat \<Rightarrow> char \<Rightarrow> nat" where
  "hex_step n c = 16 * n + (case to_digit c of Some d \<Rightarrow> d | None \<Rightarrow> 0)"

definition hex_value :: "string \<Rightarrow> nat" where
  "hex_value cs = foldl hex_step 0 cs"

definition hex_text :: "string \<Rightarrow> bool" where
  "hex_text cs \<longleftrightarrow> (\<forall>c \<in> set cs. to_digit c \<noteq> None)"

lemma to_digit_less: "to_digit c = Some d \<Longrightarrow> d < 16"
  by (auto simp: to_digit_def Let_def split: if_splits)

lemma hex_steps_ge: "n \<le> foldl hex_step n cs"
proof (induction cs arbitrary: n)
  case (Cons c cs)
  have "n \<le> hex_step n c" by (simp add: hex_step_def)
  also have "\<dots> \<le> foldl hex_step (hex_step n c) cs" by (rule Cons)
  finally show ?case by simp
qed simp

lemma hex_digits_run:
  assumes "hex_text cs"
  shows "hex_digits acc cs =
    (if foldl hex_step (unat acc) cs < 2 ^ 64 then Inr (word_of_nat (foldl hex_step (unat acc) cs))
     else Inl NumberOverflow)"
  using assms
proof (induction cs arbitrary: acc)
  case Nil
  then show ?case using unsigned_less [of acc] by simp
next
  case (Cons c cs)
  obtain d where d: "to_digit c = Some d" using Cons.prems by (auto simp: hex_text_def)
  have u: "unat (word_of_nat d :: u64) = d" using to_digit_less [OF d] by (simp add: unat_of_nat)
  have step: "hex_step (unat acc) c = 16 * unat acc + d" by (simp add: hex_step_def d)
  show ?case
  proof (cases "16 * unat acc + d < 2 ^ 64")
    case True
    have m: "checked_mul acc 16 = Some (acc * 16)" using True by (simp add: checked_mul_def)
    have um: "unat (acc * 16) = 16 * unat acc"
      using checked_mul_Some [THEN iffD1, OF m] by simp
    then have a: "checked_add (acc * 16) (word_of_nat d) = Some (acc * 16 + word_of_nat d)"
      using True by (simp add: checked_add_def u)
    then have "unat (acc * 16 + word_of_nat d) = 16 * unat acc + d"
      using checked_add_Some [THEN iffD1, OF a] um u by simp
    with Cons m a d step show ?thesis by (simp add: hex_text_def)
  next
    case False
    then have big: "\<not> foldl hex_step (unat acc) (c # cs) < 2 ^ 64"
      using hex_steps_ge [of "hex_step (unat acc) c" cs] step by simp
    show ?thesis
    proof (cases "checked_mul acc 16")
      case (Some m)
      then have "unat m = unat acc * 16" using checked_mul_Some [THEN iffD1, OF Some] by simp
      with False have "checked_add m (word_of_nat d) = None" by (simp add: checked_add_def u)
      with big Some d show ?thesis by simp
    qed (use big d in simp)
  qed
qed

lemma to_digit_plus: "to_digit (CHR ''+'') = None"
  by (simp add: to_digit_def)

lemma from_str_radix_run:
  assumes "hex_text cs" and "cs \<noteq> []"
  shows "from_str_radix_16 cs =
    (if hex_value cs < 2 ^ 64 then Inr (word_of_nat (hex_value cs)) else Inl NumberOverflow)"
proof -
  obtain c ds where cs: "cs = c # ds" using assms(2) by (cases cs) auto
  then have "c \<noteq> CHR ''+''" using assms(1) to_digit_plus by (auto simp: hex_text_def)
  then have "from_str_radix_16 cs = hex_digits 0 cs" by (simp add: from_str_radix_16_def cs)
  also have "\<dots> = (if hex_value cs < 2 ^ 64 then Inr (word_of_nat (hex_value cs)) else Inl NumberOverflow)"
    using hex_digits_run [OF assms(1), of 0] unfolding hex_value_def by simp
  finally show ?thesis .
qed

section \<open>Decimal fractions\<close>

lemma read_nat_append_gen: "read_nat (xs @ ys) = read_nat xs * 10 ^ length ys + read_nat ys"
  by (induction xs) (simp_all add: algebra_simps power_add)

lemma read_nat_zeros [simp]: "read_nat (replicate k (CHR ''0'')) = 0"
  by (induction k) simp_all

lemma show_nat_digits: "c \<in> set (show_nat n) \<Longrightarrow> c \<noteq> CHR ''.''"
proof (induction n rule: show_nat.induct)
  case (1 n)
  have digit: "digit_char d \<noteq> CHR ''.''" if "d < 10" for d
  proof
    assume "digit_char d = CHR ''.''"
    then have "48 + d = (of_char (CHR ''.'') :: nat)" using of_digit_char [OF that] by metis
    then show False by simp
  qed
  show ?case
  proof (cases "n < 10")
    case True
    then show ?thesis
      using "1.prems" digit [of n] by (subst (asm) show_nat.simps) (auto simp del: digit_char.simps)
  next
    case False
    then show ?thesis
      using "1.prems" "1.IH" digit [of "n mod 10"]
      by (subst (asm) show_nat.simps) (auto simp del: digit_char.simps)
  qed
qed

text \<open>The amount of wei that a printed amount of ether stands for.\<close>

definition wei_of :: "string \<Rightarrow> nat" where
  "wei_of s = (let a = takeWhile (\<lambda>c. c \<noteq> CHR ''.'') s; b = drop (Suc (length a)) s
     in read_nat a * 10 ^ 18 + read_nat b * 10 ^ (18 - length b))"

lemma trim_end_stop: "c \<noteq> d \<Longrightarrow> trim_end c (xs @ d # b) = xs @ d # trim_end c b"
  by (simp add: trim_end_def dropWhile_append split: if_splits)

lemma trim_end_id: "c \<notin> set xs \<Longrightarrow> trim_end c xs = xs"
  by (cases xs rule: rev_cases) (auto simp: trim_end_def)

lemma trim_end_split: "\<exists>k. b = trim_end c b @ replicate k c"
proof -
  have "rev b = takeWhile (\<lambda>x. x = c) (rev b) @ dropWhile (\<lambda>x. x = c) (rev b)" by simp
  then have "b = trim_end c b @ rev (takeWhile (\<lambda>x. x = c) (rev b))"
    unfolding trim_end_def by (metis rev_append rev_rev_ident)
  moreover have "takeWhile (\<lambda>x. x = c) ys = replicate (length (takeWhile (\<lambda>x. x = c) ys)) c" for ys
    by (induction ys) auto
  ultimately show ?thesis by (metis rev_replicate)
qed

lemma wei_of_trimmed:
  assumes a: "CHR ''.'' \<notin> set a" and b: "CHR ''.'' \<notin> set b" and len: "length b = 18"
  shows "wei_of (trim_end (CHR ''.'') (trim_end (CHR ''0'') (a @ CHR ''.'' # b))) =
    read_nat a * 10 ^ 18 + read_nat b"
proof -
  let ?b = "trim_end (CHR ''0'') b"
  obtain k where k: "b = ?b @ replicate k (CHR ''0'')" using trim_end_split by blast
  then have "length b = length ?b + k" by (metis length_append length_replicate)
  then have "18 - length ?b = k" using len by simp
  moreover have "read_nat b = read_nat ?b * 10 ^ k"
    by (subst k) (simp add: read_nat_append_gen)
  ultimately have val: "read_nat ?b * 10 ^ (18 - length ?b) = read_nat b" by simp
  have nb: "CHR ''.'' \<notin> set ?b" using b by (subst (asm) k) auto
  have cut: "takeWhile (\<lambda>c. c \<noteq> CHR ''.'') (a @ CHR ''.'' # c) = a"
    "takeWhile (\<lambda>c. c \<noteq> CHR ''.'') a = a" for c
    using a by (auto simp: takeWhile_append takeWhile_eq_all_conv)
  have trim: "trim_end (CHR ''0'') (a @ CHR ''.'' # b) = a @ CHR ''.'' # ?b"
    by (rule trim_end_stop) simp
  show ?thesis
  proof (cases "?b = []")
    case True
    have "trim_end (CHR ''.'') (a @ [CHR ''.'']) = trim_end (CHR ''.'') a"
      by (simp add: trim_end_def)
    with a have "trim_end (CHR ''.'') (a @ [CHR ''.'']) = a" by (simp add: trim_end_id)
    with True val show ?thesis by (simp add: trim wei_of_def cut)
  next
    case False
    then obtain x ys where x: "?b = ys @ [x]" by (cases ?b rule: rev_cases) auto
    with nb have "x \<noteq> CHR ''.''" by auto
    then have "trim_end (CHR ''.'') ((a @ CHR ''.'' # ys) @ [x]) = (a @ CHR ''.'' # ys) @ [x]"
      by (simp add: trim_end_def)
    with x have "trim_end (CHR ''.'') (a @ CHR ''.'' # ?b) = a @ CHR ''.'' # ?b" by simp
    with val show ?thesis by (simp add: trim wei_of_def cut)
  qed
qed

lemma wei_of_format: "wei_of (format_ether i) = unat i"
proof -
  let ?s = "show_nat (unat i)"
  have dots: "CHR ''.'' \<notin> set ?s" using show_nat_digits by blast
  show ?thesis
  proof (cases "length ?s \<le> 18")
    case True
    let ?b = "replicate (18 - length ?s) (CHR ''0'') @ ?s"
    have "nat \<bar>int (length ?s) - 18\<bar> = 18 - length ?s" using True by simp
    then have "format_ether i = trim_end (CHR ''.'') (trim_end (CHR ''0'') (''0'' @ CHR ''.'' # ?b))"
      using True by (simp add: format_ether_def Let_def)
    moreover have "length ?b = 18" using True by simp
    moreover have "CHR ''.'' \<notin> set ?b" using dots by auto
    moreover have "read_nat ?b = unat i" by (simp add: read_nat_append_gen read_show_nat)
    ultimately show ?thesis using wei_of_trimmed [of "''0''" ?b] by simp
  next
    case False
    let ?k = "length ?s - 18"
    have k: "nat (int (length ?s) - 18) = ?k" and neg: "\<not> int (length ?s) - 18 \<le> 0" using False by auto
    have "format_ether i =
        trim_end (CHR ''.'') (trim_end (CHR ''0'') (take ?k ?s @ CHR ''.'' # drop ?k ?s))"
      using False by (simp add: format_ether_def Let_def k)
    moreover have "CHR ''.'' \<notin> set (take ?k ?s)" "CHR ''.'' \<notin> set (drop ?k ?s)"
      using dots by (auto dest: in_set_takeD in_set_dropD)
    moreover have len: "length (drop ?k ?s) = 18" using False by simp
    moreover have "read_nat (take ?k ?s) * 10 ^ 18 + read_nat (drop ?k ?s) = unat i"
      using read_nat_append_gen [of "take ?k ?s" "drop ?k ?s"] by (simp only: append_take_drop_id len read_show_nat)
    ultimately show ?thesis using wei_of_trimmed by metis
  qed
qed

end
