(* ===== verification/Web3_Properties.thy ===== *)
theory Web3_Properties
  imports Web3_Service Web3_Laws Front_Ends Chain_Properties
begin

text \<open>
  Properties of the programs around the machine: the command line, the client and the JSON-RPC
  node of \<open>examples\<close>, and the texts that the node reads and prints.
\<close>

section \<open>The node's life\<close>

text \<open>The blockchain behind the mutex grows; once the mutex is poisoned nothing changes any more.\<close>

definition node_grows :: "chain_env \<Rightarrow> node \<Rightarrow> node \<Rightarrow> bool" where
  "node_grows E nd nd' \<longleftrightarrow> grows E (nd_chain nd) (nd_chain nd') \<and> (nd_poisoned nd \<longrightarrow> nd' = nd)"

interpretation node_frame: step_frame "node_grows E" for E
  by unfold_locales (auto simp: node_grows_def history.frame_refl intro: history.frame_trans)

lemma locked_grows: "keeps (grows E) m \<Longrightarrow> keeps (node_grows E) (locked m)"
  by (rule keepsI) (auto simp: locked_def node_grows_def history.frame_refl split: if_splits dest: keepsD)

lemma run_tx_grows: "keeps (grows E) (run_tx X H E tx)"
  unfolding run_tx_def by (intro history.keeps_unwrapping execute_grows)

lemma need_grows: "keeps (grows E) (need x)"
  unfolding need_def by (rule history.keeps_reading)

lemmas node_rules = history.keeps_rules run_tx_grows need_grows grows_rules history.stays_pure

lemma serve_grows: "keeps (node_grows E) (serve X H E peek_size q)"
proof -
  have reply: "keeps (node_grows E) m \<Longrightarrow> keeps (node_grows E) (replying f m)" for f and m :: "(node, error, 'z) run"
    unfolding replying_def by (intro node_frame.keeps_rules node_frame.stays_pure)
  show ?thesis
    unfolding serve_def send_transaction_def web3_create_def transaction_receipt_def node_code_at_def
      node_call_def Let_def
    by (cases q; simp; intro reply locked_grows node_rules node_frame.keeps_rules node_frame.stays_pure)
qed

lemma node_reach_grows: "node_reach X H E peek_size nd nd' \<Longrightarrow> node_grows E nd nd'"
proof (induction rule: node_reach.induct)
  case (start nd)
  show ?case by (rule node_frame.frame_refl)
next
  case (further nd nd' nd'')
  from further(2) obtain q r where "serve X H E peek_size q nd' = Some (r, nd'')"
    by (rule node_stepE)
  then have "node_grows E nd' nd''" by (rule keepsD [OF serve_grows])
  with further.IH show ?case by (rule node_frame.frame_trans)
qed

text \<open>
  C19: Whatever is requested, and however the requests end, the node's blockchain only grows: its
  blocks stay linked and the old ones stay where they are, no recorded transaction and no alias
  is forgotten, an alias that is not of a deployed contract keeps its address; and once the lock
  is poisoned the node never changes again.
\<close>

theorem node_history:
  assumes "node_reach X H E peek_size nd nd'"
  shows "(linked E (bc_blocks (nd_chain nd)) \<longrightarrow> linked E (bc_blocks (nd_chain nd'))) \<and>
    (\<exists>bs. bc_blocks (nd_chain nd') = bc_blocks (nd_chain nd) @ bs) \<and>
    dom (bc_transactions (nd_chain nd)) \<subseteq> dom (bc_transactions (nd_chain nd')) \<and>
    dom (bc_accounts (nd_chain nd)) \<subseteq> dom (bc_accounts (nd_chain nd')) \<and>
    (\<forall>n. n \<notin> range contract_name \<longrightarrow>
       map_option ca_address (bc_accounts (nd_chain nd') n) =
       map_option ca_address (bc_accounts (nd_chain nd) n)) \<and>
    (nd_poisoned nd \<longrightarrow> nd' = nd)"
  using node_reach_grows [OF assms] by (simp add: node_grows_def grows_def named_kept_def)

text \<open>A deployment through the node, evaluated.\<close>

definition sample_request :: tx_request where
  "sample_request = \<lparr>rq_from = Some 1, rq_to = None, rq_gas_price = None, rq_gas = Some 1000000,
     rq_value = None, rq_data = Some (Bytes [1, 2]), rq_nonce = None\<rparr>"

lemma sample_serialize: "ce_serialize sample_env b \<noteq> None"
  by (simp add: sample_env_def)

lemma sample_commit:
  assumes "bc_blocks bc \<noteq> []"
  obtains b where "commit sample_env now bc = (Ok () :: ('e, unit) outcome, bc\<lparr>bc_blocks := bc_blocks bc @ [b]\<rparr>)"
proof -
  obtain bs where "ce_serialize sample_env (last (bc_blocks bc)) = Some bs" using sample_serialize by blast
  with assms that show thesis by (simp add: commit_run Let_def sample_serialize)
qed

lemma sample_inc:
  obtains b' where "inc_nonce ''naga'' (sample_chain\<lparr>bc_blocks := bs, bc_transactions := ts\<rparr>) = (Ok () :: (error, unit) outcome, b')"
    and "bc_blocks b' = bs"
  by (simp add: inc_nonce_def rbind_lift modify_def plus_op_def checked_add_def sample_chain_def
      blockchain_new_def chain_account_new_def)

lemma sample_sent:
  obtains h nd' where "send_transaction abort_engine sorted_orders sample_env (\<lambda>_. 1) 10 20 sample_request
      (node_new sample_chain) = Some (Ok h :: (error, h256) outcome, nd')"
proof -
  let ?b0 = sample_chain
  have tx: "make_create_embedded_code (\<lambda>_. 1) 1 0 1000000 0 [1, 2] 0 = (Ok sample_deploy :: (error, transaction) outcome)"
    by (simp add: make_create_embedded_code_def sample_deploy_def make_create_def)
  have "bc_blocks ?b0 \<noteq> []" by (simp add: sample_chain_def blockchain_new_def)
  then obtain b where c1: "commit sample_env 10 ?b0 = (Ok () :: (error, unit) outcome, ?b0\<lparr>bc_blocks := bc_blocks ?b0 @ [b]\<rparr>)"
    by (rule sample_commit)
  let ?b1 = "?b0\<lparr>bc_blocks := bc_blocks ?b0 @ [b]\<rparr>"
  obtain rd where run: "execute abort_engine sorted_orders sample_provider sample_deploy ?b1 = Some (Ok rd, ?b1)"
    by (rule abort_run)
  let ?h = "transaction_hash sample_env sample_deploy"
  let ?ts = "(bc_transactions ?b0)(?h \<mapsto> (sample_deploy, rd))"
  obtain b4 where inc: "inc_nonce ''naga'' (?b0\<lparr>bc_blocks := bc_blocks ?b0 @ [b], bc_transactions := ?ts\<rparr>)
      = (Ok () :: (error, unit) outcome, b4)" and "bc_blocks b4 = bc_blocks ?b0 @ [b]" by (rule sample_inc)
  then obtain b' where c2: "commit sample_env 20 b4 = (Ok () :: (error, unit) outcome, b4\<lparr>bc_blocks := bc_blocks b4 @ [b']\<rparr>)"
    using sample_commit [of b4] by auto
  show thesis
    using c1 run inc c2
    by (intro that [of ?h "node_new (b4\<lparr>bc_blocks := bc_blocks b4 @ [b']\<rparr>)"])
      (simp add: send_transaction_def locked_def node_new_def web3_create_def sample_request_def need_def
        rthen_def returning_def reading_def run_tx_def unwrapping_def tx [unfolded One_nat_def] add_transactions_Ok Let_def pure_def)
qed

lemma node_history_witness:
  "\<exists>nd'. node_reach abort_engine sorted_orders sample_env (\<lambda>_. 1) (node_new sample_chain) nd' \<and>
    linked sample_env (bc_blocks (nd_chain nd')) \<and> {''alice'', ''naga''} \<subseteq> dom (bc_accounts (nd_chain nd'))"
proof -
  obtain h nd' where "send_transaction abort_engine sorted_orders sample_env (\<lambda>_. 1) 10 20 sample_request
      (node_new sample_chain) = Some (Ok h :: (error, h256) outcome, nd')" by (rule sample_sent)
  then have "serve abort_engine sorted_orders sample_env (\<lambda>_. 1) (SendTransaction 10 20 sample_request)
      (node_new sample_chain) = Some (Ok (TransactionHash h), nd')"
    by (simp add: serve_def replying_def rthen_def returning_def pure_def)
  then have reach: "node_reach abort_engine sorted_orders sample_env (\<lambda>_. 1) (node_new sample_chain) nd'"
    by (meson node_step.step node_reach.intros)
  have "{''alice'', ''naga''} \<subseteq> dom (bc_accounts sample_chain)"
    by (auto simp: sample_chain_def blockchain_new_def)
  with node_history [OF reach] reach show ?thesis
    by (intro exI [of _ nd'] conjI) (auto simp: node_new_def sample_chain_def linked_new)
qed

text \<open>
  C38: A service that runs was enabled, its address was valid, and the server was started at
  that address with the options of the configuration and with a handler that offers one node,
  over the chain that was made for it, when the transaction methods are among the configured
  ones, and no node otherwise. Whatever that node is asked, its chain stays linked and keeps
  the five initial accounts.
\<close>

theorem service_history:
  assumes "new_http checks parse extend_with handler0 from validation start
      (blockchain_new now r1 r2 r3 r4) name options conf = Ok (Some server)"
  shows "cf_enabled conf \<and>
    (\<exists>addr. parse (cf_interface conf @ '':'' @ show_nat (unat (cf_port conf))) = Some addr \<and>
      start \<lparr>so_handler = (if TransactionApi \<in> list_apis (cf_apis conf)
            then extend_with (node_new (blockchain_new now r1 r2 r3 r4)) handler0 else handler0),
          so_keep_alive = cf_keep_alive conf, so_threads = cf_server_threads conf,
          so_cors = into_domains from validation (cf_cors conf),
          so_health_api = (''/api/health'', ''durian_value''),
          so_max_request_body_size = cf_max_payload conf * 1024 * 1024\<rparr> addr = Inr server) \<and>
    (\<forall>nd. node_reach X H E peek_size (node_new (blockchain_new now r1 r2 r3 r4)) nd \<longrightarrow>
      linked E (bc_blocks (nd_chain nd)) \<and>
      {''alice'', ''bob'', ''carol'', ''dave'', ''naga''} \<subseteq> dom (bc_accounts (nd_chain nd)))"
proof (intro conjI allI impI)
  let ?bc = "blockchain_new now r1 r2 r3 r4"
  from new_http_running [OF assms] show "cf_enabled conf" by metis
  from new_http_running [OF assms] show "\<exists>addr.
      parse (cf_interface conf @ '':'' @ show_nat (unat (cf_port conf))) = Some addr \<and>
      start \<lparr>so_handler = (if TransactionApi \<in> list_apis (cf_apis conf)
            then extend_with (node_new ?bc) handler0 else handler0),
          so_keep_alive = cf_keep_alive conf, so_threads = cf_server_threads conf,
          so_cors = into_domains from validation (cf_cors conf),
          so_health_api = (''/api/health'', ''durian_value''),
          so_max_request_body_size = cf_max_payload conf * 1024 * 1024\<rparr> addr = Inr server"
    unfolding setup_rpc_eq by metis
  fix nd
  assume "node_reach X H E peek_size (node_new ?bc) nd"
  then have grows: "grows E ?bc (nd_chain nd)"
    using node_reach_grows by (fastforce simp: node_grows_def node_new_def)
  then show "linked E (bc_blocks (nd_chain nd))" by (simp add: grows_def linked_new)
  have "{''alice'', ''bob'', ''carol'', ''dave'', ''naga''} = dom (bc_accounts ?bc)"
    by (auto simp: blockchain_new_def)
  then show "{''alice'', ''bob'', ''carol'', ''dave'', ''naga''} \<subseteq> dom (bc_accounts (nd_chain nd))"
    using grows unfolding grows_def by metis
qed

text \<open>A server that is its handler, and a handler that is its node.\<close>

lemma service_history_witness:
  "new_http True (\<lambda>url. if url = ''127.0.0.1:8545'' then Some () else None) (\<lambda>nd _. Some nd) None
      (\<lambda>d. d) (\<lambda>ds. ds) (\<lambda>opts _. Inr (so_handler opts)) sample_chain ''JSON-RPC'' ''jsonrpc''
      http_configuration_default = Ok (Some (Some (node_new sample_chain))) \<and>
    linked sample_env (bc_blocks (nd_chain (node_new sample_chain)))"
proof -
  have port: "show_nat 8545 = ''8545''" by (simp add: show_nat.simps, code_simp)
  have run: "new_http True (\<lambda>url. if url = ''127.0.0.1:8545'' then Some () else None) (\<lambda>nd _. Some nd) None
      (\<lambda>d. d) (\<lambda>ds. ds) (\<lambda>opts _. Inr (so_handler opts)) sample_chain ''JSON-RPC'' ''jsonrpc''
      http_configuration_default = Ok (Some (Some (node_new sample_chain)))"
    by (simp add: new_http_def http_configuration_default_def api_set_default_def port start_http_small
        setup_rpc_eq)
  have "node_reach abort_engine sorted_orders sample_env (\<lambda>_. 1) (node_new sample_chain) (node_new sample_chain)"
    by (rule node_reach.intros)
  with service_history [OF run [unfolded sample_chain_def],
      of abort_engine sorted_orders sample_env "\<lambda>_. 1"] run
  show ?thesis by (simp add: sample_chain_def)
qed

text \<open>
  C35: A request for the receipt of a transaction that was never recorded panics while the
  blockchain is locked. That poisons the lock, and every later request but for the price of gas panics too.
\<close>

theorem unknown_receipt_poisons:
  assumes "\<not> nd_poisoned nd" and "bc_transactions (nd_chain nd) h = None"
  shows "\<exists>nd'. serve X H E peek_size (TransactionReceipt h) nd = Some (Crash, nd') \<and>
    nd_poisoned nd' \<and> (\<forall>q. q \<noteq> GasPrice \<longrightarrow> serve X H E peek_size q nd' = Some (Crash, nd'))"
proof -
  let ?nd = "nd\<lparr>nd_poisoned := True\<rparr>"
  have "serve X H E peek_size (TransactionReceipt h) nd = Some (Crash, ?nd)"
    using assms
    by (simp add: serve_def replying_def transaction_receipt_def locked_def reading_def
        transaction_recipit_def get_transaction_details_def rthen_def)
  moreover have "serve X H E peek_size q ?nd = Some (Crash, ?nd)" if "q \<noteq> GasPrice" for q
    using that
    by (cases q) (simp_all add: serve_def replying_def transaction_receipt_def send_transaction_def
        node_code_at_def node_call_def locked_def rthen_def)
  ultimately show ?thesis by (intro exI [of _ ?nd]) simp
qed

lemma unknown_receipt_poisons_witness:
  "\<exists>nd'. serve abort_engine sorted_orders sample_env (\<lambda>_. 1) (TransactionReceipt 7) (node_new sample_chain) = Some (Crash, nd') \<and>
    nd_poisoned nd' \<and> serve abort_engine sorted_orders sample_env (\<lambda>_. 1) (CodeAt 1 None) nd' = Some (Crash, nd')"
proof -
  have "\<not> nd_poisoned (node_new sample_chain)" "bc_transactions (nd_chain (node_new sample_chain)) 7 = None"
    by (simp_all add: node_new_def sample_chain_def blockchain_new_def)
  from unknown_receipt_poisons [OF this] show ?thesis by blast
qed

lemma need_Ok [simp]: "need x s = Some (Ok v, t) \<longleftrightarrow> x = Some v \<and> t = s"
  by (cases x) (auto simp: need_def)

text \<open>What a deployment through the node has done once it answers.\<close>

lemma send_transaction_Ok:
  fixes nd :: node
  assumes "(send_transaction X H E peek_size t1 t2 rq :: (node, error, h256) run) nd = Some (Ok h, nd')"
    and "linked E (bc_blocks (nd_chain nd))"
  obtains a d g tx rd where "rq_from rq = Some a" and "rq_data rq = Some d" and "rq_gas rq = Some g"
    and "make_create_embedded_code peek_size a (case rq_value rq of Some v \<Rightarrow> v | None \<Rightarrow> 0) g 0 (into_vec d) 0 =
      (Ok tx :: (error, transaction) outcome)"
    and "h = transaction_hash E tx" and "bc_transactions (nd_chain nd') h = Some (tx, rd)"
    and "unat (rd_gas_left rd) \<le> unat g" and "rd_contract rd = target (en_keccak X) tx"
    and "linked E (bc_blocks (nd_chain nd'))" and "\<not> nd_poisoned nd'"
proof -
  from assms(1) obtain a d g tx rd b1 b2 b3 b4 b5 where
    rq: "rq_from rq = Some a" "rq_data rq = Some d" "rq_gas rq = Some g"
    and c1: "commit E t1 (nd_chain nd) = (Ok () :: (error, unit) outcome, b1)"
    and tx: "make_create_embedded_code peek_size a (case rq_value rq of Some v \<Rightarrow> v | None \<Rightarrow> 0) g 0 (into_vec d) 0 =
      (Ok tx :: (error, transaction) outcome)"
    and ex: "execute X H (chain_provider E) tx b1 = Some (Ok rd, b2)"
    and add: "add_transactions E tx rd b2 = (Ok h :: (error, h256) outcome, b3)"
    and inc: "inc_nonce ''naga'' b3 = (Ok () :: (error, unit) outcome, b4)"
    and c2: "commit E t2 b4 = (Ok () :: (error, unit) outcome, b5)"
    and nd': "nd' = \<lparr>nd_chain = b5, nd_poisoned = False\<rparr>"
    by (auto simp: send_transaction_def locked_def web3_create_def run_tx_def pure_def Let_def
        split: if_splits)
  have h: "h = transaction_hash E tx" and tr: "bc_transactions b3 h = Some (tx, rd)"
    and bl: "bc_blocks b3 = bc_blocks b2"
    using add by (auto simp: add_transactions_Ok)
  have l1: "linked E (bc_blocks b1)" by (rule commit_linked(1) [OF assms(2) c1])
  then have l4: "linked E (bc_blocks b4)"
    using execute_blocks(1) [OF ex] bl inc_nonce_Ok(1) [OF inc] by simp
  have "tx_gas tx = g"
    using tx by (auto simp: make_create_embedded_code_def Let_def split: if_splits)
  then have "unat (rd_gas_left rd) \<le> unat g" using execute_report(1) [OF ex] by simp
  moreover have "bc_transactions b5 h = Some (tx, rd)"
    using commit_linked(5) [OF l4 c2] inc_nonce_Ok(2) [OF inc] tr by simp
  ultimately show thesis
    using that [OF rq tx h] execute_report(2) [OF ex] commit_linked(1) [OF l4 c2] by (simp add: nd')
qed

text \<open>
  C24: The answer to a deployment is good for a receipt: asked for the hash it got, the node
  answers with the requester's address, the number of its last block and the address that is
  derived from requester and code. What the receipt calls gas used is the gas that was left.
\<close>

theorem send_then_receipt:
  fixes nd :: node
  assumes "\<And>b. ce_serialize E b \<noteq> None" and "linked E (bc_blocks (nd_chain nd))"
    and "send_transaction X H E peek_size t1 t2 rq nd = Some (Ok h :: (error, h256) outcome, nd')"
  shows "\<exists>rcpt a d tx rd. transaction_receipt E h nd' = Some (Ok rcpt :: (error, tx_receipt) outcome, nd') \<and>
    rq_from rq = Some a \<and> rq_data rq = Some d \<and> tr_from rcpt = a \<and>
    tr_contract_address rcpt =
      contract_address (en_keccak X) a (take (peek_size (into_vec d)) (into_vec d)) 0 \<and>
    tr_block_number rcpt = word_of_nat (length (bc_blocks (nd_chain nd')) - 1) \<and>
    bc_transactions (nd_chain nd') h = Some (tx, rd) \<and> tr_gas_used rcpt = rd_gas_left rd"
proof -
  from send_transaction_Ok [OF assms(3,2)] obtain a d g tx rd where
    rq: "rq_from rq = Some a" "rq_data rq = Some d"
    and tx: "make_create_embedded_code peek_size a (case rq_value rq of Some v \<Rightarrow> v | None \<Rightarrow> 0) g 0 (into_vec d) 0 =
      (Ok tx :: (error, transaction) outcome)"
    and tr: "bc_transactions (nd_chain nd') h = Some (tx, rd)"
    and con: "rd_contract rd = target (en_keccak X) tx"
    and l: "linked E (bc_blocks (nd_chain nd'))" and np: "\<not> nd_poisoned nd'" by metis
  let ?bs = "bc_blocks (nd_chain nd')"
  have ne: "?bs \<noteq> []" using l by (simp add: linked_def)
  have num: "bk_num (last ?bs) = word_of_nat (length ?bs - 1)"
    using l ne by (simp add: linked_def last_conv_nth)
  obtain bs where bs: "ce_serialize E (last ?bs) = Some bs" using assms(1) by blast
  have txs: "tx_sender tx = a"
    "tx_action tx = Create (take (peek_size (into_vec d)) (into_vec d)) 0"
    using tx by (auto simp: make_create_embedded_code_def Let_def split: if_splits)
  have small: "(ucast (word_of_nat n :: u64) :: u32) = word_of_nat n" for n
    by (simp add: word_unat_eq_iff unsigned_ucast_eq unsigned_of_nat)
  show ?thesis
    using np tr con rq txs bs ne num
    by (intro exI [of _ "\<lparr>tr_transaction_hash = h, tr_transaction_index = 0, tr_block_hash = ce_keccak E bs,
          tr_from = a, tr_to = 0, tr_block_number = word_of_nat (length ?bs - 1),
          tr_gas_used = rd_gas_left rd, tr_contract_address = rd_contract rd,
          tr_cumulative_gas_used = rd_gas_left rd, tr_status = ''0x01''\<rparr>"] exI [of _ a] exI [of _ d]
        exI [of _ tx] exI [of _ rd])
      (cases nd', simp add: transaction_receipt_def locked_def reading_def transaction_recipit_def
        get_transaction_details_def latest_block_hash_def last_block_def hash_def chain_block_number_def
        small target_def)
qed

lemma send_then_receipt_witness:
  "\<exists>h nd' rcpt. send_transaction abort_engine sorted_orders sample_env (\<lambda>_. 1) 10 20 sample_request
      (node_new sample_chain) = Some (Ok h :: (error, h256) outcome, nd') \<and>
    transaction_receipt sample_env h nd' = Some (Ok rcpt :: (error, tx_receipt) outcome, nd') \<and> tr_from rcpt = 1"
proof -
  obtain h nd' where run: "send_transaction abort_engine sorted_orders sample_env (\<lambda>_. 1) 10 20 sample_request
      (node_new sample_chain) = Some (Ok h :: (error, h256) outcome, nd')" by (rule sample_sent)
  have "linked sample_env (bc_blocks (nd_chain (node_new sample_chain)))"
    by (simp add: node_new_def sample_chain_def linked_new)
  from send_then_receipt [OF sample_serialize this run] run show ?thesis
    by (auto simp: sample_request_def)
qed

section \<open>The programs\<close>

text \<open>
  C29: A run of the command line program, whether it succeeds or panics on the way, leaves a
  linked chain that still has the five initial accounts; a successful one leaves exactly six
  blocks, the genesis block and those of five commits.
\<close>

theorem cli_history:
  fixes bc :: blockchain and r :: "(error, unit) outcome"
  assumes "cli_main X H E now (r1, r2, r3, r4) file = Some (r, bc)"
  shows "linked E (bc_blocks bc) \<and> {''alice'', ''bob'', ''carol'', ''dave'', ''naga''} \<subseteq> dom (bc_accounts bc) \<and>
    (r = Ok () \<longrightarrow> length (bc_blocks bc) = 6)"
proof -
  let ?bc = "blockchain_new (now 0) r1 r2 r3 r4"
  have run: "cli_steps X H E (\<lambda>i. now (Suc i)) file ?bc = Some (r, bc)"
    using assms by (simp add: cli_main_def)
  have grows: "grows E ?bc bc" using cli_steps_grows run by (rule keepsD)
  have "linked E (bc_blocks bc)" using grows linked_new by (simp add: grows_def)
  moreover have "dom (bc_accounts ?bc) = {''alice'', ''bob'', ''carol'', ''dave'', ''naga''}"
    by (auto simp: blockchain_new_def)
  then have "{''alice'', ''bob'', ''carol'', ''dave'', ''naga''} \<subseteq> dom (bc_accounts bc)"
    using grows unfolding grows_def by metis
  moreover have "length (bc_blocks bc) = 6" if "r = Ok ()"
    using cli_steps_length [OF run [unfolded that]] by (simp add: blockchain_new_def)
  ultimately show ?thesis by blast
qed

lemma cli_history_witness:
  "\<exists>(r :: (error, unit) outcome) bc. cli_main sample_engine sorted_orders sample_env int (1, 2, 3, 4) (Inr [1]) = Some (r, bc) \<and>
    linked sample_env (bc_blocks bc)"
proof -
  have "always (cli_steps sample_engine sorted_orders sample_env now wasm :: (blockchain, error, unit) run)" for now wasm
    by (rule cli_steps_returns [where rank = length])
      (simp_all add: sample_engine_def script_traps_abort script_metered)
  from this [of "\<lambda>i. int (Suc i)" "Inr [1]"]
  have "(cli_main sample_engine sorted_orders sample_env int (1, 2, 3, 4) (Inr [1]) ::
      ((error, unit) outcome \<times> blockchain) option) \<noteq> None"
    unfolding always_def cli_main_def prod.case by (rule spec)
  then obtain r :: "(error, unit) outcome" and bc where
    run: "cli_main sample_engine sorted_orders sample_env int (1, 2, 3, 4) (Inr [1]) = Some (r, bc)"
    by (auto simp only: not_None_eq)
  with cli_history [OF run] show ?thesis by blast
qed

section \<open>Texts\<close>

text \<open>
  A block number in hexadecimal is read as its exact value when it fits 64 bits and refused
  as too large otherwise.
\<close>

theorem block_number_text:
  assumes "hex_text ds" and "ds \<noteq> []"
  shows "block_number_visit_str (''0x'' @ ds) =
    (if hex_value ds < 2 ^ 64 then Inr (BnNum (word_of_nat (hex_value ds)))
     else Inl ''Invalid block number: number too large to fit in target type'')"
  using from_str_radix_run [OF assms]
  by (simp add: block_number_visit_str_def parse_number_def starts_with_0x_def)

lemma block_number_text_witness:
  "block_number_visit_str ''0xff'' = Inr (BnNum 255) \<and> hex_text ''ff''"
proof -
  have t: "hex_text ''ff''" by code_simp
  have v: "hex_value ''ff'' = 255" by code_simp
  from block_number_text [OF t] t show ?thesis by (simp add: v)
qed

text \<open>
  C40: The amount of ether that a request is shown with is exact: read back as a decimal fraction
  of ether it is the amount in wei, for every 256-bit amount.
\<close>

theorem format_ether_exact: "wei_of (format_ether i) = unat i"
  by (rule wei_of_format)

end
