(* ===== verification/Spec2Isabelle.thy ===== *)
theory Spec2Isabelle
  imports Chain_Properties Equivalence_Properties Web3_Properties Panic_Payload
begin

text \<open>
  A verification development for \<open>durian\<close>, a stateless virtual machine that runs WebAssembly
  contracts against a blockchain it knows only through an interface, for the server that offers
  it over a connection, and for the programs of its examples: a blockchain, a command line, a
  client and a JSON-RPC node.

  \<^bold>\<open>The program.\<close> A caller builds a \<open>Transaction\<close> (\<open>src/durian/src/transaction.rs\<close>) that creates
  or calls a contract and hands it with a \<open>Provider\<close> (\<open>provider.rs\<close>) to \<open>execute\<close>
  (\<open>execute.rs\<close>). That loads the contract's module (\<open>parser.rs\<close>), instantiates it against the
  importable host functions (\<open>env.rs\<close>), and runs it in an interpreter (the \<open>wasmi\<close> package).
  Host calls arrive at the \<open>Runtime\<close> (\<open>runtime.rs\<close>), which meters gas by the tables of
  \<open>schedule.rs\<close> and \<open>wasm_cost.rs\<close> and reads and writes through a cache of accounts and
  storage, the \<open>State\<close> (\<open>state.rs\<close>). A run that ends with a non-empty result writes the cache
  back to the provider. \<open>src/examples/blockchain\<close> implements the provider.

  \<open>src/durian-server\<close> offers \<open>execute\<close> over a \<open>capnp\<close> connection: \<open>executor_impl.rs\<close> reads the
  transaction and polls for the result of a task, \<open>provider_adaptor.rs\<close> turns the provider's
  methods into calls back over the connection, and \<open>src/examples/durian-client\<close> serves them from
  its blockchain. \<open>src/examples/cli\<close> runs four transactions against its own blockchain, and
  \<open>src/examples/web3\<close> serves deployments, calls and receipts over HTTP.

  \<^bold>\<open>The theories\<close>, in the order of the imports.
  \<^item> \<open>Durian_Prelude\<close>: machine integers, outcomes (\<open>Ok\<close>, \<open>Err\<close>, or \<open>Crash\<close> for a panic),
    operations on a state with their bind, and the locale \<open>step_frame\<close>: a reflexive and
    transitive relation on states that operations stay in. Every frame and invariant of a
    component is an interpretation of it. \<open>Codec\<close> and \<open>Utf8\<close> hold the byte orders, decimal
    printing and UTF-8 decoding of the standard library.
  \<^item> \<open>Errors\<close>, \<open>Costs\<close>, \<open>Transactions\<close>, \<open>Panic_Payload\<close>: the data of the files of these names,
    \<open>types.rs\<close>, \<open>log_entry.rs\<close> and \<open>utils.rs\<close>.
  \<^item> \<open>Providers\<close>: the trait as a record of operations on a state of any type, and its contract
    as the locales \<open>provider_store\<close> and \<open>provider_contract\<close>.
  \<^item> \<open>Account_State\<close>: the cache of \<open>state.rs\<close>; \<open>Write_Back\<close>: what \<open>update_state\<close> does to any
    provider that keeps the contract.
  \<^item> \<open>Host\<close>: the part of the interpreter's interface that host calls use. \<open>Env\<close>: \<open>env.rs\<close>.
    \<open>Runtime\<close>: \<open>runtime.rs\<close>, one definition per method. \<open>Runtime_Laws\<close> and \<open>Dispatch_Laws\<close>:
    the frames of every method and of the dispatcher.
  \<^item> \<open>Parser\<close>, \<open>Execute\<close>: \<open>parser.rs\<close> and \<open>execute.rs\<close>. \<open>Execute_Laws\<close>: runs, metering and the
    return of runs; \<open>Commit_Laws\<close>: the outcome of an execution on any provider that keeps the
    contract. \<open>Silent_Traps\<close>: executions do not see the interpreter's own traps.
    \<open>Guest_Steps\<close>: the run of a contract as a machine of single steps, which stops where
    the loop returns and goes on forever where it does not.
  \<^item> \<open>Blockchain\<close>, \<open>Blockchain_Laws\<close>: the example chain, and that it keeps the contract of a
    provider.
  \<^item> \<open>Call_Laws\<close>, \<open>Dispatch_Types\<close>, \<open>Panic_Freedom\<close>: the exact behaviour of single host calls,
    the typing of the dispatcher by the import signatures, and the absence of panics.
  \<^item> \<open>Script_Engine\<close>, \<open>Sample_Execution\<close>: a concrete interpreter and a deployment on it, on which
    the theorems with hypotheses are instantiated.
  \<^item> \<open>Partial_Runs\<close>: operations that may not return, with their bind, and what keeps a frame.
  \<^item> \<open>Rpc_Messages\<close>, \<open>Remote_Provider\<close>, \<open>Rpc_Executor\<close>: the messages of \<open>durian.capnp\<close> with the
    functions that fill and read them, both ends of the provider's interface, and the server's
    method. \<open>Remote_Laws\<close>: the adaptor over a connection that carries calls keeps the contract
    \<open>provider_store\<close> whenever the provider at the other end keeps \<open>provider_contract\<close>, so every
    theorem on executions holds over the connection.
  \<^item> \<open>Simulation\<close>: a relation between runtimes over two providers of which a contract sees the same
    at its own address, kept by every host call and every run; \<open>execute_alike\<close> says that whole
    executions on such providers agree and leave everything else alone, and \<open>execute_refused\<close> what
    is left of that where one provider refuses to update accounts. The instances are the theorems on
    iteration orders, on the isolation of contracts, and on executions over the connection, up
    to the client's program that asks the server.
  \<^item> \<open>Chain_History\<close>: what no program around the chain takes back, as a frame. \<open>Front_Ends\<close>: the
    command line and the client's transactions. \<open>Endpoints\<close>: the programs at the two ends of the
    connection, from their arguments to the loop that accepts connections, with the relation of
    what was served so far.
  \<^item> \<open>Web3_Types\<close>, \<open>Web3_Requests\<close>, \<open>Web3_Laws\<close>: the data of \<open>examples/web3\<close>, its parsers and
    printers. \<open>Web3_Node\<close>: the methods over a locked blockchain and the reachability relation of
    requests. \<open>Web3_Service\<close>: how the service is started.
  \<^item> \<open>Runtime_Properties\<close>, \<open>Execute_Properties\<close>, \<open>Chain_Properties\<close>, \<open>Remote_Properties\<close>,
    \<open>Equivalence_Properties\<close>, \<open>Web3_Properties\<close> and this theory: the properties, numbered by importance.

  \<^bold>\<open>How the model corresponds to the code.\<close> Definitions have the names of the source's functions
  where those are free; the chain's carry the prefix \<open>chain_\<close>, the runtime's methods that share a
  name with the cache's the prefix \<open>rt_\<close>. A method on a mutable reference is an operation: from
  a state to an outcome and a state. \<open>?\<close> is the bind, \<open>unwrap\<close>, \<open>expect\<close>, slices out of range and
  the panicking arithmetic of \<open>U256\<close> are \<open>Crash\<close>; the arithmetic of machine integers is
  checked or wraps by the build, which is the flag \<open>wh_overflow_checks\<close>. A hash map is a map
  together with an arbitrary enumeration of its keys (\<open>hash_orders\<close>, \<open>ce_order\<close>), and \<open>fair\<close>
  ones list every key once. The clock and random addresses are arguments. Hashes and 256-bit
  numbers are words, with their byte orders written out where bytes are seen.

  \<^bold>\<open>Parameters.\<close> \<open>wasmi\<close> (the record \<open>engine\<close>: load, instantiate, start, export and single
  steps), its memories and arguments (\<open>wasmi_host\<close>), \<open>parity_wasm\<close> and \<open>pwasm_utils\<close>
  (\<open>pwasm\<close>), Keccak-256 and the serializer of blocks; the client objects that \<open>capnp\<close> generates
  (\<open>provider_client\<close>), the network (\<open>network\<close>), the handler and server of \<open>jsonrpc\<close>, the
  deserializer of \<open>serde\<close>. Hypotheses on them are named:
  \<open>memory_laws\<close> (reading yields what was asked for and what was written), \<open>host_traps_abort\<close>
  (a host trap ends the run), \<open>metered\<close> (between two charges of a positive amount a run makes
  finitely many steps), \<open>carries\<close> (where the connection is up, a call performs the served method
  and delivers its reply, and the connection stays up), \<open>served_calls\<close> (requests reach the client's
  chain only by calls of the methods it serves). \<open>Script_Engine\<close> proves the former for its interpreter, \<open>direct_carries\<close> the last for a
  client that calls at once, and \<open>direct_served\<close> the same client's frame.

  \<^bold>\<open>Termination and bounds.\<close> The interpreter may run forever, so \<open>run_guest\<close> is a partial function
  with the value \<open>None\<close>; \<open>run_guest_returns\<close> shows that metered code returns, by the gas that
  is left, and \<open>gas_bounds_steps\<close> how many steps that allows. The server's loop \<open>serve_loop\<close> is
  partial as well, and meant to be. \<open>poll_result\<close> is partial in the same way, and returns once the
  channel has something to say. No fuel is used anywhere. Machine integers are kept at their width; the bounds that
  the exact statements need (the adjusted gas below \<open>2^64\<close>, the counter of the chain below
  \<open>2^31\<close>) are hypotheses or branches of the statements.

  \<^bold>\<open>Not modelled.\<close> The commented-out bodies of \<open>do_call\<close>, \<open>create\<close> and \<open>suicide\<close>; the list of
  accounts that \<open>commit\<close> prints; the build scripts, which run a code generator; the \<open>main\<close> of
  \<open>examples/web3\<close>, which runs an empty event loop and never starts the service, and its trait of
  account methods, which nothing implements; the readers and writers of JSON objects that
  \<open>serde\<close> derives. A panic in the client's provider ends the client, so that its mutex is left
  out there; in the node it is modelled. A call back to the client that is never answered blocks
  the server's task, and a buffer that cannot be allocated ends the host: the model has every
  call answered and every allocation succeed. \<open>HashMap\<close> orders entries by a random seed; here
  the order is any function of the map's contents, and theorems on it say that none matters.
  What the development does not cover beyond these are
  imports, module lists, type declarations without content, and comments.
\<close>

section \<open>Executions on the chain\<close>

text \<open>
  C1: An execution on the chain is all or nothing and stays in its place. Either the chain is
  unchanged and any successful result is empty, or the result is a non-empty success, the
  invariant holds, the accounts change only by the deployment, if it was one, and storage
  changes only at the contract's own address.
\<close>

theorem execution_on_chain:
  assumes "chain_inv E bc" and "fair_orders H" and "0 < chain_room bc"
    and "execute X H (chain_provider E) tx bc = Some (r, bc')"
  shows "(bc' = bc \<and> (\<forall>rd. r = Ok rd \<longrightarrow> rd_data rd = [])) \<or>
    (\<exists>rd. r = Ok rd \<and> rd_data rd \<noteq> [] \<and> rd_contract rd = target (en_keccak X) tx \<and>
      chain_inv E bc' \<and>
      acct (chain_provider E) bc' =
        committed chain_fresh tx (rd_contract rd) (rd_data rd) (acct (chain_provider E) bc) \<and>
      (\<forall>b. b \<noteq> rd_contract rd \<longrightarrow>
        stored (chain_provider E) bc' b = stored (chain_provider E) bc b) \<and>
      (\<forall>k. stored (chain_provider E) bc (rd_contract rd) k \<noteq> None \<longrightarrow>
        stored (chain_provider E) bc' (rd_contract rd) k \<noteq> None))"
  using assms
proof (cases rule: chain.execute_outcome)
  case (committed rd w)
  have grow: "m k \<noteq> None \<Longrightarrow> (m ++ n) k \<noteq> None" for m n :: "h256 \<rightharpoonup> h256" and k
    by (simp add: map_add_def split: option.split)
  show ?thesis
    by (rule disjI2, rule exI [of _ rd]) (use committed grow in simp)
qed blast

lemma execution_on_chain_witness:
  "\<exists>rd bc. execute sample_engine sorted_orders sample_provider sample_deploy sample_chain = Some (Ok rd, bc) \<and>
    chain_inv sample_env bc \<and> rd_contract rd = 85"
proof -
  obtain rd bc where run: "execute sample_engine sorted_orders sample_provider sample_deploy sample_chain = Some (Ok rd, bc)"
    and data: "rd_data rd = [0xca, 0xfe]"
    using sample_run [of 1] by (auto simp: sample_chain_eq genesis_address_def)
  have room: "0 < chain_room sample_chain" by (simp add: sample_chain_def chain_room_new)
  from execution_on_chain [OF chain_inv_sample fair_sorted room run] data run show ?thesis
    using sample_target by (auto simp: sample_engine_def)
qed

text \<open>
  C12: A deployment at a new address installs exactly the returned bytes as code, in an account
  with zero balance and nonce, and changes no other account.
\<close>

theorem deployment_installs_code:
  assumes "chain_inv E bc" and "fair_orders H" and "0 < chain_room bc"
    and "execute X H (chain_provider E) tx bc = Some (Ok rd, bc')" and "rd_data rd \<noteq> []"
    and "is_create (tx_action tx)" and "\<not> pv_exist (chain_provider E) bc (rd_contract rd)"
  shows "pv_account (chain_provider E) bc' (rd_contract rd) =
      Ok \<lparr>sa_nonce = 0, sa_balance = 0, sa_code = rd_data rd\<rparr> \<and>
    (\<forall>b. b \<noteq> rd_contract rd \<longrightarrow> acct (chain_provider E) bc' b = acct (chain_provider E) bc b)"
  using assms(1-4)
proof (cases rule: chain.execute_outcome)
  case unchanged
  with assms(5) show ?thesis by simp
next
  case (committed rd' w)
  have "acct (chain_provider E) bc (rd_contract rd) = None"
    using assms(7) chain.exist_iff [OF assms(1)] by blast
  then have "acct (chain_provider E) bc' (rd_contract rd) =
      Some \<lparr>sa_nonce = 0, sa_balance = 0, sa_code = rd_data rd\<rparr>"
    using committed(1,5) assms(6) by (simp add: committed_def deployed_def chain_fresh_def)
  then have "pv_account (chain_provider E) bc' (rd_contract rd) =
      Ok \<lparr>sa_nonce = 0, sa_balance = 0, sa_code = rd_data rd\<rparr>"
    by (simp only: acct_Some)
  with committed(1,5) assms(6) show ?thesis by (simp add: committed_def)
qed

lemma deployment_installs_code_witness:
  "\<exists>rd bc. execute sample_engine sorted_orders sample_provider sample_deploy sample_chain = Some (Ok rd, bc) \<and>
    pv_account sample_provider bc 85 = Ok \<lparr>sa_nonce = 0, sa_balance = 0, sa_code = [0xca, 0xfe]\<rparr>"
proof -
  obtain rd bc where run: "execute sample_engine sorted_orders sample_provider sample_deploy sample_chain = Some (Ok rd, bc)"
    and data: "rd_data rd = [0xca, 0xfe]"
    using sample_run [of 1] by (auto simp: sample_chain_eq genesis_address_def)
  have a: "rd_contract rd = 85"
    using execute_report(2) [OF run] sample_target by (simp add: sample_engine_def)
  have "find_account sample_env 85 sample_chain = None"
    by (rule find_sample) (simp add: genesis_address_def)
  then have "\<not> pv_exist sample_provider sample_chain (rd_contract rd)"
    by (simp add: a chain_provider_def account_ref_def)
  moreover have "is_create (tx_action sample_deploy)"
    by (simp add: sample_deploy_def make_create_def is_create_def)
  moreover have room: "0 < chain_room sample_chain" by (simp add: sample_chain_def chain_room_new)
  ultimately show ?thesis
    using deployment_installs_code [OF chain_inv_sample fair_sorted room run] data a run by auto
qed

text \<open>
  C23: Whatever a transaction does, and on any chain, its execution leaves the blocks and the
  stored transactions alone, never drops an account's alias, and changes the address of no
  alias but those of deployed contracts.
\<close>

theorem execution_keeps_blocks:
  assumes "execute X H (chain_provider E) tx bc = Some (r, bc')"
  shows "bc_blocks bc' = bc_blocks bc \<and> bc_transactions bc' = bc_transactions bc \<and>
    dom (bc_accounts bc) \<subseteq> dom (bc_accounts bc') \<and>
    (\<forall>n. n \<notin> range contract_name \<longrightarrow>
       map_option ca_address (bc_accounts bc' n) = map_option ca_address (bc_accounts bc n))"
  using chain_frame.execute_frame [OF frame_mutators assms] by (simp add: chain_frame_def named_kept_def)

lemma execution_keeps_blocks_witness:
  "\<exists>r bc. execute sample_engine sorted_orders sample_provider sample_deploy sample_chain = Some (r, bc) \<and>
    bc_blocks bc = bc_blocks sample_chain"
proof -
  obtain rd bc where "execute sample_engine sorted_orders sample_provider sample_deploy sample_chain = Some (Ok rd, bc)"
    using sample_run [of 1] by (auto simp: sample_chain_eq genesis_address_def)
  from execution_keeps_blocks [OF this] this show ?thesis by blast
qed

end
